(* ===== verification/Prelude.thy ===== *)
theory Prelude
  imports Main "HOL-Library.Word"
begin

text \<open>
  The shared library of the development.

  \<^item> The program monad: every asynchronous function of the server is a function of the
    environment (clock, randomness, third-party code) and of the state, and returns an error
    or a value together with the new state. An error does not undo the state changes made before
    it, exactly as an early \<open>return Err\<close> in the Rust code does not.
  \<^item> \<open>keeps\<close>: the invariant calculus over such programs, with one introduction rule per
    combinator in the collection \<open>keeps_rules\<close>.
  \<^item> \<open>returns\<close>: the same for what a successful run returns, with its rules in \<open>returns_rules\<close>.
  \<^item> The inversion rules \<open>then_do_InrE\<close> and friends that take a successful run apart.
  \<^item> Tables: SQL statements over a table kept as a list of rows.
\<close>

named_theorems keeps_rules \<open>introduction rules of the invariant calculus\<close>
named_theorems returns_rules \<open>introduction rules for what a program returns\<close>
named_theorems run_simps \<open>equations that evaluate a program on a state\<close>

section \<open>Programs: state, environment and errors\<close>

type_synonym ('r, 's, 'e, 'a) prog = "'r \<Rightarrow> 's \<Rightarrow> ('e + 'a) \<times> 's"

definition ret :: "'a \<Rightarrow> ('r, 's, 'e, 'a) prog" where
  "ret x = (\<lambda>r s. (Inr x, s))"

definition raise :: "'e \<Rightarrow> ('r, 's, 'e, 'a) prog" where
  "raise e = (\<lambda>r s. (Inl e, s))"

definition then_do ::
  "('r, 's, 'e, 'a) prog \<Rightarrow> ('a \<Rightarrow> ('r, 's, 'e, 'b) prog) \<Rightarrow> ('r, 's, 'e, 'b) prog" where
  "then_do m f = (\<lambda>r s. case m r s of (Inl e, s1) \<Rightarrow> (Inl e, s1) | (Inr x, s1) \<Rightarrow> f x r s1)"

definition seq ::
  "('r, 's, 'e, 'a) prog \<Rightarrow> ('r, 's, 'e, 'b) prog \<Rightarrow> ('r, 's, 'e, 'b) prog" where
  "seq m k = then_do m (\<lambda>_. k)"

text \<open>\<open>attempt\<close> turns the outcome into a value, for code that matches on a \<open>Result\<close>.\<close>

definition attempt :: "('r, 's, 'e, 'a) prog \<Rightarrow> ('r, 's, 'e, 'e + 'a) prog" where
  "attempt m = (\<lambda>r s. case m r s of (v, s1) \<Rightarrow> (Inr v, s1))"

text \<open>\<open>map_err\<close> is \<open>Result::map_err\<close>: the state and a success are untouched.\<close>

definition map_err :: "('e \<Rightarrow> 'f) \<Rightarrow> ('r, 's, 'e, 'a) prog \<Rightarrow> ('r, 's, 'f, 'a) prog" where
  "map_err h m = (\<lambda>r s. case m r s of (Inl e, s1) \<Rightarrow> (Inl (h e), s1) | (Inr x, s1) \<Rightarrow> (Inr x, s1))"

definition ok_or :: "'a option \<Rightarrow> 'e \<Rightarrow> ('r, 's, 'e, 'a) prog" where
  "ok_or v e = (case v of None \<Rightarrow> raise e | Some x \<Rightarrow> ret x)"

definition of_result :: "'e + 'a \<Rightarrow> ('r, 's, 'e, 'a) prog" where
  "of_result v = (\<lambda>r s. (v, s))"

definition ensure :: "bool \<Rightarrow> 'e \<Rightarrow> ('r, 's, 'e, unit) prog" where
  "ensure b e = (if b then ret () else raise e)"

definition whenever :: "bool \<Rightarrow> ('r, 's, 'e, unit) prog \<Rightarrow> ('r, 's, 'e, unit) prog" where
  "whenever b m = (if b then m else ret ())"

fun for_each :: "'a list \<Rightarrow> ('a \<Rightarrow> ('r, 's, 'e, unit) prog) \<Rightarrow> ('r, 's, 'e, unit) prog" where
  "for_each [] f = ret ()"
| "for_each (x # xs) f = seq (f x) (for_each xs f)"

abbreviation ok_opt_filter :: "('a \<Rightarrow> bool) \<Rightarrow> 'a option \<Rightarrow> 'a option" where
  "ok_opt_filter p v \<equiv> (case v of None \<Rightarrow> None | Some x \<Rightarrow> if p x then Some x else None)"

subsection \<open>Evaluating and inverting runs\<close>

lemma ret_run [simp, run_simps]: "ret x r s = (Inr x, s)"
  by (simp add: ret_def)

lemma raise_run [simp, run_simps]: "raise e r s = (Inl e, s)"
  by (simp add: raise_def)

lemma of_result_run [simp, run_simps]: "of_result v r s = (v, s)"
  by (simp add: of_result_def)

lemma then_do_run [run_simps]:
  "then_do m f r s = (case m r s of (Inl e, s1) \<Rightarrow> (Inl e, s1) | (Inr x, s1) \<Rightarrow> f x r s1)"
  by (simp add: then_do_def)

lemma seq_run [run_simps]:
  "seq m k r s = (case m r s of (Inl e, s1) \<Rightarrow> (Inl e, s1) | (Inr x, s1) \<Rightarrow> k r s1)"
  by (simp add: seq_def then_do_def)

lemma attempt_run [run_simps]: "attempt m r s = (Inr (fst (m r s)), snd (m r s))"
  by (simp add: attempt_def split: prod.split)

lemma map_err_run [run_simps]:
  "map_err h m r s = (case m r s of (Inl e, s1) \<Rightarrow> (Inl (h e), s1) | (Inr x, s1) \<Rightarrow> (Inr x, s1))"
  by (simp add: map_err_def)

lemma ok_or_None [simp, run_simps]: "ok_or None e r s = (Inl e, s)"
  by (simp add: ok_or_def)

lemma ok_or_Some [simp, run_simps]: "ok_or (Some x) e r s = (Inr x, s)"
  by (simp add: ok_or_def)

lemma ensure_run [run_simps]: "ensure b e r s = (if b then (Inr (), s) else (Inl e, s))"
  by (simp add: ensure_def)

lemma whenever_run [run_simps]: "whenever b m r s = (if b then m r s else (Inr (), s))"
  by (simp add: whenever_def)

lemma then_do_ret [simp]: "then_do (ret x) f = f x"
  by (simp add: then_do_def ret_def fun_eq_iff)

lemma then_do_raise [simp]: "then_do (raise e) f = raise e"
  by (simp add: then_do_def raise_def fun_eq_iff)

lemma then_do_assoc:
  "then_do (then_do m f) g = then_do m (\<lambda>x. then_do (f x) g)"
  by (auto simp: then_do_def fun_eq_iff split: prod.split sum.split)

lemma then_do_InrE [elim!]:
  assumes "then_do m f r s = (Inr y, s')"
  obtains x s1 where "m r s = (Inr x, s1)" and "f x r s1 = (Inr y, s')"
  using assms by (auto simp: then_do_def split: prod.splits sum.splits)

lemma seq_InrE [elim!]:
  assumes "seq m k r s = (Inr y, s')"
  obtains x s1 where "m r s = (Inr x, s1)" and "k r s1 = (Inr y, s')"
  using assms unfolding seq_def by (rule then_do_InrE)

lemma then_do_InlE:
  assumes "then_do m f r s = (Inl e, s')"
  obtains (first) "m r s = (Inl e, s')"
    | (second) x s1 where "m r s = (Inr x, s1)" and "f x r s1 = (Inl e, s')"
  using assms by (auto simp: then_do_def split: prod.splits sum.splits)

lemma attempt_InrE [elim!]:
  assumes "attempt m r s = (v, s')"
  obtains u where "v = Inr u" and "m r s = (u, s')"
  using assms by (auto simp: attempt_def split: prod.splits)

lemma map_err_InrE [elim!]:
  assumes "map_err h m r s = (Inr x, s')"
  obtains "m r s = (Inr x, s')"
  using assms by (auto simp: map_err_def split: prod.splits sum.splits)

lemma ok_or_InrE [elim!]:
  assumes "ok_or v e r s = (Inr x, s')"
  obtains "v = Some x" and "s' = s"
  using assms by (cases v) auto

lemma ensure_InrE [elim!]:
  assumes "ensure b e r s = (Inr x, s')"
  obtains "b" and "s' = s"
  using assms by (auto simp: ensure_def split: if_splits)

lemma ok_opt_filter_Some [simp]:
  "(ok_opt_filter p v = Some x) \<longleftrightarrow> v = Some x \<and> p x"
  by (auto split: option.split)

section \<open>Invariants of programs\<close>

definition keeps :: "('s \<Rightarrow> bool) \<Rightarrow> ('r, 's, 'e, 'a) prog \<Rightarrow> bool" where
  "keeps I m \<longleftrightarrow> (\<forall>r s. I s \<longrightarrow> I (snd (m r s)))"

lemma keepsI: "(\<And>r s v s'. I s \<Longrightarrow> m r s = (v, s') \<Longrightarrow> I s') \<Longrightarrow> keeps I m"
  unfolding keeps_def by (metis prod.collapse)

lemma keepsD: "keeps I m \<Longrightarrow> I s \<Longrightarrow> m r s = (v, s') \<Longrightarrow> I s'"
  unfolding keeps_def by (metis snd_conv)

lemma keeps_ret [keeps_rules]: "keeps I (ret x)"
  by (simp add: keeps_def)

lemma keeps_raise [keeps_rules]: "keeps I (raise e)"
  by (simp add: keeps_def)

lemma keeps_of_result [keeps_rules]: "keeps I (of_result v)"
  by (simp add: keeps_def)

lemma keeps_ok_or [keeps_rules]: "keeps I (ok_or v e)"
  by (cases v) (auto simp: keeps_def)

lemma keeps_ensure [keeps_rules]: "keeps I (ensure b e)"
  by (simp add: keeps_def ensure_def)

lemma keeps_then_do [keeps_rules]:
  "keeps I m \<Longrightarrow> (\<And>x. keeps I (f x)) \<Longrightarrow> keeps I (then_do m f)"
  unfolding keeps_def then_do_def by (auto split: prod.splits sum.splits; metis snd_conv)

lemma keeps_seq [keeps_rules]: "keeps I m \<Longrightarrow> keeps I k \<Longrightarrow> keeps I (seq m k)"
  unfolding seq_def by (rule keeps_then_do)

lemma keeps_attempt [keeps_rules]: "keeps I m \<Longrightarrow> keeps I (attempt m)"
  by (simp add: keeps_def attempt_run)

lemma keeps_map_err [keeps_rules]: "keeps I m \<Longrightarrow> keeps I (map_err h m)"
  unfolding keeps_def map_err_def by (auto split: prod.splits sum.splits; metis snd_conv)

lemma keeps_if [keeps_rules]: "keeps I m \<Longrightarrow> keeps I k \<Longrightarrow> keeps I (if b then m else k)"
  by simp

lemma keeps_whenever [keeps_rules]: "keeps I m \<Longrightarrow> keeps I (whenever b m)"
  by (simp add: whenever_def keeps_ret)

lemma keeps_case_option [keeps_rules]:
  "keeps I m \<Longrightarrow> (\<And>x. keeps I (f x)) \<Longrightarrow> keeps I (case v of None \<Rightarrow> m | Some x \<Rightarrow> f x)"
  by (cases v) auto

lemma keeps_case_sum [keeps_rules]:
  "(\<And>x. keeps I (f x)) \<Longrightarrow> (\<And>x. keeps I (g x)) \<Longrightarrow> keeps I (case v of Inl x \<Rightarrow> f x | Inr x \<Rightarrow> g x)"
  by (cases v) auto

lemma keeps_case_prod [keeps_rules]:
  "(\<And>x y. keeps I (f x y)) \<Longrightarrow> keeps I (case v of (x, y) \<Rightarrow> f x y)"
  by (cases v) auto

lemma keeps_Let [keeps_rules]: "(\<And>x. keeps I (f x)) \<Longrightarrow> keeps I (let x = v in f x)"
  by simp

lemma keeps_for_each [keeps_rules]: "(\<And>x. keeps I (f x)) \<Longrightarrow> keeps I (for_each xs f)"
  by (induction xs) (auto intro: keeps_rules)

section \<open>What a program returns\<close>

definition returns :: "('a \<Rightarrow> bool) \<Rightarrow> ('r, 's, 'e, 'a) prog \<Rightarrow> bool" where
  "returns P m \<longleftrightarrow> (\<forall>r s x s'. m r s = (Inr x, s') \<longrightarrow> P x)"

lemma returnsD: "returns P m \<Longrightarrow> m r s = (Inr x, s') \<Longrightarrow> P x"
  unfolding returns_def by blast

lemma returns_ret [returns_rules]: "P x \<Longrightarrow> returns P (ret x)"
  by (simp add: returns_def)

lemma returns_raise [returns_rules]: "returns P (raise e)"
  by (simp add: returns_def)

lemma returns_then_do [returns_rules]: "(\<And>x. returns P (f x)) \<Longrightarrow> returns P (then_do m f)"
  unfolding returns_def by blast

lemma returns_seq [returns_rules]: "returns P k \<Longrightarrow> returns P (seq m k)"
  unfolding returns_def by blast

lemma returns_if [returns_rules]: "returns P m \<Longrightarrow> returns P k \<Longrightarrow> returns P (if b then m else k)"
  by simp

lemma returns_case_sum [returns_rules]:
  "(\<And>x. returns P (f x)) \<Longrightarrow> (\<And>x. returns P (g x)) \<Longrightarrow> returns P (case v of Inl x \<Rightarrow> f x | Inr x \<Rightarrow> g x)"
  by (cases v) auto

lemma returns_case_prod [returns_rules]:
  "(\<And>x y. returns P (f x y)) \<Longrightarrow> returns P (case v of (x, y) \<Rightarrow> f x y)"
  by (cases v) auto

lemma returns_Let [returns_rules]: "(\<And>x. returns P (f x)) \<Longrightarrow> returns P (let x = v in f x)"
  by simp

section \<open>Tables\<close>

text \<open>
  A table is a list of rows in insertion order. \<open>UPDATE \<dots> WHERE\<close> maps a function over the
  matching rows, \<open>DELETE \<dots> WHERE\<close> filters them out, and the number of affected rows is
  counted before the change.
\<close>

definition update_where :: "('a \<Rightarrow> bool) \<Rightarrow> ('a \<Rightarrow> 'a) \<Rightarrow> 'a list \<Rightarrow> 'a list" where
  "update_where p f rows = map (\<lambda>x. if p x then f x else x) rows"

definition delete_where :: "('a \<Rightarrow> bool) \<Rightarrow> 'a list \<Rightarrow> 'a list" where
  "delete_where p rows = filter (\<lambda>x. \<not> p x) rows"

definition count_where :: "('a \<Rightarrow> bool) \<Rightarrow> 'a list \<Rightarrow> nat" where
  "count_where p rows = length (filter p rows)"

definition exists_where :: "('a \<Rightarrow> bool) \<Rightarrow> 'a list \<Rightarrow> bool" where
  "exists_where p rows = list_ex p rows"

lemma update_where_simps [simp]:
  "update_where p f [] = []"
  "update_where p f (x # xs) = (if p x then f x else x) # update_where p f xs"
  "update_where p f (xs @ ys) = update_where p f xs @ update_where p f ys"
  by (simp_all add: update_where_def)

lemma delete_where_simps [simp]:
  "delete_where p [] = []"
  "delete_where p (x # xs) = (if p x then delete_where p xs else x # delete_where p xs)"
  by (simp_all add: delete_where_def)

lemma count_where_simps [simp]:
  "count_where p [] = 0"
  "count_where p (x # xs) = (if p x then 1 else 0) + count_where p xs"
  "count_where p (xs @ ys) = count_where p xs + count_where p ys"
  by (simp_all add: count_where_def)

lemma exists_where_iff [simp]: "exists_where p rows \<longleftrightarrow> (\<exists>x \<in> set rows. p x)"
  by (simp add: exists_where_def list_ex_iff)

lemma set_update_where: "set (update_where p f rows) = (\<lambda>x. if p x then f x else x) ` set rows"
  by (simp add: update_where_def)

lemma in_update_whereE:
  assumes "y \<in> set (update_where p f rows)"
  obtains x where "x \<in> set rows" and "y = (if p x then f x else x)"
  using assms by (auto simp: set_update_where)

lemma in_update_whereI:
  "x \<in> set rows \<Longrightarrow> y = (if p x then f x else x) \<Longrightarrow> y \<in> set (update_where p f rows)"
  by (auto simp: set_update_where)

lemma set_delete_where [simp]: "set (delete_where p rows) = {x \<in> set rows. \<not> p x}"
  by (auto simp: delete_where_def)

lemma map_update_where_same:
  "(\<And>x. x \<in> set rows \<Longrightarrow> p x \<Longrightarrow> g (f x) = g x) \<Longrightarrow> map g (update_where p f rows) = map g rows"
  by (auto simp: update_where_def)

lemma length_update_where [simp]: "length (update_where p f rows) = length rows"
  by (simp add: update_where_def)

lemma update_where_none: "\<forall>x \<in> set rows. \<not> p x \<Longrightarrow> update_where p f rows = rows"
  by (induction rows) auto

lemma count_where_0_iff [simp]: "count_where p rows = 0 \<longleftrightarrow> (\<forall>x \<in> set rows. \<not> p x)"
  by (induction rows) auto

lemma count_where_pos_iff [simp]: "0 < count_where p rows \<longleftrightarrow> (\<exists>x \<in> set rows. p x)"
  by (induction rows) auto

lemma count_where_distinct_le_1:
  assumes "distinct (map k rows)"
  shows "count_where (\<lambda>x. k x = v \<and> q x) rows \<le> 1"
  using assms
proof (induction rows)
  case (Cons x xs)
  show ?case
  proof (cases "k x = v \<and> q x")
    case True
    with Cons.prems have "count_where (\<lambda>x. k x = v \<and> q x) xs = 0"
      unfolding count_where_0_iff by (metis distinct.simps(2) image_eqI list.set_map list.simps(9))
    with True show ?thesis by simp
  next
    case False
    then have "count_where (\<lambda>x. k x = v \<and> q x) (x # xs) = count_where (\<lambda>x. k x = v \<and> q x) xs"
      by auto
    with Cons show ?thesis by simp
  qed
qed simp

lemma count_where_update_where_drop:
  assumes "\<And>x. x \<in> set rows \<Longrightarrow> p x \<Longrightarrow> q (f x) = q x"
  shows "count_where q (update_where p f rows) = count_where q rows"
  using assms by (induction rows) auto

lemma count_where_mono: "(\<And>x. p x \<Longrightarrow> q x) \<Longrightarrow> count_where p xs \<le> count_where q xs"
  by (induction xs) (auto intro: le_SucI)

lemma find_SomeD: "List.find p xs = Some x \<Longrightarrow> x \<in> set xs \<and> p x"
  by (metis find_Some_iff nth_mem)

lemma find_NoneD: "List.find p xs = None \<Longrightarrow> x \<in> set xs \<Longrightarrow> \<not> p x"
  by (simp add: find_None_iff)

lemma find_only: "x \<in> set xs \<Longrightarrow> P x \<Longrightarrow> (\<And>y. y \<in> set xs \<Longrightarrow> P y \<Longrightarrow> y = x) \<Longrightarrow> List.find P xs = Some x"
proof (induction xs)
  case (Cons z xs)
  show ?case
  proof (cases "P z")
    case True
    then have "z = x" by (intro Cons.prems(3)) simp_all
    with True show ?thesis by simp
  next
    case False
    with Cons.prems(1,2) have "x \<in> set xs" by auto
    then have "List.find P xs = Some x" using Cons.prems(2) by (rule Cons.IH) (auto intro: Cons.prems(3))
    with False show ?thesis by simp
  qed
qed simp

lemma find_distinct_key:
  assumes "distinct (map k rows)" and "x \<in> set rows" and "p x" and "\<And>y. p y \<Longrightarrow> k y = k x"
  shows "List.find p rows = Some x"
  using assms
proof (induction rows)
  case (Cons y ys)
  show ?case
  proof (cases "p y")
    case True
    then have "k y = k x" by (rule Cons.prems(4))
    with Cons.prems(1,2) have "y = x" by (auto simp: rev_image_eqI)
    with True show ?thesis by simp
  next
    case False
    with Cons.prems(2,3) have "x \<in> set ys" by auto
    with Cons.prems(1) have "List.find p ys = Some x"
      by (intro Cons.IH [OF _ _ Cons.prems(3,4)]) simp_all
    with False show ?thesis by simp
  qed
qed simp

lemma distinct_key_unique:
  "distinct (map k rows) \<Longrightarrow> x \<in> set rows \<Longrightarrow> y \<in> set rows \<Longrightarrow> k x = k y \<Longrightarrow> x = y"
  by (metis distinct_map inj_onD)

text \<open>
  A statement that spends the row with a unique key leaves no row of that key unspent.
\<close>

lemma update_where_spends:
  assumes "distinct (map k rows)" and "x \<in> set rows" and "k x = h" and "q x"
    and "\<And>y. k (f y) = k y" and "\<And>y. \<not> r (f y)"
  shows "\<not> (\<exists>y \<in> set (update_where (\<lambda>y. k y = h \<and> q y) f rows). k y = h \<and> r y)"
proof
  assume "\<exists>y \<in> set (update_where (\<lambda>y. k y = h \<and> q y) f rows). k y = h \<and> r y"
  then obtain z where z: "z \<in> set rows"
    "k (if k z = h \<and> q z then f z else z) = h" "r (if k z = h \<and> q z then f z else z)"
    by (auto elim!: in_update_whereE)
  then have "k z = h" using assms(5) by (auto split: if_splits)
  then have "z = x" using distinct_key_unique [OF assms(1) z(1) assms(2)] assms(3) by simp
  with assms(3,4,6) z(3) show False by simp
qed

lemma find_update_where_key:
  assumes "\<And>x. k (f x) = k x"
  shows "List.find (\<lambda>x. k x = v) (update_where p f rows)
       = map_option (\<lambda>x. if p x then f x else x) (List.find (\<lambda>x. k x = v) rows)"
  using assms by (induction rows) auto

section \<open>Single-use credentials\<close>

text \<open>
  The contract of every one-time credential of the server (emailed links, recovery codes, QR
  approvals): \<open>claim k t s\<close> at time \<open>t\<close> yields the stored value if the credential \<open>k\<close> is
  still live, and then it is not live any more; nothing a claim does makes a dead credential
  live again.
\<close>

fun claims :: "('k \<Rightarrow> 't \<Rightarrow> 's \<Rightarrow> 'v option \<times> 's) \<Rightarrow> ('k \<times> 't) list \<Rightarrow> 's \<Rightarrow> ('k \<times> 'v option) list" where
  "claims claim [] s = []"
| "claims claim ((k, t) # rest) s =
     (case claim k t s of (r, s') \<Rightarrow> (k, r) # claims claim rest s')"

definition times_claimed :: "'k \<Rightarrow> ('k \<times> 'v option) list \<Rightarrow> nat" where
  "times_claimed k answers = length (filter (\<lambda>(j, r). j = k \<and> r \<noteq> None) answers)"

locale single_use =
  fixes inv :: "'s \<Rightarrow> bool"
    and live :: "'s \<Rightarrow> 'k \<Rightarrow> bool"
    and claim :: "'k \<Rightarrow> 't \<Rightarrow> 's \<Rightarrow> 'v option \<times> 's"
  assumes claim_inv: "inv s \<Longrightarrow> claim k t s = (r, s') \<Longrightarrow> inv s'"
    and claim_spends: "inv s \<Longrightarrow> claim k t s = (Some v, s') \<Longrightarrow> live s k \<and> \<not> live s' k"
    and claim_no_revive: "inv s \<Longrightarrow> claim k t s = (r, s') \<Longrightarrow> live s' j \<Longrightarrow> live s j"
begin

lemma dead_never_claimed:
  "inv s \<Longrightarrow> \<not> live s k \<Longrightarrow> (k, Some v) \<notin> set (claims claim ops s)"
proof (induction ops arbitrary: s)
  case (Cons op rest)
  obtain j t where op: "op = (j, t)" by fastforce
  obtain r s' where c: "claim j t s = (r, s')" by fastforce
  have i: "inv s'" using claim_inv [OF Cons.prems(1) c] .
  have dead: "\<not> live s' k" using claim_no_revive [OF Cons.prems(1) c] Cons.prems(2) by blast
  have "\<not> (j = k \<and> r = Some v)"
    using claim_spends [OF Cons.prems(1), of j t v s'] c Cons.prems(2) by auto
  with Cons.IH [OF i dead] c op show ?case by auto
qed simp

lemma claimed_at_most_once:
  "inv s \<Longrightarrow> times_claimed k (claims claim ops s) \<le> 1"
proof (induction ops arbitrary: s)
  case (Cons op rest)
  obtain j t where op: "op = (j, t)" by fastforce
  obtain r s' where c: "claim j t s = (r, s')" by fastforce
  have i: "inv s'" using claim_inv [OF Cons.prems c] .
  show ?case
  proof (cases "j = k \<and> r \<noteq> None")
    case True
    then obtain v where "r = Some v" by auto
    with c True Cons.prems have "\<not> live s' k" using claim_spends [of s j t v s'] by auto
    then have "times_claimed k (claims claim rest s') = 0"
      using i by (auto simp: times_claimed_def filter_empty_conv dest: dead_never_claimed)
    with c op show ?thesis by (simp add: times_claimed_def)
  next
    case False
    with c op Cons.IH [OF i] show ?thesis by (auto simp: times_claimed_def)
  qed
qed (simp add: times_claimed_def)

end

end
