(* ===== verification/Rust_Std.thy ===== *)
theory Rust_Std
  imports Prelude
begin

text \<open>
  What the sources use of the Rust standard library and of \<open>chrono\<close>: string functions,
  durations, \<open>Option\<close> helpers.

  A Rust string is a HOL \<open>string\<close> whose characters are ASCII: on such texts a byte, a
  \<open>char\<close> and a HOL character are the same thing, \<open>len\<close> and \<open>chars().count()\<close> agree, and
  \<open>to_lowercase\<close> and \<open>is_whitespace\<close> are the ASCII ones written out here. Texts with other
  characters are outside the model.

  A point in time and a duration are integers, in nanoseconds.
\<close>

section \<open>Strings\<close>

type_synonym str = string

definition ascii_code :: "char \<Rightarrow> nat" where
  "ascii_code c = of_char c"

definition is_whitespace :: "char \<Rightarrow> bool" where
  "is_whitespace c \<longleftrightarrow> ascii_code c = 32 \<or> (9 \<le> ascii_code c \<and> ascii_code c \<le> 13)"

definition is_control :: "char \<Rightarrow> bool" where
  "is_control c \<longleftrightarrow> ascii_code c < 32 \<or> ascii_code c = 127"

definition is_upper :: "char \<Rightarrow> bool" where
  "is_upper c \<longleftrightarrow> 65 \<le> ascii_code c \<and> ascii_code c \<le> 90"

definition to_lower_char :: "char \<Rightarrow> char" where
  "to_lower_char c = (if is_upper c then char_of (ascii_code c + 32) else c)"

definition to_lowercase :: "str \<Rightarrow> str" where
  "to_lowercase s = map to_lower_char s"

definition trim_start :: "str \<Rightarrow> str" where
  "trim_start s = dropWhile is_whitespace s"

definition trim_end :: "str \<Rightarrow> str" where
  "trim_end s = rev (dropWhile is_whitespace (rev s))"

definition trim :: "str \<Rightarrow> str" where
  "trim s = trim_end (trim_start s)"

definition starts_with :: "str \<Rightarrow> str \<Rightarrow> bool" where
  "starts_with s p \<longleftrightarrow> take (length p) s = p"

definition strip_prefix :: "str \<Rightarrow> str \<Rightarrow> str option" where
  "strip_prefix s p = (if starts_with s p then Some (drop (length p) s) else None)"

fun split_on :: "char \<Rightarrow> str \<Rightarrow> str list" where
  "split_on c [] = [[]]"
| "split_on c (x # xs) =
     (if x = c then [] # split_on c xs
      else (case split_on c xs of [] \<Rightarrow> [[x]] | seg # segs \<Rightarrow> (x # seg) # segs))"

text \<open>\<open>str::lines\<close>: the terminated lines without their line feed and one carriage return before it, then an unterminated rest.\<close>

definition strip_cr :: "str \<Rightarrow> str" where
  "strip_cr l = (if l \<noteq> [] \<and> last l = CHR 0x0D then butlast l else l)"

definition str_lines :: "str \<Rightarrow> str list" where
  "str_lines s =
     (let segs = split_on (CHR 0x0A) s
      in map strip_cr (butlast segs) @ (if last segs = [] then [] else [last segs]))"

definition replace_char :: "char \<Rightarrow> str \<Rightarrow> str \<Rightarrow> str" where
  "replace_char c by s = concat (map (\<lambda>x. if x = c then by else [x]) s)"

definition eq_ignore_ascii_case :: "str \<Rightarrow> str \<Rightarrow> bool" where
  "eq_ignore_ascii_case a b \<longleftrightarrow> map to_lower_char a = map to_lower_char b"

definition hex_digit :: "bool \<Rightarrow> nat \<Rightarrow> char" where
  "hex_digit upper n =
     (if n < 10 then char_of (48 + n) else char_of ((if upper then 55 else 87) + n))"

definition hex_byte :: "bool \<Rightarrow> 8 word \<Rightarrow> str" where
  "hex_byte upper b = [hex_digit upper (unat b div 16), hex_digit upper (unat b mod 16)]"

text \<open>Decimal printing of an integer (\<open>{}\<close> of a number).\<close>

fun nat_to_string :: "nat \<Rightarrow> str" where
  "nat_to_string n =
     (if n < 10 then [char_of (48 + n)] else nat_to_string (n div 10) @ [char_of (48 + n mod 10)])"

declare nat_to_string.simps [simp del]

definition int_to_string :: "int \<Rightarrow> str" where
  "int_to_string n = (if n < 0 then ''-'' @ nat_to_string (nat (- n)) else nat_to_string (nat n))"

text \<open>\<open>parse::<usize>\<close>: decimal digits, optionally after a plus sign, within 64 bits.\<close>

definition is_ascii_digit :: "char \<Rightarrow> bool" where
  "is_ascii_digit c \<longleftrightarrow> 48 \<le> ascii_code c \<and> ascii_code c \<le> 57"

definition parse_usize :: "str \<Rightarrow> nat option" where
  "parse_usize s =
     (let ds = (if s \<noteq> [] \<and> hd s = CHR ''+'' then tl s else s);
          n = fold (\<lambda>c acc. acc * 10 + (ascii_code c - 48)) ds 0
      in if ds \<noteq> [] \<and> list_all is_ascii_digit ds \<and> n < 2 ^ 64 then Some n else None)"

text \<open>The two texts of an identifier: 32 hex digits, plain or grouped 8-4-4-4-12.\<close>

definition uuid_simple :: "nat \<Rightarrow> str" where
  "uuid_simple u = map (\<lambda>i. hex_digit False (u div 16 ^ (31 - i) mod 16)) [0..<32]"

definition uuid_display :: "nat \<Rightarrow> str" where
  "uuid_display u =
     (let s = uuid_simple u
      in take 8 s @ ''-'' @ take 4 (drop 8 s) @ ''-'' @ take 4 (drop 12 s) @ ''-''
         @ take 4 (drop 16 s) @ ''-'' @ drop 20 s)"

lemma split_on_not_Nil [simp]: "split_on c s \<noteq> []"
  by (induction s) (auto split: list.splits)

lemma split_on_no_sep: "c \<notin> set s \<Longrightarrow> split_on c s = [s]"
  by (induction s) auto

lemma split_on_append_sep:
  "\<exists>seg segs. split_on c (p @ c # s) = seg # segs \<and> segs \<noteq> [] \<and> last segs = last (split_on c s)"
  by (induction p) (auto split: list.splits)

lemma last_split_on_snoc: "c \<notin> set s \<Longrightarrow> last (split_on c (p @ c # s)) = s"
  using split_on_append_sep [of c p s] by (auto simp: split_on_no_sep)

lemma starts_with_append [simp]: "starts_with (p @ s) p"
  by (simp add: starts_with_def)

lemma starts_withD: "starts_with s p \<Longrightarrow> \<exists>r. s = p @ r"
  by (metis append_take_drop_id starts_with_def)

lemma strip_prefix_Some_iff: "strip_prefix s p = Some r \<longleftrightarrow> s = p @ r"
  unfolding strip_prefix_def starts_with_def
  by (metis append_eq_conv_conj append_take_drop_id option.distinct(1) option.inject)

lemma ascii_code_less: "ascii_code c < 256"
  by (simp add: ascii_code_def)

lemma ascii_code_lower: "is_upper c \<Longrightarrow> ascii_code (to_lower_char c) = ascii_code c + 32"
  by (simp add: to_lower_char_def is_upper_def ascii_code_def)

lemma to_lower_char_idem [simp]: "to_lower_char (to_lower_char c) = to_lower_char c"
proof (cases "is_upper c")
  case True
  then have "\<not> is_upper (to_lower_char c)"
    using ascii_code_lower [OF True] by (simp add: is_upper_def)
  then show ?thesis by (simp add: to_lower_char_def [of "to_lower_char c"])
next
  case False
  then show ?thesis by (simp add: to_lower_char_def)
qed

lemma is_whitespace_lower [simp]: "is_whitespace (to_lower_char c) = is_whitespace c"
  using ascii_code_lower [of c]
  by (cases "is_upper c") (auto simp: is_whitespace_def is_upper_def to_lower_char_def)

lemma map_to_lower_idem [simp]: "to_lower_char \<circ> to_lower_char = to_lower_char"
  by (simp add: fun_eq_iff)

lemma dropWhile_ws_lower:
  "dropWhile is_whitespace (map to_lower_char s) = map to_lower_char (dropWhile is_whitespace s)"
  by (induction s) auto

lemma trim_lower: "trim (to_lowercase s) = to_lowercase (trim s)"
  by (simp add: trim_def trim_start_def trim_end_def to_lowercase_def dropWhile_ws_lower rev_map)

lemma dropWhile_snoc_keep:
  "\<not> p c \<Longrightarrow> dropWhile p (s @ [c]) = dropWhile p s @ [c]"
  by (induction s) auto

lemma trim_end_starts:
  assumes "s = [] \<or> \<not> is_whitespace (hd s)"
  shows "trim_end s = [] \<or> \<not> is_whitespace (hd (trim_end s))"
proof (cases s)
  case (Cons c cs)
  with assms have "\<not> is_whitespace c" by simp
  then have "trim_end s = c # trim_end cs"
    by (simp add: Cons trim_end_def dropWhile_snoc_keep)
  with \<open>\<not> is_whitespace c\<close> show ?thesis by simp
qed (simp add: trim_end_def)

lemma trim_start_idle: "s = [] \<or> \<not> is_whitespace (hd s) \<Longrightarrow> trim_start s = s"
  by (cases s) (auto simp: trim_start_def)

lemma trim_idem [simp]: "trim (trim s) = trim s"
proof -
  have "trim_start s = [] \<or> \<not> is_whitespace (hd (trim_start s))"
    unfolding trim_start_def using hd_dropWhile by blast
  then have "trim_start (trim s) = trim s"
    unfolding trim_def by (intro trim_start_idle trim_end_starts)
  moreover have "trim_end (trim_end x) = trim_end x" for x
    by (simp add: trim_end_def)
  ultimately show ?thesis by (metis trim_def)
qed

lemma length_hex_concat: "length (concat (map (hex_byte u) bs)) = 2 * length bs"
  by (induction bs) (simp_all add: hex_byte_def)

section \<open>Time\<close>

type_synonym time = int
type_synonym duration = int

definition seconds :: "int \<Rightarrow> duration" where "seconds n = n * 1000000000"
definition minutes :: "int \<Rightarrow> duration" where "minutes n = n * 60000000000"
definition hours :: "int \<Rightarrow> duration" where "hours n = n * 3600000000000"
definition days :: "int \<Rightarrow> duration" where "days n = n * 86400000000000"

text \<open>\<open>DateTime::timestamp\<close>: whole seconds since the epoch.\<close>

definition timestamp :: "time \<Rightarrow> int" where
  "timestamp t = t div 1000000000"

lemmas duration_defs = seconds_def minutes_def hours_def days_def

section \<open>32-bit and 64-bit columns\<close>

text \<open>
  A Postgres \<open>INTEGER\<close> column holds a 32-bit signed value; a statement whose result leaves
  that range is rejected by the database.
\<close>

definition int4_ok :: "int \<Rightarrow> bool" where
  "int4_ok n \<longleftrightarrow> - 2147483648 \<le> n \<and> n \<le> 2147483647"

end
