(* ===== verification/Errors.thy ===== *)
theory Errors
  imports Rust_Std
begin

text \<open>
  The error values of the server (\<open>src/common/error.rs\<close>, \<open>src/common/security/error.rs\<close> and the
  \<open>error.rs\<close> of each module), their conversion into \<open>AppError\<close>, and the response that an
  \<open>AppError\<close> becomes.
\<close>

section \<open>AppError\<close>

datatype sqlx_error = UniqueViolation | OtherSqlxError

type_synonym validation_errors = "(str \<times> str) list"

datatype app_error =
    BadRequest str
  | Unauthorized str
  | Forbidden str
  | NotFound
  | Conflict str
  | TooManyRequests
  | PayloadTooLarge str
  | UnsupportedMediaType str
  | Internal str
  | Database sqlx_error
  | Validation validation_errors

fun app_error_to_string :: "app_error \<Rightarrow> str" where
  "app_error_to_string (BadRequest m) = m"
| "app_error_to_string (Unauthorized m) = m"
| "app_error_to_string (Forbidden m) = m"
| "app_error_to_string NotFound = ''resource not found''"
| "app_error_to_string (Conflict m) = m"
| "app_error_to_string TooManyRequests = ''too many requests, slow down and retry later''"
| "app_error_to_string (PayloadTooLarge m) = m"
| "app_error_to_string (UnsupportedMediaType m) = m"
| "app_error_to_string (Internal _) = ''internal error''"
| "app_error_to_string (Database _) = ''database error''"
| "app_error_to_string (Validation _) = ''validation failed''"

fun parts :: "app_error \<Rightarrow> nat \<times> str" where
  "parts (BadRequest _) = (400, ''bad_request'')"
| "parts (Unauthorized _) = (401, ''unauthorized'')"
| "parts (Forbidden _) = (403, ''forbidden'')"
| "parts TooManyRequests = (429, ''too_many_requests'')"
| "parts (PayloadTooLarge _) = (413, ''payload_too_large'')"
| "parts (UnsupportedMediaType _) = (415, ''unsupported_media_type'')"
| "parts NotFound = (404, ''not_found'')"
| "parts (Conflict _) = (409, ''conflict'')"
| "parts (Database _) = (500, ''internal_error'')"
| "parts (Internal _) = (500, ''internal_error'')"
| "parts (Validation _) = (422, ''validation_failed'')"

record error_detail =
  ed_code :: str
  ed_message :: str
  ed_details :: "validation_errors option"

definition error_into_response :: "app_error \<Rightarrow> nat \<times> error_detail" where
  "error_into_response e =
     (let (status, code) = parts e;
          (message, details) =
            (case e of
               Database _ \<Rightarrow> (''Something went wrong'', None)
             | Internal _ \<Rightarrow> (''Something went wrong'', None)
             | Validation errs \<Rightarrow> (app_error_to_string e, Some errs)
             | other \<Rightarrow> (app_error_to_string other, None))
      in (status, \<lparr> ed_code = code, ed_message = message, ed_details = details \<rparr>))"

section \<open>SecurityError\<close>

datatype security_error =
    MissingAuthorizationHeader
  | MalformedBearerToken
  | InvalidToken
  | InvalidApiKey
  | ApiKeyReadOnly
  | SessionRequired
  | AdminRequired

fun security_error_to_string :: "security_error \<Rightarrow> str" where
  "security_error_to_string MissingAuthorizationHeader = ''missing Authorization header''"
| "security_error_to_string MalformedBearerToken = ''expected a Bearer token''"
| "security_error_to_string InvalidToken = ''token is invalid or expired''"
| "security_error_to_string InvalidApiKey = ''API key is invalid, expired or revoked''"
| "security_error_to_string ApiKeyReadOnly = ''this API key is read-only''"
| "security_error_to_string SessionRequired =
     ''this action needs an interactive sign-in, an API key is not accepted''"
| "security_error_to_string AdminRequired = ''administrator privileges are required''"

fun of_security_error :: "security_error \<Rightarrow> app_error" where
  "of_security_error AdminRequired = Forbidden (security_error_to_string AdminRequired)"
| "of_security_error ApiKeyReadOnly = Forbidden (security_error_to_string ApiKeyReadOnly)"
| "of_security_error SessionRequired = Forbidden (security_error_to_string SessionRequired)"
| "of_security_error e = Unauthorized (security_error_to_string e)"

section \<open>UsersError\<close>

datatype users_error =
    EmailTaken
  | UserNotFound
  | UserForbidden
  | CannotDeleteSelf
  | CannotLockOutSelf
  | CannotRemoveLastAdmin
  | PasswordTooWeak str
  | PasswordPreviouslyBreached

fun users_error_to_string :: "users_error \<Rightarrow> str" where
  "users_error_to_string EmailTaken = ''email is already registered''"
| "users_error_to_string UserNotFound = ''user not found''"
| "users_error_to_string UserForbidden = ''you are not allowed to access this user''"
| "users_error_to_string CannotDeleteSelf = ''you cannot delete your own account here''"
| "users_error_to_string CannotLockOutSelf =
     ''administrators cannot demote or deactivate themselves''"
| "users_error_to_string CannotRemoveLastAdmin =
     ''at least one active administrator must remain''"
| "users_error_to_string (PasswordTooWeak m) = m"
| "users_error_to_string PasswordPreviouslyBreached =
     ''this password has appeared in a known data breach; choose a different one''"

fun of_users_error :: "users_error \<Rightarrow> app_error" where
  "of_users_error EmailTaken = Conflict (users_error_to_string EmailTaken)"
| "of_users_error UserNotFound = NotFound"
| "of_users_error UserForbidden = Forbidden (users_error_to_string UserForbidden)"
| "of_users_error e = BadRequest (users_error_to_string e)"

section \<open>AuthError\<close>

datatype auth_error =
    InvalidCredentials
  | InvalidOrExpiredLink
  | WrongCurrentPassword
  | EmailUnchanged
  | EmailNotVerified
  | AccountDisabled
  | TotpAlreadyEnabled
  | NoTotpSetupInProgress
  | InvalidTotpCode

fun auth_error_to_string :: "auth_error \<Rightarrow> str" where
  "auth_error_to_string InvalidCredentials = ''invalid email or password''"
| "auth_error_to_string InvalidOrExpiredLink = ''this link is invalid or has expired''"
| "auth_error_to_string WrongCurrentPassword = ''current password is incorrect''"
| "auth_error_to_string EmailUnchanged =
     ''the new email address is the same as the current one''"
| "auth_error_to_string EmailNotVerified = ''email address is not verified''"
| "auth_error_to_string AccountDisabled = ''this account is disabled''"
| "auth_error_to_string TotpAlreadyEnabled = ''two-factor authentication is already enabled''"
| "auth_error_to_string NoTotpSetupInProgress = ''start two-factor setup first''"
| "auth_error_to_string InvalidTotpCode = ''that code is incorrect or has expired''"

fun of_auth_error :: "auth_error \<Rightarrow> app_error" where
  "of_auth_error InvalidOrExpiredLink = BadRequest (auth_error_to_string InvalidOrExpiredLink)"
| "of_auth_error WrongCurrentPassword = BadRequest (auth_error_to_string WrongCurrentPassword)"
| "of_auth_error EmailUnchanged = BadRequest (auth_error_to_string EmailUnchanged)"
| "of_auth_error TotpAlreadyEnabled = BadRequest (auth_error_to_string TotpAlreadyEnabled)"
| "of_auth_error NoTotpSetupInProgress = BadRequest (auth_error_to_string NoTotpSetupInProgress)"
| "of_auth_error EmailNotVerified = Forbidden (auth_error_to_string EmailNotVerified)"
| "of_auth_error AccountDisabled = Forbidden (auth_error_to_string AccountDisabled)"
| "of_auth_error InvalidCredentials = Unauthorized (auth_error_to_string InvalidCredentials)"
| "of_auth_error InvalidTotpCode = Unauthorized (auth_error_to_string InvalidTotpCode)"

section \<open>ApiKeysError and QrError\<close>

datatype api_keys_error = KeyLimitReached int | KeyNotFound

fun of_api_keys_error :: "api_keys_error \<Rightarrow> app_error" where
  "of_api_keys_error (KeyLimitReached n) =
     BadRequest (''you can have at most '' @ int_to_string n @ '' active API keys, revoke one first'')"
| "of_api_keys_error KeyNotFound = NotFound"

datatype qr_error =
    QrNotFound | QrExpired | AlreadyScanned | WrongCode | TooManyAttempts | QrEmailNotVerified

fun qr_error_to_string :: "qr_error \<Rightarrow> str" where
  "qr_error_to_string QrNotFound = ''QR login session not found''"
| "qr_error_to_string QrExpired =
     ''this QR code has expired, ask the other device for a new one''"
| "qr_error_to_string AlreadyScanned = ''this QR code was already scanned by another account''"
| "qr_error_to_string WrongCode =
     ''the verification code does not match the one shown on the other device''"
| "qr_error_to_string TooManyAttempts = ''too many wrong codes, this QR login was cancelled''"
| "qr_error_to_string QrEmailNotVerified = ''email address is not verified''"

fun of_qr_error :: "qr_error \<Rightarrow> app_error" where
  "of_qr_error QrNotFound = NotFound"
| "of_qr_error QrExpired = BadRequest (qr_error_to_string QrExpired)"
| "of_qr_error WrongCode = BadRequest (qr_error_to_string WrongCode)"
| "of_qr_error TooManyAttempts = BadRequest (qr_error_to_string TooManyAttempts)"
| "of_qr_error AlreadyScanned = Conflict (qr_error_to_string AlreadyScanned)"
| "of_qr_error QrEmailNotVerified = Forbidden (qr_error_to_string QrEmailNotVerified)"

section \<open>MediaError and AvatarError\<close>

datatype media_error =
    MediaEmpty | MediaTooLarge nat | UnrecognizedType | TypeNotAllowed str | MediaNotFound

fun media_error_to_string :: "media_error \<Rightarrow> str" where
  "media_error_to_string MediaEmpty = ''the upload is empty''"
| "media_error_to_string (MediaTooLarge n) =
     ''the file is too large: at most '' @ nat_to_string n @ '' MiB''"
| "media_error_to_string UnrecognizedType = ''the file type could not be recognized''"
| "media_error_to_string (TypeNotAllowed t) = ''files of type '' @ t @ '' are not accepted''"
| "media_error_to_string MediaNotFound = ''no such file''"

fun of_media_error :: "media_error \<Rightarrow> app_error" where
  "of_media_error MediaEmpty = BadRequest (media_error_to_string MediaEmpty)"
| "of_media_error (MediaTooLarge n) = PayloadTooLarge (media_error_to_string (MediaTooLarge n))"
| "of_media_error UnrecognizedType = UnsupportedMediaType (media_error_to_string UnrecognizedType)"
| "of_media_error (TypeNotAllowed t) = UnsupportedMediaType (media_error_to_string (TypeNotAllowed t))"
| "of_media_error MediaNotFound = NotFound"

datatype avatar_error = InvalidImage | AvatarTooLarge nat | AvatarNotFound

fun avatar_error_to_string :: "avatar_error \<Rightarrow> str" where
  "avatar_error_to_string InvalidImage =
     ''the file is not a supported image (use PNG, JPEG, WebP or GIF)''"
| "avatar_error_to_string (AvatarTooLarge n) =
     ''the image is too large: at most '' @ nat_to_string n @ '' MiB and 8192 x 8192 pixels''"
| "avatar_error_to_string AvatarNotFound = ''no such avatar''"

fun of_avatar_error :: "avatar_error \<Rightarrow> app_error" where
  "of_avatar_error InvalidImage = BadRequest (avatar_error_to_string InvalidImage)"
| "of_avatar_error (AvatarTooLarge n) = PayloadTooLarge (avatar_error_to_string (AvatarTooLarge n))"
| "of_avatar_error AvatarNotFound = NotFound"

section \<open>OAuthError\<close>

datatype oauth_error =
    ProviderUnavailable
  | InvalidGrant
  | LastSignInMethod
  | NotLinked
  | OAuthAccountDisabled
  | OAuthEmailNotVerified
  | ProviderError str

fun oauth_error_to_string :: "oauth_error \<Rightarrow> str" where
  "oauth_error_to_string ProviderUnavailable = ''this sign-in provider is not available''"
| "oauth_error_to_string InvalidGrant = ''this sign-in link is invalid or has expired''"
| "oauth_error_to_string LastSignInMethod =
     ''add a password or another sign-in method before removing this one''"
| "oauth_error_to_string NotLinked = ''this account is not linked to that provider''"
| "oauth_error_to_string OAuthAccountDisabled = ''this account is disabled''"
| "oauth_error_to_string OAuthEmailNotVerified = ''email address is not verified''"
| "oauth_error_to_string (ProviderError _) =
     ''the sign-in provider could not be reached, try again''"

fun of_oauth_error :: "oauth_error \<Rightarrow> app_error" where
  "of_oauth_error ProviderUnavailable = NotFound"
| "of_oauth_error NotLinked = NotFound"
| "of_oauth_error InvalidGrant = BadRequest (oauth_error_to_string InvalidGrant)"
| "of_oauth_error LastSignInMethod = BadRequest (oauth_error_to_string LastSignInMethod)"
| "of_oauth_error OAuthAccountDisabled = Forbidden (oauth_error_to_string OAuthAccountDisabled)"
| "of_oauth_error OAuthEmailNotVerified = Forbidden (oauth_error_to_string OAuthEmailNotVerified)"
| "of_oauth_error (ProviderError d) = BadRequest (oauth_error_to_string (ProviderError d))"

section \<open>PasskeyError\<close>

datatype passkey_error =
    PasskeyLimitReached nat
  | RegistrationFailed
  | AlreadyRegistered
  | AuthenticationFailed
  | PasskeyNotFound
  | LastPasskey
  | PasskeyEmailNotVerified

fun passkey_error_to_string :: "passkey_error \<Rightarrow> str" where
  "passkey_error_to_string (PasskeyLimitReached n) =
     ''you can register at most '' @ nat_to_string n @ '' passkeys, remove one first''"
| "passkey_error_to_string RegistrationFailed = ''passkey registration failed, try again''"
| "passkey_error_to_string AlreadyRegistered = ''this passkey is already registered''"
| "passkey_error_to_string AuthenticationFailed = ''passkey sign-in failed''"
| "passkey_error_to_string PasskeyNotFound = ''passkey not found''"
| "passkey_error_to_string LastPasskey =
     ''add a password or another sign-in method before removing this passkey''"
| "passkey_error_to_string PasskeyEmailNotVerified = ''email address is not verified''"

fun of_passkey_error :: "passkey_error \<Rightarrow> app_error" where
  "of_passkey_error (PasskeyLimitReached n) = BadRequest (passkey_error_to_string (PasskeyLimitReached n))"
| "of_passkey_error RegistrationFailed = BadRequest (passkey_error_to_string RegistrationFailed)"
| "of_passkey_error AlreadyRegistered = BadRequest (passkey_error_to_string AlreadyRegistered)"
| "of_passkey_error LastPasskey = BadRequest (passkey_error_to_string LastPasskey)"
| "of_passkey_error AuthenticationFailed = Unauthorized (passkey_error_to_string AuthenticationFailed)"
| "of_passkey_error PasskeyNotFound = NotFound"
| "of_passkey_error PasskeyEmailNotVerified = Forbidden (passkey_error_to_string PasskeyEmailNotVerified)"

section \<open>Properties\<close>

text \<open>The response never carries the text of an internal or database error.\<close>

lemma internal_details_hidden:
  "fst (parts e) = 500 \<Longrightarrow>
     error_into_response e
     = (500, \<lparr> ed_code = ''internal_error'', ed_message = ''Something went wrong'', ed_details = None \<rparr>)"
  by (cases e) (auto simp: error_into_response_def)

lemma status_range: "400 \<le> fst (parts e) \<and> fst (parts e) < 600"
  by (cases e) auto

end
