(* ===== verification/Schema.thy ===== *)
theory Schema
  imports Errors
begin

text \<open>
  The data of the server: the rows of the database tables (\<open>src/migrations\<close> and the \<open>entity.rs\<close>
  files), the configuration the services hold, the environment and the state every action runs in,
  and the way an action talks to the database.

  The environment \<open>env\<close> holds what is not code of the repository, as parameters: the clock, the
  random generators, whether the \<open>n\<close>-th database round trip goes through, and the functions of the
  third-party crates (SHA-256, argon2, JWT, zxcvbn, TOTP, \<dots>). Nothing is assumed of them here; a
  theorem that needs one of their documented properties names it as a hypothesis.

  Every draw of a time, an identifier, a random value and every database round trip takes the next
  value of the counter \<open>tick\<close>, so two readings in one handler may differ.
\<close>

section \<open>Rows\<close>

type_synonym uuid = nat

datatype role = User | Admin

datatype api_key_scope = ReadScope | WriteScope

datatype credential = Session | ApiKeyCred api_key_scope

record user =
  usr_id :: uuid
  usr_email :: str
  usr_password_hash :: str
  usr_display_name :: "str option"
  usr_role :: role
  usr_is_active :: bool
  usr_email_verified_at :: "time option"
  usr_created_at :: time
  usr_updated_at :: "time option"
  usr_deleted_at :: "time option"
  usr_avatar_key :: "str option"
  usr_password_set :: bool
  usr_token_version :: int
  usr_failed_login_attempts :: int
  usr_locked_until :: "time option"
  usr_totp_secret :: "str option"
  usr_totp_enabled :: bool

definition is_email_verified :: "user \<Rightarrow> bool" where
  "is_email_verified u \<longleftrightarrow> usr_email_verified_at u \<noteq> None"

datatype token_purpose = PasswordReset | EmailVerification | EmailChange | TwoFactorPending

record auth_token =
  tok_id :: uuid
  tok_user_id :: uuid
  tok_purpose :: token_purpose
  tok_token_hash :: str
  tok_new_email :: "str option"
  tok_expires_at :: time
  tok_used_at :: "time option"
  tok_created_at :: time

record recovery_code_row =
  rec_id :: uuid
  rec_user_id :: uuid
  rec_code_hash :: str
  rec_used_at :: "time option"
  rec_created_at :: time

record api_key =
  key_id :: uuid
  key_user_id :: uuid
  key_name :: str
  key_key_prefix :: str
  key_key_hash :: str
  key_scope :: api_key_scope
  key_expires_at :: "time option"
  key_last_used_at :: "time option"
  key_revoked_at :: "time option"
  key_created_at :: time

record audit_log_entry =
  aud_id :: uuid
  aud_actor_user_id :: uuid
  aud_action :: str
  aud_target_user_id :: "uuid option"
  aud_details :: str
  aud_created_at :: time

datatype qr_status = QrPending | QrScanned | QrApproved | QrRejected | QrConsumed

record qr_session =
  qr_id :: str
  qr_secret_hash :: str
  qr_code :: str
  qr_status :: qr_status
  qr_user_id :: "uuid option"
  qr_requester_ip :: "str option"
  qr_requester_agent :: "str option"
  qr_attempts :: int
  qr_expires_at :: time
  qr_created_at :: time

datatype provider = Google | Github

record oauth_identity =
  oid_id :: uuid
  oid_user_id :: uuid
  oid_provider :: provider
  oid_provider_user_id :: str
  oid_email :: "str option"
  oid_created_at :: time

record passkey_row =
  pk_id :: uuid
  pk_user_id :: uuid
  pk_name :: str
  pk_credential_id :: str
  pk_credential_json :: str
  pk_created_at :: time
  pk_last_used_at :: "time option"

record media_row =
  med_id :: uuid
  med_owner_id :: uuid
  med_storage_key :: str
  med_content_type :: str
  med_size_bytes :: int
  med_original_filename :: "str option"
  med_created_at :: time

record oauth_state =
  st_state_hash :: str
  st_provider :: provider
  st_pkce_verifier :: str
  st_user_id :: "uuid option"
  st_redirect_path :: str
  st_expires_at :: time
  st_created_at :: time

record login_grant =
  gr_code_hash :: str
  gr_user_id :: uuid
  gr_expires_at :: time
  gr_used_at :: "time option"
  gr_created_at :: time

datatype challenge_kind = Registration | Authentication

record webauthn_challenge =
  ch_id :: str
  ch_kind :: challenge_kind
  ch_user_id :: "uuid option"
  ch_state_json :: str
  ch_expires_at :: time
  ch_created_at :: time

datatype job_status = JobPending | JobRunning | JobSucceeded | JobFailed | JobDead

record job_row =
  jb_id :: uuid
  jb_kind :: str
  jb_payload :: str
  jb_status :: job_status
  jb_attempts :: int
  jb_max_attempts :: int
  jb_run_at :: time
  jb_locked_at :: "time option"
  jb_last_error :: "str option"
  jb_created_at :: time
  jb_updated_at :: time

datatype mail_status = MailPending | MailDead

record outbound_mail_row =
  ob_id :: uuid
  ob_payload :: str
  ob_status :: mail_status
  ob_created_at :: time
  ob_updated_at :: time

record db =
  users :: "user list"
  auth_tokens :: "auth_token list"
  totp_recovery_codes :: "recovery_code_row list"
  api_keys :: "api_key list"
  audit_log :: "audit_log_entry list"
  qr_sessions :: "qr_session list"
  oauth_identities :: "oauth_identity list"
  passkeys :: "passkey_row list"
  media :: "media_row list"
  oauth_states :: "oauth_state list"
  login_grants :: "login_grant list"
  webauthn_challenges :: "webauthn_challenge list"
  jobs :: "job_row list"
  outbound_mail :: "outbound_mail_row list"

definition empty_db :: db where
  "empty_db = \<lparr> users = [], auth_tokens = [], totp_recovery_codes = [], api_keys = [],
     audit_log = [], qr_sessions = [], oauth_identities = [], passkeys = [],
     media = [], oauth_states = [], login_grants = [], webauthn_challenges = [],
     jobs = [], outbound_mail = [] \<rparr>"

section \<open>Configuration, environment, state\<close>

type_synonym bytes = "8 word list"

datatype storage_backend = LocalDisk | S3

datatype image_format = Png | Jpeg | WebP | Gif | OtherFormat

datatype image_error = Limits | OtherImageError

type_synonym rgba = "8 word \<times> 8 word \<times> 8 word \<times> 8 word"
type_synonym rgb = "8 word \<times> 8 word \<times> 8 word"

record oauth_provider_config =
  client_id :: str
  client_secret :: str
  authorize_endpoint :: str
  token_url :: str
  userinfo_url :: str
  emails_url :: "str option"

record config =
  mail_enabled :: bool
  jwt_secret :: str
  jwt_ttl_secs :: int
  frontend_url :: str
  password_reset_ttl_minutes :: int
  email_verification_ttl_hours :: int
  email_change_ttl_minutes :: int
  require_verified_email :: bool
  rate_limit_per_minute :: "32 word"
  trust_proxy_headers :: bool
  check_password_breaches :: bool
  max_failed_login_attempts :: int
  account_lockout_minutes :: int
  webauthn_rp_name :: str
  qr_ttl_secs :: int
  qr_poll_rate_limit_per_minute :: "32 word"
  storage_backend :: storage_backend
  max_upload_bytes :: nat
  allowed_content_types :: "str list"
  public_api_url :: str
  oauth_google :: "oauth_provider_config option"
  oauth_github :: "oauth_provider_config option"

datatype json =
    JNull | JBool bool | JInt int | JFloat str | JString str | JArray "json list" | JObject "(str \<times> json) list"

record claims =
  sub :: uuid
  claim_role :: role
  tv :: int
  iat :: int
  exp :: int

text \<open>
  The WebAuthn library. Its values (options, ceremony states, browser answers, passkeys) are opaque
  texts here; a passkey and a ceremony state also have a JSON form.
\<close>

record webauthn_lib =
  wa_start_registration :: "nat \<Rightarrow> uuid \<Rightarrow> str \<Rightarrow> str \<Rightarrow> bytes list \<Rightarrow> (str \<times> str) option"
  wa_finish_registration :: "str \<Rightarrow> str \<Rightarrow> str option"
  wa_start_discoverable :: "nat \<Rightarrow> (str \<times> str) option"
  wa_identify :: "str \<Rightarrow> uuid option"
  wa_finish_discoverable :: "str \<Rightarrow> str \<Rightarrow> str list \<Rightarrow> str option"
  wa_update_credential :: "str \<Rightarrow> str \<Rightarrow> str option"
  wa_cred_id :: "str \<Rightarrow> bytes"
  wa_passkey_to_json :: "str \<Rightarrow> str option"
  wa_passkey_of_json :: "str \<Rightarrow> str option"
  wa_state_to_json :: "str \<Rightarrow> str option"
  wa_state_of_json :: "str \<Rightarrow> str option"

datatype mail_message =
    VerifyEmailMail str str
  | PasswordResetMail str str
  | InvitationMail str str
  | PasswordChangedMail
  | EmailChangeConfirmMail str str
  | EmailChangeNoticeMail str

record outgoing_mail =
  om_to :: str
  om_subject :: str
  om_text :: str
  om_html :: str

text \<open>
  The mail libraries: the two compiled templates of each message (for a recipient), the address and
  message builders (the reason when they refuse), the SMTP exchange at a moment (whether a refusal is
  permanent, and the reason), and the JSON form of a rendered mail.
\<close>

record mail_lib =
  ml_render_text :: "str \<Rightarrow> mail_message \<Rightarrow> str option"
  ml_render_html :: "str \<Rightarrow> mail_message \<Rightarrow> str option"
  ml_mailbox_error :: "str \<Rightarrow> str option"
  ml_multipart_error :: "outgoing_mail \<Rightarrow> str option"
  ml_smtp_send :: "nat \<Rightarrow> outgoing_mail \<Rightarrow> (bool \<times> str) + unit"
  ml_mail_to_json :: "outgoing_mail \<Rightarrow> str"
  ml_mail_of_json :: "str \<Rightarrow> outgoing_mail option"

record env =
  conf :: config
  clock :: "nat \<Rightarrow> time"
  new_uuid :: "nat \<Rightarrow> uuid"
  random_bytes :: "nat \<Rightarrow> 8 word list"
  random_index :: "nat \<Rightarrow> nat \<Rightarrow> nat"
  db_ok :: "nat \<Rightarrow> bool"
  blocking_ok :: "nat \<Rightarrow> bool"
  base64url :: "8 word list \<Rightarrow> str"
  sha256 :: "str \<Rightarrow> 8 word list"
  sha1 :: "str \<Rightarrow> 8 word list"
  argon2_hash :: "nat \<Rightarrow> str \<Rightarrow> str option"
  argon2_verify :: "str \<Rightarrow> str \<Rightarrow> bool"
  jwt_encode :: "claims \<Rightarrow> str \<Rightarrow> str option"
  jwt_decode :: "int \<Rightarrow> str \<Rightarrow> str \<Rightarrow> claims option"
  zxcvbn :: "str \<Rightarrow> str list \<Rightarrow> nat \<times> str option"
  pwned_range :: "nat \<Rightarrow> str \<Rightarrow> str option"
  totp_generate_secret :: "nat \<Rightarrow> str"
  totp_build_ok :: "str \<Rightarrow> str \<Rightarrow> str \<Rightarrow> bool"
  totp_check_at :: "str \<Rightarrow> time \<Rightarrow> str \<Rightarrow> bool"
  totp_qr_base64 :: "str \<Rightarrow> str \<Rightarrow> str \<Rightarrow> str option"
  totp_url :: "str \<Rightarrow> str \<Rightarrow> str \<Rightarrow> str"
  json_to_string :: "json \<Rightarrow> str option"
  json_of_string :: "str \<Rightarrow> json option"
  valid_email :: "str \<Rightarrow> bool"
  qr_svg_of :: "str \<Rightarrow> str option"
  collation_key :: "str \<Rightarrow> nat list"
  parse_ip :: "str \<Rightarrow> str option"
  instant :: "nat \<Rightarrow> time"
  io_ok :: "nat \<Rightarrow> bool"
  io_written :: "nat \<Rightarrow> nat"
  infer_get :: "bytes \<Rightarrow> (str \<times> str) option"
  guess_format :: "bytes \<Rightarrow> image_format option"
  decode_square :: "nat \<Rightarrow> nat \<Rightarrow> nat \<Rightarrow> bytes \<Rightarrow> image_error + rgba list"
  jpeg_encode :: "nat \<Rightarrow> rgb list \<Rightarrow> bytes option"
  url_with_query :: "str \<Rightarrow> (str \<times> str) list \<Rightarrow> str option"
  form_urlencoded :: "(str \<times> str) list \<Rightarrow> str"
  http_post_form :: "nat \<Rightarrow> str \<Rightarrow> (str \<times> str) list \<Rightarrow> (nat \<times> json option) option"
  http_get_bearer :: "nat \<Rightarrow> str \<Rightarrow> str \<Rightarrow> (nat \<times> json option) option"
  webauthn :: webauthn_lib
  mailer :: mail_lib
  row_locked :: "nat \<Rightarrow> uuid \<Rightarrow> bool"
  sqlx_display :: "app_error \<Rightarrow> str"

record world =
  db :: db
  tick :: nat
  mails :: "(str \<times> mail_message) list"
  objects :: "str \<Rightarrow> bytes option"
  delivered :: "outgoing_mail list"

type_synonym 'a action = "(env, world, app_error, 'a) prog"

section \<open>Draws and database round trips\<close>

definition draw :: "(env \<Rightarrow> nat \<Rightarrow> 'a) \<Rightarrow> 'a action" where
  "draw f = (\<lambda>e w. (Inr (f e (tick w)), w\<lparr>tick := Suc (tick w)\<rparr>))"

definition asks :: "(env \<Rightarrow> 'a) \<Rightarrow> 'a action" where
  "asks f = (\<lambda>e w. (Inr (f e), w))"

definition utc_now :: "time action" where "utc_now = draw clock"
definition uuid_v4 :: "uuid action" where "uuid_v4 = draw new_uuid"

definition db_stmt :: "(db \<Rightarrow> sqlx_error + 'a \<times> db) \<Rightarrow> 'a action" where
  "db_stmt f = (\<lambda>e w.
     let w' = w\<lparr>tick := Suc (tick w)\<rparr>
     in if db_ok e (tick w)
        then (case f (db w) of Inl x \<Rightarrow> (Inl (Database x), w') | Inr (v, d) \<Rightarrow> (Inr v, w'\<lparr>db := d\<rparr>))
        else (Inl (Database OtherSqlxError), w'))"

definition db_exec :: "(db \<Rightarrow> 'a \<times> db) \<Rightarrow> 'a action" where
  "db_exec f = db_stmt (\<lambda>d. Inr (f d))"

definition db_query :: "(db \<Rightarrow> 'a) \<Rightarrow> 'a action" where
  "db_query f = db_stmt (\<lambda>d. Inr (f d, d))"

text \<open>
  \<open>transaction_if c m\<close>: \<open>begin\<close>, the body \<open>m\<close>, and \<open>commit\<close> when \<open>c\<close> holds of the body's value.
  An error of the body, a failed commit and a body that returns without committing all leave the
  tables as they were at \<open>begin\<close>.
\<close>

definition transaction_if :: "('a \<Rightarrow> bool) \<Rightarrow> 'a action \<Rightarrow> 'a action" where
  "transaction_if c m = (\<lambda>e w.
     let w' = w\<lparr>tick := Suc (tick w)\<rparr>
     in if \<not> db_ok e (tick w) then (Inl (Database OtherSqlxError), w')
        else (case m e w' of
                (Inl x, w1) \<Rightarrow> (Inl x, w1\<lparr>db := db w\<rparr>)
              | (Inr v, w1) \<Rightarrow>
                  if \<not> c v then (Inr v, w1\<lparr>db := db w\<rparr>)
                  else if db_ok e (tick w1) then (Inr v, w1\<lparr>tick := Suc (tick w1)\<rparr>)
                  else (Inl (Database OtherSqlxError), w1\<lparr>db := db w, tick := Suc (tick w1)\<rparr>)))"

definition transaction :: "'a action \<Rightarrow> 'a action" where
  "transaction m = transaction_if (\<lambda>_. True) m"

definition queue_mail :: "str \<Rightarrow> mail_message \<Rightarrow> unit action" where
  "queue_mail recipient m = (\<lambda>e w. (Inr (), w\<lparr>mails := mails w @ [(recipient, m)]\<rparr>))"

subsection \<open>Running them\<close>

lemma draw_run [simp, run_simps]: "draw f e w = (Inr (f e (tick w)), w\<lparr>tick := Suc (tick w)\<rparr>)"
  by (simp add: draw_def)

lemma asks_run [simp, run_simps]: "asks f e w = (Inr (f e), w)"
  by (simp add: asks_def)

lemma utc_now_run [simp, run_simps]:
  "utc_now e w = (Inr (clock e (tick w)), w\<lparr>tick := Suc (tick w)\<rparr>)"
  by (simp add: utc_now_def)

lemma uuid_v4_run [simp, run_simps]:
  "uuid_v4 e w = (Inr (new_uuid e (tick w)), w\<lparr>tick := Suc (tick w)\<rparr>)"
  by (simp add: uuid_v4_def)

lemma queue_mail_run [simp, run_simps]:
  "queue_mail r m e w = (Inr (), w\<lparr>mails := mails w @ [(r, m)]\<rparr>)"
  by (simp add: queue_mail_def)

lemma db_exec_run [run_simps]:
  "db_exec f e w =
     (if db_ok e (tick w)
      then (Inr (fst (f (db w))), w\<lparr>tick := Suc (tick w), db := snd (f (db w))\<rparr>)
      else (Inl (Database OtherSqlxError), w\<lparr>tick := Suc (tick w)\<rparr>))"
  by (simp add: db_exec_def db_stmt_def Let_def split: prod.split)

lemma db_query_run [run_simps]:
  "db_query f e w =
     (if db_ok e (tick w) then (Inr (f (db w)), w\<lparr>tick := Suc (tick w)\<rparr>)
      else (Inl (Database OtherSqlxError), w\<lparr>tick := Suc (tick w)\<rparr>))"
  by (simp add: db_query_def db_stmt_def Let_def)

lemma db_stmt_InrE [elim!]:
  assumes "db_stmt f e w = (Inr v, w')"
  obtains d where "f (db w) = Inr (v, d)" and "w' = w\<lparr>tick := Suc (tick w), db := d\<rparr>"
  using assms by (auto simp: db_stmt_def Let_def split: if_splits sum.splits)

lemma db_exec_InrE [elim!]:
  assumes "db_exec f e w = (Inr v, w')"
  obtains d where "f (db w) = (v, d)" and "w' = w\<lparr>tick := Suc (tick w), db := d\<rparr>"
  using assms by (cases "f (db w)") (auto simp: db_exec_run split: if_splits)

lemma db_query_InrE [elim!]:
  assumes "db_query f e w = (Inr v, w')"
  obtains "v = f (db w)" and "w' = w\<lparr>tick := Suc (tick w)\<rparr>"
  using assms by (auto simp: db_query_run split: if_splits)

lemma transaction_InrE [elim!]:
  assumes "transaction m e w = (Inr v, w')"
  obtains w1 where "m e (w\<lparr>tick := Suc (tick w)\<rparr>) = (Inr v, w1)" and "w' = w1\<lparr>tick := Suc (tick w1)\<rparr>"
  using assms
  by (auto simp: transaction_def transaction_if_def Let_def split: if_splits prod.splits sum.splits)

lemma transaction_Inl_db:
  "transaction m e w = (Inl x, w') \<Longrightarrow> db w' = db w"
  by (auto simp: transaction_def transaction_if_def Let_def split: if_splits prod.splits sum.splits)

subsection \<open>Invariants of the database\<close>

abbreviation keeps_db :: "(db \<Rightarrow> bool) \<Rightarrow> 'a action \<Rightarrow> bool" where
  "keeps_db I m \<equiv> keeps (\<lambda>w. I (db w)) m"

lemma keeps_db_draw [keeps_rules]: "keeps_db I (draw f)"
  by (simp add: keeps_def)

lemma keeps_db_utc_now [keeps_rules]: "keeps_db I utc_now"
  by (simp add: keeps_def)

lemma keeps_db_uuid_v4 [keeps_rules]: "keeps_db I uuid_v4"
  by (simp add: keeps_def)

lemma keeps_asks [keeps_rules]: "keeps I (asks f)"
  by (simp add: keeps_def)

lemma keeps_db_queue_mail [keeps_rules]: "keeps_db I (queue_mail r m)"
  by (simp add: keeps_def)

lemma keeps_db_stmt [keeps_rules]:
  "(\<And>d v d'. I d \<Longrightarrow> f d = Inr (v, d') \<Longrightarrow> I d') \<Longrightarrow> keeps_db I (db_stmt f)"
  by (auto simp: keeps_def db_stmt_def Let_def split: sum.splits)

lemma keeps_db_exec [keeps_rules]:
  "(\<And>d. I d \<Longrightarrow> I (snd (f d))) \<Longrightarrow> keeps_db I (db_exec f)"
  by (simp add: keeps_def db_exec_run)

lemma keeps_db_query [keeps_rules]: "keeps_db I (db_query f)"
  by (simp add: keeps_def db_query_run)

lemma keeps_db_transaction_if [keeps_rules]: "keeps_db I m \<Longrightarrow> keeps_db I (transaction_if c m)"
  unfolding keeps_def transaction_if_def Let_def
  by (auto split: prod.splits sum.splits)
     (metis snd_conv world.select_convs(1) world.surjective world.update_convs(2))+

lemma keeps_db_transaction [keeps_rules]: "keeps_db I m \<Longrightarrow> keeps_db I (transaction m)"
  unfolding transaction_def by (rule keeps_db_transaction_if)

end
