(* ===== verification/Security.thy ===== *)
theory Security
  imports Schema
begin

text \<open>
  \<open>src/common/security\<close>: roles, callers, secret tokens, JWT, password hashing and policy, and the
  TOTP wrapper. The cryptographic primitives themselves are fields of \<open>env\<close>.
\<close>

section \<open>Roles and callers\<close>

definition is_admin :: "role \<Rightarrow> bool" where
  "is_admin r \<longleftrightarrow> r = Admin"

record auth_user =
  au_id :: uuid
  au_role :: role
  au_credential :: credential

definition auth_user_session :: "uuid \<Rightarrow> role \<Rightarrow> auth_user" where
  "auth_user_session i r = \<lparr> au_id = i, au_role = r, au_credential = Session \<rparr>"

definition API_KEY_PREFIX :: str where "API_KEY_PREFIX = ''ak_''"

lemma is_admin_simps [simp]: "is_admin Admin" "\<not> is_admin User"
  by (simp_all add: is_admin_def)

section \<open>Secret tokens\<close>

record generated_token =
  gt_raw :: str
  gt_hash :: str

definition secret_hash :: "env \<Rightarrow> str \<Rightarrow> str" where
  "secret_hash e raw = concat (map (hex_byte False) (sha256 e raw))"

definition generate_token :: "generated_token action" where
  "generate_token = draw (\<lambda>e n.
     let raw = base64url e (random_bytes e n) in \<lparr> gt_raw = raw, gt_hash = secret_hash e raw \<rparr>)"

definition pkce_challenge :: "env \<Rightarrow> str \<Rightarrow> str" where
  "pkce_challenge e verifier = base64url e (sha256 e verifier)"

lemma keeps_generate_token [keeps_rules]: "keeps_db I generate_token"
  unfolding generate_token_def by (rule keeps_db_draw)

lemma generate_token_InrE [elim!]:
  assumes "generate_token e w = (Inr g, w')"
  obtains "gt_hash g = secret_hash e (gt_raw g)"
    and "gt_raw g = base64url e (random_bytes e (tick w))" and "w' = w\<lparr>tick := Suc (tick w)\<rparr>"
  using assms by (auto simp: generate_token_def Let_def)

text \<open>What the database keeps of a token is 64 hex digits when SHA-256 returns 32 bytes.\<close>

lemma secret_hash_length: "length (sha256 e raw) = 32 \<Longrightarrow> length (secret_hash e raw) = 64"
  by (simp add: secret_hash_def length_hex_concat del: length_concat)

section \<open>JWT\<close>

definition jwt_issue :: "uuid \<Rightarrow> role \<Rightarrow> int \<Rightarrow> str \<Rightarrow> int \<Rightarrow> str action" where
  "jwt_issue user_id r token_version secret ttl_secs =
     then_do utc_now (\<lambda>t.
       let now = timestamp t;
           claims = \<lparr> sub = user_id, claim_role = r, tv = token_version, iat = now, exp = now + ttl_secs \<rparr>
       in then_do (asks (\<lambda>e. jwt_encode e claims secret)) (\<lambda>token.
            ok_or token (Internal ''jwt encode failed'')))"

definition jwt_verify :: "str \<Rightarrow> str \<Rightarrow> claims action" where
  "jwt_verify token secret =
     then_do utc_now (\<lambda>t.
     then_do (asks (\<lambda>e. jwt_decode e (timestamp t) token secret)) (\<lambda>decoded.
       ok_or decoded (of_security_error InvalidToken)))"

text \<open>The token every sign-in flow hands out for a user: it embeds the row's \<open>token_version\<close>.\<close>

definition issue_for :: "user \<Rightarrow> str action" where
  "issue_for u = then_do (asks conf) (\<lambda>c.
     jwt_issue (usr_id u) (usr_role u) (usr_token_version u) (jwt_secret c) (jwt_ttl_secs c))"

lemma keeps_jwt_issue [keeps_rules]: "keeps_db I (jwt_issue i r v s t)"
  unfolding jwt_issue_def Let_def by (intro keeps_rules)

lemma keeps_jwt_verify [keeps_rules]: "keeps_db I (jwt_verify t s)"
  unfolding jwt_verify_def by (intro keeps_rules)

lemma keeps_issue_for [keeps_rules]: "keeps_db I (issue_for u)"
  unfolding issue_for_def by (intro keeps_rules)

lemma issue_for_InrE [elim!]:
  assumes "issue_for u e w = (Inr t, w')"
  obtains c where "jwt_encode e c (jwt_secret (conf e)) = Some t"
    and "sub c = usr_id u" and "tv c = usr_token_version u" and "claim_role c = usr_role u"
    and "exp c = timestamp (clock e (tick w)) + jwt_ttl_secs (conf e)"
    and "w' = w\<lparr>tick := Suc (tick w)\<rparr>"
  using assms by (auto simp: issue_for_def jwt_issue_def Let_def)

section \<open>Passwords\<close>

definition run_limited :: "'a action \<Rightarrow> 'a action" where
  "run_limited work = then_do (draw blocking_ok) (\<lambda>ok.
     if ok then work else raise (Internal ''blocking task failed''))"

definition password_hash_of :: "str \<Rightarrow> str action" where
  "password_hash_of password = then_do (draw (\<lambda>e n. argon2_hash e n password)) (\<lambda>h.
     ok_or h (Internal ''password hashing failed''))"

definition password_verify :: "env \<Rightarrow> str \<Rightarrow> str \<Rightarrow> bool" where
  "password_verify e password stored_hash = argon2_verify e password stored_hash"

definition hash_blocking :: "str \<Rightarrow> str action" where
  "hash_blocking password = run_limited (password_hash_of password)"

definition verify_blocking :: "str \<Rightarrow> str \<Rightarrow> bool action" where
  "verify_blocking password stored_hash =
     run_limited (asks (\<lambda>e. password_verify e password stored_hash))"

lemma keeps_run_limited [keeps_rules]: "keeps_db I m \<Longrightarrow> keeps_db I (run_limited m)"
  unfolding run_limited_def by (intro keeps_rules)

lemma keeps_hash_blocking [keeps_rules]: "keeps_db I (hash_blocking p)"
  unfolding hash_blocking_def password_hash_of_def by (intro keeps_rules)

lemma keeps_verify_blocking [keeps_rules]: "keeps_db I (verify_blocking p h)"
  unfolding verify_blocking_def by (intro keeps_rules)

lemma verify_blocking_InrE [elim!]:
  assumes "verify_blocking p h e w = (Inr b, w')"
  obtains "b = argon2_verify e p h" and "w' = w\<lparr>tick := Suc (tick w)\<rparr>"
  using assms
  by (auto simp: verify_blocking_def run_limited_def password_verify_def split: if_splits)

lemma hash_blocking_InrE [elim!]:
  assumes "hash_blocking p e w = (Inr h, w')"
  obtains "argon2_hash e (Suc (tick w)) p = Some h" and "w' = w\<lparr>tick := Suc (Suc (tick w))\<rparr>"
  using assms
  by (auto simp: hash_blocking_def run_limited_def password_hash_of_def split: if_splits)

section \<open>Password policy\<close>

definition MINIMUM_STRENGTH_SCORE :: nat where "MINIMUM_STRENGTH_SCORE = 2"

definition reject_if_too_weak :: "env \<Rightarrow> str \<Rightarrow> str list \<Rightarrow> str + unit" where
  "reject_if_too_weak e password known_inputs =
     (let (score, warning) = zxcvbn e password known_inputs
      in if score \<ge> MINIMUM_STRENGTH_SCORE then Inr ()
         else Inl (case warning of Some m \<Rightarrow> m | None \<Rightarrow> ''This password is too easy to guess.''))"

definition split_once :: "char \<Rightarrow> str \<Rightarrow> (str \<times> str) option" where
  "split_once c s =
     (if c \<in> set s then Some (takeWhile (\<lambda>x. x \<noteq> c) s, tl (dropWhile (\<lambda>x. x \<noteq> c) s)) else None)"

definition hex_upper :: "8 word list \<Rightarrow> str" where
  "hex_upper bytes = concat (map (hex_byte True) bytes)"

definition breach_body_lists :: "str \<Rightarrow> str \<Rightarrow> bool" where
  "breach_body_lists body hash_suffix =
     list_ex (\<lambda>line. case split_once (CHR '':'') line of
                None \<Rightarrow> False
              | Some (suffix, _) \<Rightarrow> eq_ignore_ascii_case suffix hash_suffix) (str_lines body)"

definition has_appeared_in_a_known_breach :: "str \<Rightarrow> bool action" where
  "has_appeared_in_a_known_breach password =
     then_do (asks (\<lambda>e. hex_upper (sha1 e password))) (\<lambda>full_hash.
       let hash_prefix = take 5 full_hash; hash_suffix = drop 5 full_hash
       in then_do (draw (\<lambda>e n. pwned_range e n hash_prefix)) (\<lambda>reply.
            case reply of
              None \<Rightarrow> ret False
            | Some body \<Rightarrow> ret (breach_body_lists body hash_suffix)))"

lemma keeps_breach [keeps_rules]: "keeps_db I (has_appeared_in_a_known_breach p)"
  unfolding has_appeared_in_a_known_breach_def Let_def by (intro keeps_rules)

section \<open>TOTP\<close>

record generated_authenticator_secret =
  gas_base32_secret :: str
  gas_qr_code_data_uri :: str
  gas_provisioning_uri :: str

definition build_authenticator :: "env \<Rightarrow> str \<Rightarrow> str \<Rightarrow> str \<Rightarrow> bool" where
  "build_authenticator e base32_secret issuer account_email =
     totp_build_ok e base32_secret issuer account_email"

definition generate_authenticator_secret ::
  "str \<Rightarrow> str \<Rightarrow> generated_authenticator_secret action" where
  "generate_authenticator_secret issuer account_email =
     then_do (draw totp_generate_secret) (\<lambda>base32_secret.
     then_do (asks (\<lambda>e. build_authenticator e base32_secret issuer account_email)) (\<lambda>built.
     if \<not> built then raise (Internal ''could not build TOTP authenticator'')
     else then_do (asks (\<lambda>e. totp_qr_base64 e base32_secret issuer account_email)) (\<lambda>qr.
       case qr of
         None \<Rightarrow> raise (Internal ''could not render TOTP QR code'')
       | Some b64 \<Rightarrow> then_do (asks (\<lambda>e. totp_url e base32_secret issuer account_email)) (\<lambda>url.
           ret \<lparr> gas_base32_secret = base32_secret,
                 gas_qr_code_data_uri = ''data:image/png;base64,'' @ b64,
                 gas_provisioning_uri = url \<rparr>))))"

definition verify_code :: "str \<Rightarrow> str \<Rightarrow> str \<Rightarrow> str \<Rightarrow> bool action" where
  "verify_code base32_secret issuer account_email code =
     then_do (asks (\<lambda>e. build_authenticator e base32_secret issuer account_email)) (\<lambda>built.
     if \<not> built then ret False
     else draw (\<lambda>e n. totp_check_at e base32_secret (clock e n) code))"

lemma keeps_generate_authenticator_secret [keeps_rules]:
  "keeps_db I (generate_authenticator_secret i a)"
  unfolding generate_authenticator_secret_def by (intro keeps_rules)

lemma keeps_verify_code [keeps_rules]: "keeps_db I (verify_code s i a c)"
  unfolding verify_code_def by (intro keeps_rules)

lemma verify_code_InrE [elim!]:
  assumes "verify_code s i a c e w = (Inr b, w')"
  obtains "b \<longrightarrow> totp_check_at e s (clock e (tick w)) c"
    and "db w' = db w" and "mails w' = mails w"
  using assms by (auto simp: verify_code_def split: if_splits)

lemma generate_authenticator_secret_InrE [elim!]:
  assumes "generate_authenticator_secret i a e w = (Inr g, w')"
  obtains "gas_base32_secret g = totp_generate_secret e (tick w)"
    and "w' = w\<lparr>tick := Suc (tick w)\<rparr>"
  using assms by (auto simp: generate_authenticator_secret_def split: if_splits option.splits)

end
