(* ===== verification/Pagination.thy ===== *)
theory Pagination
  imports Schema "HOL-Library.Product_Lexorder" "HOL-Library.List_Lexorder"
begin

text \<open>
  \<open>src/common/dto/pagination.rs\<close>: the page window every listing uses, with 32-bit page numbers and a
  64-bit offset, and the \<open>LIMIT / OFFSET\<close> clause it feeds.
\<close>

definition DEFAULT_PER_PAGE :: "32 word" where "DEFAULT_PER_PAGE = 20"
definition MAX_PER_PAGE :: "32 word" where "MAX_PER_PAGE = 100"

record pagination =
  page :: "32 word"
  per_page :: "32 word"

definition unwrap_or :: "'a option \<Rightarrow> 'a \<Rightarrow> 'a" where
  "unwrap_or v d = (case v of None \<Rightarrow> d | Some x \<Rightarrow> x)"

definition clamp_word :: "32 word \<Rightarrow> 32 word \<Rightarrow> 32 word \<Rightarrow> 32 word" where
  "clamp_word x lo hi = (if x < lo then lo else if x > hi then hi else x)"

definition pagination_new :: "32 word option \<Rightarrow> 32 word option \<Rightarrow> pagination" where
  "pagination_new pg per =
     \<lparr> page = max (unwrap_or pg 1) 1,
       per_page = clamp_word (unwrap_or per DEFAULT_PER_PAGE) 1 MAX_PER_PAGE \<rparr>"

definition limit :: "pagination \<Rightarrow> int" where
  "limit p = uint (per_page p)"

definition offset :: "pagination \<Rightarrow> int" where
  "offset p = uint (page p - 1) * uint (per_page p)"

record 'a paginated_response =
  pr_items :: "'a list"
  pr_page :: "32 word"
  pr_per_page :: "32 word"
  pr_total :: nat

definition paginated_response_new :: "'a list \<Rightarrow> pagination \<Rightarrow> nat \<Rightarrow> 'a paginated_response" where
  "paginated_response_new items p row_count =
     \<lparr> pr_items = items, pr_page = page p, pr_per_page = per_page p, pr_total = row_count \<rparr>"

definition sql_page :: "int \<Rightarrow> int \<Rightarrow> 'a list \<Rightarrow> 'a list" where
  "sql_page lim off rows = take (nat lim) (drop (nat off) rows)"

text \<open>\<open>ORDER BY key ASC | DESC\<close> on a key that ends with the primary key, so there are no ties.\<close>

definition order_by :: "('a \<Rightarrow> 'k::linorder) \<Rightarrow> bool \<Rightarrow> 'a list \<Rightarrow> 'a list" where
  "order_by k desc rows = (if desc then rev (sort_key k rows) else sort_key k rows)"

section \<open>Properties\<close>

lemma word_one_le_iff: "(1::32 word) \<le> x \<longleftrightarrow> x \<noteq> 0"
  by (simp add: word_le_nat_alt unat_gt_0 Suc_le_eq)

lemma pagination_new_page: "1 \<le> page (pagination_new pg per)"
  by (simp add: pagination_new_def)

lemma pagination_new_per_page:
  "1 \<le> per_page (pagination_new pg per) \<and> per_page (pagination_new pg per) \<le> 100"
  by (auto simp: pagination_new_def clamp_word_def MAX_PER_PAGE_def word_one_le_iff)

lemma uint_per_page_le: "uint (per_page (pagination_new pg per)) \<le> 100"
proof -
  have "per_page (pagination_new pg per) \<le> 100" using pagination_new_per_page by blast
  then show ?thesis by (simp add: word_le_def)
qed

lemma nat_limit_le: "nat (limit (pagination_new pg per)) \<le> 100"
  using uint_per_page_le [of pg per] by (simp only: limit_def)

text \<open>The offset never leaves the range of an \<open>i64\<close> and is never negative.\<close>

lemma offset_fits_i64:
  "0 \<le> offset (pagination_new pg per) \<and> offset (pagination_new pg per) < 2 ^ 63"
proof -
  let ?p = "pagination_new pg per"
  have a: "0 \<le> uint (page ?p - 1)" "uint (page ?p - 1) < 2 ^ 32"
    using uint_lt2p [of "page ?p - 1"] by simp_all
  have "uint (page ?p - 1) * uint (per_page ?p) \<le> 2 ^ 32 * 100"
    using a uint_per_page_le [of pg per] by (intro mult_mono) auto
  moreover have "0 \<le> uint (page ?p - 1) * uint (per_page ?p)" by simp
  ultimately show ?thesis by (simp add: offset_def)
qed

lemma page_offset_nat:
  assumes "k < 2 ^ 32" and "0 < k" and "0 < p"
  shows "nat (uint (word_of_nat k - 1 :: 32 word) * p) = (k - 1) * nat p"
proof -
  have "word_of_nat k - 1 = (word_of_nat (k - 1) :: 32 word)"
    using assms(2) by (cases k) simp_all
  moreover have "uint (word_of_nat (k - 1) :: 32 word) = int (k - 1)"
    using assms(1) by (simp add: uint_nat unat_of_nat)
  ultimately show ?thesis using assms(3) by (simp add: nat_mult_distrib)
qed

text \<open>Consecutive pages tile the rows: nothing is skipped and nothing is shown twice.\<close>

lemma pages_tile:
  assumes "n < 2 ^ 32"
  shows "concat (map (\<lambda>k. let p = pagination_new (Some (word_of_nat k)) per
                          in sql_page (limit p) (offset p) rows) [1..<Suc n])
       = take (n * nat (limit (pagination_new None per))) rows"
  using assms
proof (induction n)
  case (Suc n)
  let ?none = "pagination_new None per" and ?new = "pagination_new (Some (word_of_nat (Suc n))) per"
  have per: "per_page ?new = per_page ?none"
    by (simp add: pagination_new_def)
  have "1 \<le> per_page ?none" using pagination_new_per_page by blast
  then have pos: "0 < uint (per_page ?none)" by (simp add: word_le_def)
  have "(word_of_nat (Suc n) :: 32 word) \<noteq> 0"
    using Suc.prems by (simp only: word_of_nat_eq_0_iff) (simp add: nat_dvd_not_less)
  then have "page ?new = word_of_nat (Suc n)"
    unfolding word_one_le_iff [symmetric] by (simp add: pagination_new_def unwrap_or_def max_def)
  then have off: "nat (offset ?new) = n * nat (limit ?none)"
    using page_offset_nat [of "Suc n" "uint (per_page ?none)"] Suc.prems pos per
    by (simp add: offset_def limit_def)
  have lim: "limit ?new = limit ?none" by (simp only: limit_def per)
  have "sql_page (limit ?new) (offset ?new) rows
      = take (nat (limit ?none)) (drop (n * nat (limit ?none)) rows)"
    by (simp only: sql_page_def lim off)
  moreover have "take (Suc n * nat (limit ?none)) rows
      = take (n * nat (limit ?none)) rows @ take (nat (limit ?none)) (drop (n * nat (limit ?none)) rows)"
    using take_add [of "n * nat (limit ?none)" "nat (limit ?none)" rows] by (simp add: add.commute)
  ultimately show ?case using Suc by (simp add: Let_def)
qed simp

lemma set_order_by [simp]: "set (order_by k desc rows) = set rows"
  by (simp add: order_by_def)

lemma length_order_by [simp]: "length (order_by k desc rows) = length rows"
  by (simp add: order_by_def)

lemma sorted_order_by_asc: "sorted (map k (order_by k False rows))"
  by (simp add: order_by_def)

lemma sorted_order_by_desc: "sorted (rev (map k (order_by k True rows)))"
  by (simp add: order_by_def rev_map)

lemma sql_page_bound: "length (sql_page lim off rows) \<le> nat lim"
  by (simp add: sql_page_def)

end
