(* ===== verification/UsersRepo.thy ===== *)
theory UsersRepo
  imports Security Pagination "HOL-Library.Sublist"
begin

text \<open>
  \<open>src/modules/users/repositories\<close>: every SQL statement on the \<open>users\<close> table, one definition per
  repository method. The effect of a statement on the tables is a function on \<open>db\<close> of its own
  (\<open>users_insert\<close>, \<open>apply_patch\<close>, \<dots>), so that the concurrency model can reuse it.
\<close>

section \<open>Rows, patches, filters\<close>

definition user_live :: "user \<Rightarrow> bool" where
  "user_live u \<longleftrightarrow> usr_deleted_at u = None"

definition active_admin :: "user \<Rightarrow> bool" where
  "active_admin u \<longleftrightarrow> usr_role u = Admin \<and> usr_is_active u \<and> user_live u"

record new_user =
  nu_email :: str
  nu_password_hash :: str
  nu_display_name :: "str option"
  nu_role :: role
  nu_email_verified :: bool
  nu_password_set :: bool

record user_patch =
  up_display_name :: "str option"
  up_role :: "role option"
  up_is_active :: "bool option"

definition user_patch_default :: user_patch where
  "user_patch_default = \<lparr> up_display_name = None, up_role = None, up_is_active = None \<rparr>"

datatype user_sort = SortCreatedAt | SortEmail
datatype sort_order = Asc | Desc

record user_filter =
  uf_search :: "str option"
  uf_sort :: user_sort
  uf_order :: sort_order
  uf_limit :: int
  uf_offset :: int

section \<open>Creating and finding accounts\<close>

definition users_insert :: "uuid \<Rightarrow> time \<Rightarrow> new_user \<Rightarrow> db \<Rightarrow> sqlx_error + user \<times> db" where
  "users_insert i now n d =
     (if exists_where (\<lambda>u. usr_id u = i) (users d)
         \<or> exists_where (\<lambda>u. usr_email u = nu_email n \<and> user_live u) (users d)
      then Inl UniqueViolation
      else let row = \<lparr> usr_id = i, usr_email = nu_email n, usr_password_hash = nu_password_hash n,
             usr_display_name = nu_display_name n, usr_role = nu_role n, usr_is_active = True,
             usr_email_verified_at = (if nu_email_verified n then Some now else None),
             usr_created_at = now, usr_updated_at = None, usr_deleted_at = None,
             usr_avatar_key = None, usr_password_set = nu_password_set n, usr_token_version = 1,
             usr_failed_login_attempts = 0, usr_locked_until = None, usr_totp_secret = None,
             usr_totp_enabled = False \<rparr>
           in Inr (row, d\<lparr>users := users d @ [row]\<rparr>))"

definition map_write_error :: "'a action \<Rightarrow> 'a action" where
  "map_write_error m = (\<lambda>e w. case m e w of
       (Inl (Database UniqueViolation), w1) \<Rightarrow> (Inl (of_users_error EmailTaken), w1)
     | r \<Rightarrow> r)"

definition users_repo_create :: "new_user \<Rightarrow> user action" where
  "users_repo_create n =
     then_do utc_now (\<lambda>now.
     then_do uuid_v4 (\<lambda>i.
       map_write_error (db_stmt (users_insert i now n))))"

definition select_by_email :: "str \<Rightarrow> db \<Rightarrow> user option" where
  "select_by_email email d = List.find (\<lambda>u. usr_email u = email \<and> user_live u) (users d)"

definition select_by_id :: "uuid \<Rightarrow> db \<Rightarrow> user option" where
  "select_by_id i d = List.find (\<lambda>u. usr_id u = i \<and> user_live u) (users d)"

definition users_repo_find_by_email :: "str \<Rightarrow> user option action" where
  "users_repo_find_by_email email = db_query (select_by_email email)"

definition users_repo_find_by_id :: "uuid \<Rightarrow> user option action" where
  "users_repo_find_by_id i = db_query (select_by_id i)"

section \<open>Changes an administrator makes\<close>

definition other_active_admins :: "uuid \<Rightarrow> db \<Rightarrow> nat" where
  "other_active_admins i d = count_where (\<lambda>u. active_admin u \<and> usr_id u \<noteq> i) (users d)"

definition patch_user :: "time \<Rightarrow> user_patch \<Rightarrow> user \<Rightarrow> user" where
  "patch_user now p u = u\<lparr>
     usr_updated_at := Some now,
     usr_display_name := (case up_display_name p of None \<Rightarrow> usr_display_name u | Some n \<Rightarrow> Some n),
     usr_role := (case up_role p of None \<Rightarrow> usr_role u | Some r \<Rightarrow> r),
     usr_is_active := (case up_is_active p of None \<Rightarrow> usr_is_active u | Some a \<Rightarrow> a)\<rparr>"

definition apply_patch :: "uuid \<Rightarrow> time \<Rightarrow> user_patch \<Rightarrow> db \<Rightarrow> user option \<times> db" where
  "apply_patch i now p d =
     (let d' = d\<lparr>users := update_where (\<lambda>u. usr_id u = i \<and> user_live u) (patch_user now p) (users d)\<rparr>
      in (select_by_id i d', d'))"

definition check_other_admins :: "uuid \<Rightarrow> unit action" where
  "check_other_admins i =
     seq (db_query (\<lambda>_. ()))
         (then_do (db_query (other_active_admins i)) (\<lambda>others.
            ensure (others \<noteq> 0) (of_users_error CannotRemoveLastAdmin)))"

definition users_repo_update :: "uuid \<Rightarrow> user_patch \<Rightarrow> bool \<Rightarrow> user option action" where
  "users_repo_update i p guard_last_admin =
     transaction (
       seq (whenever guard_last_admin (check_other_admins i))
           (then_do utc_now (\<lambda>now. db_exec (apply_patch i now p))))"

definition mark_deleted :: "time \<Rightarrow> user \<Rightarrow> user" where
  "mark_deleted now u = u\<lparr>usr_deleted_at := Some now, usr_updated_at := Some now, usr_is_active := False\<rparr>"

definition delete_row :: "uuid \<Rightarrow> time \<Rightarrow> db \<Rightarrow> nat \<times> db" where
  "delete_row i now d =
     (count_where (\<lambda>u. usr_id u = i \<and> user_live u) (users d),
      d\<lparr>users := update_where (\<lambda>u. usr_id u = i \<and> user_live u) (mark_deleted now) (users d)\<rparr>)"

definition users_repo_soft_delete :: "uuid \<Rightarrow> bool \<Rightarrow> bool action" where
  "users_repo_soft_delete i guard_last_admin =
     transaction (
       seq (whenever guard_last_admin (check_other_admins i))
           (then_do utc_now (\<lambda>now.
            then_do (db_exec (delete_row i now)) (\<lambda>affected. ret (affected = 1)))))"

definition count_active_admins :: "nat action" where
  "count_active_admins = db_query (\<lambda>d. count_where active_admin (users d))"

section \<open>Profile photo\<close>

definition users_repo_set_avatar_key :: "uuid \<Rightarrow> str option \<Rightarrow> str option option action" where
  "users_repo_set_avatar_key i avatar_key =
     transaction_if (\<lambda>v. v \<noteq> None) (
       then_do (db_query (\<lambda>d. map_option usr_avatar_key (select_by_id i d))) (\<lambda>previous.
         if previous = None then ret None
         else then_do utc_now (\<lambda>now.
              then_do (db_exec (\<lambda>d. ((), d\<lparr>users := update_where (\<lambda>u. usr_id u = i)
                (\<lambda>u. u\<lparr>usr_avatar_key := avatar_key, usr_updated_at := Some now\<rparr>) (users d)\<rparr>))) (\<lambda>_.
                ret previous))))"

section \<open>Credentials\<close>

definition set_hash_row :: "str \<Rightarrow> time \<Rightarrow> user \<Rightarrow> user" where
  "set_hash_row h now u = u\<lparr>usr_password_hash := h, usr_password_set := True,
     usr_token_version := usr_token_version u + 1, usr_updated_at := Some now\<rparr>"

definition update_password_hash :: "uuid \<Rightarrow> str \<Rightarrow> time \<Rightarrow> db \<Rightarrow> sqlx_error + unit \<times> db" where
  "update_password_hash i h now d =
     (if exists_where (\<lambda>u. usr_id u = i \<and> user_live u \<and> \<not> int4_ok (usr_token_version u + 1)) (users d)
      then Inl OtherSqlxError
      else Inr ((), d\<lparr>users := update_where (\<lambda>u. usr_id u = i \<and> user_live u)
                       (set_hash_row h now) (users d)\<rparr>))"

definition users_repo_set_password_hash :: "uuid \<Rightarrow> str \<Rightarrow> unit action" where
  "users_repo_set_password_hash i h =
     then_do utc_now (\<lambda>now. db_stmt (update_password_hash i h now))"

definition failed_login_row :: "int \<Rightarrow> time \<Rightarrow> user \<Rightarrow> user" where
  "failed_login_row max_attempts until u = u\<lparr>
     usr_failed_login_attempts := usr_failed_login_attempts u + 1,
     usr_locked_until :=
       (if usr_failed_login_attempts u + 1 \<ge> max_attempts then Some until else usr_locked_until u)\<rparr>"

definition update_failed_login :: "uuid \<Rightarrow> int \<Rightarrow> time \<Rightarrow> db \<Rightarrow> sqlx_error + unit \<times> db" where
  "update_failed_login i max_attempts until d =
     (if exists_where (\<lambda>u. usr_id u = i \<and> \<not> int4_ok (usr_failed_login_attempts u + 1)) (users d)
      then Inl OtherSqlxError
      else Inr ((), d\<lparr>users := update_where (\<lambda>u. usr_id u = i)
                       (failed_login_row max_attempts until) (users d)\<rparr>))"

definition users_repo_record_failed_login :: "uuid \<Rightarrow> int \<Rightarrow> duration \<Rightarrow> unit action" where
  "users_repo_record_failed_login i max_attempts lockout =
     then_do utc_now (\<lambda>now. db_stmt (update_failed_login i max_attempts (now + lockout)))"

definition users_repo_reset_failed_logins :: "uuid \<Rightarrow> unit action" where
  "users_repo_reset_failed_logins i =
     db_exec (\<lambda>d. ((), d\<lparr>users := update_where (\<lambda>u. usr_id u = i)
       (\<lambda>u. u\<lparr>usr_failed_login_attempts := 0, usr_locked_until := None\<rparr>) (users d)\<rparr>))"

section \<open>Email addresses\<close>

definition verify_row :: "time \<Rightarrow> user \<Rightarrow> user" where
  "verify_row now u = u\<lparr>
     usr_email_verified_at := (case usr_email_verified_at u of None \<Rightarrow> Some now | Some t \<Rightarrow> Some t),
     usr_updated_at := Some now\<rparr>"

definition users_repo_mark_email_verified :: "uuid \<Rightarrow> unit action" where
  "users_repo_mark_email_verified i =
     then_do utc_now (\<lambda>now.
       db_exec (\<lambda>d. ((), d\<lparr>users :=
         update_where (\<lambda>u. usr_id u = i \<and> user_live u) (verify_row now) (users d)\<rparr>)))"

definition update_email :: "uuid \<Rightarrow> str \<Rightarrow> time \<Rightarrow> db \<Rightarrow> sqlx_error + unit \<times> db" where
  "update_email i new_email now d =
     (if exists_where (\<lambda>u. usr_id u = i \<and> user_live u) (users d)
         \<and> exists_where (\<lambda>u. usr_email u = new_email \<and> user_live u \<and> usr_id u \<noteq> i) (users d)
      then Inl UniqueViolation
      else Inr ((), d\<lparr>users := update_where (\<lambda>u. usr_id u = i \<and> user_live u)
             (\<lambda>u. u\<lparr>usr_email := new_email, usr_email_verified_at := Some now,
                    usr_updated_at := Some now\<rparr>) (users d)\<rparr>))"

definition users_repo_change_email :: "uuid \<Rightarrow> str \<Rightarrow> unit action" where
  "users_repo_change_email i new_email =
     then_do utc_now (\<lambda>now. map_write_error (db_stmt (update_email i new_email now)))"

section \<open>Two-factor state\<close>

definition update_user_row :: "uuid \<Rightarrow> (user \<Rightarrow> user) \<Rightarrow> db \<Rightarrow> unit \<times> db" where
  "update_user_row i f d = ((), d\<lparr>users := update_where (\<lambda>u. usr_id u = i) f (users d)\<rparr>)"

definition users_repo_set_pending_totp_secret :: "uuid \<Rightarrow> str \<Rightarrow> unit action" where
  "users_repo_set_pending_totp_secret i base32_secret =
     db_exec (update_user_row i (\<lambda>u. u\<lparr>usr_totp_secret := Some base32_secret\<rparr>))"

definition users_repo_enable_totp :: "uuid \<Rightarrow> unit action" where
  "users_repo_enable_totp i = db_exec (update_user_row i (\<lambda>u. u\<lparr>usr_totp_enabled := True\<rparr>))"

definition users_repo_disable_totp :: "uuid \<Rightarrow> unit action" where
  "users_repo_disable_totp i =
     db_exec (update_user_row i (\<lambda>u. u\<lparr>usr_totp_enabled := False, usr_totp_secret := None\<rparr>))"

section \<open>Sign-in methods\<close>

text \<open>Without a \<open>users\<close> row the sum is \<open>NULL\<close>, which does not decode as an integer.\<close>

definition sign_in_methods :: "uuid \<Rightarrow> db \<Rightarrow> sqlx_error + int \<times> db" where
  "sign_in_methods i d =
     (case List.find (\<lambda>u. usr_id u = i) (users d) of
        None \<Rightarrow> Inl OtherSqlxError
      | Some u \<Rightarrow> Inr ((if usr_password_set u then 1 else 0)
           + int (count_where (\<lambda>x. oid_user_id x = i) (oauth_identities d))
           + int (count_where (\<lambda>x. pk_user_id x = i) (passkeys d)), d))"

definition users_repo_sign_in_method_count :: "uuid \<Rightarrow> int action" where
  "users_repo_sign_in_method_count i = db_stmt (sign_in_methods i)"

section \<open>The listing\<close>

definition escape_like :: "str \<Rightarrow> str" where
  "escape_like input =
     replace_char (CHR ''_'') [CHR 0x5C, CHR ''_'']
       (replace_char (CHR ''%'') [CHR 0x5C, CHR ''%'']
         (replace_char (CHR 0x5C) [CHR 0x5C, CHR 0x5C] input))"

text \<open>
  SQL \<open>text LIKE pattern ESCAPE '\'\<close>: \<open>%\<close> stands for any text, \<open>_\<close> for any one character, and
  a backslash takes the next character literally.
\<close>

function (sequential) sql_like :: "str \<Rightarrow> str \<Rightarrow> bool" where
  "sql_like [] s = (s = [])"
| "sql_like (p # ps) s =
     (if p = CHR ''%'' then sql_like ps s \<or> (case s of [] \<Rightarrow> False | _ # cs \<Rightarrow> sql_like (p # ps) cs)
      else if p = CHR ''_'' then (case s of [] \<Rightarrow> False | _ # cs \<Rightarrow> sql_like ps cs)
      else if p = CHR 0x5C then
        (case ps of [] \<Rightarrow> False
         | q # qs \<Rightarrow> (case s of [] \<Rightarrow> False | c # cs \<Rightarrow> c = q \<and> sql_like qs cs))
      else (case s of [] \<Rightarrow> False | c # cs \<Rightarrow> c = p \<and> sql_like ps cs))"
  by pat_completeness auto
termination by (relation "measure (\<lambda>(p, s). length p + length s)") auto

declare sql_like.simps(2) [simp del]

definition matches_search :: "str option \<Rightarrow> user \<Rightarrow> bool" where
  "matches_search pattern u =
     (case pattern of
        None \<Rightarrow> True
      | Some p \<Rightarrow> sql_like p (usr_email u)
          \<or> (case usr_display_name u of None \<Rightarrow> False | Some n \<Rightarrow> sql_like p n))"

definition order_users :: "(str \<Rightarrow> nat list) \<Rightarrow> user_sort \<Rightarrow> sort_order \<Rightarrow> user list \<Rightarrow> user list" where
  "order_users collate column direction rows =
     (case column of
        SortCreatedAt \<Rightarrow> order_by (\<lambda>u. (usr_created_at u, usr_id u)) (direction = Desc) rows
      | SortEmail \<Rightarrow> order_by (\<lambda>u. (collate (usr_email u), usr_id u)) (direction = Desc) rows)"

definition users_repo_list :: "(str \<Rightarrow> nat list) \<Rightarrow> user_filter \<Rightarrow> (user list \<times> nat) action" where
  "users_repo_list collate f =
     (let pattern = map_option (\<lambda>q. ''%'' @ escape_like q @ ''%'') (uf_search f);
          found = (\<lambda>d. filter (\<lambda>u. user_live u \<and> matches_search pattern u) (users d))
      in then_do (db_query (\<lambda>d. length (found d))) (\<lambda>total.
         then_do (db_query (\<lambda>d. sql_page (uf_limit f) (uf_offset f)
             (order_users collate (uf_sort f) (uf_order f) (found d)))) (\<lambda>rows.
           ret (rows, total))))"

section \<open>Search finds exactly the substrings\<close>

definition like_escaped :: "char \<Rightarrow> str" where
  "like_escaped c = (if c = CHR 0x5C \<or> c = CHR ''%'' \<or> c = CHR ''_'' then [CHR 0x5C, c] else [c])"

lemma escape_like_concat: "escape_like s = concat (map like_escaped s)"
  by (induction s) (auto simp: escape_like_def replace_char_def like_escaped_def)

lemma sql_like_escaped:
  "sql_like (like_escaped c @ ps) s = (case s of [] \<Rightarrow> False | x # xs \<Rightarrow> x = c \<and> sql_like ps xs)"
  by (auto simp: like_escaped_def sql_like.simps(2) split: list.splits)

lemma sql_like_escape_append:
  "sql_like (escape_like q @ ps) s \<longleftrightarrow> (\<exists>r. s = q @ r \<and> sql_like ps r)"
proof (induction q arbitrary: s)
  case (Cons c q)
  show ?case
    using Cons by (cases s) (auto simp: escape_like_concat sql_like_escaped)
qed (simp add: escape_like_concat)

lemma sql_like_percent: "sql_like (CHR ''%'' # ps) s \<longleftrightarrow> (\<exists>a b. s = a @ b \<and> sql_like ps b)"
proof (induction s)
  case Nil
  then show ?case by (simp add: sql_like.simps(2))
next
  case (Cons c s)
  then show ?case
    by (subst sql_like.simps(2)) (auto, metis append_Cons, metis append_eq_Cons_conv)
qed

lemma sql_like_search: "sql_like (''%'' @ escape_like q @ ''%'') s \<longleftrightarrow> sublist q s"
proof -
  have "sql_like [CHR ''%''] r" for r
    using sql_like_percent [of "[]" r] by simp
  then show ?thesis
    by (auto simp: sql_like_percent sql_like_escape_append sublist_def)
qed

end
