(* ===== verification/AuditLog.thy ===== *)
theory AuditLog
  imports Security Pagination
begin

text \<open>
  \<open>src/modules/audit_log\<close>: recording an administrative action and the admin-readable listing. Recording
  swallows every failure, so it can never fail the action it documents.
\<close>

definition USER_CREATED_BY_ADMIN :: str where "USER_CREATED_BY_ADMIN = ''user.created_by_admin''"
definition USER_ROLE_CHANGED :: str where "USER_ROLE_CHANGED = ''user.role_changed''"
definition USER_ACTIVE_STATUS_CHANGED :: str where
  "USER_ACTIVE_STATUS_CHANGED = ''user.active_status_changed''"
definition USER_DELETED :: str where "USER_DELETED = ''user.deleted''"

section \<open>Repository\<close>

definition audit_insert :: "audit_log_entry \<Rightarrow> db \<Rightarrow> sqlx_error + unit \<times> db" where
  "audit_insert row d =
     (if exists_where (\<lambda>a. aud_id a = aud_id row) (audit_log d) then Inl UniqueViolation
      else Inr ((), d\<lparr>audit_log := audit_log d @ [row]\<rparr>))"

definition audit_repo_record :: "uuid \<Rightarrow> str \<Rightarrow> uuid option \<Rightarrow> str \<Rightarrow> unit action" where
  "audit_repo_record actor_user_id action target_user_id details_json =
     then_do uuid_v4 (\<lambda>i.
     then_do utc_now (\<lambda>now.
       db_stmt (audit_insert \<lparr> aud_id = i, aud_actor_user_id = actor_user_id, aud_action = action,
         aud_target_user_id = target_user_id, aud_details = details_json, aud_created_at = now \<rparr>)))"

definition audit_repo_list :: "int \<Rightarrow> int \<Rightarrow> (audit_log_entry list \<times> nat) action" where
  "audit_repo_list lim off =
     then_do (db_query (\<lambda>d. length (audit_log d))) (\<lambda>total.
     then_do (db_query (\<lambda>d. sql_page lim off
         (order_by (\<lambda>a. (aud_created_at a, aud_id a)) True (audit_log d)))) (\<lambda>entries.
       ret (entries, total)))"

section \<open>Service\<close>

definition audit_record :: "uuid \<Rightarrow> str \<Rightarrow> uuid option \<Rightarrow> json \<Rightarrow> unit action" where
  "audit_record actor_user_id action target_user_id details =
     then_do (asks (\<lambda>e. json_to_string e details)) (\<lambda>serialized.
       case serialized of
         None \<Rightarrow> ret ()
       | Some details_json \<Rightarrow>
           then_do (attempt (audit_repo_record actor_user_id action target_user_id details_json))
             (\<lambda>_. ret ()))"

record audit_log_entry_response =
  aur_id :: uuid
  aur_actor_user_id :: uuid
  aur_action :: str
  aur_target_user_id :: "uuid option"
  aur_details :: json
  aur_created_at :: time

definition audit_log_entry_response_from :: "env \<Rightarrow> audit_log_entry \<Rightarrow> audit_log_entry_response" where
  "audit_log_entry_response_from e a =
     \<lparr> aur_id = aud_id a, aur_actor_user_id = aud_actor_user_id a, aur_action = aud_action a,
       aur_target_user_id = aud_target_user_id a,
       aur_details = (case json_of_string e (aud_details a) of None \<Rightarrow> JNull | Some v \<Rightarrow> v),
       aur_created_at = aud_created_at a \<rparr>"

definition audit_list ::
  "32 word option \<Rightarrow> 32 word option \<Rightarrow> audit_log_entry_response paginated_response action" where
  "audit_list pg per =
     (let p = pagination_new pg per
      in then_do (audit_repo_list (limit p) (offset p)) (\<lambda>(entries, total).
         then_do (asks (\<lambda>e. map (audit_log_entry_response_from e) entries)) (\<lambda>items.
           ret (paginated_response_new items p total))))"

section \<open>Recording never fails\<close>

lemma audit_record_total: "\<exists>w'. audit_record a act t j e w = (Inr (), w')"
  by (cases "json_to_string e j") (auto simp: audit_record_def run_simps)

lemma audit_repo_record_effect:
  assumes "audit_repo_record a act t s e w = (v, w')"
  shows "(db w' = db w \<or> (\<exists>row. db w' = (db w)\<lparr>audit_log := audit_log (db w) @ [row]\<rparr>
           \<and> aud_actor_user_id row = a \<and> aud_action row = act \<and> aud_target_user_id row = t))
       \<and> mails w' = mails w"
  using assms
  by (auto simp: audit_repo_record_def audit_insert_def db_stmt_def Let_def run_simps split: if_splits)

lemma audit_record_cases:
  obtains w' where "audit_record a act t j e w = (Inr (), w')"
    and "db w' = db w \<or> (\<exists>row. db w' = (db w)\<lparr>audit_log := audit_log (db w) @ [row]\<rparr>
           \<and> aud_actor_user_id row = a \<and> aud_action row = act \<and> aud_target_user_id row = t)"
    and "mails w' = mails w"
proof (cases "json_to_string e j")
  case None
  then show ?thesis using that [of w] by (simp add: audit_record_def run_simps)
next
  case (Some s)
  obtain v w' where r: "audit_repo_record a act t s e w = (v, w')" by fastforce
  then have "audit_record a act t j e w = (Inr (), w')"
    using Some by (simp add: audit_record_def run_simps)
  with audit_repo_record_effect [OF r] show ?thesis using that by blast
qed

text \<open>An invariant that does not look at the audit log survives recording.\<close>

lemma keeps_audit_record [keeps_rules]:
  assumes "\<And>d xs. I d \<Longrightarrow> I (d\<lparr>audit_log := xs\<rparr>)"
  shows "keeps_db I (audit_record a act t j)"
proof (rule keepsI)
  fix e w v w'
  assume "I (db w)" and "audit_record a act t j e w = (v, w')"
  then show "I (db w')"
    using assms audit_record_cases [of a act t j e w] by (metis prod.inject)
qed

lemma keeps_audit_repo_list [keeps_rules]: "keeps_db I (audit_repo_list l off)"
  unfolding audit_repo_list_def by (intro keeps_rules)

lemma keeps_audit_list [keeps_rules]: "keeps_db I (audit_list pg per)"
  unfolding audit_list_def Let_def by (intro keeps_rules)

text \<open>The listing is newest first and holds at most the page size.\<close>

lemma audit_list_page:
  assumes "audit_list pg per e w = (Inr r, w')"
  shows "pr_total r = length (audit_log (db w)) \<and> length (pr_items r) \<le> 100
       \<and> sorted (rev (map aur_created_at (pr_items r)))"
proof -
  let ?p = "pagination_new pg per"
  let ?key = "\<lambda>a. (aud_created_at a, aud_id a)"
  let ?rows = "sql_page (limit ?p) (offset ?p) (order_by ?key True (audit_log (db w)))"
  from assms have items: "pr_items r = map (audit_log_entry_response_from e) ?rows"
    and total: "pr_total r = length (audit_log (db w))"
    by (auto simp: audit_list_def audit_repo_list_def paginated_response_new_def Let_def)
  have len: "length ?rows \<le> 100"
    using sql_page_bound [of "limit ?p" "offset ?p" "order_by ?key True (audit_log (db w))"]
      nat_limit_le [of pg per] by (rule order_trans)
  have "sorted (map aud_created_at (sort_key ?key (audit_log (db w))))"
  proof -
    have "sorted (map ?key (sort_key ?key (audit_log (db w))))" by simp
    then show ?thesis unfolding sorted_map by (rule sorted_wrt_mono_rel [rotated]) auto
  qed
  then have "sorted_wrt (\<lambda>a b. aud_created_at b \<le> aud_created_at a)
      (order_by ?key True (audit_log (db w)))"
    by (simp add: order_by_def sorted_map sorted_wrt_rev)
  then have "sorted_wrt (\<lambda>a b. aud_created_at b \<le> aud_created_at a) ?rows"
    unfolding sql_page_def by (intro sorted_wrt_take sorted_wrt_drop)
  then have "sorted (rev (map aud_created_at ?rows))"
    by (simp add: sorted_wrt_rev sorted_wrt_map flip: rev_map)
  then show ?thesis using items total len
    by (simp add: audit_log_entry_response_from_def comp_def)
qed

end
