(* ===== verification/UsersService.thy ===== *)
theory UsersService
  imports UsersRepo AuditLog
begin

text \<open>
  \<open>src/modules/users/services\<close>, \<open>policy.rs\<close> and \<open>dto\<close>: the user use cases, one definition per
  method of \<open>UsersService\<close>.
\<close>

section \<open>Data transfer objects\<close>

record create_user_dto =
  cu_email :: str
  cu_password :: str
  cu_display_name :: "str option"
  cu_role :: "role option"

record update_user_dto =
  uu_display_name :: "str option"
  uu_role :: "role option"
  uu_is_active :: "bool option"

record update_profile_dto =
  upd_display_name :: "str option"

record list_users_query =
  lq_page :: "32 word option"
  lq_per_page :: "32 word option"
  lq_q :: "str option"
  lq_sort :: "user_sort option"
  lq_order :: "sort_order option"

record user_response =
  ur_id :: uuid
  ur_email :: str
  ur_display_name :: "str option"
  ur_role :: role
  ur_is_active :: bool
  ur_email_verified :: bool
  ur_avatar_url :: "str option"
  ur_has_password :: bool
  ur_totp_enabled :: bool
  ur_created_at :: time

definition avatar_url :: "str \<Rightarrow> str" where
  "avatar_url key = ''/api/v1/avatars/'' @ key"

definition user_response_from :: "user \<Rightarrow> user_response" where
  "user_response_from u =
     \<lparr> ur_id = usr_id u, ur_email = usr_email u, ur_display_name = usr_display_name u,
       ur_role = usr_role u, ur_is_active = usr_is_active u, ur_email_verified = is_email_verified u,
       ur_avatar_url = map_option avatar_url (usr_avatar_key u), ur_has_password = usr_password_set u,
       ur_totp_enabled = usr_totp_enabled u, ur_created_at = usr_created_at u \<rparr>"

definition role_json :: "role \<Rightarrow> json" where
  "role_json r = JString (case r of User \<Rightarrow> ''user'' | Admin \<Rightarrow> ''admin'')"

section \<open>Policy\<close>

definition can_view :: "auth_user \<Rightarrow> uuid \<Rightarrow> bool" where
  "can_view actor target \<longleftrightarrow> is_admin (au_role actor) \<or> au_id actor = target"

definition check_admin_update :: "auth_user \<Rightarrow> uuid \<Rightarrow> update_user_dto \<Rightarrow> users_error + unit" where
  "check_admin_update actor target patch =
     (let demotes = (uu_role patch = Some User); deactivates = (uu_is_active patch = Some False)
      in if au_id actor = target \<and> (demotes \<or> deactivates) then Inl CannotLockOutSelf else Inr ())"

definition check_delete :: "auth_user \<Rightarrow> uuid \<Rightarrow> users_error + unit" where
  "check_delete actor target = (if au_id actor = target then Inl CannotDeleteSelf else Inr ())"

definition try_users :: "users_error + 'a \<Rightarrow> 'a action" where
  "try_users r = (case r of Inl x \<Rightarrow> raise (of_users_error x) | Inr v \<Rightarrow> ret v)"

section \<open>Helpers shared by the use cases\<close>

definition normalize_email :: "str \<Rightarrow> str" where
  "normalize_email raw = to_lowercase (trim raw)"

definition users_require :: "uuid \<Rightarrow> user action" where
  "users_require i = then_do (users_repo_find_by_id i) (\<lambda>u. ok_or u (of_users_error UserNotFound))"

definition reject_password_if_policy_violation :: "str \<Rightarrow> str \<Rightarrow> str option \<Rightarrow> unit action" where
  "reject_password_if_policy_violation candidate email display_name =
     (let known_inputs = email # (case display_name of None \<Rightarrow> [] | Some n \<Rightarrow> [n])
      in then_do (asks (\<lambda>e. reject_if_too_weak e candidate known_inputs)) (\<lambda>verdict.
         case verdict of
           Inl reason \<Rightarrow> raise (of_users_error (PasswordTooWeak reason))
         | Inr _ \<Rightarrow>
             then_do (asks (\<lambda>e. check_password_breaches (conf e))) (\<lambda>check.
               if check
               then then_do (has_appeared_in_a_known_breach candidate) (\<lambda>breached.
                      if breached then raise (of_users_error PasswordPreviouslyBreached) else ret ())
               else ret ())))"

section \<open>Accounts\<close>

definition create_with_password ::
  "str \<Rightarrow> str \<Rightarrow> str option \<Rightarrow> role \<Rightarrow> bool \<Rightarrow> user action" where
  "create_with_password email password display_name r email_verified =
     (let email = normalize_email email
      in seq (reject_password_if_policy_violation password email display_name)
         (then_do (hash_blocking password) (\<lambda>h.
            users_repo_create \<lparr> nu_email = email, nu_password_hash = h, nu_display_name = display_name,
              nu_role = r, nu_email_verified = email_verified, nu_password_set = True \<rparr>)))"

definition create_passwordless :: "str \<Rightarrow> str option \<Rightarrow> bool \<Rightarrow> user action" where
  "create_passwordless email display_name email_verified =
     users_repo_create \<lparr> nu_email = normalize_email email, nu_password_hash = ''!no-password'',
       nu_display_name = display_name, nu_role = User, nu_email_verified = email_verified,
       nu_password_set = False \<rparr>"

definition users_find_by_email :: "str \<Rightarrow> user option action" where
  "users_find_by_email email = users_repo_find_by_email (normalize_email email)"

definition users_find_by_id :: "uuid \<Rightarrow> user option action" where
  "users_find_by_id i = users_repo_find_by_id i"

definition users_set_password :: "uuid \<Rightarrow> str \<Rightarrow> unit action" where
  "users_set_password i new_password =
     then_do (users_require i) (\<lambda>account.
     seq (reject_password_if_policy_violation new_password (usr_email account) (usr_display_name account))
     (then_do (hash_blocking new_password) (\<lambda>h.
        users_repo_set_password_hash i h)))"

definition users_set_avatar_key :: "uuid \<Rightarrow> str option \<Rightarrow> str option action" where
  "users_set_avatar_key i avatar_key =
     then_do (users_repo_set_avatar_key i avatar_key) (\<lambda>previous.
       ok_or previous (of_users_error UserNotFound))"

definition ensure_bootstrap_admin :: "str \<Rightarrow> str \<Rightarrow> unit action" where
  "ensure_bootstrap_admin email password =
     then_do count_active_admins (\<lambda>n.
       if n > 0 then ret ()
       else then_do (attempt (create_with_password email password None Admin True)) (\<lambda>_. ret ()))"

section \<open>Administration\<close>

definition users_create :: "auth_user \<Rightarrow> create_user_dto \<Rightarrow> user_response action" where
  "users_create actor dto =
     (let assigned_role = (case cu_role dto of None \<Rightarrow> User | Some r \<Rightarrow> r)
      in then_do (create_with_password (cu_email dto) (cu_password dto) (cu_display_name dto)
                    assigned_role False) (\<lambda>u.
         seq (audit_record (au_id actor) USER_CREATED_BY_ADMIN (Some (usr_id u))
                (JObject [(''email'', JString (usr_email u)), (''role'', role_json assigned_role)]))
             (ret (user_response_from u))))"

definition users_delete :: "auth_user \<Rightarrow> uuid \<Rightarrow> str option action" where
  "users_delete actor i =
     seq (try_users (check_delete actor i))
     (then_do (users_require i) (\<lambda>target.
       let guard_last_admin = is_admin (usr_role target) \<and> usr_is_active target
       in then_do (users_repo_soft_delete i guard_last_admin) (\<lambda>deleted.
          if \<not> deleted then raise (of_users_error UserNotFound)
          else seq (audit_record (au_id actor) USER_DELETED (Some i)
                      (JObject [(''email'', JString (usr_email target))]))
                   (ret (usr_avatar_key target)))))"

definition users_get :: "auth_user \<Rightarrow> uuid \<Rightarrow> user_response action" where
  "users_get actor i =
     (if \<not> can_view actor i then raise (of_users_error UserForbidden)
      else then_do (users_require i) (\<lambda>u. ret (user_response_from u)))"

definition users_list ::
  "(str \<Rightarrow> nat list) \<Rightarrow> list_users_query \<Rightarrow> user_response paginated_response action" where
  "users_list collate q =
     (let p = pagination_new (lq_page q) (lq_per_page q);
          search = ok_opt_filter (\<lambda>s. s \<noteq> []) (map_option trim (lq_q q))
      in then_do (users_repo_list collate
           \<lparr> uf_search = search,
             uf_sort = (case lq_sort q of None \<Rightarrow> SortCreatedAt | Some s \<Rightarrow> s),
             uf_order = (case lq_order q of None \<Rightarrow> Desc | Some s \<Rightarrow> s),
             uf_limit = limit p, uf_offset = offset p \<rparr>) (\<lambda>(rows, total).
         ret (paginated_response_new (map user_response_from rows) p total)))"

definition users_update_profile :: "auth_user \<Rightarrow> update_profile_dto \<Rightarrow> user_response action" where
  "users_update_profile actor dto =
     then_do (users_repo_update (au_id actor)
                (user_patch_default\<lparr>up_display_name := upd_display_name dto\<rparr>) False) (\<lambda>updated.
     then_do (ok_or updated (of_users_error UserNotFound)) (\<lambda>u.
       ret (user_response_from u)))"

definition users_update_user :: "auth_user \<Rightarrow> uuid \<Rightarrow> update_user_dto \<Rightarrow> user_response action" where
  "users_update_user actor i dto =
     seq (try_users (check_admin_update actor i dto))
     (then_do (users_require i) (\<lambda>before.
       let guard_last_admin = (uu_role dto = Some User \<or> uu_is_active dto = Some False)
       in then_do (users_repo_update i
            \<lparr> up_display_name = uu_display_name dto, up_role = uu_role dto,
              up_is_active = uu_is_active dto \<rparr> guard_last_admin) (\<lambda>row.
          then_do (ok_or row (of_users_error UserNotFound)) (\<lambda>updated.
          seq (case uu_role dto of
                 None \<Rightarrow> ret ()
               | Some new_role \<Rightarrow>
                   whenever (new_role \<noteq> usr_role before)
                     (audit_record (au_id actor) USER_ROLE_CHANGED (Some i)
                        (JObject [(''from'', role_json (usr_role before)), (''to'', role_json new_role)])))
          (seq (case uu_is_active dto of
                 None \<Rightarrow> ret ()
               | Some now_active \<Rightarrow>
                   whenever (now_active \<noteq> usr_is_active before)
                     (audit_record (au_id actor) USER_ACTIVE_STATUS_CHANGED (Some i)
                        (JObject [(''from'', JBool (usr_is_active before)), (''to'', JBool now_active)])))
          (ret (user_response_from updated)))))))"

section \<open>For the other features\<close>

definition users_mark_email_verified :: "uuid \<Rightarrow> unit action" where
  "users_mark_email_verified i = users_repo_mark_email_verified i"

definition users_change_email :: "uuid \<Rightarrow> str \<Rightarrow> unit action" where
  "users_change_email i new_email = users_repo_change_email i (normalize_email new_email)"

definition users_record_failed_login :: "uuid \<Rightarrow> int \<Rightarrow> duration \<Rightarrow> unit action" where
  "users_record_failed_login i max_attempts lockout =
     users_repo_record_failed_login i max_attempts lockout"

definition users_reset_failed_logins :: "uuid \<Rightarrow> unit action" where
  "users_reset_failed_logins i = users_repo_reset_failed_logins i"

definition users_sign_in_method_count :: "uuid \<Rightarrow> int action" where
  "users_sign_in_method_count i = users_repo_sign_in_method_count i"

definition users_set_pending_totp_secret :: "uuid \<Rightarrow> str \<Rightarrow> unit action" where
  "users_set_pending_totp_secret i s = users_repo_set_pending_totp_secret i s"

definition users_enable_totp :: "uuid \<Rightarrow> unit action" where
  "users_enable_totp i = users_repo_enable_totp i"

definition users_disable_totp :: "uuid \<Rightarrow> unit action" where
  "users_disable_totp i = users_repo_disable_totp i"

text \<open>The live account check behind every session request (\<open>SessionVerifier::verify\<close>).\<close>

definition session_verify :: "uuid \<Rightarrow> int \<Rightarrow> auth_user action" where
  "session_verify user_id token_version =
     then_do (users_find_by_id user_id) (\<lambda>found.
     then_do (ok_or (ok_opt_filter usr_is_active found) (of_security_error InvalidToken)) (\<lambda>u.
       if usr_token_version u \<noteq> token_version then raise (of_security_error InvalidToken)
       else ret (auth_user_session (usr_id u) (usr_role u))))"

end
