(* ===== verification/ApiKeys.thy ===== *)
theory ApiKeys
  imports UsersService
begin

text \<open>
  \<open>src/modules/api_keys\<close>: issuing, listing, revoking and authenticating API keys.
\<close>

definition MAX_ACTIVE_KEYS_PER_USER :: int where "MAX_ACTIVE_KEYS_PER_USER = 20"
definition DISPLAY_PREFIX_LEN :: nat where "DISPLAY_PREFIX_LEN = 6"

definition is_usable :: "api_key \<Rightarrow> time \<Rightarrow> bool" where
  "is_usable k now \<longleftrightarrow>
     key_revoked_at k = None \<and> (case key_expires_at k of None \<Rightarrow> True | Some t \<Rightarrow> t > now)"

record create_api_key_dto =
  ck_name :: str
  ck_scope :: "api_key_scope option"
  ck_expires_in_days :: "32 word option"

record api_key_response =
  akr_id :: uuid
  akr_name :: str
  akr_key_prefix :: str
  akr_scope :: api_key_scope
  akr_expires_at :: "time option"
  akr_last_used_at :: "time option"
  akr_created_at :: time

definition api_key_response_from :: "api_key \<Rightarrow> api_key_response" where
  "api_key_response_from k =
     \<lparr> akr_id = key_id k, akr_name = key_name k, akr_key_prefix = key_key_prefix k,
       akr_scope = key_scope k, akr_expires_at = key_expires_at k,
       akr_last_used_at = key_last_used_at k, akr_created_at = key_created_at k \<rparr>"

record created_api_key_response =
  cak_api_key :: api_key_response
  cak_key :: str

record new_api_key =
  nk_user_id :: uuid
  nk_name :: str
  nk_key_prefix :: str
  nk_key_hash :: str
  nk_scope :: api_key_scope
  nk_expires_at :: "time option"

section \<open>Repository\<close>

definition key_insert :: "api_key \<Rightarrow> db \<Rightarrow> sqlx_error + api_key \<times> db" where
  "key_insert row d =
     (if exists_where (\<lambda>k. key_id k = key_id row \<or> key_key_hash k = key_key_hash row) (api_keys d)
      then Inl UniqueViolation
      else if \<not> exists_where (\<lambda>u. usr_id u = key_user_id row) (users d) then Inl OtherSqlxError
      else Inr (row, d\<lparr>api_keys := api_keys d @ [row]\<rparr>))"

definition keys_repo_insert :: "new_api_key \<Rightarrow> api_key action" where
  "keys_repo_insert n =
     then_do uuid_v4 (\<lambda>i.
     then_do utc_now (\<lambda>now.
       db_stmt (key_insert \<lparr> key_id = i, key_user_id = nk_user_id n, key_name = nk_name n,
         key_key_prefix = nk_key_prefix n, key_key_hash = nk_key_hash n, key_scope = nk_scope n,
         key_expires_at = nk_expires_at n, key_last_used_at = None, key_revoked_at = None,
         key_created_at = now \<rparr>)))"

definition active_keys :: "uuid \<Rightarrow> db \<Rightarrow> api_key list" where
  "active_keys user_id d =
     filter (\<lambda>k. key_user_id k = user_id \<and> key_revoked_at k = None) (api_keys d)"

definition keys_repo_list_active :: "uuid \<Rightarrow> api_key list action" where
  "keys_repo_list_active user_id =
     db_query (\<lambda>d. order_by key_created_at True (active_keys user_id d))"

definition keys_repo_find_by_hash :: "str \<Rightarrow> api_key option action" where
  "keys_repo_find_by_hash h = db_query (\<lambda>d. List.find (\<lambda>k. key_key_hash k = h) (api_keys d))"

definition revoke_key :: "uuid \<Rightarrow> uuid \<Rightarrow> time \<Rightarrow> db \<Rightarrow> nat \<times> db" where
  "revoke_key user_id i now d =
     (let p = (\<lambda>k. key_id k = i \<and> key_user_id k = user_id \<and> key_revoked_at k = None)
      in (count_where p (api_keys d),
          d\<lparr>api_keys := update_where p (\<lambda>k. k\<lparr>key_revoked_at := Some now\<rparr>) (api_keys d)\<rparr>))"

definition keys_repo_revoke :: "uuid \<Rightarrow> uuid \<Rightarrow> bool action" where
  "keys_repo_revoke user_id i =
     then_do utc_now (\<lambda>now.
     then_do (db_exec (revoke_key user_id i now)) (\<lambda>affected. ret (affected = 1)))"

definition touch_key :: "uuid \<Rightarrow> time \<Rightarrow> db \<Rightarrow> unit \<times> db" where
  "touch_key i now d =
     ((), d\<lparr>api_keys := update_where
        (\<lambda>k. key_id k = i \<and> (case key_last_used_at k of None \<Rightarrow> True | Some t \<Rightarrow> t < now - minutes 1))
        (\<lambda>k. k\<lparr>key_last_used_at := Some now\<rparr>) (api_keys d)\<rparr>)"

definition keys_repo_touch :: "uuid \<Rightarrow> time \<Rightarrow> unit action" where
  "keys_repo_touch i now = db_exec (touch_key i now)"

section \<open>Service\<close>

definition keys_create :: "auth_user \<Rightarrow> create_api_key_dto \<Rightarrow> created_api_key_response action" where
  "keys_create actor dto =
     (let user_id = au_id actor
      in then_do (keys_repo_list_active user_id) (\<lambda>active.
         if int (length active) \<ge> MAX_ACTIVE_KEYS_PER_USER
         then raise (of_api_keys_error (KeyLimitReached MAX_ACTIVE_KEYS_PER_USER))
         else then_do generate_token (\<lambda>generated.
           let key = API_KEY_PREFIX @ gt_raw generated;
               prefix = API_KEY_PREFIX @ take DISPLAY_PREFIX_LEN (gt_raw generated)
           in then_do (asks (\<lambda>e. secret_hash e key)) (\<lambda>h.
              then_do (case ck_expires_in_days dto of
                         None \<Rightarrow> ret None
                       | Some n \<Rightarrow> then_do utc_now (\<lambda>now. ret (Some (now + days (uint n))))) (\<lambda>expires.
              then_do (keys_repo_insert \<lparr> nk_user_id = user_id, nk_name = trim (ck_name dto),
                         nk_key_prefix = prefix, nk_key_hash = h,
                         nk_scope = (case ck_scope dto of None \<Rightarrow> ReadScope | Some s \<Rightarrow> s),
                         nk_expires_at = expires \<rparr>) (\<lambda>stored.
                ret \<lparr> cak_api_key = api_key_response_from stored, cak_key = key \<rparr>))))))"

definition keys_list :: "auth_user \<Rightarrow> api_key_response list action" where
  "keys_list actor =
     then_do (keys_repo_list_active (au_id actor)) (\<lambda>ks. ret (map api_key_response_from ks))"

definition keys_revoke :: "auth_user \<Rightarrow> uuid \<Rightarrow> unit action" where
  "keys_revoke actor i =
     then_do (keys_repo_revoke (au_id actor) i) (\<lambda>revoked.
       if \<not> revoked then raise (of_api_keys_error KeyNotFound) else ret ())"

definition keys_authenticate :: "str \<Rightarrow> auth_user action" where
  "keys_authenticate presented =
     then_do utc_now (\<lambda>now.
     then_do (asks (\<lambda>e. secret_hash e presented)) (\<lambda>h.
     then_do (keys_repo_find_by_hash h) (\<lambda>found.
     then_do (ok_or (ok_opt_filter (\<lambda>k. is_usable k now) found) (of_security_error InvalidApiKey)) (\<lambda>key.
     then_do (users_find_by_id (key_user_id key)) (\<lambda>owner_row.
     then_do (ok_or (ok_opt_filter usr_is_active owner_row) (of_security_error InvalidApiKey)) (\<lambda>owner.
     seq (keys_repo_touch (key_id key) now)
         (ret \<lparr> au_id = usr_id owner, au_role = usr_role owner,
                au_credential = ApiKeyCred (key_scope key) \<rparr>)))))))"

end
