(* ===== verification/Mail.thy ===== *)
theory Mail
  imports Schema
begin

text \<open>
  \<open>src/modules/mail/service/senders.rs\<close>: what the other features ask the mail service to send. A
  message handed to the background delivery is appended to \<open>mails\<close> with its recipient; MailDelivery
  renders and delivers it.
\<close>

definition num_minutes :: "duration \<Rightarrow> int" where
  "num_minutes d = (if d < 0 then - ((- d) div 60000000000) else d div 60000000000)"

definition describe :: "duration \<Rightarrow> str" where
  "describe ttl =
     (let m = num_minutes ttl
      in if m \<ge> 60 \<and> m mod 60 = 0
         then (let h = m div 60 in int_to_string h @ '' hour'' @ (if h = 1 then '''' else ''s''))
         else int_to_string m @ '' minute'' @ (if m = 1 then '''' else ''s''))"

definition trim_end_slashes :: "str \<Rightarrow> str" where
  "trim_end_slashes s = rev (dropWhile (\<lambda>c. c = CHR ''/'') (rev s))"

definition mail_link :: "env \<Rightarrow> str \<Rightarrow> str \<Rightarrow> str" where
  "mail_link e path raw_token = trim_end_slashes (frontend_url (conf e)) @ path @ ''?token='' @ raw_token"

definition send_verification_mail :: "str \<Rightarrow> str \<Rightarrow> duration \<Rightarrow> unit action" where
  "send_verification_mail recipient raw ttl =
     then_do (asks (\<lambda>e. mail_link e ''/verify-email'' raw)) (\<lambda>link.
       queue_mail recipient (VerifyEmailMail link (describe ttl)))"

definition send_password_reset :: "str \<Rightarrow> str \<Rightarrow> duration \<Rightarrow> unit action" where
  "send_password_reset recipient raw ttl =
     then_do (asks (\<lambda>e. mail_link e ''/reset-password'' raw)) (\<lambda>link.
       queue_mail recipient (PasswordResetMail link (describe ttl)))"

definition send_invitation :: "str \<Rightarrow> str \<Rightarrow> duration \<Rightarrow> unit action" where
  "send_invitation recipient raw ttl =
     then_do (asks (\<lambda>e. mail_link e ''/reset-password'' raw)) (\<lambda>link.
       queue_mail recipient (InvitationMail link (describe ttl)))"

definition send_password_changed :: "str \<Rightarrow> unit action" where
  "send_password_changed recipient = queue_mail recipient PasswordChangedMail"

definition send_email_change_confirm :: "str \<Rightarrow> str \<Rightarrow> duration \<Rightarrow> unit action" where
  "send_email_change_confirm new_email raw ttl =
     then_do (asks (\<lambda>e. mail_link e ''/confirm-email-change'' raw)) (\<lambda>link.
       queue_mail new_email (EmailChangeConfirmMail link (describe ttl)))"

definition send_email_change_notice :: "str \<Rightarrow> str \<Rightarrow> unit action" where
  "send_email_change_notice old_email new_email =
     queue_mail old_email (EmailChangeNoticeMail new_email)"

lemmas mail_defs = send_verification_mail_def send_password_reset_def send_invitation_def
  send_password_changed_def send_email_change_confirm_def send_email_change_notice_def

lemma keeps_mail [keeps_rules]:
  "keeps_db I (send_verification_mail r t d)" "keeps_db I (send_password_reset r t d)"
  "keeps_db I (send_invitation r t d)" "keeps_db I (send_password_changed r)"
  "keeps_db I (send_email_change_confirm r t d)" "keeps_db I (send_email_change_notice r r')"
  unfolding mail_defs by (intro keeps_rules)+

text \<open>Sending is fire and forget: it always succeeds and adds exactly one message.\<close>

lemma mail_run [run_simps]:
  "send_verification_mail r t d e w =
     (Inr (), w\<lparr>mails := mails w @ [(r, VerifyEmailMail (mail_link e ''/verify-email'' t) (describe d))]\<rparr>)"
  "send_password_reset r t d e w =
     (Inr (), w\<lparr>mails := mails w @ [(r, PasswordResetMail (mail_link e ''/reset-password'' t) (describe d))]\<rparr>)"
  "send_invitation r t d e w =
     (Inr (), w\<lparr>mails := mails w @ [(r, InvitationMail (mail_link e ''/reset-password'' t) (describe d))]\<rparr>)"
  "send_password_changed r e w = (Inr (), w\<lparr>mails := mails w @ [(r, PasswordChangedMail)]\<rparr>)"
  "send_email_change_confirm r t d e w =
     (Inr (), w\<lparr>mails := mails w @
        [(r, EmailChangeConfirmMail (mail_link e ''/confirm-email-change'' t) (describe d))]\<rparr>)"
  "send_email_change_notice r r' e w = (Inr (), w\<lparr>mails := mails w @ [(r, EmailChangeNoticeMail r')]\<rparr>)"
  by (simp_all add: mail_defs then_do_run)

end
