(* ===== verification/AuthTokens.thy ===== *)
theory AuthTokens
  imports UsersService Mail
begin

text \<open>
  The one-time credentials of \<open>src/modules/auth\<close>: the \<open>auth_tokens\<close> repository and
  \<open>OneTimeTokenService\<close> behind the reset, verification, email-change and second-factor links, and
  the two-factor recovery codes.
\<close>

section \<open>The auth\_tokens repository\<close>

definition token_valid :: "token_purpose \<Rightarrow> str \<Rightarrow> time \<Rightarrow> auth_token \<Rightarrow> bool" where
  "token_valid purpose h now t \<longleftrightarrow>
     tok_token_hash t = h \<and> tok_purpose t = purpose \<and> tok_used_at t = None \<and> tok_expires_at t > now"

definition token_insert :: "auth_token \<Rightarrow> db \<Rightarrow> sqlx_error + unit \<times> db" where
  "token_insert row d =
     (if exists_where (\<lambda>t. tok_id t = tok_id row \<or> tok_token_hash t = tok_token_hash row) (auth_tokens d)
      then Inl UniqueViolation
      else if \<not> exists_where (\<lambda>u. usr_id u = tok_user_id row) (users d) then Inl OtherSqlxError
      else Inr ((), d\<lparr>auth_tokens := auth_tokens d @ [row]\<rparr>))"

definition tokens_repo_insert ::
  "uuid \<Rightarrow> token_purpose \<Rightarrow> str \<Rightarrow> str option \<Rightarrow> time \<Rightarrow> unit action" where
  "tokens_repo_insert user_id purpose token_hash new_email expires_at =
     then_do uuid_v4 (\<lambda>i.
     then_do utc_now (\<lambda>now.
       db_stmt (token_insert \<lparr> tok_id = i, tok_user_id = user_id, tok_purpose = purpose,
         tok_token_hash = token_hash, tok_new_email = new_email, tok_expires_at = expires_at,
         tok_used_at = None, tok_created_at = now \<rparr>)))"

definition use_tokens :: "uuid \<Rightarrow> token_purpose \<Rightarrow> time \<Rightarrow> db \<Rightarrow> unit \<times> db" where
  "use_tokens user_id purpose now d =
     ((), d\<lparr>auth_tokens := update_where
        (\<lambda>t. tok_user_id t = user_id \<and> tok_purpose t = purpose \<and> tok_used_at t = None)
        (\<lambda>t. t\<lparr>tok_used_at := Some now\<rparr>) (auth_tokens d)\<rparr>)"

definition tokens_repo_invalidate_unused :: "uuid \<Rightarrow> token_purpose \<Rightarrow> unit action" where
  "tokens_repo_invalidate_unused user_id purpose =
     then_do utc_now (\<lambda>now. db_exec (use_tokens user_id purpose now))"

definition tokens_repo_find_unused :: "token_purpose \<Rightarrow> str \<Rightarrow> auth_token option action" where
  "tokens_repo_find_unused purpose h =
     then_do utc_now (\<lambda>now. db_query (\<lambda>d. List.find (token_valid purpose h now) (auth_tokens d)))"

definition claim_token :: "token_purpose \<times> str \<Rightarrow> time \<Rightarrow> db \<Rightarrow> auth_token option \<times> db" where
  "claim_token k now d =
     (map_option (\<lambda>t. t\<lparr>tok_used_at := Some now\<rparr>)
        (List.find (token_valid (fst k) (snd k) now) (auth_tokens d)),
      d\<lparr>auth_tokens := update_where (token_valid (fst k) (snd k) now)
          (\<lambda>t. t\<lparr>tok_used_at := Some now\<rparr>) (auth_tokens d)\<rparr>)"

definition tokens_repo_claim :: "token_purpose \<Rightarrow> str \<Rightarrow> auth_token option action" where
  "tokens_repo_claim purpose h = then_do utc_now (\<lambda>now. db_exec (claim_token (purpose, h) now))"

definition tokens_repo_count_issued_since :: "uuid \<Rightarrow> token_purpose \<Rightarrow> time \<Rightarrow> nat action" where
  "tokens_repo_count_issued_since user_id purpose since =
     db_query (\<lambda>d. count_where (\<lambda>t. tok_user_id t = user_id \<and> tok_purpose t = purpose
        \<and> tok_created_at t > since) (auth_tokens d))"

section \<open>OneTimeTokenService\<close>

definition tokens_issue :: "uuid \<Rightarrow> token_purpose \<Rightarrow> duration \<Rightarrow> str option \<Rightarrow> str action" where
  "tokens_issue user_id purpose ttl new_email =
     seq (tokens_repo_invalidate_unused user_id purpose)
     (then_do generate_token (\<lambda>token.
      then_do utc_now (\<lambda>now.
      seq (tokens_repo_insert user_id purpose (gt_hash token) new_email (now + ttl))
          (ret (gt_raw token)))))"

definition tokens_redeem :: "token_purpose \<Rightarrow> str \<Rightarrow> auth_token action" where
  "tokens_redeem purpose raw =
     then_do (asks (\<lambda>e. secret_hash e raw)) (\<lambda>h.
     then_do (tokens_repo_claim purpose h) (\<lambda>t. ok_or t (of_auth_error InvalidOrExpiredLink)))"

definition tokens_peek :: "token_purpose \<Rightarrow> str \<Rightarrow> auth_token action" where
  "tokens_peek purpose raw =
     then_do (asks (\<lambda>e. secret_hash e raw)) (\<lambda>h.
     then_do (tokens_repo_find_unused purpose h) (\<lambda>t. ok_or t (of_auth_error InvalidOrExpiredLink)))"

definition tokens_invalidate :: "uuid \<Rightarrow> token_purpose \<Rightarrow> unit action" where
  "tokens_invalidate user_id purpose = tokens_repo_invalidate_unused user_id purpose"

definition tokens_issued_within :: "uuid \<Rightarrow> token_purpose \<Rightarrow> duration \<Rightarrow> nat action" where
  "tokens_issued_within user_id purpose window =
     then_do utc_now (\<lambda>now. tokens_repo_count_issued_since user_id purpose (now - window))"

section \<open>Recovery codes\<close>

definition RECOVERY_CODES_PER_ENROLLMENT :: nat where "RECOVERY_CODES_PER_ENROLLMENT = 8"
definition ALPHABET :: str where "ALPHABET = ''23456789ABCDEFGHJKMNPQRSTUVWXYZ''"
definition CODE_LENGTH :: nat where "CODE_LENGTH = 10"

text \<open>\<open>random_range(0..n)\<close> yields a value below \<open>n\<close>.\<close>

definition random_range :: "nat \<Rightarrow> nat action" where
  "random_range n = draw (\<lambda>e k. random_index e k n mod n)"

fun random_characters :: "nat \<Rightarrow> str action" where
  "random_characters 0 = ret []"
| "random_characters (Suc k) =
     then_do (random_range (length ALPHABET)) (\<lambda>i.
     then_do (random_characters k) (\<lambda>cs. ret (ALPHABET ! i # cs)))"

definition generate_one :: "generated_token action" where
  "generate_one =
     then_do (random_characters CODE_LENGTH) (\<lambda>cs.
       let raw = take (CODE_LENGTH div 2) cs @ ''-'' @ drop (CODE_LENGTH div 2) cs
       in then_do (asks (\<lambda>e. secret_hash e raw)) (\<lambda>h. ret \<lparr> gt_raw = raw, gt_hash = h \<rparr>))"

fun generate_codes :: "nat \<Rightarrow> generated_token list action" where
  "generate_codes 0 = ret []"
| "generate_codes (Suc k) =
     then_do generate_one (\<lambda>c. then_do (generate_codes k) (\<lambda>cs. ret (c # cs)))"

definition generate_batch :: "generated_token list action" where
  "generate_batch = generate_codes RECOVERY_CODES_PER_ENROLLMENT"

definition recovery_insert :: "recovery_code_row \<Rightarrow> db \<Rightarrow> sqlx_error + unit \<times> db" where
  "recovery_insert row d =
     (if exists_where (\<lambda>r. rec_id r = rec_id row) (totp_recovery_codes d) then Inl UniqueViolation
      else if \<not> exists_where (\<lambda>u. usr_id u = rec_user_id row) (users d) then Inl OtherSqlxError
      else Inr ((), d\<lparr>totp_recovery_codes := totp_recovery_codes d @ [row]\<rparr>))"

definition recovery_delete :: "uuid \<Rightarrow> db \<Rightarrow> unit \<times> db" where
  "recovery_delete user_id d =
     ((), d\<lparr>totp_recovery_codes := delete_where (\<lambda>r. rec_user_id r = user_id) (totp_recovery_codes d)\<rparr>)"

definition recovery_replace_all :: "uuid \<Rightarrow> str list \<Rightarrow> unit action" where
  "recovery_replace_all user_id code_hashes =
     transaction (
       seq (db_exec (recovery_delete user_id))
       (then_do utc_now (\<lambda>now.
          for_each code_hashes (\<lambda>h.
            then_do uuid_v4 (\<lambda>i.
              db_stmt (recovery_insert \<lparr> rec_id = i, rec_user_id = user_id, rec_code_hash = h,
                rec_used_at = None, rec_created_at = now \<rparr>))))))"

definition recovery_unused :: "uuid \<Rightarrow> str \<Rightarrow> recovery_code_row \<Rightarrow> bool" where
  "recovery_unused user_id h r \<longleftrightarrow>
     rec_user_id r = user_id \<and> rec_code_hash r = h \<and> rec_used_at r = None"

definition claim_recovery :: "uuid \<times> str \<Rightarrow> time \<Rightarrow> db \<Rightarrow> unit option \<times> db" where
  "claim_recovery k now d =
     (if count_where (recovery_unused (fst k) (snd k)) (totp_recovery_codes d) > 0 then Some () else None,
      d\<lparr>totp_recovery_codes := update_where (recovery_unused (fst k) (snd k))
          (\<lambda>r. r\<lparr>rec_used_at := Some now\<rparr>) (totp_recovery_codes d)\<rparr>)"

definition recovery_claim :: "uuid \<Rightarrow> str \<Rightarrow> bool action" where
  "recovery_claim user_id h =
     then_do utc_now (\<lambda>now.
     then_do (db_exec (claim_recovery (user_id, h) now)) (\<lambda>r. ret (r \<noteq> None)))"

definition recovery_delete_all :: "uuid \<Rightarrow> unit action" where
  "recovery_delete_all user_id = db_exec (recovery_delete user_id)"

section \<open>Both are single-use credentials\<close>

definition token_live :: "db \<Rightarrow> token_purpose \<times> str \<Rightarrow> bool" where
  "token_live d k \<longleftrightarrow>
     (\<exists>t \<in> set (auth_tokens d). tok_token_hash t = snd k \<and> tok_purpose t = fst k \<and> tok_used_at t = None)"

definition recovery_live :: "db \<Rightarrow> uuid \<times> str \<Rightarrow> bool" where
  "recovery_live d k \<longleftrightarrow> (\<exists>r \<in> set (totp_recovery_codes d). recovery_unused (fst k) (snd k) r)"

text \<open>
  The single statement \<open>UPDATE \<dots> RETURNING\<close> spends one row; with the hash unique in the table no
  second row can answer for it.
\<close>

definition hashes_unique :: "db \<Rightarrow> bool" where
  "hashes_unique d \<longleftrightarrow> distinct (map tok_token_hash (auth_tokens d))"

lemma claim_token_effect:
  assumes "claim_token k now d = (r, d')"
  shows "hashes_unique d' = hashes_unique d"
    and "token_live d' j \<Longrightarrow> token_live d j"
    and "r = Some t \<Longrightarrow> hashes_unique d \<Longrightarrow> token_live d k \<and> \<not> token_live d' k"
    and "r = Some t \<Longrightarrow> \<exists>t0 \<in> set (auth_tokens d). token_valid (fst k) (snd k) now t0
           \<and> t = t0\<lparr>tok_used_at := Some now\<rparr>"
    and "r = None \<Longrightarrow> d' = d"
proof -
  from assms have r: "r = map_option (\<lambda>t. t\<lparr>tok_used_at := Some now\<rparr>)
        (List.find (token_valid (fst k) (snd k) now) (auth_tokens d))"
    and d': "d' = d\<lparr>auth_tokens := update_where (token_valid (fst k) (snd k) now)
        (\<lambda>t. t\<lparr>tok_used_at := Some now\<rparr>) (auth_tokens d)\<rparr>"
    by (auto simp: claim_token_def)
  show "hashes_unique d' = hashes_unique d"
    by (simp add: d' hashes_unique_def map_update_where_same)
  show "token_live d' j \<Longrightarrow> token_live d j"
    by (auto simp: d' token_live_def elim!: in_update_whereE split: if_splits)
  show found: "\<exists>t0 \<in> set (auth_tokens d). token_valid (fst k) (snd k) now t0
       \<and> t = t0\<lparr>tok_used_at := Some now\<rparr>" if "r = Some t"
    using that r by (auto dest: find_SomeD)
  show "token_live d k \<and> \<not> token_live d' k" if some: "r = Some t" and uniq: "hashes_unique d"
  proof
    obtain t0 where t0: "t0 \<in> set (auth_tokens d)" "token_valid (fst k) (snd k) now t0"
      using found [OF some] by blast
    then show "token_live d k" by (auto simp: token_live_def token_valid_def)
    have "x = t0" if "x \<in> set (auth_tokens d)" "tok_token_hash x = snd k" for x
      using that t0 uniq unfolding hashes_unique_def token_valid_def
      by (metis distinct_map inj_onD)
    with t0 show "\<not> token_live d' k"
      by (auto simp: d' token_live_def elim!: in_update_whereE split: if_splits)
  qed
  show "r = None \<Longrightarrow> d' = d"
    using r d' by (simp add: find_None_iff update_where_none)
qed

interpretation link: single_use hashes_unique token_live claim_token
  by unfold_locales (use claim_token_effect in blast)+

interpretation recovery: single_use "\<lambda>_. True" recovery_live claim_recovery
  by unfold_locales
     (auto simp: claim_recovery_def recovery_live_def recovery_unused_def
        elim!: in_update_whereE split: if_splits)

end
