(* ===== verification/AuthServices.thy ===== *)
theory AuthServices
  imports AuthTokens
begin

text \<open>
  \<open>src/modules/auth/services\<close>: email verification and change, password reset, invitations, password
  sign-in and sign-up, and two-factor authentication, one definition per service method.
\<close>

section \<open>Data transfer objects\<close>

record credentials_dto =
  cr_email :: str
  cr_password :: str

record change_email_dto =
  ce_new_email :: str
  ce_current_password :: str

record change_password_dto =
  cp_current_password :: str
  cp_new_password :: str

record reset_password_dto =
  rp_token :: str
  rp_new_password :: str

record invite_user_dto =
  iu_email :: str
  iu_display_name :: "str option"
  iu_role :: "role option"

record token_response =
  tr_access_token :: str
  tr_token_type :: str
  tr_expires_in :: int

datatype login_response = Authenticated token_response | TwoFactorRequired bool str

definition two_factor_required :: "str \<Rightarrow> login_response" where
  "two_factor_required pending_token = TwoFactorRequired True pending_token"

record totp_setup_response =
  ts_secret :: str
  ts_qr_code_data_uri :: str
  ts_provisioning_uri :: str

record totp_enabled_response =
  te_recovery_codes :: "str list"

text \<open>The answer of every completed sign-in: a bearer token for the user.\<close>

definition bearer_for :: "user \<Rightarrow> token_response action" where
  "bearer_for u =
     then_do (issue_for u) (\<lambda>access_token.
     then_do (asks (\<lambda>e. jwt_ttl_secs (conf e))) (\<lambda>ttl.
       ret \<lparr> tr_access_token = access_token, tr_token_type = ''Bearer'', tr_expires_in = ttl \<rparr>))"

section \<open>Email verification and email change\<close>

definition verification_ttl :: "env \<Rightarrow> duration" where
  "verification_ttl e = hours (email_verification_ttl_hours (conf e))"

definition change_ttl :: "env \<Rightarrow> duration" where
  "change_ttl e = minutes (email_change_ttl_minutes (conf e))"

definition current_user :: "auth_user \<Rightarrow> user action" where
  "current_user actor =
     then_do (users_find_by_id (au_id actor)) (\<lambda>u. ok_or u (of_users_error UserNotFound))"

definition send_verification :: "user \<Rightarrow> unit action" where
  "send_verification u =
     then_do (asks verification_ttl) (\<lambda>ttl.
     then_do (tokens_issue (usr_id u) EmailVerification ttl None) (\<lambda>raw.
       send_verification_mail (usr_email u) raw ttl))"

definition resend :: "auth_user \<Rightarrow> unit action" where
  "resend actor =
     then_do (current_user actor) (\<lambda>u.
       if is_email_verified u then ret () else send_verification u)"

definition verify_email :: "str \<Rightarrow> unit action" where
  "verify_email token =
     then_do (tokens_redeem EmailVerification token) (\<lambda>t.
       users_mark_email_verified (tok_user_id t))"

definition request_change :: "auth_user \<Rightarrow> change_email_dto \<Rightarrow> unit action" where
  "request_change actor dto =
     then_do (current_user actor) (\<lambda>u.
     then_do (verify_blocking (ce_current_password dto) (usr_password_hash u)) (\<lambda>password_ok.
       if \<not> password_ok then raise (of_auth_error WrongCurrentPassword)
       else let new_email = normalize_email (ce_new_email dto)
            in if new_email = usr_email u then raise (of_auth_error EmailUnchanged)
               else then_do (users_find_by_email new_email) (\<lambda>taken.
                 if taken \<noteq> None then raise (of_users_error EmailTaken)
                 else then_do (asks change_ttl) (\<lambda>ttl.
                      then_do (tokens_issue (usr_id u) EmailChange ttl (Some new_email)) (\<lambda>raw.
                      seq (send_email_change_confirm new_email raw ttl)
                          (send_email_change_notice (usr_email u) new_email))))))"

definition confirm_change :: "str \<Rightarrow> unit action" where
  "confirm_change token =
     then_do (tokens_redeem EmailChange token) (\<lambda>t.
     then_do (ok_or (tok_new_email t) (of_auth_error InvalidOrExpiredLink)) (\<lambda>new_email.
     seq (users_change_email (tok_user_id t) new_email)
         (tokens_invalidate (tok_user_id t) EmailChange)))"

section \<open>Password reset and invitations\<close>

definition MAX_RESETS_PER_HOUR :: nat where "MAX_RESETS_PER_HOUR = 3"

definition reset_ttl :: "env \<Rightarrow> duration" where
  "reset_ttl e = minutes (password_reset_ttl_minutes (conf e))"

definition invitation_ttl :: "env \<Rightarrow> duration" where
  "invitation_ttl e = hours (email_verification_ttl_hours (conf e))"

definition change_password :: "auth_user \<Rightarrow> change_password_dto \<Rightarrow> unit action" where
  "change_password actor dto =
     then_do (users_find_by_id (au_id actor)) (\<lambda>found.
     then_do (ok_or found (of_users_error UserNotFound)) (\<lambda>u.
     then_do (verify_blocking (cp_current_password dto) (usr_password_hash u)) (\<lambda>password_ok.
       if \<not> password_ok then raise (of_auth_error WrongCurrentPassword)
       else seq (users_set_password (usr_id u) (cp_new_password dto))
                (send_password_changed (usr_email u)))))"

definition forgot :: "str \<Rightarrow> unit action" where
  "forgot email =
     then_do (users_find_by_email email) (\<lambda>found.
       case found of
         None \<Rightarrow> ret ()
       | Some u \<Rightarrow>
           if \<not> usr_is_active u then ret ()
           else then_do (tokens_issued_within (usr_id u) PasswordReset (hours 1)) (\<lambda>recent.
             if recent \<ge> MAX_RESETS_PER_HOUR then ret ()
             else then_do (asks reset_ttl) (\<lambda>ttl.
                  then_do (tokens_issue (usr_id u) PasswordReset ttl None) (\<lambda>raw.
                    send_password_reset (usr_email u) raw ttl))))"

definition invite :: "invite_user_dto \<Rightarrow> user_response action" where
  "invite dto =
     then_do generate_token (\<lambda>unusable_password.
     then_do (create_with_password (iu_email dto) (gt_raw unusable_password) (iu_display_name dto)
                (case iu_role dto of None \<Rightarrow> User | Some r \<Rightarrow> r) False) (\<lambda>u.
     then_do (asks invitation_ttl) (\<lambda>ttl.
     then_do (tokens_issue (usr_id u) PasswordReset ttl None) (\<lambda>raw.
     seq (send_invitation (usr_email u) raw ttl)
         (ret (user_response_from u))))))"

definition reset_password :: "reset_password_dto \<Rightarrow> unit action" where
  "reset_password dto =
     then_do (tokens_redeem PasswordReset (rp_token dto)) (\<lambda>t.
     then_do (users_find_by_id (tok_user_id t)) (\<lambda>found.
     then_do (ok_or (ok_opt_filter usr_is_active found) (of_auth_error InvalidOrExpiredLink)) (\<lambda>u.
     seq (users_set_password (usr_id u) (rp_new_password dto))
     (seq (users_mark_email_verified (usr_id u))
     (seq (tokens_invalidate (usr_id u) PasswordReset)
          (send_password_changed (usr_email u)))))))"

section \<open>Sign-in and sign-up\<close>

definition TWO_FACTOR_PENDING_TTL :: duration where "TWO_FACTOR_PENDING_TTL = minutes 5"

definition is_locked :: "user \<Rightarrow> bool action" where
  "is_locked u =
     (case usr_locked_until u of
        None \<Rightarrow> ret False
      | Some until \<Rightarrow> then_do utc_now (\<lambda>now. ret (until > now)))"

definition login :: "credentials_dto \<Rightarrow> login_response action" where
  "login dto =
     then_do (users_find_by_email (cr_email dto)) (\<lambda>found.
       case found of
         None \<Rightarrow> raise (of_auth_error InvalidCredentials)
       | Some u \<Rightarrow>
           then_do (is_locked u) (\<lambda>locked.
           if locked then raise (of_auth_error InvalidCredentials)
           else then_do (verify_blocking (cr_password dto) (usr_password_hash u)) (\<lambda>password_ok.
           if \<not> password_ok then
             then_do (asks conf) (\<lambda>c.
             seq (users_record_failed_login (usr_id u) (max_failed_login_attempts c)
                    (minutes (account_lockout_minutes c)))
                 (raise (of_auth_error InvalidCredentials)))
           else seq (users_reset_failed_logins (usr_id u))
             (if \<not> usr_is_active u then raise (of_auth_error AccountDisabled)
              else then_do (asks (\<lambda>e. require_verified_email (conf e))) (\<lambda>require_verified.
                if require_verified \<and> \<not> is_email_verified u
                then raise (of_auth_error EmailNotVerified)
                else if usr_totp_enabled u then
                  then_do (tokens_issue (usr_id u) TwoFactorPending TWO_FACTOR_PENDING_TTL None) (\<lambda>pending.
                    ret (two_factor_required pending))
                else then_do (bearer_for u) (\<lambda>t. ret (Authenticated t)))))))"

definition register :: "credentials_dto \<Rightarrow> user_response action" where
  "register dto =
     then_do (create_with_password (cr_email dto) (cr_password dto) None User False) (\<lambda>u.
     then_do (attempt (send_verification u)) (\<lambda>_.
       ret (user_response_from u)))"

definition me :: "auth_user \<Rightarrow> user_response action" where
  "me actor = users_get actor (au_id actor)"

section \<open>Two-factor authentication\<close>

definition require_active_user :: "uuid \<Rightarrow> user action" where
  "require_active_user i =
     then_do (users_find_by_id i) (\<lambda>found.
       ok_or (ok_opt_filter usr_is_active found) (of_users_error UserNotFound))"

definition begin_setup :: "auth_user \<Rightarrow> totp_setup_response action" where
  "begin_setup actor =
     then_do (require_active_user (au_id actor)) (\<lambda>u.
     then_do (asks (\<lambda>e. webauthn_rp_name (conf e))) (\<lambda>issuer.
     then_do (generate_authenticator_secret issuer (usr_email u)) (\<lambda>g.
     seq (users_set_pending_totp_secret (usr_id u) (gas_base32_secret g))
         (ret \<lparr> ts_secret = gas_base32_secret g, ts_qr_code_data_uri = gas_qr_code_data_uri g,
                ts_provisioning_uri = gas_provisioning_uri g \<rparr>))))"

definition confirm_setup :: "auth_user \<Rightarrow> str \<Rightarrow> totp_enabled_response action" where
  "confirm_setup actor code =
     then_do (require_active_user (au_id actor)) (\<lambda>u.
     if usr_totp_enabled u then raise (of_auth_error TotpAlreadyEnabled)
     else then_do (ok_or (usr_totp_secret u) (of_auth_error NoTotpSetupInProgress)) (\<lambda>pending_secret.
     then_do (asks (\<lambda>e. webauthn_rp_name (conf e))) (\<lambda>issuer.
     then_do (verify_code pending_secret issuer (usr_email u) code) (\<lambda>valid.
     if \<not> valid then raise (of_auth_error InvalidTotpCode)
     else seq (users_enable_totp (usr_id u))
          (then_do generate_batch (\<lambda>batch.
           seq (recovery_replace_all (usr_id u) (map gt_hash batch))
               (ret \<lparr> te_recovery_codes = map gt_raw batch \<rparr>)))))))"

definition totp_disable :: "auth_user \<Rightarrow> str \<Rightarrow> unit action" where
  "totp_disable actor current_password =
     then_do (require_active_user (au_id actor)) (\<lambda>u.
     then_do (verify_blocking current_password (usr_password_hash u)) (\<lambda>password_ok.
     if \<not> password_ok then raise (of_auth_error WrongCurrentPassword)
     else seq (users_disable_totp (usr_id u)) (recovery_delete_all (usr_id u))))"

definition verify_login :: "str \<Rightarrow> str \<Rightarrow> token_response action" where
  "verify_login pending_token code =
     then_do (tokens_peek TwoFactorPending pending_token) (\<lambda>claim.
     then_do (users_find_by_id (tok_user_id claim)) (\<lambda>found.
     then_do (ok_or (ok_opt_filter (\<lambda>u. usr_is_active u \<and> usr_totp_enabled u) found)
                (of_auth_error InvalidTotpCode)) (\<lambda>u.
     then_do (ok_or (usr_totp_secret u) (of_auth_error InvalidTotpCode)) (\<lambda>secret.
     then_do (asks (\<lambda>e. webauthn_rp_name (conf e))) (\<lambda>issuer.
     then_do (verify_code secret issuer (usr_email u) code) (\<lambda>app_code.
     then_do (if app_code then ret True
              else then_do (asks (\<lambda>e. secret_hash e code)) (\<lambda>h. recovery_claim (usr_id u) h))
       (\<lambda>code_is_valid.
     if \<not> code_is_valid then raise (of_auth_error InvalidTotpCode)
     else seq (tokens_redeem TwoFactorPending pending_token) (bearer_for u))))))))"

end
