(* ===== verification/QrLogin.thy ===== *)
theory QrLogin
  imports AuthServices
begin

text \<open>
  \<open>src/modules/qr_login\<close>: sign-in with a QR code. A session row goes through the states of
  \<open>qr_status\<close>; every transition is one atomic statement.
\<close>

definition MAX_CODE_ATTEMPTS :: int where "MAX_CODE_ATTEMPTS = 3"
definition POLL_INTERVAL_SECS :: nat where "POLL_INTERVAL_SECS = 2"

fun qr_status_as_str :: "qr_status \<Rightarrow> str" where
  "qr_status_as_str QrPending = ''pending''"
| "qr_status_as_str QrScanned = ''scanned''"
| "qr_status_as_str QrApproved = ''approved''"
| "qr_status_as_str QrRejected = ''rejected''"
| "qr_status_as_str QrConsumed = ''consumed''"

record client_meta =
  cm_ip :: "str option"
  cm_user_agent :: "str option"

record created_session =
  cs_id :: str
  cs_poll_secret :: str
  cs_verification_code :: str
  cs_qr_payload :: str
  cs_qr_svg :: str
  cs_expires_at :: time
  cs_poll_interval_secs :: nat

record poll_response =
  po_status :: str
  po_access_token :: "str option"
  po_token_type :: "str option"
  po_expires_in :: "int option"

definition poll_status :: "str \<Rightarrow> poll_response" where
  "poll_status s = \<lparr> po_status = s, po_access_token = None, po_token_type = None, po_expires_in = None \<rparr>"

record scan_response =
  sc_requester_ip :: "str option"
  sc_requester_agent :: "str option"
  sc_requested_at :: time
  sc_expires_at :: time

section \<open>Repository\<close>

definition qr_cleanup :: "time \<Rightarrow> db \<Rightarrow> unit \<times> db" where
  "qr_cleanup before d =
     ((), d\<lparr>qr_sessions := delete_where (\<lambda>s. qr_expires_at s < before) (qr_sessions d)\<rparr>)"

definition qr_insert :: "qr_session \<Rightarrow> db \<Rightarrow> sqlx_error + unit \<times> db" where
  "qr_insert row d =
     (if exists_where (\<lambda>s. qr_id s = qr_id row) (qr_sessions d) then Inl UniqueViolation
      else Inr ((), d\<lparr>qr_sessions := qr_sessions d @ [row]\<rparr>))"

definition qr_repo_insert ::
  "str \<Rightarrow> str \<Rightarrow> str \<Rightarrow> str option \<Rightarrow> str option \<Rightarrow> time \<Rightarrow> unit action" where
  "qr_repo_insert i shash code requester_ip requester_agent expires_at =
     then_do utc_now (\<lambda>now.
     seq (db_exec (qr_cleanup (now - days 1)))
         (db_stmt (qr_insert \<lparr> qr_id = i, qr_secret_hash = shash, qr_code = code,
            qr_status = QrPending, qr_user_id = None, qr_requester_ip = requester_ip,
            qr_requester_agent = requester_agent, qr_attempts = 0, qr_expires_at = expires_at,
            qr_created_at = now \<rparr>)))"

definition select_qr :: "str \<Rightarrow> db \<Rightarrow> qr_session option" where
  "select_qr i d = List.find (\<lambda>s. qr_id s = i) (qr_sessions d)"

definition qr_repo_find :: "str \<Rightarrow> qr_session option action" where
  "qr_repo_find i = db_query (select_qr i)"

definition qr_update :: "(qr_session \<Rightarrow> bool) \<Rightarrow> (qr_session \<Rightarrow> qr_session) \<Rightarrow> db \<Rightarrow> nat \<times> db" where
  "qr_update p f d =
     (count_where p (qr_sessions d), d\<lparr>qr_sessions := update_where p f (qr_sessions d)\<rparr>)"

definition qr_repo_mark_scanned :: "str \<Rightarrow> uuid \<Rightarrow> bool action" where
  "qr_repo_mark_scanned i user_id =
     then_do utc_now (\<lambda>now.
     then_do (db_exec (qr_update
         (\<lambda>s. qr_id s = i \<and> qr_status s = QrPending \<and> qr_expires_at s > now)
         (\<lambda>s. s\<lparr>qr_status := QrScanned, qr_user_id := Some user_id\<rparr>))) (\<lambda>affected.
       ret (affected = 1)))"

definition qr_repo_resolve :: "str \<Rightarrow> uuid \<Rightarrow> qr_status \<Rightarrow> bool action" where
  "qr_repo_resolve i user_id target =
     then_do utc_now (\<lambda>now.
     then_do (db_exec (qr_update
         (\<lambda>s. qr_id s = i \<and> qr_status s = QrScanned \<and> qr_user_id s = Some user_id \<and> qr_expires_at s > now)
         (\<lambda>s. s\<lparr>qr_status := target\<rparr>))) (\<lambda>affected.
       ret (affected = 1)))"

definition wrong_code_row :: "qr_session \<Rightarrow> qr_session" where
  "wrong_code_row s = s\<lparr>qr_attempts := qr_attempts s + 1,
     qr_status := (if qr_attempts s + 1 \<ge> MAX_CODE_ATTEMPTS then QrRejected else qr_status s)\<rparr>"

definition qr_wrong_code :: "str \<Rightarrow> db \<Rightarrow> qr_status option \<times> db" where
  "qr_wrong_code i d =
     (map_option (\<lambda>s. qr_status (wrong_code_row s))
        (List.find (\<lambda>s. qr_id s = i \<and> qr_status s = QrScanned) (qr_sessions d)),
      d\<lparr>qr_sessions := update_where (\<lambda>s. qr_id s = i \<and> qr_status s = QrScanned)
          wrong_code_row (qr_sessions d)\<rparr>)"

definition qr_repo_record_wrong_code :: "str \<Rightarrow> bool action" where
  "qr_repo_record_wrong_code i =
     then_do (db_exec (qr_wrong_code i)) (\<lambda>status. ret (status = Some QrRejected))"

definition consume_qr :: "str \<Rightarrow> time \<Rightarrow> db \<Rightarrow> uuid option option \<times> db" where
  "consume_qr i now d =
     (let p = (\<lambda>s. qr_id s = i \<and> qr_status s = QrApproved \<and> qr_expires_at s > now)
      in (map_option qr_user_id (List.find p (qr_sessions d)),
          d\<lparr>qr_sessions := update_where p (\<lambda>s. s\<lparr>qr_status := QrConsumed\<rparr>) (qr_sessions d)\<rparr>))"

text \<open>
  The statement returns the \<open>user_id\<close> column as a plain identifier; a \<open>NULL\<close> there does not decode.
\<close>

definition qr_repo_consume :: "str \<Rightarrow> uuid option action" where
  "qr_repo_consume i =
     then_do utc_now (\<lambda>now.
     then_do (db_exec (consume_qr i now)) (\<lambda>r.
       case r of
         None \<Rightarrow> ret None
       | Some None \<Rightarrow> raise (Database OtherSqlxError)
       | Some (Some user_id) \<Rightarrow> ret (Some user_id)))"

section \<open>Service\<close>

definition require_scanned_by :: "qr_session \<Rightarrow> auth_user \<Rightarrow> unit action" where
  "require_scanned_by s actor =
     (if qr_status s = QrScanned \<and> qr_user_id s = Some (au_id actor) then ret ()
      else raise (of_qr_error QrNotFound))"

definition qr_find :: "str \<Rightarrow> qr_session action" where
  "qr_find i = then_do (qr_repo_find i) (\<lambda>s. ok_or s (of_qr_error QrNotFound))"

definition qr_find_live :: "str \<Rightarrow> qr_session action" where
  "qr_find_live i =
     then_do (qr_find i) (\<lambda>s.
     then_do utc_now (\<lambda>now.
       if qr_expires_at s \<le> now then raise (of_qr_error QrExpired) else ret s))"

definition four_digits :: "nat \<Rightarrow> str" where
  "four_digits n = [char_of (48 + n div 1000 mod 10), char_of (48 + n div 100 mod 10),
     char_of (48 + n div 10 mod 10), char_of (48 + n mod 10)]"

definition qr_create :: "client_meta \<Rightarrow> created_session action" where
  "qr_create meta =
     then_do generate_token (\<lambda>id_token.
     then_do generate_token (\<lambda>secret.
     then_do (random_range 10000) (\<lambda>n.
     then_do utc_now (\<lambda>now.
     then_do (asks conf) (\<lambda>c.
       let i = take 22 (gt_raw id_token); code = four_digits n;
           expires_at = now + seconds (qr_ttl_secs c);
           payload = trim_end_slashes (frontend_url c) @ ''/qr-login?session='' @ i
       in seq (qr_repo_insert i (gt_hash secret) code (cm_ip meta) (cm_user_agent meta) expires_at)
          (then_do (asks (\<lambda>e. qr_svg_of e payload)) (\<lambda>svg.
           then_do (ok_or svg (Internal ''qr encoding failed'')) (\<lambda>image.
             ret \<lparr> cs_id = i, cs_poll_secret = gt_raw secret, cs_verification_code = code,
                   cs_qr_payload = payload, cs_qr_svg = image, cs_expires_at = expires_at,
                   cs_poll_interval_secs = POLL_INTERVAL_SECS \<rparr>))))))))"

definition qr_scan :: "auth_user \<Rightarrow> str \<Rightarrow> scan_response action" where
  "qr_scan actor i =
     then_do (qr_find_live i) (\<lambda>s.
     seq (if qr_status s = QrPending then
            then_do (qr_repo_mark_scanned i (au_id actor)) (\<lambda>marked.
              if marked then ret ()
              else then_do (qr_find_live i) (\<lambda>now.
                if qr_user_id now \<noteq> Some (au_id actor) then raise (of_qr_error AlreadyScanned)
                else ret ()))
          else if qr_status s = QrScanned then
            (if qr_user_id s = Some (au_id actor) then ret () else raise (of_qr_error AlreadyScanned))
          else raise (of_qr_error QrNotFound))
     (ret \<lparr> sc_requester_ip = qr_requester_ip s, sc_requester_agent = qr_requester_agent s,
            sc_requested_at = qr_created_at s, sc_expires_at = qr_expires_at s \<rparr>))"

definition qr_approve :: "auth_user \<Rightarrow> str \<Rightarrow> str \<Rightarrow> unit action" where
  "qr_approve actor i code =
     then_do (qr_find_live i) (\<lambda>s.
     seq (require_scanned_by s actor)
     (if qr_code s \<noteq> code then
        then_do (qr_repo_record_wrong_code i) (\<lambda>cancelled.
          raise (of_qr_error (if cancelled then TooManyAttempts else WrongCode)))
      else then_do (qr_repo_resolve i (au_id actor) QrApproved) (\<lambda>resolved.
        if \<not> resolved then raise (of_qr_error QrNotFound) else ret ())))"

definition qr_reject :: "auth_user \<Rightarrow> str \<Rightarrow> unit action" where
  "qr_reject actor i =
     then_do (qr_find_live i) (\<lambda>s.
     seq (require_scanned_by s actor)
     (then_do (qr_repo_resolve i (au_id actor) QrRejected) (\<lambda>_. ret ())))"

definition collect_token :: "str \<Rightarrow> poll_response action" where
  "collect_token i =
     then_do (qr_repo_consume i) (\<lambda>consumed.
       case consumed of
         None \<Rightarrow> ret (poll_status ''consumed'')
       | Some user_id \<Rightarrow>
           then_do (users_find_by_id user_id) (\<lambda>found.
           then_do (ok_or (ok_opt_filter usr_is_active found) (of_qr_error QrNotFound)) (\<lambda>u.
           then_do (asks conf) (\<lambda>c.
             if require_verified_email c \<and> \<not> is_email_verified u
             then raise (of_qr_error QrEmailNotVerified)
             else then_do (issue_for u) (\<lambda>access_token.
               ret \<lparr> po_status = ''approved'', po_access_token = Some access_token,
                     po_token_type = Some ''Bearer'', po_expires_in = Some (jwt_ttl_secs c) \<rparr>)))))"

definition qr_poll :: "str \<Rightarrow> str option \<Rightarrow> poll_response action" where
  "qr_poll i secret =
     then_do (qr_find i) (\<lambda>s.
     then_do (asks (\<lambda>e. map_option (secret_hash e) secret)) (\<lambda>h.
       if h \<noteq> Some (qr_secret_hash s) then raise (of_qr_error QrNotFound)
       else if qr_status s = QrConsumed then ret (poll_status ''consumed'')
       else if qr_status s = QrRejected then ret (poll_status ''rejected'')
       else then_do utc_now (\<lambda>now.
         if qr_expires_at s \<le> now then ret (poll_status ''expired'')
         else if qr_status s = QrApproved then collect_token i
         else ret (poll_status (qr_status_as_str (qr_status s))))))"

section \<open>Consuming an approval\<close>

definition qr_unique :: "db \<Rightarrow> bool" where
  "qr_unique d \<longleftrightarrow> distinct (map qr_id (qr_sessions d))"

definition qr_collectable :: "db \<Rightarrow> str \<Rightarrow> bool" where
  "qr_collectable d i \<longleftrightarrow> (\<exists>s \<in> set (qr_sessions d). qr_id s = i \<and> qr_status s = QrApproved)"

lemma consume_qr_effect:
  assumes "consume_qr i now d = (r, d')"
  shows "qr_unique d \<Longrightarrow> qr_unique d'"
    and "qr_collectable d' j \<Longrightarrow> qr_collectable d j"
    and "r = Some u \<Longrightarrow> qr_unique d \<Longrightarrow> qr_collectable d i \<and> \<not> qr_collectable d' i"
proof -
  let ?p = "\<lambda>s. qr_id s = i \<and> qr_status s = QrApproved \<and> qr_expires_at s > now"
  from assms have r: "r = map_option qr_user_id (List.find ?p (qr_sessions d))"
    and d': "d' = d\<lparr>qr_sessions := update_where ?p (\<lambda>s. s\<lparr>qr_status := QrConsumed\<rparr>) (qr_sessions d)\<rparr>"
    by (auto simp: consume_qr_def Let_def)
  show "qr_unique d \<Longrightarrow> qr_unique d'"
    by (simp add: d' qr_unique_def map_update_where_same)
  show "qr_collectable d' j \<Longrightarrow> qr_collectable d j"
    by (auto simp: d' qr_collectable_def elim!: in_update_whereE split: if_splits)
  assume "r = Some u" and uniq: "qr_unique d"
  then obtain s where s: "s \<in> set (qr_sessions d)" "?p s"
    using r by (auto dest!: find_SomeD)
  then show "qr_collectable d i \<and> \<not> qr_collectable d' i"
    using uniq update_where_spends [of qr_id "qr_sessions d" s i
        "\<lambda>s. qr_status s = QrApproved \<and> qr_expires_at s > now" "\<lambda>s. s\<lparr>qr_status := QrConsumed\<rparr>"
        "\<lambda>s. qr_status s = QrApproved"]
    by (auto simp: d' qr_unique_def qr_collectable_def)
qed

interpretation approval: single_use qr_unique qr_collectable consume_qr
  by unfold_locales (use consume_qr_effect in blast)+

end
