(* ===== verification/RateLimit.thy ===== *)
theory RateLimit
  imports Schema "HOL-Library.AList"
begin

text \<open>
  \<open>src/common/net.rs\<close> and \<open>src/common/middleware/rate_limit.rs\<close>: the client address and the
  fixed-window limiter. The hash map of the limiter is an association list with one entry per
  client; an IP address is an opaque value and its parser a parameter.
\<close>

section \<open>Headers and the client address\<close>

type_synonym headers = "(str \<times> str) list"

text \<open>\<open>HeaderValue::to_str\<close> accepts visible ASCII, spaces and tabs only.\<close>

definition header_to_str :: "str \<Rightarrow> str option" where
  "header_to_str v =
     (if list_all (\<lambda>c. (32 \<le> ascii_code c \<and> ascii_code c < 127) \<or> ascii_code c = 9) v
      then Some v else None)"

definition header_get :: "headers \<Rightarrow> str \<Rightarrow> str option" where
  "header_get hs name = Option.bind (map_of hs name) header_to_str"

definition client_ip :: "(str \<Rightarrow> 'ip option) \<Rightarrow> headers \<Rightarrow> 'ip \<Rightarrow> bool \<Rightarrow> 'ip" where
  "client_ip parse hs peer trust_proxy =
     (if trust_proxy
      then (case header_get hs ''x-forwarded-for'' of
              None \<Rightarrow> peer
            | Some forwarded \<Rightarrow>
                (case parse (trim (last (split_on (CHR '','') forwarded))) of
                   None \<Rightarrow> peer
                 | Some ip \<Rightarrow> ip))
      else peer)"

text \<open>
  Only the entry the trusted proxy appended counts: whatever the client put in front of it is
  ignored.
\<close>

lemma client_ip_last_hop:
  assumes "header_get hs ''x-forwarded-for'' = Some (spoofed @ CHR '','' # hop)"
    and "CHR '','' \<notin> set hop" and "parse (trim hop) = Some ip"
  shows "client_ip parse hs peer True = ip"
  using assms by (simp add: client_ip_def last_split_on_snoc)

lemma client_ip_untrusted: "client_ip parse hs peer False = peer"
  by (simp add: client_ip_def)

section \<open>The limiter\<close>

definition MAX_TRACKED_CLIENTS :: nat where "MAX_TRACKED_CLIENTS = 10000"

record rate_limiter =
  max_requests :: "32 word"
  window :: duration

type_synonym 'ip hits = "('ip \<times> time \<times> 32 word) list"

text \<open>\<open>Instant::duration_since\<close> saturates at zero.\<close>

definition duration_since :: "time \<Rightarrow> time \<Rightarrow> duration" where
  "duration_since now started = max 0 (now - started)"

definition allow :: "rate_limiter \<Rightarrow> 'ip \<Rightarrow> time \<Rightarrow> 'ip hits \<Rightarrow> bool \<times> 'ip hits" where
  "allow l client now hits =
     (let hits = (if length hits \<ge> MAX_TRACKED_CLIENTS
                  then filter (\<lambda>(_, started, _). duration_since now started < window l) hits
                  else hits);
          entry = (case map_of hits client of None \<Rightarrow> (now, 0) | Some en \<Rightarrow> en);
          entry = (if duration_since now (fst entry) \<ge> window l then (now, 0) else entry);
          entry = (fst entry, snd entry + 1)
      in (snd entry \<le> max_requests l, AList.update client entry hits))"

definition tracked_clients :: "'ip hits \<Rightarrow> nat" where
  "tracked_clients hits = length hits"

definition enforce ::
  "rate_limiter \<Rightarrow> (str \<Rightarrow> 'ip option) \<Rightarrow> headers \<Rightarrow> 'ip option \<Rightarrow> 'ip \<Rightarrow> bool \<Rightarrow> time \<Rightarrow> 'ip hits
     \<Rightarrow> (app_error + unit) \<times> 'ip hits" where
  "enforce l parse hs connect_info unspecified trust_proxy now hits =
     (let peer = (case connect_info of Some p \<Rightarrow> p | None \<Rightarrow> unspecified);
          client = client_ip parse hs peer trust_proxy
      in case allow l client now hits of
           (True, hits') \<Rightarrow> (Inr (), hits')
         | (False, hits') \<Rightarrow> (Inl TooManyRequests, hits'))"

fun allow_all :: "rate_limiter \<Rightarrow> ('ip \<times> time) list \<Rightarrow> 'ip hits \<Rightarrow> ('ip \<times> bool) list" where
  "allow_all l [] hits = []"
| "allow_all l ((c, t) # rest) hits =
     (case allow l c t hits of (ok, hits') \<Rightarrow> (c, ok) # allow_all l rest hits')"

subsection \<open>At most max\_requests per window, exactly\<close>

definition requests_seen :: "'ip hits \<Rightarrow> 'ip \<Rightarrow> 32 word" where
  "requests_seen hits c = (case map_of hits c of None \<Rightarrow> 0 | Some (_, n) \<Rightarrow> n)"

definition in_window :: "rate_limiter \<Rightarrow> time \<Rightarrow> 'ip hits \<Rightarrow> bool" where
  "in_window l t0 hits \<longleftrightarrow> distinct (map fst hits) \<and> (\<forall>(_, started, _) \<in> set hits. t0 \<le> started)"

lemma set_alist_update: "set (AList.update k v xs) \<subseteq> insert (k, v) (set xs)"
  by (induction xs) auto

lemma allow_in_window:
  assumes "in_window l t0 hits" and "t0 \<le> t" and "t < t0 + window l" and "0 < window l"
    and "allow l c t hits = (ok, hits')"
  shows "in_window l t0 hits'"
    and "requests_seen hits' c = requests_seen hits c + 1"
    and "j \<noteq> c \<Longrightarrow> requests_seen hits' j = requests_seen hits j"
    and "ok \<longleftrightarrow> requests_seen hits c + 1 \<le> max_requests l"
proof -
  let ?P = "\<lambda>(_, started, _). duration_since t started < window l"
  define kept where "kept = (if length hits \<ge> MAX_TRACKED_CLIENTS then filter ?P hits else hits)"
  have fresh: "duration_since t s < window l" if "t0 \<le> s" for s
    using that assms(3,4) by (auto simp: duration_since_def)
  have young: "t0 \<le> s" if "(k, s, n) \<in> set hits" for k s n
    using assms(1) that by (auto simp: in_window_def)
  have kept: "kept = hits"
    using fresh young by (auto simp: kept_def filter_id_conv)
  define en where "en = (case map_of hits c of None \<Rightarrow> (t, 0) | Some en \<Rightarrow> en)"
  have "t0 \<le> fst en"
    using young assms(2) by (auto simp: en_def split: option.split dest!: map_of_SomeD)
  then have d: "duration_since t (fst en) < window l" by (rule fresh)
  have seen: "snd en = requests_seen hits c"
    by (auto simp: en_def requests_seen_def split: option.split)
  have res: "(ok, hits') = (snd en + 1 \<le> max_requests l, AList.update c (fst en, snd en + 1) hits)"
    using assms(5) d kept unfolding allow_def Let_def kept_def en_def by (auto simp: not_le)
  show "in_window l t0 hits'"
    using assms(1) res \<open>t0 \<le> fst en\<close>
    by (auto simp: in_window_def distinct_update dest!: subsetD [OF set_alist_update])
  show "requests_seen hits' c = requests_seen hits c + 1"
    using res seen by (simp add: requests_seen_def update_conv')
  show "j \<noteq> c \<Longrightarrow> requests_seen hits' j = requests_seen hits j"
    using res by (simp add: requests_seen_def update_conv')
  show "ok \<longleftrightarrow> requests_seen hits c + 1 \<le> max_requests l"
    using res seen by simp
qed

abbreviation from_client :: "'ip \<Rightarrow> ('ip \<times> time) list \<Rightarrow> nat" where
  "from_client c reqs \<equiv> length (filter (\<lambda>(j, _). j = c) reqs)"

abbreviation admitted :: "'ip \<Rightarrow> ('ip \<times> bool) list \<Rightarrow> nat" where
  "admitted c answers \<equiv> length (filter (\<lambda>(j, ok). j = c \<and> ok) answers)"

lemma allow_all_exact:
  assumes "in_window l t0 hits" and "0 < window l"
    and "\<forall>(_, t) \<in> set reqs. t0 \<le> t \<and> t < t0 + window l"
    and "unat (requests_seen hits c) + from_client c reqs < 2 ^ 32"
  shows "admitted c (allow_all l reqs hits)
       = min (from_client c reqs) (unat (max_requests l) - unat (requests_seen hits c))"
  using assms
proof (induction reqs arbitrary: hits)
  case (Cons req rest)
  obtain j t where req: "req = (j, t)" by fastforce
  obtain ok hits' where a: "allow l j t hits = (ok, hits')" by fastforce
  from Cons.prems req have t: "t0 \<le> t" "t < t0 + window l" by auto
  note step = allow_in_window [OF Cons.prems(1) t Cons.prems(2) a]
  show ?case
  proof (cases "j = c")
    case True
    have "unat (requests_seen hits c) + 1 < 2 ^ 32" using Cons.prems(4) True req by simp
    then have u: "unat (requests_seen hits' c) = unat (requests_seen hits c) + 1"
      using step(2) True by (simp add: unat_word_ariths)
    have "ok \<longleftrightarrow> unat (requests_seen hits c) + 1 \<le> unat (max_requests l)"
      using step(2,4) True u by (simp add: word_le_nat_alt)
    moreover have "admitted c (allow_all l rest hits')
        = min (from_client c rest) (unat (max_requests l) - unat (requests_seen hits' c))"
      using Cons.prems True req u by (intro Cons.IH step(1)) auto
    ultimately show ?thesis using a req True u by auto
  next
    case False
    then have same: "requests_seen hits' c = requests_seen hits c" using step(3) by metis
    have "admitted c (allow_all l rest hits')
        = min (from_client c rest) (unat (max_requests l) - unat (requests_seen hits' c))"
      using Cons.prems False req same by (intro Cons.IH step(1)) auto
    with a req False same show ?thesis by simp
  qed
qed simp

text \<open>A client whose window has passed starts again from zero.\<close>

lemma allow_after_window:
  assumes "distinct (map fst hits)" and "map_of hits c = Some (started, n)"
    and "window l \<le> t - started" and "0 < window l" and "1 \<le> max_requests l"
  shows "fst (allow l c t hits)"
proof -
  define kept where "kept =
    (if length hits \<ge> MAX_TRACKED_CLIENTS
     then filter (\<lambda>(_, started, _). duration_since t started < window l) hits else hits)"
  define en where "en = (case map_of kept c of None \<Rightarrow> (t, 0) | Some en \<Rightarrow> en)"
  have "snd (if duration_since t (fst en) \<ge> window l then (t, 0) else en) = 0"
  proof (cases "map_of kept c")
    case (Some v)
    then have "(c, v) \<in> set hits" by (auto simp: kept_def split: if_splits dest: map_of_SomeD)
    then have "v = (started, n)" using assms(1,2) by (simp add: map_of_eq_Some_iff)
    then show ?thesis using Some assms(3,4) by (auto simp: en_def duration_since_def)
  qed (simp add: en_def)
  then show ?thesis
    using assms(5) unfolding allow_def Let_def kept_def en_def by simp
qed

end
