(* ===== verification/Extractors.thy ===== *)
theory Extractors
  imports ApiKeys QrLogin RateLimit
begin

text \<open>
  \<open>src/common/security/{auth_user,admin_user,session_user}.rs\<close> and \<open>src/common/extractors\<close>: how a
  request becomes an authenticated caller, and how its body and query are validated.

  The trait objects \<open>SessionVerifier\<close> and \<open>ApiKeyVerifier\<close> are the interface between the extractors
  and the features behind them; the locale \<open>verifier\<close> states what they promise.
\<close>

section \<open>Requests\<close>

datatype http_method = GET | HEAD | OPTIONS | TRACE | POST | PUT | PATCH | DELETE | CONNECT

definition is_safe :: "http_method \<Rightarrow> bool" where
  "is_safe m \<longleftrightarrow> m \<in> {GET, HEAD, OPTIONS, TRACE}"

record request =
  rq_method :: http_method
  rq_headers :: headers
  rq_peer :: "str option"

type_synonym 'd body = "str + 'd"

definition X_API_KEY :: str where "X_API_KEY = ''x-api-key''"

section \<open>Callers\<close>

definition presented_credential :: "headers \<Rightarrow> security_error + str" where
  "presented_credential hs =
     (case header_get hs X_API_KEY of
        Some key \<Rightarrow> Inr (trim key)
      | None \<Rightarrow>
          (case header_get hs ''authorization'' of
             None \<Rightarrow> Inl MissingAuthorizationHeader
           | Some h \<Rightarrow>
               (case strip_prefix h ''Bearer '' of
                  None \<Rightarrow> Inl MalformedBearerToken
                | Some t \<Rightarrow> Inr t)))"

definition auth_user_from_request :: "request \<Rightarrow> auth_user action" where
  "auth_user_from_request rq =
     (case presented_credential (rq_headers rq) of
        Inl x \<Rightarrow> raise (of_security_error x)
      | Inr presented \<Rightarrow>
          if starts_with presented API_KEY_PREFIX then
            then_do (keys_authenticate presented) (\<lambda>u.
              let read_only = (au_credential u = ApiKeyCred ReadScope);
                  safe_method = is_safe (rq_method rq)
              in if read_only \<and> \<not> safe_method then raise (of_security_error ApiKeyReadOnly) else ret u)
          else
            then_do (asks (\<lambda>e. jwt_secret (conf e))) (\<lambda>secret.
            then_do (jwt_verify presented secret) (\<lambda>claims.
              session_verify (sub claims) (tv claims))))"

definition admin_user_from_request :: "request \<Rightarrow> auth_user action" where
  "admin_user_from_request rq =
     then_do (auth_user_from_request rq) (\<lambda>u.
       if is_admin (au_role u) then ret u else raise (of_security_error AdminRequired))"

definition session_user_from_request :: "request \<Rightarrow> auth_user action" where
  "session_user_from_request rq =
     then_do (auth_user_from_request rq) (\<lambda>u.
       if au_credential u = Session then ret u else raise (of_security_error SessionRequired))"

definition client_meta_from_request :: "request \<Rightarrow> client_meta action" where
  "client_meta_from_request rq =
     then_do (asks (\<lambda>e. map_option (\<lambda>peer.
         client_ip (parse_ip e) (rq_headers rq) peer (trust_proxy_headers (conf e))) (rq_peer rq))) (\<lambda>ip.
       ret \<lparr> cm_ip = ip,
             cm_user_agent = map_option (take 200) (header_get (rq_headers rq) ''user-agent'') \<rparr>)"

section \<open>Validated bodies and queries\<close>

definition validated :: "(env \<Rightarrow> 'd \<Rightarrow> validation_errors) \<Rightarrow> 'd body \<Rightarrow> 'd action" where
  "validated validate body =
     (case body of
        Inl rejection \<Rightarrow> raise (BadRequest rejection)
      | Inr v \<Rightarrow> then_do (asks (\<lambda>e. validate e v)) (\<lambda>errs.
          if errs = [] then ret v else raise (Validation errs)))"

lemma validated_InrE [elim!]:
  assumes "validated validate body e w = (Inr v, w')"
  obtains "body = Inr v" and "validate e v = []" and "w' = w"
  using assms by (auto simp: validated_def split: sum.splits if_splits)

section \<open>What a verifier promises\<close>

definition live_caller :: "db \<Rightarrow> auth_user \<Rightarrow> bool" where
  "live_caller d u \<longleftrightarrow>
     (\<exists>row \<in> set (users d). usr_id row = au_id u \<and> usr_role row = au_role u
        \<and> user_live row \<and> usr_is_active row)"

locale verifier =
  fixes verify :: "'c \<Rightarrow> auth_user action"
  assumes verify_live: "verify c e w = (Inr u, w') \<Longrightarrow> live_caller (db w) u"
    and verify_users: "verify c e w = (v, w') \<Longrightarrow> users (db w') = users (db w)"
begin

text \<open>A deactivated or deleted account is refused on the very next request.\<close>

lemma inactive_refused:
  assumes "\<forall>row \<in> set (users (db w)). usr_id row = i \<longrightarrow> \<not> (user_live row \<and> usr_is_active row)"
    and "verify c e w = (Inr u, w')"
  shows "au_id u \<noteq> i"
  using assms verify_live [OF assms(2)] by (auto simp: live_caller_def)

text \<open>The role is the one stored now, not the one at sign-in.\<close>

lemma role_is_current:
  assumes "distinct (map usr_id (users (db w)))" and "select_by_id (au_id u) (db w) = Some row"
    and "verify c e w = (Inr u, w')"
  shows "au_role u = usr_role row"
proof -
  obtain r where "r \<in> set (users (db w))" "usr_id r = au_id u" "usr_role r = au_role u"
    using verify_live [OF assms(3)] by (auto simp: live_caller_def)
  moreover have "row \<in> set (users (db w))" "usr_id row = au_id u"
    using assms(2) by (auto simp: select_by_id_def dest!: find_SomeD)
  ultimately show ?thesis using distinct_key_unique [OF assms(1)] by metis
qed

lemma keeps_verify: "(\<And>d d'. users d' = users d \<Longrightarrow> I d \<Longrightarrow> I d') \<Longrightarrow> keeps_db I (verify c)"
  using verify_users by (metis keepsI)

end

lemma users_find_by_id_InrE [elim!]:
  assumes "users_find_by_id i e w = (Inr v, w')"
  obtains "v = select_by_id i (db w)" and "w' = w\<lparr>tick := Suc (tick w)\<rparr>"
  using assms by (auto simp: users_find_by_id_def users_repo_find_by_id_def)

lemma select_by_id_SomeD:
  "select_by_id i d = Some u \<Longrightarrow> u \<in> set (users d) \<and> usr_id u = i \<and> user_live u"
  by (auto simp: select_by_id_def dest!: find_SomeD)

lemma session_verify_InrE:
  assumes "session_verify i v e w = (Inr u, w')"
  obtains row where "select_by_id i (db w) = Some row" and "usr_is_active row"
    and "usr_token_version row = v" and "u = auth_user_session (usr_id row) (usr_role row)"
    and "w' = w\<lparr>tick := Suc (tick w)\<rparr>"
  using assms by (auto simp: session_verify_def split: if_splits)

lemma session_verify_db: "session_verify i v e w = (r, w') \<Longrightarrow> db w' = db w"
  by (auto simp: session_verify_def users_find_by_id_def users_repo_find_by_id_def run_simps
      split: if_splits option.splits)

lemma session_verify_live:
  "session_verify i v e w = (Inr u, w') \<Longrightarrow> live_caller (db w) u"
  by (erule session_verify_InrE) (auto simp: live_caller_def auth_user_session_def dest!: select_by_id_SomeD)

interpretation session: verifier "\<lambda>(i, v). session_verify i v"
  by unfold_locales (auto dest: session_verify_live session_verify_db)

lemma keys_authenticate_InrE:
  assumes "keys_authenticate presented e w = (Inr u, w')"
  obtains k row where
    "List.find (\<lambda>k. key_key_hash k = secret_hash e presented) (api_keys (db w)) = Some k"
    and "is_usable k (clock e (tick w))"
    and "select_by_id (key_user_id k) (db w) = Some row" and "usr_is_active row"
    and "u = \<lparr> au_id = usr_id row, au_role = usr_role row, au_credential = ApiKeyCred (key_scope k) \<rparr>"
  using assms by (auto simp: keys_authenticate_def keys_repo_find_by_hash_def keys_repo_touch_def)

lemma keys_authenticate_users: "keys_authenticate presented e w = (v, w') \<Longrightarrow> users (db w') = users (db w)"
  by (auto simp: keys_authenticate_def keys_repo_find_by_hash_def keys_repo_touch_def touch_key_def
      users_find_by_id_def users_repo_find_by_id_def run_simps ok_or_def
      split: if_splits option.splits)

lemma keys_authenticate_live:
  "keys_authenticate presented e w = (Inr u, w') \<Longrightarrow> live_caller (db w) u"
  by (erule keys_authenticate_InrE) (auto simp: live_caller_def dest!: select_by_id_SomeD)

interpretation key: verifier keys_authenticate
  by unfold_locales (fact keys_authenticate_live keys_authenticate_users)+

section \<open>The extractors\<close>

lemma jwt_verify_cases:
  obtains x w1 where "jwt_verify t s e w = (Inl x, w1)" and "db w1 = db w"
  | c w1 where "jwt_verify t s e w = (Inr c, w1)" and "db w1 = db w"
    and "jwt_decode e (timestamp (clock e (tick w))) t s = Some c"
  by (cases "jwt_decode e (timestamp (clock e (tick w))) t s") (auto simp: jwt_verify_def run_simps)

lemma auth_user_from_request_InrE:
  assumes "auth_user_from_request rq e w = (Inr u, w')"
  obtains (key) presented where "presented_credential (rq_headers rq) = Inr presented"
      and "starts_with presented API_KEY_PREFIX" and "keys_authenticate presented e w = (Inr u, w')"
      and "au_credential u = ApiKeyCred ReadScope \<Longrightarrow> is_safe (rq_method rq)"
  | (session) presented claims where "presented_credential (rq_headers rq) = Inr presented"
      and "\<not> starts_with presented API_KEY_PREFIX"
      and "jwt_decode e (timestamp (clock e (tick w))) presented (jwt_secret (conf e)) = Some claims"
      and "session_verify (sub claims) (tv claims) e (w\<lparr>tick := Suc (tick w)\<rparr>) = (Inr u, w')"
  using assms
  by (auto simp: auth_user_from_request_def jwt_verify_def Let_def split: sum.splits if_splits)

lemma auth_user_from_request_live:
  "auth_user_from_request rq e w = (Inr u, w') \<Longrightarrow> live_caller (db w) u"
  by (erule auth_user_from_request_InrE) (auto dest: keys_authenticate_live session_verify_live)

lemma auth_user_from_request_users:
  assumes "auth_user_from_request rq e w = (v, w')"
  shows "users (db w') = users (db w)"
proof (cases "presented_credential (rq_headers rq)")
  case (Inr presented)
  show ?thesis
  proof (cases "starts_with presented API_KEY_PREFIX")
    case True
    with assms Inr show ?thesis
      by (auto simp: auth_user_from_request_def then_do_run Let_def
          split: prod.splits sum.splits if_splits dest: keys_authenticate_users)
  next
    case False
    with assms Inr show ?thesis
      by (cases rule: jwt_verify_cases [of presented "jwt_secret (conf e)" e w])
         (auto simp: auth_user_from_request_def then_do_run dest!: session_verify_db)
  qed
qed (use assms in \<open>simp add: auth_user_from_request_def\<close>)

interpretation caller: verifier auth_user_from_request
  by unfold_locales (fact auth_user_from_request_live auth_user_from_request_users)+

lemma admin_user_from_request_InrE:
  assumes "admin_user_from_request rq e w = (Inr u, w')"
  obtains "auth_user_from_request rq e w = (Inr u, w')" and "au_role u = Admin"
  using assms by (auto simp: admin_user_from_request_def is_admin_def split: if_splits)

lemma session_user_from_request_InrE:
  assumes "session_user_from_request rq e w = (Inr u, w')"
  obtains "auth_user_from_request rq e w = (Inr u, w')" and "au_credential u = Session"
  using assms by (auto simp: session_user_from_request_def split: if_splits)

interpretation admin: verifier admin_user_from_request
  by unfold_locales
     (auto elim!: admin_user_from_request_InrE session_user_from_request_InrE
        dest: auth_user_from_request_live,
      auto simp: admin_user_from_request_def then_do_run
        split: prod.splits sum.splits if_splits dest: auth_user_from_request_users)

interpretation interactive: verifier session_user_from_request
  by unfold_locales
     (auto elim!: admin_user_from_request_InrE session_user_from_request_InrE
        dest: auth_user_from_request_live,
      auto simp: session_user_from_request_def then_do_run
        split: prod.splits sum.splits if_splits dest: auth_user_from_request_users)

end
