(* ===== verification/OAuth.thy ===== *)
theory OAuth
  imports AuthServices
begin

text \<open>
  \<open>src/modules/oauth\<close>: sign-in, sign-up and linking with an external provider (authorization code
  flow with PKCE). The HTTP calls and the URL library are parameters; everything the code decides on
  their answers is here. The callback reports a failure as a reason code, so its programs
  have \<open>str\<close> as error type.
\<close>

section \<open>Providers\<close>

definition ALL_PROVIDERS :: "provider list" where "ALL_PROVIDERS = [Google, Github]"

fun provider_as_str :: "provider \<Rightarrow> str" where
  "provider_as_str Google = ''google''"
| "provider_as_str Github = ''github''"

fun display_name :: "provider \<Rightarrow> str" where
  "display_name Google = ''Google''"
| "display_name Github = ''GitHub''"

definition provider_parse :: "str \<Rightarrow> provider option" where
  "provider_parse name = List.find (\<lambda>p. provider_as_str p = name) ALL_PROVIDERS"

fun scopes :: "provider \<Rightarrow> str" where
  "scopes Google = ''openid email profile''"
| "scopes Github = ''read:user user:email''"

section \<open>Data\<close>

record provider_profile =
  pp_provider_user_id :: str
  pp_email :: "str option"
  pp_email_verified :: bool
  pp_name :: "str option"

record provider_info =
  pi_provider :: provider
  pi_name :: str
  pi_login_url :: str

definition provider_info_new :: "provider \<Rightarrow> provider_info" where
  "provider_info_new p = \<lparr> pi_provider = p, pi_name = display_name p,
     pi_login_url = ''/api/v1/auth/oauth/'' @ provider_as_str p @ ''/login'' \<rparr>"

record identity_response =
  ir_provider :: provider
  ir_email :: "str option"
  ir_linked_at :: time

definition identity_response_from :: "oauth_identity \<Rightarrow> identity_response" where
  "identity_response_from i =
     \<lparr> ir_provider = oid_provider i, ir_email = oid_email i, ir_linked_at = oid_created_at i \<rparr>"

record callback_query =
  cq_code :: "str option"
  cq_state :: "str option"
  cq_error :: "str option"

datatype callback_outcome = LoggedIn str str | Linked provider str | Failed str

section \<open>The provider client\<close>

fun json_get :: "json \<Rightarrow> str \<Rightarrow> json option" where
  "json_get (JObject members) k = map_of members k"
| "json_get _ k = None"

fun as_str :: "json \<Rightarrow> str option" where
  "as_str (JString s) = Some s"
| "as_str _ = None"

fun as_bool :: "json \<Rightarrow> bool option" where
  "as_bool (JBool b) = Some b"
| "as_bool _ = None"

fun as_array :: "json \<Rightarrow> json list option" where
  "as_array (JArray xs) = Some xs"
| "as_array _ = None"

fun as_i64 :: "json \<Rightarrow> int option" where
  "as_i64 (JInt n) = (if - (2 ^ 63) \<le> n \<and> n < 2 ^ 63 then Some n else None)"
| "as_i64 _ = None"

definition get_str :: "json \<Rightarrow> str \<Rightarrow> str option" where
  "get_str body k = Option.bind (json_get body k) as_str"

definition provider_settings :: "config \<Rightarrow> provider \<Rightarrow> oauth_provider_config option" where
  "provider_settings c p = (case p of Google \<Rightarrow> oauth_google c | Github \<Rightarrow> oauth_github c)"

definition is_enabled :: "config \<Rightarrow> provider \<Rightarrow> bool" where
  "is_enabled c p \<longleftrightarrow> provider_settings c p \<noteq> None"

definition enabled :: "config \<Rightarrow> provider list" where
  "enabled c = filter (is_enabled c) ALL_PROVIDERS"

definition redirect_uri :: "config \<Rightarrow> provider \<Rightarrow> str" where
  "redirect_uri c p = public_api_url c @ ''/api/v1/auth/oauth/'' @ provider_as_str p @ ''/callback''"

definition authorize_params :: "config \<Rightarrow> oauth_provider_config \<Rightarrow> provider \<Rightarrow> str \<Rightarrow> str \<Rightarrow> (str \<times> str) list" where
  "authorize_params c settings p state code_challenge =
     [(''response_type'', ''code''), (''client_id'', client_id settings),
      (''redirect_uri'', redirect_uri c p), (''scope'', scopes p), (''state'', state),
      (''code_challenge'', code_challenge), (''code_challenge_method'', ''S256''),
      (case p of Google \<Rightarrow> (''prompt'', ''select_account'') | Github \<Rightarrow> (''allow_signup'', ''true''))]"

definition authorize_url :: "env \<Rightarrow> provider \<Rightarrow> str \<Rightarrow> str \<Rightarrow> oauth_error + str" where
  "authorize_url e p state code_challenge =
     (case provider_settings (conf e) p of
        None \<Rightarrow> Inl ProviderUnavailable
      | Some settings \<Rightarrow>
          (case url_with_query e (authorize_endpoint settings)
                  (authorize_params (conf e) settings p state code_challenge) of
             None \<Rightarrow> Inl (ProviderError ''bad authorize URL'')
           | Some url \<Rightarrow> Inr url))"

definition is_success :: "nat \<Rightarrow> bool" where
  "is_success status \<longleftrightarrow> 200 \<le> status \<and> status < 300"

definition client_exchange_code :: "provider \<Rightarrow> str \<Rightarrow> str \<Rightarrow> (oauth_error + str) action" where
  "client_exchange_code p code code_verifier =
     then_do (asks conf) (\<lambda>c.
       case provider_settings c p of
         None \<Rightarrow> ret (Inl ProviderUnavailable)
       | Some settings \<Rightarrow>
           then_do (draw (\<lambda>e n. http_post_form e n (token_url settings)
             [(''grant_type'', ''authorization_code''), (''code'', code),
              (''redirect_uri'', redirect_uri c p), (''client_id'', client_id settings),
              (''client_secret'', client_secret settings), (''code_verifier'', code_verifier)])) (\<lambda>reply.
           ret (case reply of
             None \<Rightarrow> Inl (ProviderError ''token request failed'')
           | Some (status, None) \<Rightarrow> Inl (ProviderError ''token response is not JSON'')
           | Some (status, Some body) \<Rightarrow>
               (case get_str body ''access_token'' of
                  Some token \<Rightarrow> if is_success status then Inr token
                    else Inl (ProviderError ''token exchange rejected'')
                | None \<Rightarrow> Inl (ProviderError ''token exchange rejected'')))))"

definition get_json :: "str \<Rightarrow> str \<Rightarrow> (oauth_error + json) action" where
  "get_json url access_token =
     then_do (draw (\<lambda>e n. http_get_bearer e n url access_token)) (\<lambda>reply.
       ret (case reply of
         None \<Rightarrow> Inl (ProviderError ''profile request failed'')
       | Some (status, body) \<Rightarrow>
           if \<not> is_success status then Inl (ProviderError ''profile request returned an error'')
           else (case body of
                   None \<Rightarrow> Inl (ProviderError ''profile response is not JSON'')
                 | Some v \<Rightarrow> Inr v)))"

definition parse_google_profile :: "json \<Rightarrow> oauth_error + provider_profile" where
  "parse_google_profile body =
     (case get_str body ''sub'' of
        None \<Rightarrow> Inl (ProviderError ''google profile has no `sub`'')
      | Some s \<Rightarrow>
          let verified = (case json_get body ''email_verified'' of
                            Some (JBool b) \<Rightarrow> b | Some (JString t) \<Rightarrow> t = ''true'' | _ \<Rightarrow> False)
          in Inr \<lparr> pp_provider_user_id = s, pp_email = get_str body ''email'',
                   pp_email_verified = verified, pp_name = get_str body ''name'' \<rparr>)"

definition json_flag :: "str \<Rightarrow> json \<Rightarrow> bool" where
  "json_flag k v \<longleftrightarrow> Option.bind (json_get v k) as_bool = Some True"

definition or_else :: "'a option \<Rightarrow> 'a option \<Rightarrow> 'a option" where
  "or_else a b = (case a of None \<Rightarrow> b | Some x \<Rightarrow> Some x)"

definition github_verified_email :: "json option \<Rightarrow> str option" where
  "github_verified_email emails =
     Option.bind (Option.bind emails as_array) (\<lambda>entries.
       Option.bind (or_else (List.find (json_flag ''primary'') (filter (json_flag ''verified'') entries))
                            (List.find (json_flag ''verified'') entries))
         (\<lambda>v. get_str v ''email''))"

definition parse_github_profile :: "json \<Rightarrow> json option \<Rightarrow> oauth_error + provider_profile" where
  "parse_github_profile user_body emails =
     (case Option.bind (json_get user_body ''id'') as_i64 of
        None \<Rightarrow> Inl (ProviderError ''github profile has no `id`'')
      | Some i \<Rightarrow>
          let verified_email = github_verified_email emails
          in Inr \<lparr> pp_provider_user_id = int_to_string i, pp_email = verified_email,
                   pp_email_verified = (verified_email \<noteq> None),
                   pp_name = or_else (get_str user_body ''name'') (get_str user_body ''login'') \<rparr>)"

definition google_profile :: "str \<Rightarrow> (oauth_error + provider_profile) action" where
  "google_profile access_token =
     then_do (asks (\<lambda>e. provider_settings (conf e) Google)) (\<lambda>s.
       case s of
         None \<Rightarrow> ret (Inl ProviderUnavailable)
       | Some settings \<Rightarrow>
           then_do (get_json (userinfo_url settings) access_token) (\<lambda>body.
             ret (case body of Inl x \<Rightarrow> Inl x | Inr v \<Rightarrow> parse_google_profile v)))"

definition github_profile :: "str \<Rightarrow> (oauth_error + provider_profile) action" where
  "github_profile access_token =
     then_do (asks (\<lambda>e. provider_settings (conf e) Github)) (\<lambda>s.
       case s of
         None \<Rightarrow> ret (Inl ProviderUnavailable)
       | Some settings \<Rightarrow>
           then_do (get_json (userinfo_url settings) access_token) (\<lambda>body.
             case body of
               Inl x \<Rightarrow> ret (Inl x)
             | Inr v \<Rightarrow>
                 then_do (case emails_url settings of
                            None \<Rightarrow> ret None
                          | Some url \<Rightarrow> then_do (get_json url access_token) (\<lambda>r.
                              ret (case r of Inl _ \<Rightarrow> None | Inr es \<Rightarrow> Some es))) (\<lambda>emails.
                 ret (parse_github_profile v emails))))"

definition fetch_profile :: "provider \<Rightarrow> str \<Rightarrow> (oauth_error + provider_profile) action" where
  "fetch_profile p access_token =
     (case p of Google \<Rightarrow> google_profile access_token | Github \<Rightarrow> github_profile access_token)"

section \<open>Repository\<close>

definition state_cleanup :: "time \<Rightarrow> db \<Rightarrow> unit \<times> db" where
  "state_cleanup now d =
     ((), d\<lparr>oauth_states := delete_where (\<lambda>s. st_expires_at s < now) (oauth_states d)\<rparr>)"

definition state_insert :: "oauth_state \<Rightarrow> db \<Rightarrow> sqlx_error + unit \<times> db" where
  "state_insert row d =
     (if exists_where (\<lambda>s. st_state_hash s = st_state_hash row) (oauth_states d) then Inl UniqueViolation
      else if (case st_user_id row of None \<Rightarrow> False
               | Some i \<Rightarrow> \<not> exists_where (\<lambda>u. usr_id u = i) (users d)) then Inl OtherSqlxError
      else Inr ((), d\<lparr>oauth_states := oauth_states d @ [row]\<rparr>))"

definition insert_state :: "str \<Rightarrow> provider \<Rightarrow> str \<Rightarrow> uuid option \<Rightarrow> str \<Rightarrow> time \<Rightarrow> unit action" where
  "insert_state state_hash p pkce_verifier user_id redirect_path expires_at =
     then_do utc_now (\<lambda>now.
     seq (db_exec (state_cleanup now))
         (db_stmt (state_insert \<lparr> st_state_hash = state_hash, st_provider = p,
            st_pkce_verifier = pkce_verifier, st_user_id = user_id, st_redirect_path = redirect_path,
            st_expires_at = expires_at, st_created_at = now \<rparr>)))"

definition claim_oauth_state :: "str \<Rightarrow> time \<Rightarrow> db \<Rightarrow> oauth_state option \<times> db" where
  "claim_oauth_state state_hash now d =
     (let p = (\<lambda>s. st_state_hash s = state_hash \<and> st_expires_at s > now)
      in (List.find p (oauth_states d), d\<lparr>oauth_states := delete_where p (oauth_states d)\<rparr>))"

definition claim_state :: "str \<Rightarrow> oauth_state option action" where
  "claim_state state_hash = then_do utc_now (\<lambda>now. db_exec (claim_oauth_state state_hash now))"

definition find_identity :: "provider \<Rightarrow> str \<Rightarrow> oauth_identity option action" where
  "find_identity p provider_user_id =
     db_query (\<lambda>d. List.find (\<lambda>i. oid_provider i = p \<and> oid_provider_user_id i = provider_user_id)
       (oauth_identities d))"

definition list_identities :: "uuid \<Rightarrow> oauth_identity list action" where
  "list_identities user_id =
     db_query (\<lambda>d. sort_key oid_created_at (filter (\<lambda>i. oid_user_id i = user_id) (oauth_identities d)))"

definition identity_insert :: "oauth_identity \<Rightarrow> db \<Rightarrow> sqlx_error + nat \<times> db" where
  "identity_insert row d =
     (if exists_where (\<lambda>i. oid_provider i = oid_provider row
           \<and> oid_provider_user_id i = oid_provider_user_id row) (oauth_identities d) then Inr (0, d)
      else if exists_where (\<lambda>i. oid_id i = oid_id row) (oauth_identities d) then Inl UniqueViolation
      else if \<not> exists_where (\<lambda>u. usr_id u = oid_user_id row) (users d) then Inl OtherSqlxError
      else Inr (1, d\<lparr>oauth_identities := oauth_identities d @ [row]\<rparr>))"

definition insert_identity :: "uuid \<Rightarrow> provider \<Rightarrow> str \<Rightarrow> str option \<Rightarrow> bool action" where
  "insert_identity user_id p provider_user_id email =
     then_do uuid_v4 (\<lambda>i.
     then_do utc_now (\<lambda>now.
     then_do (db_stmt (identity_insert \<lparr> oid_id = i, oid_user_id = user_id, oid_provider = p,
         oid_provider_user_id = provider_user_id, oid_email = email, oid_created_at = now \<rparr>)) (\<lambda>affected.
       ret (affected = 1))))"

definition identity_delete :: "uuid \<Rightarrow> provider \<Rightarrow> db \<Rightarrow> nat \<times> db" where
  "identity_delete user_id p d =
     (let q = (\<lambda>i. oid_user_id i = user_id \<and> oid_provider i = p)
      in (count_where q (oauth_identities d),
          d\<lparr>oauth_identities := delete_where q (oauth_identities d)\<rparr>))"

definition delete_identity :: "uuid \<Rightarrow> provider \<Rightarrow> bool action" where
  "delete_identity user_id p =
     then_do (db_exec (identity_delete user_id p)) (\<lambda>affected. ret (affected > 0))"

definition grant_cleanup :: "time \<Rightarrow> db \<Rightarrow> unit \<times> db" where
  "grant_cleanup now d =
     ((), d\<lparr>login_grants := delete_where (\<lambda>g. gr_expires_at g < now) (login_grants d)\<rparr>)"

definition grant_insert :: "login_grant \<Rightarrow> db \<Rightarrow> sqlx_error + unit \<times> db" where
  "grant_insert row d =
     (if exists_where (\<lambda>g. gr_code_hash g = gr_code_hash row) (login_grants d) then Inl UniqueViolation
      else if \<not> exists_where (\<lambda>u. usr_id u = gr_user_id row) (users d) then Inl OtherSqlxError
      else Inr ((), d\<lparr>login_grants := login_grants d @ [row]\<rparr>))"

definition insert_grant :: "str \<Rightarrow> uuid \<Rightarrow> time \<Rightarrow> unit action" where
  "insert_grant code_hash user_id expires_at =
     then_do utc_now (\<lambda>now.
     seq (db_exec (grant_cleanup now))
         (db_stmt (grant_insert \<lparr> gr_code_hash = code_hash, gr_user_id = user_id,
            gr_expires_at = expires_at, gr_used_at = None, gr_created_at = now \<rparr>)))"

definition grant_usable :: "str \<Rightarrow> time \<Rightarrow> login_grant \<Rightarrow> bool" where
  "grant_usable h now g \<longleftrightarrow> gr_code_hash g = h \<and> gr_used_at g = None \<and> gr_expires_at g > now"

definition claim_login_grant :: "str \<Rightarrow> time \<Rightarrow> db \<Rightarrow> uuid option \<times> db" where
  "claim_login_grant h now d =
     (map_option gr_user_id (List.find (grant_usable h now) (login_grants d)),
      d\<lparr>login_grants := update_where (grant_usable h now) (\<lambda>g. g\<lparr>gr_used_at := Some now\<rparr>)
          (login_grants d)\<rparr>)"

definition claim_grant :: "str \<Rightarrow> uuid option action" where
  "claim_grant code_hash = then_do utc_now (\<lambda>now. db_exec (claim_login_grant code_hash now))"

section \<open>Service\<close>

definition STATE_TTL :: duration where "STATE_TTL = minutes 10"
definition GRANT_TTL :: duration where "GRANT_TTL = seconds 60"

definition safe_redirect_path :: "str option \<Rightarrow> str" where
  "safe_redirect_path input =
     (case input of
        None \<Rightarrow> ''/''
      | Some path \<Rightarrow>
          if starts_with path ''/'' \<and> \<not> starts_with path ''//'' \<and> CHR 0x5C \<notin> set path
             \<and> \<not> list_ex is_control path \<and> length path \<le> 200
          then path else ''/'')"

definition oauth_start :: "provider \<Rightarrow> uuid option \<Rightarrow> str \<Rightarrow> str action" where
  "oauth_start p user_id redirect_path =
     then_do (asks (\<lambda>e. is_enabled (conf e) p)) (\<lambda>on.
     if \<not> on then raise (of_oauth_error ProviderUnavailable)
     else then_do generate_token (\<lambda>state.
          then_do generate_token (\<lambda>v.
          then_do (asks (\<lambda>e. pkce_challenge e (gt_raw v))) (\<lambda>challenge.
          then_do utc_now (\<lambda>now.
          seq (insert_state (gt_hash state) p (gt_raw v) user_id redirect_path (now + STATE_TTL))
          (then_do (asks (\<lambda>e. authorize_url e p (gt_raw state) challenge)) (\<lambda>url.
             case url of Inl x \<Rightarrow> raise (of_oauth_error x) | Inr u \<Rightarrow> ret u)))))))"

definition login_url :: "provider \<Rightarrow> str option \<Rightarrow> str action" where
  "login_url p redirect = oauth_start p None (safe_redirect_path redirect)"

definition link_url :: "auth_user \<Rightarrow> provider \<Rightarrow> str action" where
  "link_url actor p = oauth_start p (Some (au_id actor)) ''/settings''"

definition oauth_providers :: "config \<Rightarrow> provider_info list" where
  "oauth_providers c = map provider_info_new (enabled c)"

definition oauth_identities_of :: "auth_user \<Rightarrow> identity_response list action" where
  "oauth_identities_of actor =
     then_do (list_identities (au_id actor)) (\<lambda>is. ret (map identity_response_from is))"

type_synonym 'a callback = "(env, world, str, 'a) prog"

definition server_error :: "app_error \<Rightarrow> str" where "server_error _ = ''server_error''"
definition provider_error :: "oauth_error \<Rightarrow> str" where "provider_error _ = ''provider_error''"

abbreviation try_db :: "'a action \<Rightarrow> 'a callback" where
  "try_db m \<equiv> map_err server_error m"

definition try_provider :: "(oauth_error + 'a) action \<Rightarrow> 'a callback" where
  "try_provider m =
     then_do (try_db m) (\<lambda>r. case r of Inl x \<Rightarrow> raise (provider_error x) | Inr v \<Rightarrow> ret v)"

definition oauth_link :: "uuid \<Rightarrow> provider \<Rightarrow> provider_profile \<Rightarrow> unit callback" where
  "oauth_link user_id p profile =
     then_do (try_db (insert_identity user_id p (pp_provider_user_id profile) (pp_email profile))) (\<lambda>linked.
       if linked then ret () else raise ''already_linked'')"

definition grant_for :: "uuid \<Rightarrow> str \<Rightarrow> callback_outcome callback" where
  "grant_for user_id redirect =
     then_do (try_db (users_find_by_id user_id)) (\<lambda>found.
     then_do (ok_or found ''invalid_state'') (\<lambda>u.
     if \<not> usr_is_active u then raise ''account_disabled''
     else then_do (try_db (asks (\<lambda>e. require_verified_email (conf e)))) (\<lambda>req.
       if req \<and> \<not> is_email_verified u then raise ''email_not_verified''
       else then_do (try_db generate_token) (\<lambda>grant.
            then_do (try_db utc_now) (\<lambda>now.
            seq (try_db (insert_grant (gt_hash grant) user_id (now + GRANT_TTL)))
                (ret (LoggedIn (gt_raw grant) redirect)))))))"

definition resolve :: "provider \<Rightarrow> provider_profile \<Rightarrow> uuid option \<Rightarrow> str \<Rightarrow> callback_outcome callback" where
  "resolve p profile linking_user redirect =
     then_do (try_db (find_identity p (pp_provider_user_id profile))) (\<lambda>known.
     case known of
       Some identity \<Rightarrow>
         (case linking_user of
            Some user_id \<Rightarrow> if user_id = oid_user_id identity then ret (Linked p redirect)
                            else raise ''already_linked''
          | None \<Rightarrow> grant_for (oid_user_id identity) redirect)
     | None \<Rightarrow>
         (case linking_user of
            Some user_id \<Rightarrow>
              then_do (try_db (users_find_by_id user_id)) (\<lambda>found.
              then_do (ok_or (ok_opt_filter usr_is_active found) ''invalid_state'') (\<lambda>_.
              seq (oauth_link user_id p profile) (ret (Linked p redirect))))
          | None \<Rightarrow>
              then_do (ok_or (ok_opt_filter (\<lambda>_. pp_email_verified profile) (pp_email profile))
                         ''email_not_verified'') (\<lambda>email.
              then_do (try_db (users_find_by_email email)) (\<lambda>found.
              then_do (case found of
                  Some existing \<Rightarrow>
                    if \<not> usr_is_active existing then raise ''account_disabled''
                    else if \<not> is_email_verified existing then raise ''account_exists_unverified''
                    else ret existing
                | None \<Rightarrow>
                    (let name = ok_opt_filter (\<lambda>n. n \<noteq> [])
                           (map_option (\<lambda>n. take 100 (trim n)) (pp_name profile))
                     in try_db (create_passwordless email name True))) (\<lambda>u.
              seq (oauth_link (usr_id u) p profile) (grant_for (usr_id u) redirect))))))"

definition oauth_callback :: "provider \<Rightarrow> callback_query \<Rightarrow> callback_outcome callback" where
  "oauth_callback p q =
     then_do (ok_or (cq_state q) ''invalid_state'') (\<lambda>state_raw.
     then_do (try_db (asks (\<lambda>e. secret_hash e state_raw))) (\<lambda>h.
     then_do (try_db (claim_state h)) (\<lambda>claimed.
     then_do (ok_or claimed ''invalid_state'') (\<lambda>state.
     if st_provider state \<noteq> p then raise ''invalid_state''
     else if cq_error q \<noteq> None then raise ''access_denied''
     else then_do (ok_or (cq_code q) ''access_denied'') (\<lambda>code.
          then_do (try_provider (client_exchange_code p code (st_pkce_verifier state))) (\<lambda>access_token.
          then_do (try_provider (fetch_profile p access_token)) (\<lambda>profile.
            resolve p profile (st_user_id state) (st_redirect_path state))))))))"

definition oauth_handle_callback :: "provider \<Rightarrow> callback_query \<Rightarrow> callback_outcome action" where
  "oauth_handle_callback p q = (\<lambda>e w.
     case oauth_callback p q e w of
       (Inr outcome, w') \<Rightarrow> (Inr outcome, w')
     | (Inl reason, w') \<Rightarrow> (Inr (Failed reason), w'))"

definition oauth_exchange :: "str \<Rightarrow> token_response action" where
  "oauth_exchange code =
     then_do (asks (\<lambda>e. secret_hash e code)) (\<lambda>h.
     then_do (claim_grant h) (\<lambda>claimed.
     then_do (ok_or claimed (of_oauth_error InvalidGrant)) (\<lambda>user_id.
     then_do (users_find_by_id user_id) (\<lambda>found.
     then_do (ok_or (ok_opt_filter usr_is_active found) (of_oauth_error OAuthAccountDisabled)) (\<lambda>u.
       bearer_for u)))))"

definition oauth_unlink :: "auth_user \<Rightarrow> provider \<Rightarrow> unit action" where
  "oauth_unlink actor p =
     then_do (list_identities (au_id actor)) (\<lambda>is.
     if \<not> list_ex (\<lambda>i. oid_provider i = p) is then raise (of_oauth_error NotLinked)
     else then_do (users_sign_in_method_count (au_id actor)) (\<lambda>n.
       if n < 2 then raise (of_oauth_error LastSignInMethod)
       else then_do (delete_identity (au_id actor) p) (\<lambda>_. ret ())))"

section \<open>Grants and states are single-use\<close>

definition grants_unique :: "db \<Rightarrow> bool" where
  "grants_unique d \<longleftrightarrow> distinct (map gr_code_hash (login_grants d))"

definition grant_live :: "db \<Rightarrow> str \<Rightarrow> bool" where
  "grant_live d h \<longleftrightarrow> (\<exists>g \<in> set (login_grants d). gr_code_hash g = h \<and> gr_used_at g = None)"

definition states_unique :: "db \<Rightarrow> bool" where
  "states_unique d \<longleftrightarrow> distinct (map st_state_hash (oauth_states d))"

definition state_live :: "db \<Rightarrow> str \<Rightarrow> bool" where
  "state_live d h \<longleftrightarrow> (\<exists>s \<in> set (oauth_states d). st_state_hash s = h)"

lemma claim_login_grant_effect:
  assumes "claim_login_grant h now d = (r, d')"
  shows "grants_unique d \<Longrightarrow> grants_unique d'"
    and "grant_live d' j \<Longrightarrow> grant_live d j"
    and "r = Some u \<Longrightarrow> grants_unique d \<Longrightarrow> grant_live d h \<and> \<not> grant_live d' h"
proof -
  from assms have d': "d' = d\<lparr>login_grants := update_where
      (\<lambda>g. gr_code_hash g = h \<and> gr_used_at g = None \<and> gr_expires_at g > now)
      (\<lambda>g. g\<lparr>gr_used_at := Some now\<rparr>) (login_grants d)\<rparr>"
    by (auto simp: claim_login_grant_def grant_usable_def [abs_def])
  show "grants_unique d \<Longrightarrow> grants_unique d'"
    by (simp add: d' grants_unique_def map_update_where_same)
  show "grant_live d' j \<Longrightarrow> grant_live d j"
    by (auto simp: d' grant_live_def elim!: in_update_whereE split: if_splits)
  assume "r = Some u" and uniq: "grants_unique d"
  then obtain g where g: "g \<in> set (login_grants d)" "grant_usable h now g"
    using assms by (auto simp: claim_login_grant_def dest: find_SomeD)
  then show "grant_live d h \<and> \<not> grant_live d' h"
    using uniq update_where_spends [of gr_code_hash "login_grants d" g h
        "\<lambda>g. gr_used_at g = None \<and> gr_expires_at g > now" "\<lambda>g. g\<lparr>gr_used_at := Some now\<rparr>"
        "\<lambda>g. gr_used_at g = None"]
    by (auto simp: d' grants_unique_def grant_live_def grant_usable_def)
qed

interpretation grant: single_use grants_unique grant_live claim_login_grant
  by unfold_locales (use claim_login_grant_effect in blast)+

lemma claim_oauth_state_effect:
  assumes "claim_oauth_state h now d = (r, d')"
  shows "states_unique d \<Longrightarrow> states_unique d'"
    and "state_live d' j \<Longrightarrow> state_live d j"
    and "r = Some s \<Longrightarrow> states_unique d \<Longrightarrow> state_live d h \<and> \<not> state_live d' h"
proof -
  from assms have d': "d' = d\<lparr>oauth_states :=
      delete_where (\<lambda>s. st_state_hash s = h \<and> st_expires_at s > now) (oauth_states d)\<rparr>"
    and r: "r = List.find (\<lambda>s. st_state_hash s = h \<and> st_expires_at s > now) (oauth_states d)"
    by (auto simp: claim_oauth_state_def Let_def)
  show "states_unique d \<Longrightarrow> states_unique d'"
    by (simp add: d' states_unique_def delete_where_def distinct_map_filter)
  show "state_live d' j \<Longrightarrow> state_live d j"
    by (auto simp: d' state_live_def)
  assume some: "r = Some s" and uniq: "states_unique d"
  then have s: "s \<in> set (oauth_states d)" "st_state_hash s = h" "st_expires_at s > now"
    using r by (auto dest!: find_SomeD)
  have same: "x = s" if "x \<in> set (oauth_states d)" "st_state_hash x = h" for x
    using distinct_key_unique [OF uniq [unfolded states_unique_def] that(1) s(1)] that(2) s(2) by simp
  have "\<not> state_live d' h"
  proof
    assume "state_live d' h"
    then obtain x where "x \<in> set (oauth_states d)" "st_state_hash x = h" "\<not> st_expires_at x > now"
      unfolding d' state_live_def by auto
    with same [of x] s(3) show False by simp
  qed
  with s show "state_live d h \<and> \<not> state_live d' h" by (auto simp: state_live_def)
qed

interpretation oauth_request: single_use states_unique state_live claim_oauth_state
  by unfold_locales (use claim_oauth_state_effect in blast)+

end
