(* ===== verification/Storage.thy ===== *)
theory Storage
  imports Schema
begin

text \<open>
  \<open>src/infra/storage.rs\<close>: the object storage shared by profile photos and uploaded media. The field
  \<open>objects\<close> of the state is the directory tree of the local backend (paths relative to its root), or
  the content of the S3 bucket. Every I/O operation may fail (\<open>io_ok\<close>), and a failed local write
  leaves a prefix of the bytes behind (\<open>io_written\<close>).
\<close>

section \<open>Keys\<close>

definition is_ascii_alphanumeric :: "char \<Rightarrow> bool" where
  "is_ascii_alphanumeric c \<longleftrightarrow>
     (48 \<le> ascii_code c \<and> ascii_code c \<le> 57) \<or> (65 \<le> ascii_code c \<and> ascii_code c \<le> 90)
     \<or> (97 \<le> ascii_code c \<and> ascii_code c \<le> 122)"

definition valid_segment :: "str \<Rightarrow> bool" where
  "valid_segment s \<longleftrightarrow>
     s \<noteq> [] \<and> s \<noteq> ''.'' \<and> s \<noteq> ''..''
     \<and> list_all (\<lambda>c. is_ascii_alphanumeric c \<or> c = CHR ''.'' \<or> c = CHR ''_'' \<or> c = CHR ''-'') s"

definition is_valid_key :: "str \<Rightarrow> bool" where
  "is_valid_key key \<longleftrightarrow> key \<noteq> [] \<and> list_all valid_segment (split_on (CHR ''/'') key)"

text \<open>\<open>Path::with_extension\<close>: the part of the file name after its last dot is replaced.\<close>

definition file_stem :: "str \<Rightarrow> str" where
  "file_stem name =
     (let tail = dropWhile (\<lambda>c. c \<noteq> CHR ''.'') (rev name)
      in if tail = [] \<or> tl tail = [] then name else rev (tl tail))"

definition with_extension :: "str \<Rightarrow> str \<Rightarrow> str" where
  "with_extension path ext =
     (let name = last (split_on (CHR ''/'') path)
      in take (length path - length name) path @ file_stem name @ ''.'' @ ext)"

section \<open>Operations\<close>

definition io :: "str \<Rightarrow> unit action" where
  "io what = then_do (draw io_ok) (\<lambda>ok. if ok then ret () else raise (Internal what))"

definition fs_write :: "str \<Rightarrow> bytes \<Rightarrow> unit action" where
  "fs_write path contents = (\<lambda>e w.
     let w' = w\<lparr>tick := Suc (tick w)\<rparr>
     in if io_ok e (tick w) then (Inr (), w'\<lparr>objects := (objects w)(path := Some contents)\<rparr>)
        else (Inl (Internal ''writing object''),
              w'\<lparr>objects := (objects w)(path := Some (take (io_written e (tick w)) contents))\<rparr>))"

definition fs_rename :: "str \<Rightarrow> str \<Rightarrow> unit action" where
  "fs_rename source destination = (\<lambda>e w.
     let w' = w\<lparr>tick := Suc (tick w)\<rparr>
     in if io_ok e (tick w)
        then (Inr (), w'\<lparr>objects := (objects w)(source := None, destination := objects w source)\<rparr>)
        else (Inl (Internal ''storing object''), w'))"

definition s3_put :: "str \<Rightarrow> bytes \<Rightarrow> unit action" where
  "s3_put key contents = (\<lambda>e w.
     let w' = w\<lparr>tick := Suc (tick w)\<rparr>
     in if io_ok e (tick w) then (Inr (), w'\<lparr>objects := (objects w)(key := Some contents)\<rparr>)
        else (Inl (Internal ''uploading object to S3''), w'))"

definition storage_put :: "str \<Rightarrow> bytes \<Rightarrow> str \<Rightarrow> unit action" where
  "storage_put key contents content_type =
     (if \<not> is_valid_key key then raise (Internal ''invalid storage key'')
      else then_do (asks (\<lambda>e. storage_backend (conf e))) (\<lambda>backend.
        case backend of
          LocalDisk \<Rightarrow>
            let temporary = with_extension key ''tmp''
            in seq (io ''creating storage directory'')
               (seq (fs_write temporary contents) (fs_rename temporary key))
        | S3 \<Rightarrow> s3_put key contents))"

definition storage_get :: "str \<Rightarrow> bytes option action" where
  "storage_get key =
     (if \<not> is_valid_key key then ret None
      else (\<lambda>e w.
        let w' = w\<lparr>tick := Suc (tick w)\<rparr>
        in if io_ok e (tick w) then (Inr (objects w key), w')
           else (Inl (Internal ''reading object''), w')))"

definition storage_delete :: "str \<Rightarrow> unit action" where
  "storage_delete key =
     (if \<not> is_valid_key key then ret ()
      else (\<lambda>e w. (Inr (), w\<lparr>tick := Suc (tick w),
        objects := (if io_ok e (tick w) then (objects w)(key := None) else objects w)\<rparr>)))"

lemmas storage_defs = storage_put_def storage_get_def storage_delete_def io_def fs_write_def
  fs_rename_def s3_put_def

section \<open>Properties\<close>

lemma keeps_io [keeps_rules]:
  "keeps_db I (io s)" "keeps_db I (fs_write k b)" "keeps_db I (fs_rename k k')" "keeps_db I (s3_put k b)"
  by (simp_all add: keeps_def storage_defs run_simps Let_def)

lemma keeps_case_storage_backend [keeps_rules]:
  "keeps I m \<Longrightarrow> keeps I k \<Longrightarrow> keeps I (case b of LocalDisk \<Rightarrow> m | S3 \<Rightarrow> k)"
  by (cases b) simp_all

lemma keeps_storage [keeps_rules]:
  "keeps_db I (storage_put k b c)" "keeps_db I (storage_get k)" "keeps_db I (storage_delete k)"
  unfolding storage_put_def Let_def by (intro keeps_rules | simp add: keeps_def storage_defs Let_def)+

text \<open>
  The temporary file of a local write never has the name of the object itself unless that name ends
  in \<open>.tmp\<close>.
\<close>

lemma with_extension_suffix: "\<exists>p. with_extension path ext = p @ ''.'' @ ext"
  by (simp add: with_extension_def Let_def)

lemma temporary_differs:
  assumes "\<not> (\<exists>p. key = p @ ''.tmp'')"
  shows "with_extension key ''tmp'' \<noteq> key"
  using with_extension_suffix [of key "''tmp''"] assms by auto

text \<open>
  A reader never sees a half-written object: whatever fails on the way, the key holds what it held
  before, or all of the new bytes, and no other key that is not the temporary name changes.
\<close>

lemma storage_put_atomic:
  assumes "storage_put key contents ct e w = (v, w')" and "\<not> (\<exists>p. key = p @ ''.tmp'')"
  shows "objects w' key = (if v = Inr () then Some contents else objects w key)"
    and "j \<noteq> key \<Longrightarrow> j \<noteq> with_extension key ''tmp'' \<Longrightarrow> objects w' j = objects w j"
    and "v = Inr () \<Longrightarrow> is_valid_key key"
  using assms(1) temporary_differs [OF assms(2)]
  by (auto simp: storage_defs run_simps Let_def split: if_splits storage_backend.splits)

lemma storage_get_InrE [elim!]:
  assumes "storage_get key e w = (Inr v, w')"
  obtains "\<not> is_valid_key key" "v = None" "w' = w"
  | "is_valid_key key" "v = objects w key" "w' = w\<lparr>tick := Suc (tick w)\<rparr>"
  using assms by (auto simp: storage_get_def Let_def split: if_splits)

lemma storage_delete_run: "\<exists>w'. storage_delete key e w = (Inr (), w') \<and> db w' = db w"
  by (simp add: storage_delete_def)

text \<open>A valid key names a file below the storage root: no segment climbs out of it.\<close>

lemma valid_key_no_escape:
  "is_valid_key key \<Longrightarrow> seg \<in> set (split_on (CHR ''/'') key) \<Longrightarrow> seg \<noteq> ''..'' \<and> seg \<noteq> ''.'' \<and> seg \<noteq> []"
  by (auto simp: is_valid_key_def list_all_iff valid_segment_def)

end
