(* ===== verification/Media.thy ===== *)
theory Media
  imports UsersService Storage
begin

text \<open>
  \<open>src/modules/media\<close>: user-uploaded files. The row is the ownership record, the bytes are in object
  storage under a generated key.
\<close>

definition MEDIA_KEY_PREFIX :: str where "MEDIA_KEY_PREFIX = ''media/''"

record media_response =
  mr_id :: uuid
  mr_content_type :: str
  mr_size_bytes :: int
  mr_original_filename :: "str option"
  mr_url :: str
  mr_created_at :: time

definition media_response_from :: "media_row \<Rightarrow> media_response" where
  "media_response_from m =
     \<lparr> mr_id = med_id m, mr_content_type = med_content_type m, mr_size_bytes = med_size_bytes m,
       mr_original_filename = med_original_filename m,
       mr_url = ''/api/v1/media/'' @ uuid_display (med_id m) @ ''/content'',
       mr_created_at = med_created_at m \<rparr>"

record media_content_file =
  mc_media :: media_row
  mc_bytes :: bytes

section \<open>Repository\<close>

definition media_insert :: "media_row \<Rightarrow> db \<Rightarrow> sqlx_error + media_row \<times> db" where
  "media_insert row d =
     (if exists_where (\<lambda>m. med_id m = med_id row \<or> med_storage_key m = med_storage_key row) (media d)
      then Inl UniqueViolation
      else if \<not> exists_where (\<lambda>u. usr_id u = med_owner_id row) (users d) then Inl OtherSqlxError
      else Inr (row, d\<lparr>media := media d @ [row]\<rparr>))"

definition media_repo_insert :: "uuid \<Rightarrow> str \<Rightarrow> str \<Rightarrow> int \<Rightarrow> str option \<Rightarrow> media_row action" where
  "media_repo_insert owner_id storage_key content_type size_bytes original_filename =
     then_do uuid_v4 (\<lambda>i.
     then_do utc_now (\<lambda>now.
       db_stmt (media_insert \<lparr> med_id = i, med_owner_id = owner_id, med_storage_key = storage_key,
         med_content_type = content_type, med_size_bytes = size_bytes,
         med_original_filename = original_filename, med_created_at = now \<rparr>)))"

definition media_repo_find_by_id :: "uuid \<Rightarrow> media_row option action" where
  "media_repo_find_by_id i = db_query (\<lambda>d. List.find (\<lambda>m. med_id m = i) (media d))"

definition media_repo_list_by_owner :: "uuid \<Rightarrow> int \<Rightarrow> int \<Rightarrow> (media_row list \<times> nat) action" where
  "media_repo_list_by_owner owner_id lim off =
     then_do (db_query (\<lambda>d. count_where (\<lambda>m. med_owner_id m = owner_id) (media d))) (\<lambda>n.
     then_do (db_query (\<lambda>d. sql_page lim off (order_by (\<lambda>m. (med_created_at m, med_id m)) True
         (filter (\<lambda>m. med_owner_id m = owner_id) (media d))))) (\<lambda>items.
       ret (items, n)))"

definition media_delete_row :: "uuid \<Rightarrow> db \<Rightarrow> str option \<times> db" where
  "media_delete_row i d =
     (map_option med_storage_key (List.find (\<lambda>m. med_id m = i) (media d)),
      d\<lparr>media := delete_where (\<lambda>m. med_id m = i) (media d)\<rparr>)"

definition media_repo_delete :: "uuid \<Rightarrow> str option action" where
  "media_repo_delete i = db_exec (media_delete_row i)"

definition media_delete_rows :: "uuid \<Rightarrow> db \<Rightarrow> str list \<times> db" where
  "media_delete_rows owner_id d =
     (map med_storage_key (filter (\<lambda>m. med_owner_id m = owner_id) (media d)),
      d\<lparr>media := delete_where (\<lambda>m. med_owner_id m = owner_id) (media d)\<rparr>)"

definition media_repo_delete_all_by_owner :: "uuid \<Rightarrow> str list action" where
  "media_repo_delete_all_by_owner owner_id = db_exec (media_delete_rows owner_id)"

section \<open>Service\<close>

definition find_accessible :: "auth_user \<Rightarrow> uuid \<Rightarrow> media_row action" where
  "find_accessible actor i =
     then_do (media_repo_find_by_id i) (\<lambda>found.
       ok_or (ok_opt_filter (\<lambda>m. med_owner_id m = au_id actor \<or> is_admin (au_role actor)) found)
         (of_media_error MediaNotFound))"

definition media_upload :: "auth_user \<Rightarrow> bytes \<Rightarrow> str option \<Rightarrow> media_response action" where
  "media_upload actor upload original_filename =
     (if upload = [] then raise (of_media_error MediaEmpty)
      else then_do (asks conf) (\<lambda>c.
        if length upload > max_upload_bytes c
        then raise (of_media_error (MediaTooLarge (max_upload_bytes c div (1024 * 1024))))
        else then_do (asks (\<lambda>e. infer_get e upload)) (\<lambda>found.
          then_do (ok_or found (of_media_error UnrecognizedType)) (\<lambda>(content_type, extension).
          if content_type \<notin> set (allowed_content_types c)
          then raise (of_media_error (TypeNotAllowed content_type))
          else then_do uuid_v4 (\<lambda>u.
            let storage_key = MEDIA_KEY_PREFIX @ uuid_simple u @ ''.'' @ extension
            in seq (storage_put storage_key upload content_type)
               (then_do (attempt (media_repo_insert (au_id actor) storage_key content_type
                          (int (length upload)) original_filename)) (\<lambda>inserted.
                case inserted of
                  Inr m \<Rightarrow> ret (media_response_from m)
                | Inl err \<Rightarrow> seq (storage_delete storage_key) (raise err)))))))) "

definition media_list ::
  "auth_user \<Rightarrow> pagination \<Rightarrow> media_response paginated_response action" where
  "media_list actor p =
     then_do (media_repo_list_by_owner (au_id actor) (limit p) (offset p)) (\<lambda>(items, n).
       ret (paginated_response_new (map media_response_from items) p n))"

definition media_metadata :: "auth_user \<Rightarrow> uuid \<Rightarrow> media_response action" where
  "media_metadata actor i = then_do (find_accessible actor i) (\<lambda>m. ret (media_response_from m))"

definition media_content :: "auth_user \<Rightarrow> uuid \<Rightarrow> media_content_file action" where
  "media_content actor i =
     then_do (find_accessible actor i) (\<lambda>m.
     then_do (storage_get (med_storage_key m)) (\<lambda>found.
     then_do (ok_or found (of_media_error MediaNotFound)) (\<lambda>contents.
       ret \<lparr> mc_media = m, mc_bytes = contents \<rparr>)))"

definition media_delete :: "auth_user \<Rightarrow> uuid \<Rightarrow> unit action" where
  "media_delete actor i =
     then_do (find_accessible actor i) (\<lambda>m.
     then_do (media_repo_delete (med_id m)) (\<lambda>key.
       case key of None \<Rightarrow> ret () | Some storage_key \<Rightarrow> storage_delete storage_key))"

definition media_delete_all_for_user :: "uuid \<Rightarrow> unit action" where
  "media_delete_all_for_user user_id =
     then_do (media_repo_delete_all_by_owner user_id) (\<lambda>keys. for_each keys storage_delete)"

section \<open>Download headers\<close>

definition safe_char :: "char \<Rightarrow> bool" where
  "safe_char c \<longleftrightarrow> is_ascii_alphanumeric c \<or> c = CHR ''.'' \<or> c = CHR ''-'' \<or> c = CHR ''_''"

definition trim_dots :: "str \<Rightarrow> str" where
  "trim_dots s =
     (let dot = (\<lambda>c. c = CHR ''.'' \<or> c = CHR ''_'')
      in rev (dropWhile dot (rev (dropWhile dot s))))"

definition safe_download_name :: "str option \<Rightarrow> str" where
  "safe_download_name original_filename =
     (let cleaned = map (\<lambda>c. if safe_char c then c else CHR ''_'')
            (case original_filename of None \<Rightarrow> [] | Some n \<Rightarrow> n)
      in if trim_dots cleaned = [] then ''download'' else cleaned)"

definition content_disposition :: "str \<Rightarrow> str option \<Rightarrow> str" where
  "content_disposition content_type original_filename =
     (let passive = list_ex (starts_with content_type) [''image/'', ''video/'', ''audio/'']
      in (if passive then ''inline'' else ''attachment'') @ ''; filename='' @ [CHR 0x22]
         @ safe_download_name original_filename @ [CHR 0x22])"

section \<open>Properties\<close>

text \<open>The quoted file name of the header never holds a quote, a control character or a separator.\<close>

lemma safe_download_name_chars: "list_all safe_char (safe_download_name f)"
proof -
  have "safe_char (CHR ''_'')" by (simp add: safe_char_def)
  then have "list_all safe_char (map (\<lambda>c. if safe_char c then c else CHR ''_'') n)" for n
    by (induction n) auto
  moreover have "list_all safe_char ''download''"
    by (simp add: safe_char_def is_ascii_alphanumeric_def ascii_code_def)
  ultimately show ?thesis by (simp add: safe_download_name_def Let_def)
qed

lemma find_accessible_InrE [elim!]:
  assumes "find_accessible actor i e w = (Inr m, w')"
  obtains "m \<in> set (media (db w))" and "med_id m = i"
    and "med_owner_id m = au_id actor \<or> is_admin (au_role actor)" and "w' = w\<lparr>tick := Suc (tick w)\<rparr>"
  using assms by (auto simp: find_accessible_def media_repo_find_by_id_def dest!: find_SomeD)

lemma for_each_storage_delete_run:
  "\<exists>w'. for_each keys storage_delete e w = (Inr (), w') \<and> db w' = db w"
proof (induction keys arbitrary: w)
  case (Cons k keys)
  obtain w1 where w1: "storage_delete k e w = (Inr (), w1)" "db w1 = db w"
    using storage_delete_run by blast
  from Cons.IH [of w1] w1 show ?case by (simp add: seq_run)
qed simp

lemma media_insert_InrE [elim!]:
  assumes "media_insert row d = Inr (m, d')"
  obtains "m = row" and "d' = d\<lparr>media := media d @ [row]\<rparr>"
  using assms by (auto simp: media_insert_def split: if_splits)

lemma keeps_media_readers [keeps_rules]:
  "keeps_db I (media_list a p)" "keeps_db I (media_metadata a i)" "keeps_db I (media_content a i)"
  unfolding media_list_def media_repo_list_by_owner_def media_metadata_def media_content_def
    find_accessible_def media_repo_find_by_id_def
  by (intro keeps_rules)+

end
