(* ===== verification/Avatars.thy ===== *)
theory Avatars
  imports Media
begin

text \<open>
  \<open>src/modules/avatars\<close>: profile photos. The image library is a parameter (format detection, decoding
  within limits and resizing to a square, JPEG encoding); the flattening onto white between
  them is the code's own arithmetic on \<open>u32\<close> and \<open>u8\<close>.
\<close>

section \<open>Processing\<close>

definition AVATAR_SIZE :: nat where "AVATAR_SIZE = 256"
definition JPEG_QUALITY :: nat where "JPEG_QUALITY = 85"
definition MAX_DIMENSION :: nat where "MAX_DIMENSION = 8192"
definition MAX_DECODE_BYTES :: nat where "MAX_DECODE_BYTES = 128 * 1024 * 1024"
definition MAX_UPLOAD_BYTES :: nat where "MAX_UPLOAD_BYTES = 2 * 1024 * 1024"

definition over_white :: "8 word \<Rightarrow> 8 word \<Rightarrow> 8 word" where
  "over_white alpha channel =
     ucast ((ucast channel * ucast alpha + 255 * (255 - ucast alpha)) div (255 :: 32 word))"

definition flatten_pixel :: "rgba \<Rightarrow> rgb" where
  "flatten_pixel = (\<lambda>(r, g, b, a). (over_white a r, over_white a g, over_white a b))"

definition to_avatar_jpeg :: "env \<Rightarrow> bytes \<Rightarrow> avatar_error + bytes" where
  "to_avatar_jpeg e original =
     (case guess_format e original of
        None \<Rightarrow> Inl InvalidImage
      | Some f \<Rightarrow>
          if f \<notin> {Png, Jpeg, WebP, Gif} then Inl InvalidImage
          else (case decode_square e MAX_DIMENSION MAX_DECODE_BYTES AVATAR_SIZE original of
                  Inl Limits \<Rightarrow> Inl (AvatarTooLarge 2)
                | Inl OtherImageError \<Rightarrow> Inl InvalidImage
                | Inr square \<Rightarrow>
                    (case jpeg_encode e JPEG_QUALITY (map flatten_pixel square) of
                       None \<Rightarrow> Inl InvalidImage
                     | Some out \<Rightarrow> Inr out)))"

section \<open>Storage\<close>

definition AVATAR_KEY_PREFIX :: str where "AVATAR_KEY_PREFIX = ''avatars/''"

definition avatar_new_name :: "str action" where
  "avatar_new_name = then_do uuid_v4 (\<lambda>u. ret (uuid_simple u @ ''.jpg''))"

definition is_lower_hex :: "char \<Rightarrow> bool" where
  "is_lower_hex c \<longleftrightarrow> is_ascii_digit c \<or> (97 \<le> ascii_code c \<and> ascii_code c \<le> 102)"

definition is_valid_name :: "str \<Rightarrow> bool" where
  "is_valid_name name \<longleftrightarrow>
     length name = 36 \<and> drop 32 name = ''.jpg'' \<and> list_all is_lower_hex (take 32 name)"

definition avatar_write :: "str \<Rightarrow> bytes \<Rightarrow> unit action" where
  "avatar_write name contents = storage_put (AVATAR_KEY_PREFIX @ name) contents ''image/jpeg''"

definition avatar_read :: "str \<Rightarrow> bytes action" where
  "avatar_read name =
     (if \<not> is_valid_name name then raise (of_avatar_error AvatarNotFound)
      else then_do (storage_get (AVATAR_KEY_PREFIX @ name)) (\<lambda>found.
        ok_or found (of_avatar_error AvatarNotFound)))"

definition avatar_remove :: "str \<Rightarrow> unit action" where
  "avatar_remove name =
     (if is_valid_name name then storage_delete (AVATAR_KEY_PREFIX @ name) else ret ())"

section \<open>Service\<close>

definition avatars_current :: "auth_user \<Rightarrow> user_response action" where
  "avatars_current actor =
     then_do (users_find_by_id (au_id actor)) (\<lambda>found.
     then_do (ok_or found (of_users_error UserNotFound)) (\<lambda>u. ret (user_response_from u)))"

definition avatars_set :: "auth_user \<Rightarrow> bytes \<Rightarrow> user_response action" where
  "avatars_set actor upload =
     (if length upload > MAX_UPLOAD_BYTES
      then raise (of_avatar_error (AvatarTooLarge (MAX_UPLOAD_BYTES div (1024 * 1024))))
      else then_do (run_limited (asks (\<lambda>e. to_avatar_jpeg e upload))) (\<lambda>processed.
        case processed of
          Inl err \<Rightarrow> raise (of_avatar_error err)
        | Inr jpeg \<Rightarrow>
            then_do avatar_new_name (\<lambda>name.
            seq (avatar_write name jpeg)
            (then_do (attempt (users_set_avatar_key (au_id actor) (Some name))) (\<lambda>r.
             seq (case r of
                    Inr previous \<Rightarrow> (case previous of None \<Rightarrow> ret () | Some old \<Rightarrow> avatar_remove old)
                  | Inl err \<Rightarrow> seq (avatar_remove name) (raise err))
                 (avatars_current actor))))))"

definition avatars_remove :: "auth_user \<Rightarrow> user_response action" where
  "avatars_remove actor =
     then_do (users_set_avatar_key (au_id actor) None) (\<lambda>previous.
     seq (case previous of None \<Rightarrow> ret () | Some old \<Rightarrow> avatar_remove old)
         (avatars_current actor))"

definition avatars_remove_file :: "str \<Rightarrow> unit action" where
  "avatars_remove_file key = avatar_remove key"

definition avatars_read :: "str \<Rightarrow> bytes action" where
  "avatars_read file = avatar_read file"

section \<open>Properties\<close>

text \<open>Blending onto white does not overflow 32 bits, and the quotient fits a byte.\<close>

lemma unat_ucast_8_32: "unat (ucast (c :: 8 word) :: 32 word) = unat c"
  by transfer (simp add: take_bit_int_eq_self_iff min_def)

lemma over_white_exact:
  "unat (over_white alpha channel) = (unat channel * unat alpha + 255 * (255 - unat alpha)) div 255"
proof -
  let ?n = "unat channel * unat alpha + 255 * (255 - unat alpha)"
  have a: "unat alpha \<le> 255" and c: "unat channel \<le> 255"
    using unsigned_less [of alpha, where 'a = nat] unsigned_less [of channel, where 'a = nat] by simp_all
  have "unat channel * unat alpha \<le> 255 * unat alpha" using c by (rule mult_le_mono1)
  then have n: "?n \<le> 255 * 255" using a by linarith
  have sub: "unat (255 - ucast alpha :: 32 word) = 255 - unat alpha"
    using a by (subst unat_sub) (simp_all add: unat_ucast_8_32 word_le_nat_alt)
  have m1: "unat (ucast channel * ucast alpha :: 32 word) = unat channel * unat alpha"
    using mult_mono [OF c a] by (simp add: unat_word_ariths unat_ucast_8_32)
  have m2: "unat (255 * (255 - ucast alpha) :: 32 word) = 255 * (255 - unat alpha)"
    unfolding unat_word_ariths(2) sub using a by simp
  have s: "unat (ucast channel * ucast alpha + 255 * (255 - ucast alpha) :: 32 word) = ?n"
    using n by (simp only: unat_word_ariths(1) m1 m2) simp
  have "?n div 255 \<le> 255" using n div_le_mono [OF n, of 255] by simp
  moreover have "unat ((ucast channel * ucast alpha + 255 * (255 - ucast alpha)) div (255 :: 32 word)) = ?n div 255"
    by (simp only: unat_div s) simp
  ultimately show ?thesis
    unfolding over_white_def unsigned_ucast_eq by (simp only: take_bit_nat_eq_self_iff) simp
qed

text \<open>Generated names pass the validation that guards every lookup and removal.\<close>

lemma hex_digit_lower: "n < 16 \<Longrightarrow> is_lower_hex (hex_digit False n)"
  by (auto simp: hex_digit_def is_lower_hex_def is_ascii_digit_def ascii_code_def)

lemma length_uuid_simple [simp]: "length (uuid_simple u) = 32"
  by (simp add: uuid_simple_def)

lemma uuid_simple_hex: "list_all is_lower_hex (uuid_simple u)"
  by (simp add: uuid_simple_def list_all_iff hex_digit_lower)

lemma generated_name_valid: "is_valid_name (uuid_simple u @ ''.jpg'')"
  by (simp add: is_valid_name_def uuid_simple_hex)

lemma is_lower_hex_safe: "is_lower_hex c \<Longrightarrow> is_ascii_alphanumeric c \<and> c \<noteq> CHR ''/''"
  by (auto simp: is_lower_hex_def is_ascii_alphanumeric_def is_ascii_digit_def ascii_code_def)

text \<open>A valid name is a valid storage key below the avatars prefix, whatever the request put in it.\<close>

lemma split_on_append: "c \<notin> set a \<Longrightarrow> split_on c (a @ c # b) = a # split_on c b"
  by (induction a) auto

lemma valid_name_key:
  assumes "is_valid_name name"
  shows "split_on (CHR ''/'') (AVATAR_KEY_PREFIX @ name) = [''avatars'', name]"
    and "is_valid_key (AVATAR_KEY_PREFIX @ name)"
proof -
  have parts: "name = take 32 name @ ''.jpg''"
    using assms by (metis append_take_drop_id is_valid_name_def)
  then have parts': "set name = set (take 32 name) \<union> set ''.jpg''"
    by (rule ssubst [of name _ "\<lambda>n. set n = _"]) (rule set_append)
  have hex: "\<forall>c \<in> set (take 32 name). is_lower_hex c" and len: "length name = 36"
    using assms by (simp_all add: is_valid_name_def list_all_iff)
  have seg: "\<forall>c \<in> set name. c \<noteq> CHR ''/'' \<and> (is_ascii_alphanumeric c \<or> c = CHR ''.'')"
  proof
    fix c
    assume "c \<in> set name"
    then have "c \<in> set (take 32 name) \<or> c \<in> set ''.jpg''"
      unfolding parts' by auto
    then show "c \<noteq> CHR ''/'' \<and> (is_ascii_alphanumeric c \<or> c = CHR ''.'')"
    proof
      assume "c \<in> set (take 32 name)"
      then show ?thesis using hex is_lower_hex_safe by blast
    next
      assume "c \<in> set ''.jpg''"
      then show ?thesis by (auto simp: is_ascii_alphanumeric_def ascii_code_def)
    qed
  qed
  show s: "split_on (CHR ''/'') (AVATAR_KEY_PREFIX @ name) = [''avatars'', name]"
  proof -
    have "AVATAR_KEY_PREFIX @ name = ''avatars'' @ CHR ''/'' # name" by (simp add: AVATAR_KEY_PREFIX_def)
    moreover have "CHR ''/'' \<notin> set ''avatars''" by simp
    moreover have "CHR ''/'' \<notin> set name" using seg by blast
    ultimately show ?thesis by (metis split_on_append split_on_no_sep)
  qed
  have "name \<noteq> []" "name \<noteq> ''.''" "name \<noteq> ''..''" using len by auto
  moreover have "valid_segment ''avatars''"
    by (simp add: valid_segment_def is_ascii_alphanumeric_def ascii_code_def)
  ultimately show "is_valid_key (AVATAR_KEY_PREFIX @ name)"
    using seg unfolding is_valid_key_def s
    by (auto simp: valid_segment_def list_all_iff AVATAR_KEY_PREFIX_def)
qed

lemma avatar_remove_run: "\<exists>w'. avatar_remove name e w = (Inr (), w') \<and> db w' = db w"
  by (auto simp: avatar_remove_def storage_delete_def)

lemma keeps_avatar_files [keeps_rules]:
  "keeps_db I (avatar_write n b)" "keeps_db I (avatar_read n)" "keeps_db I (avatar_remove n)"
  "keeps_db I (avatars_remove_file n)" "keeps_db I (avatars_read n)" "keeps_db I avatar_new_name"
  unfolding avatars_remove_file_def avatars_read_def avatar_write_def avatar_read_def
    avatar_remove_def avatar_new_name_def
  by (intro keeps_rules)+

end
