(* ===== verification/Passkeys.thy ===== *)
theory Passkeys
  imports AuthServices
begin

text \<open>
  \<open>src/modules/passkeys\<close>: registering a passkey, signing in with one, listing and removing them. The
  ceremonies themselves are the WebAuthn library's, a parameter of the environment; what is modelled is
  everything around them: the stored ceremony state that is consumed by the answer, the stored
  credentials and their updates, and the checks before a token is issued.
\<close>

section \<open>Data\<close>

definition CHALLENGE_TTL :: duration where "CHALLENGE_TTL = minutes 5"
definition MAX_PASSKEYS_PER_USER :: nat where "MAX_PASSKEYS_PER_USER = 10"

record begin_response =
  br_challenge_id :: str
  br_options :: str

record finish_registration_dto =
  fr_challenge_id :: str
  fr_name :: "str option"
  fr_credential :: str

record finish_login_dto =
  fl_challenge_id :: str
  fl_credential :: str

record passkey_response =
  pr_id :: uuid
  pr_name :: str
  pr_created_at :: time
  pr_last_used_at :: "time option"

definition passkey_response_from :: "passkey_row \<Rightarrow> passkey_response" where
  "passkey_response_from p =
     \<lparr> pr_id = pk_id p, pr_name = pk_name p, pr_created_at = pk_created_at p,
       pr_last_used_at = pk_last_used_at p \<rparr>"

section \<open>Challenges\<close>

definition challenge_cleanup :: "time \<Rightarrow> db \<Rightarrow> unit \<times> db" where
  "challenge_cleanup now d =
     ((), d\<lparr>webauthn_challenges := delete_where (\<lambda>c. ch_expires_at c < now) (webauthn_challenges d)\<rparr>)"

definition challenge_insert :: "webauthn_challenge \<Rightarrow> db \<Rightarrow> sqlx_error + unit \<times> db" where
  "challenge_insert row d =
     (if exists_where (\<lambda>c. ch_id c = ch_id row) (webauthn_challenges d) then Inl UniqueViolation
      else if (case ch_user_id row of None \<Rightarrow> False
               | Some i \<Rightarrow> \<not> exists_where (\<lambda>u. usr_id u = i) (users d)) then Inl OtherSqlxError
      else Inr ((), d\<lparr>webauthn_challenges := webauthn_challenges d @ [row]\<rparr>))"

definition insert_challenge ::
  "str \<Rightarrow> challenge_kind \<Rightarrow> uuid option \<Rightarrow> str \<Rightarrow> time \<Rightarrow> unit action" where
  "insert_challenge i kind user_id state_json expires_at =
     then_do utc_now (\<lambda>now.
     seq (db_exec (challenge_cleanup now))
         (db_stmt (challenge_insert \<lparr> ch_id = i, ch_kind = kind, ch_user_id = user_id,
            ch_state_json = state_json, ch_expires_at = expires_at, ch_created_at = now \<rparr>)))"

text \<open>\<open>DELETE \<dots> RETURNING\<close>: \<open>IS NOT DISTINCT FROM\<close> compares the user, \<open>NULL\<close> included.\<close>

definition take_challenge ::
  "str \<times> challenge_kind \<times> uuid option \<Rightarrow> time \<Rightarrow> db \<Rightarrow> str option \<times> db" where
  "take_challenge k now d =
     (case k of (i, kind, user_id) \<Rightarrow>
        let p = (\<lambda>c. ch_id c = i \<and> ch_kind c = kind \<and> ch_user_id c = user_id \<and> ch_expires_at c > now)
        in (map_option ch_state_json (List.find p (webauthn_challenges d)),
            d\<lparr>webauthn_challenges := delete_where p (webauthn_challenges d)\<rparr>))"

definition repo_claim_challenge :: "str \<Rightarrow> challenge_kind \<Rightarrow> uuid option \<Rightarrow> str option action" where
  "repo_claim_challenge i kind user_id =
     then_do utc_now (\<lambda>now. db_exec (take_challenge (i, kind, user_id) now))"

section \<open>Credentials\<close>

definition passkeys_of :: "uuid \<Rightarrow> db \<Rightarrow> passkey_row list" where
  "passkeys_of user_id d = sort_key pk_created_at (filter (\<lambda>p. pk_user_id p = user_id) (passkeys d))"

definition list_by_user :: "uuid \<Rightarrow> passkey_row list action" where
  "list_by_user user_id = db_query (passkeys_of user_id)"

definition passkey_insert :: "passkey_row \<Rightarrow> db \<Rightarrow> sqlx_error + passkey_row option \<times> db" where
  "passkey_insert row d =
     (if exists_where (\<lambda>p. pk_credential_id p = pk_credential_id row) (passkeys d) then Inr (None, d)
      else if exists_where (\<lambda>p. pk_id p = pk_id row) (passkeys d) then Inl UniqueViolation
      else if \<not> exists_where (\<lambda>u. usr_id u = pk_user_id row) (users d) then Inl OtherSqlxError
      else Inr (Some row, d\<lparr>passkeys := passkeys d @ [row]\<rparr>))"

definition passkeys_repo_insert :: "uuid \<Rightarrow> str \<Rightarrow> str \<Rightarrow> str \<Rightarrow> passkey_row option action" where
  "passkeys_repo_insert user_id name credential_id credential_json =
     then_do uuid_v4 (\<lambda>i.
     then_do utc_now (\<lambda>now.
       db_stmt (passkey_insert \<lparr> pk_id = i, pk_user_id = user_id, pk_name = name,
         pk_credential_id = credential_id, pk_credential_json = credential_json,
         pk_created_at = now, pk_last_used_at = None \<rparr>)))"

definition passkey_used :: "uuid \<Rightarrow> str \<Rightarrow> time \<Rightarrow> db \<Rightarrow> unit \<times> db" where
  "passkey_used i credential_json now d =
     ((), d\<lparr>passkeys := update_where (\<lambda>p. pk_id p = i)
        (\<lambda>p. p\<lparr>pk_credential_json := credential_json, pk_last_used_at := Some now\<rparr>) (passkeys d)\<rparr>)"

definition update_after_use :: "uuid \<Rightarrow> str \<Rightarrow> unit action" where
  "update_after_use i credential_json =
     then_do utc_now (\<lambda>now. db_exec (passkey_used i credential_json now))"

definition passkey_delete :: "uuid \<Rightarrow> uuid \<Rightarrow> db \<Rightarrow> nat \<times> db" where
  "passkey_delete user_id i d =
     (let q = (\<lambda>p. pk_id p = i \<and> pk_user_id p = user_id)
      in (count_where q (passkeys d), d\<lparr>passkeys := delete_where q (passkeys d)\<rparr>))"

definition passkeys_repo_delete :: "uuid \<Rightarrow> uuid \<Rightarrow> bool action" where
  "passkeys_repo_delete user_id i =
     then_do (db_exec (passkey_delete user_id i)) (\<lambda>affected. ret (affected = 1))"

section \<open>Service\<close>

definition active_user :: "uuid \<Rightarrow> user action" where
  "active_user i =
     then_do (users_find_by_id i) (\<lambda>found.
       ok_or (ok_opt_filter usr_is_active found) (of_users_error UserNotFound))"

definition store_challenge :: "challenge_kind \<Rightarrow> uuid option \<Rightarrow> str \<Rightarrow> str action" where
  "store_challenge kind user_id state =
     then_do uuid_v4 (\<lambda>u.
     then_do (asks (\<lambda>e. wa_state_to_json (webauthn e) state)) (\<lambda>encoded.
     then_do (ok_or encoded (Internal ''serializing ceremony state'')) (\<lambda>state_json.
     then_do utc_now (\<lambda>now.
     seq (insert_challenge (uuid_simple u) kind user_id state_json (now + CHALLENGE_TTL))
         (ret (uuid_simple u))))))"

definition claim_challenge :: "str \<Rightarrow> challenge_kind \<Rightarrow> uuid option \<Rightarrow> str option action" where
  "claim_challenge i kind user_id =
     then_do (repo_claim_challenge i kind user_id) (\<lambda>found.
       case found of
         None \<Rightarrow> ret None
       | Some state_json \<Rightarrow>
           then_do (asks (\<lambda>e. wa_state_of_json (webauthn e) state_json)) (\<lambda>decoded_state.
           then_do (ok_or decoded_state (Internal ''reading ceremony state'')) (\<lambda>state. ret (Some state))))"

definition decoded :: "env \<Rightarrow> passkey_row list \<Rightarrow> (passkey_row \<times> str) list" where
  "decoded e rows = List.map_filter (\<lambda>row.
     map_option (\<lambda>p. (row, p)) (wa_passkey_of_json (webauthn e) (pk_credential_json row))) rows"

definition begin_registration :: "auth_user \<Rightarrow> begin_response action" where
  "begin_registration actor =
     then_do (active_user (au_id actor)) (\<lambda>u.
     then_do (list_by_user (usr_id u)) (\<lambda>rows.
     then_do (asks (\<lambda>e. decoded e rows)) (\<lambda>existing.
     if length existing \<ge> MAX_PASSKEYS_PER_USER
     then raise (of_passkey_error (PasskeyLimitReached MAX_PASSKEYS_PER_USER))
     else then_do (draw (\<lambda>e n. wa_start_registration (webauthn e) n (usr_id u) (usr_email u)
                (case usr_display_name u of None \<Rightarrow> usr_email u | Some name \<Rightarrow> name)
                (map (\<lambda>(_, p). wa_cred_id (webauthn e) p) existing))) (\<lambda>started.
          then_do (ok_or started (Internal ''webauthn registration start'')) (\<lambda>(options, state).
          then_do (store_challenge Registration (Some (usr_id u)) state) (\<lambda>challenge_id.
            ret \<lparr> br_challenge_id = challenge_id, br_options = options \<rparr>))))))"

definition finish_registration :: "auth_user \<Rightarrow> finish_registration_dto \<Rightarrow> passkey_response action" where
  "finish_registration actor dto =
     then_do (claim_challenge (fr_challenge_id dto) Registration (Some (au_id actor))) (\<lambda>claimed.
     then_do (ok_or claimed (of_passkey_error RegistrationFailed)) (\<lambda>state.
     then_do (asks (\<lambda>e. wa_finish_registration (webauthn e) (fr_credential dto) state)) (\<lambda>finished.
     then_do (ok_or finished (of_passkey_error RegistrationFailed)) (\<lambda>passkey.
       let name = ok_opt_filter (\<lambda>n. n \<noteq> []) (map_option trim (fr_name dto))
       in then_do (asks (\<lambda>e. base64url e (wa_cred_id (webauthn e) passkey))) (\<lambda>credential_id.
          then_do (asks (\<lambda>e. wa_passkey_to_json (webauthn e) passkey)) (\<lambda>encoded.
          then_do (ok_or encoded (Internal ''serializing passkey'')) (\<lambda>credential_json.
          then_do (passkeys_repo_insert (au_id actor) (case name of None \<Rightarrow> ''Passkey'' | Some n \<Rightarrow> n)
                     credential_id credential_json) (\<lambda>inserted.
          then_do (ok_or inserted (of_passkey_error AlreadyRegistered)) (\<lambda>stored.
            ret (passkey_response_from stored))))))))))"

definition begin_login :: "begin_response action" where
  "begin_login =
     then_do (draw (\<lambda>e n. wa_start_discoverable (webauthn e) n)) (\<lambda>started.
     then_do (ok_or started (Internal ''webauthn login start'')) (\<lambda>(options, state).
     then_do (store_challenge Authentication None state) (\<lambda>challenge_id.
       ret \<lparr> br_challenge_id = challenge_id, br_options = options \<rparr>)))"

text \<open>The loop that keeps the signature counters current.\<close>

definition touch_passkey :: "str \<Rightarrow> passkey_row \<times> str \<Rightarrow> unit action" where
  "touch_passkey result rp =
     then_do (asks (\<lambda>e. wa_update_credential (webauthn e) (snd rp) result)) (\<lambda>updated.
       case updated of
         None \<Rightarrow> ret ()
       | Some passkey \<Rightarrow>
           then_do (asks (\<lambda>e. wa_passkey_to_json (webauthn e) passkey)) (\<lambda>encoded.
           then_do (ok_or encoded (Internal ''serializing passkey'')) (\<lambda>credential_json.
             update_after_use (pk_id (fst rp)) credential_json)))"

definition finish_login :: "finish_login_dto \<Rightarrow> token_response action" where
  "finish_login dto =
     (let failed = of_passkey_error AuthenticationFailed
      in then_do (claim_challenge (fl_challenge_id dto) Authentication None) (\<lambda>claimed.
         then_do (ok_or claimed failed) (\<lambda>state.
         then_do (asks (\<lambda>e. wa_identify (webauthn e) (fl_credential dto))) (\<lambda>identified.
         then_do (ok_or identified failed) (\<lambda>user_id.
         then_do (users_find_by_id user_id) (\<lambda>found.
         then_do (ok_or (ok_opt_filter usr_is_active found) failed) (\<lambda>u.
         then_do (list_by_user (usr_id u)) (\<lambda>rows.
         then_do (asks (\<lambda>e. decoded e rows)) (\<lambda>known.
         then_do (asks (\<lambda>e. wa_finish_discoverable (webauthn e) (fl_credential dto) state (map snd known))) (\<lambda>finished.
         then_do (ok_or finished failed) (\<lambda>result.
         seq (for_each known (touch_passkey result))
         (then_do (asks (\<lambda>e. require_verified_email (conf e))) (\<lambda>req.
            if req \<and> \<not> is_email_verified u then raise (of_passkey_error PasskeyEmailNotVerified)
            else bearer_for u)))))))))))))"

definition passkeys_list :: "auth_user \<Rightarrow> passkey_response list action" where
  "passkeys_list actor =
     then_do (list_by_user (au_id actor)) (\<lambda>rows. ret (map passkey_response_from rows))"

definition passkeys_delete :: "auth_user \<Rightarrow> uuid \<Rightarrow> unit action" where
  "passkeys_delete actor i =
     then_do (list_by_user (au_id actor)) (\<lambda>rows.
     if \<not> list_ex (\<lambda>p. pk_id p = i) rows then raise (of_passkey_error PasskeyNotFound)
     else then_do (users_sign_in_method_count (au_id actor)) (\<lambda>n.
       if n < 2 then raise (of_passkey_error LastPasskey)
       else then_do (passkeys_repo_delete (au_id actor) i) (\<lambda>_. ret ())))"

section \<open>A ceremony state answers once\<close>

definition challenges_unique :: "db \<Rightarrow> bool" where
  "challenges_unique d \<longleftrightarrow> distinct (map ch_id (webauthn_challenges d))"

definition challenge_open :: "db \<Rightarrow> str \<times> challenge_kind \<times> uuid option \<Rightarrow> bool" where
  "challenge_open d k \<longleftrightarrow> (\<exists>c \<in> set (webauthn_challenges d).
     ch_id c = fst k \<and> ch_kind c = fst (snd k) \<and> ch_user_id c = snd (snd k))"

lemma take_challenge_effect:
  assumes "take_challenge k now d = (r, d')"
  shows "challenges_unique d \<Longrightarrow> challenges_unique d'"
    and "challenge_open d' j \<Longrightarrow> challenge_open d j"
    and "r = Some s \<Longrightarrow> challenges_unique d \<Longrightarrow> challenge_open d k \<and> \<not> challenge_open d' k"
proof -
  obtain i kind u where k: "k = (i, kind, u)" by (cases k) auto
  let ?p = "\<lambda>c. ch_id c = i \<and> ch_kind c = kind \<and> ch_user_id c = u \<and> ch_expires_at c > now"
  from assms have d': "d' = d\<lparr>webauthn_challenges := delete_where ?p (webauthn_challenges d)\<rparr>"
    and r: "r = map_option ch_state_json (List.find ?p (webauthn_challenges d))"
    by (auto simp: k take_challenge_def Let_def)
  show "challenges_unique d \<Longrightarrow> challenges_unique d'"
    by (simp add: d' challenges_unique_def delete_where_def distinct_map_filter)
  show "challenge_open d' j \<Longrightarrow> challenge_open d j"
    by (auto simp: d' challenge_open_def)
  assume "r = Some s" and uniq: "challenges_unique d"
  then obtain c where c: "c \<in> set (webauthn_challenges d)" "?p c" using r by (auto dest!: find_SomeD)
  have "x = c" if "x \<in> set (webauthn_challenges d)" "ch_id x = i" for x
    using distinct_key_unique [OF uniq [unfolded challenges_unique_def] that(1) c(1)] that(2) c(2) by simp
  with c show "challenge_open d k \<and> \<not> challenge_open d' k"
    by (auto simp: d' k challenge_open_def)
qed

interpretation ceremony: single_use challenges_unique challenge_open take_challenge
  by unfold_locales (use take_challenge_effect in blast)+

end
