(* ===== verification/Http.thy ===== *)
theory Http
  imports Extractors OAuth Avatars Passkeys
begin

text \<open>
  The HTTP surface: the request validators of the \<open>dto\<close> files, one definition per handler of the
  \<open>controllers\<close> directories (extractors in the order of the handler's arguments), the routes with
  their rate limiter, and the response a request gets.

  Reading a JSON body or a query string is axum's and serde's: a handler receives the outcome, either
  the rejection text or the decoded value. Path segments arrive decoded.
\<close>

section \<open>Validators\<close>

definition check_length :: "str \<Rightarrow> str \<Rightarrow> nat \<Rightarrow> nat \<Rightarrow> str \<Rightarrow> validation_errors" where
  "check_length field message lo hi v =
     (if lo \<le> length v \<and> length v \<le> hi then [] else [(field, message)])"

definition check_opt_length :: "str \<Rightarrow> str \<Rightarrow> nat \<Rightarrow> nat \<Rightarrow> str option \<Rightarrow> validation_errors" where
  "check_opt_length field message lo hi v =
     (case v of None \<Rightarrow> [] | Some s \<Rightarrow> check_length field message lo hi s)"

definition check_email :: "env \<Rightarrow> str \<Rightarrow> str \<Rightarrow> validation_errors" where
  "check_email e field v = (if valid_email e v then [] else [(field, ''must be a valid email'')])"

definition password_message :: str where "password_message = ''must be 8-128 characters''"
definition name_message :: str where "name_message = ''must be 1-100 characters''"

definition validate_create_user :: "env \<Rightarrow> create_user_dto \<Rightarrow> validation_errors" where
  "validate_create_user e d = check_email e ''email'' (cu_email d)
     @ check_length ''password'' password_message 8 128 (cu_password d)
     @ check_opt_length ''display_name'' name_message 1 100 (cu_display_name d)"

definition validate_update_user :: "env \<Rightarrow> update_user_dto \<Rightarrow> validation_errors" where
  "validate_update_user e d = check_opt_length ''display_name'' name_message 1 100 (uu_display_name d)"

definition validate_update_profile :: "env \<Rightarrow> update_profile_dto \<Rightarrow> validation_errors" where
  "validate_update_profile e d = check_opt_length ''display_name'' name_message 1 100 (upd_display_name d)"

definition validate_list_users :: "env \<Rightarrow> list_users_query \<Rightarrow> validation_errors" where
  "validate_list_users e q = check_opt_length ''q'' ''must be at most 100 characters'' 0 100 (lq_q q)"

definition validate_credentials :: "env \<Rightarrow> credentials_dto \<Rightarrow> validation_errors" where
  "validate_credentials e d = check_email e ''email'' (cr_email d)
     @ check_length ''password'' password_message 8 128 (cr_password d)"

definition validate_change_email :: "env \<Rightarrow> change_email_dto \<Rightarrow> validation_errors" where
  "validate_change_email e d = check_email e ''new_email'' (ce_new_email d)
     @ check_length ''current_password'' ''is required'' 1 128 (ce_current_password d)"

definition validate_change_password :: "env \<Rightarrow> change_password_dto \<Rightarrow> validation_errors" where
  "validate_change_password e d =
     check_length ''current_password'' ''is required'' 1 128 (cp_current_password d)
     @ check_length ''new_password'' password_message 8 128 (cp_new_password d)"

definition validate_reset_password :: "env \<Rightarrow> reset_password_dto \<Rightarrow> validation_errors" where
  "validate_reset_password e d = check_length ''token'' ''is required'' 1 256 (rp_token d)
     @ check_length ''new_password'' password_message 8 128 (rp_new_password d)"

definition validate_forgot_password :: "env \<Rightarrow> str \<Rightarrow> validation_errors" where
  "validate_forgot_password e email = check_email e ''email'' email"

definition validate_invite_user :: "env \<Rightarrow> invite_user_dto \<Rightarrow> validation_errors" where
  "validate_invite_user e d = check_email e ''email'' (iu_email d)
     @ check_opt_length ''display_name'' name_message 1 100 (iu_display_name d)"

definition validate_verify_email :: "env \<Rightarrow> str \<Rightarrow> validation_errors" where
  "validate_verify_email e token = check_length ''token'' ''is required'' 1 256 token"

definition validate_disable_totp :: "env \<Rightarrow> str \<Rightarrow> validation_errors" where
  "validate_disable_totp e current_password =
     check_length ''current_password'' password_message 8 128 current_password"

definition validate_enable_totp :: "env \<Rightarrow> str \<Rightarrow> validation_errors" where
  "validate_enable_totp e code =
     check_length ''code'' ''must be the 6-digit code from your authenticator app'' 6 6 code"

record verify_totp_dto =
  vt_pending_token :: str
  vt_code :: str

definition validate_verify_totp :: "env \<Rightarrow> verify_totp_dto \<Rightarrow> validation_errors" where
  "validate_verify_totp e d =
     (if vt_pending_token d = [] then [(''pending_token'', ''is required'')] else [])
     @ check_length ''code'' ''must be an authenticator code or a recovery code'' 6 11 (vt_code d)"

definition validate_create_api_key :: "env \<Rightarrow> create_api_key_dto \<Rightarrow> validation_errors" where
  "validate_create_api_key e d = check_length ''name'' name_message 1 100 (ck_name d)
     @ (case ck_expires_in_days d of
          None \<Rightarrow> []
        | Some n \<Rightarrow> if 1 \<le> n \<and> n \<le> 3650 then [] else [(''expires_in_days'', ''must be 1-3650'')])"

definition validate_approve :: "env \<Rightarrow> str \<Rightarrow> validation_errors" where
  "validate_approve e code = check_length ''code'' ''must be 4 digits'' 4 4 code"

definition validate_upload_query :: "env \<Rightarrow> str option \<Rightarrow> validation_errors" where
  "validate_upload_query e filename = check_opt_length ''filename'' [] 1 255 filename"

definition validate_exchange :: "env \<Rightarrow> str \<Rightarrow> validation_errors" where
  "validate_exchange e code = check_length ''code'' ''is required'' 1 256 code"

definition validate_finish_registration :: "env \<Rightarrow> finish_registration_dto \<Rightarrow> validation_errors" where
  "validate_finish_registration e d = check_length ''challenge_id'' [] 1 100 (fr_challenge_id d)
     @ check_opt_length ''name'' name_message 1 100 (fr_name d)"

definition validate_finish_login :: "env \<Rightarrow> finish_login_dto \<Rightarrow> validation_errors" where
  "validate_finish_login e d = check_length ''challenge_id'' [] 1 100 (fl_challenge_id d)"

definition validate_page :: "env \<Rightarrow> 32 word option \<times> 32 word option \<Rightarrow> validation_errors" where
  "validate_page e q = []"

section \<open>Handlers: users\<close>

text \<open>A response is a status code and a body.\<close>

type_synonym 'a response = "nat \<times> 'a"

definition answer :: "nat \<Rightarrow> 'a action \<Rightarrow> 'a response action" where
  "answer status m = then_do m (\<lambda>v. ret (status, v))"

definition users_create_handler :: "request \<Rightarrow> create_user_dto body \<Rightarrow> user_response response action" where
  "users_create_handler rq b =
     then_do (admin_user_from_request rq) (\<lambda>actor.
     then_do (validated validate_create_user b) (\<lambda>dto. answer 201 (users_create actor dto)))"

definition users_remove_handler :: "request \<Rightarrow> uuid \<Rightarrow> unit response action" where
  "users_remove_handler rq i =
     then_do (admin_user_from_request rq) (\<lambda>actor.
     then_do (users_delete actor i) (\<lambda>removed.
     seq (case removed of None \<Rightarrow> ret () | Some avatar_key \<Rightarrow> avatars_remove_file avatar_key)
     (seq (attempt (media_delete_all_for_user i))
          (ret (204, ())))))"

definition users_me_handler :: "request \<Rightarrow> user_response response action" where
  "users_me_handler rq =
     then_do (auth_user_from_request rq) (\<lambda>actor. answer 200 (users_get actor (au_id actor)))"

definition users_get_one_handler :: "request \<Rightarrow> uuid \<Rightarrow> user_response response action" where
  "users_get_one_handler rq i =
     then_do (auth_user_from_request rq) (\<lambda>actor. answer 200 (users_get actor i))"

definition users_list_handler ::
  "request \<Rightarrow> list_users_query body \<Rightarrow> user_response paginated_response response action" where
  "users_list_handler rq q =
     then_do (admin_user_from_request rq) (\<lambda>_.
     then_do (validated validate_list_users q) (\<lambda>query.
     then_do (asks collation_key) (\<lambda>collate. answer 200 (users_list collate query))))"

definition users_update_me_handler ::
  "request \<Rightarrow> update_profile_dto body \<Rightarrow> user_response response action" where
  "users_update_me_handler rq b =
     then_do (auth_user_from_request rq) (\<lambda>actor.
     then_do (validated validate_update_profile b) (\<lambda>dto.
       answer 200 (users_update_profile actor dto)))"

definition users_update_handler ::
  "request \<Rightarrow> uuid \<Rightarrow> update_user_dto body \<Rightarrow> user_response response action" where
  "users_update_handler rq i b =
     then_do (admin_user_from_request rq) (\<lambda>actor.
     then_do (validated validate_update_user b) (\<lambda>dto. answer 200 (users_update_user actor i dto)))"

section \<open>Handlers: auth\<close>

definition message :: "nat \<Rightarrow> str \<Rightarrow> 'a action \<Rightarrow> str response action" where
  "message status m act = seq act (ret (status, m))"

definition register_handler :: "request \<Rightarrow> credentials_dto body \<Rightarrow> user_response response action" where
  "register_handler rq b =
     then_do (validated validate_credentials b) (\<lambda>dto. answer 201 (register dto))"

definition login_handler :: "request \<Rightarrow> credentials_dto body \<Rightarrow> login_response response action" where
  "login_handler rq b =
     then_do (validated validate_credentials b) (\<lambda>dto. answer 200 (login dto))"

definition forgot_handler :: "request \<Rightarrow> str body \<Rightarrow> str response action" where
  "forgot_handler rq b =
     then_do (validated validate_forgot_password b) (\<lambda>email.
       message 202 ''If that address is registered, we sent a link to reset the password.'' (forgot email))"

definition reset_handler :: "request \<Rightarrow> reset_password_dto body \<Rightarrow> str response action" where
  "reset_handler rq b =
     then_do (validated validate_reset_password b) (\<lambda>dto.
       message 200 ''Password updated.'' (reset_password dto))"

definition verify_email_handler :: "request \<Rightarrow> str body \<Rightarrow> str response action" where
  "verify_email_handler rq b =
     then_do (validated validate_verify_email b) (\<lambda>token.
       message 200 ''Email verified.'' (verify_email token))"

definition resend_handler :: "request \<Rightarrow> str response action" where
  "resend_handler rq =
     then_do (auth_user_from_request rq) (\<lambda>actor.
       message 202 ''If your email is not verified yet, we sent a new link.'' (resend actor))"

definition confirm_change_handler :: "request \<Rightarrow> str body \<Rightarrow> str response action" where
  "confirm_change_handler rq b =
     then_do (validated validate_verify_email b) (\<lambda>token.
       message 200 ''Email address updated.'' (confirm_change token))"

definition two_factor_verify_handler ::
  "request \<Rightarrow> verify_totp_dto body \<Rightarrow> token_response response action" where
  "two_factor_verify_handler rq b =
     then_do (validated validate_verify_totp b) (\<lambda>dto.
       answer 200 (verify_login (vt_pending_token dto) (vt_code dto)))"

definition auth_me_handler :: "request \<Rightarrow> user_response response action" where
  "auth_me_handler rq = then_do (auth_user_from_request rq) (\<lambda>actor. answer 200 (me actor))"

definition change_password_handler :: "request \<Rightarrow> change_password_dto body \<Rightarrow> str response action" where
  "change_password_handler rq b =
     then_do (session_user_from_request rq) (\<lambda>actor.
     then_do (validated validate_change_password b) (\<lambda>dto.
       message 200 ''Password updated.'' (change_password actor dto)))"

definition invite_handler :: "request \<Rightarrow> invite_user_dto body \<Rightarrow> user_response response action" where
  "invite_handler rq b =
     then_do (admin_user_from_request rq) (\<lambda>_.
     then_do (validated validate_invite_user b) (\<lambda>dto. answer 201 (invite dto)))"

definition request_change_handler :: "request \<Rightarrow> change_email_dto body \<Rightarrow> str response action" where
  "request_change_handler rq b =
     then_do (session_user_from_request rq) (\<lambda>actor.
     then_do (validated validate_change_email b) (\<lambda>dto.
       message 202 ''We sent a confirmation link to the new address.'' (request_change actor dto)))"

definition two_factor_setup_handler :: "request \<Rightarrow> totp_setup_response response action" where
  "two_factor_setup_handler rq =
     then_do (session_user_from_request rq) (\<lambda>actor. answer 200 (begin_setup actor))"

definition two_factor_enable_handler ::
  "request \<Rightarrow> str body \<Rightarrow> totp_enabled_response response action" where
  "two_factor_enable_handler rq b =
     then_do (session_user_from_request rq) (\<lambda>actor.
     then_do (validated validate_enable_totp b) (\<lambda>code. answer 200 (confirm_setup actor code)))"

definition two_factor_disable_handler :: "request \<Rightarrow> str body \<Rightarrow> str response action" where
  "two_factor_disable_handler rq b =
     then_do (session_user_from_request rq) (\<lambda>actor.
     then_do (validated validate_disable_totp b) (\<lambda>current_password.
       message 200 ''Two-factor authentication disabled.'' (totp_disable actor current_password)))"

section \<open>Handlers: API keys, QR sign-in, audit log\<close>

definition keys_create_handler ::
  "request \<Rightarrow> create_api_key_dto body \<Rightarrow> created_api_key_response response action" where
  "keys_create_handler rq b =
     then_do (session_user_from_request rq) (\<lambda>actor.
     then_do (validated validate_create_api_key b) (\<lambda>dto. answer 201 (keys_create actor dto)))"

definition keys_list_handler :: "request \<Rightarrow> api_key_response list response action" where
  "keys_list_handler rq =
     then_do (session_user_from_request rq) (\<lambda>actor. answer 200 (keys_list actor))"

definition keys_revoke_handler :: "request \<Rightarrow> uuid \<Rightarrow> unit response action" where
  "keys_revoke_handler rq i =
     then_do (session_user_from_request rq) (\<lambda>actor. answer 204 (keys_revoke actor i))"

definition SECRET_HEADER :: str where "SECRET_HEADER = ''x-qr-secret''"

definition qr_create_handler :: "request \<Rightarrow> created_session response action" where
  "qr_create_handler rq =
     then_do (client_meta_from_request rq) (\<lambda>meta. answer 201 (qr_create meta))"

definition qr_poll_handler :: "request \<Rightarrow> str \<Rightarrow> poll_response response action" where
  "qr_poll_handler rq i = answer 200 (qr_poll i (header_get (rq_headers rq) SECRET_HEADER))"

definition qr_scan_handler :: "request \<Rightarrow> str \<Rightarrow> scan_response response action" where
  "qr_scan_handler rq i =
     then_do (session_user_from_request rq) (\<lambda>actor. answer 200 (qr_scan actor i))"

definition qr_approve_handler :: "request \<Rightarrow> str \<Rightarrow> str body \<Rightarrow> str response action" where
  "qr_approve_handler rq i b =
     then_do (session_user_from_request rq) (\<lambda>actor.
     then_do (validated validate_approve b) (\<lambda>code.
       message 200 ''Login approved.'' (qr_approve actor i code)))"

definition qr_reject_handler :: "request \<Rightarrow> str \<Rightarrow> str response action" where
  "qr_reject_handler rq i =
     then_do (session_user_from_request rq) (\<lambda>actor.
       message 200 ''Login rejected.'' (qr_reject actor i))"

definition audit_list_handler ::
  "request \<Rightarrow> (32 word option \<times> 32 word option) body \<Rightarrow>
     audit_log_entry_response paginated_response response action" where
  "audit_list_handler rq q =
     then_do (admin_user_from_request rq) (\<lambda>_.
     then_do (validated validate_page q) (\<lambda>(pg, per). answer 200 (audit_list pg per)))"

section \<open>Handlers: media and avatars\<close>

definition declared_length :: "headers \<Rightarrow> nat option" where
  "declared_length hs = Option.bind (header_get hs ''content-length'') parse_usize"

text \<open>\<open>to_bytes(body, limit)\<close> refuses a body longer than the limit.\<close>

definition read_body :: "request \<Rightarrow> bytes \<Rightarrow> nat \<Rightarrow> app_error \<Rightarrow> bytes action" where
  "read_body rq contents lim too_large =
     (if (case declared_length (rq_headers rq) of None \<Rightarrow> False | Some n \<Rightarrow> n > lim)
      then raise too_large
      else if length contents > lim then raise too_large else ret contents)"

definition media_upload_handler ::
  "request \<Rightarrow> str option body \<Rightarrow> bytes \<Rightarrow> media_response response action" where
  "media_upload_handler rq q contents =
     then_do (auth_user_from_request rq) (\<lambda>actor.
     then_do (validated validate_upload_query q) (\<lambda>filename.
     then_do (asks (\<lambda>e. max_upload_bytes (conf e))) (\<lambda>lim.
     then_do (read_body rq contents lim (of_media_error (MediaTooLarge (lim div (1024 * 1024))))) (\<lambda>upload.
       answer 201 (media_upload actor upload filename)))))"

definition media_list_handler ::
  "request \<Rightarrow> (32 word option \<times> 32 word option) body \<Rightarrow>
     media_response paginated_response response action" where
  "media_list_handler rq q =
     then_do (auth_user_from_request rq) (\<lambda>actor.
     then_do (validated validate_page q) (\<lambda>(pg, per).
       answer 200 (media_list actor (pagination_new pg per))))"

definition media_metadata_handler :: "request \<Rightarrow> uuid \<Rightarrow> media_response response action" where
  "media_metadata_handler rq i =
     then_do (auth_user_from_request rq) (\<lambda>actor. answer 200 (media_metadata actor i))"

text \<open>\<open>HeaderValue::from_str\<close> refuses control characters.\<close>

definition header_from_str :: "str \<Rightarrow> str option" where
  "header_from_str s =
     (if list_all (\<lambda>c. (32 \<le> ascii_code c \<and> ascii_code c \<noteq> 127) \<or> ascii_code c = 9) s then Some s else None)"

definition media_content_handler :: "request \<Rightarrow> uuid \<Rightarrow> (headers \<times> bytes) response action" where
  "media_content_handler rq i =
     then_do (auth_user_from_request rq) (\<lambda>actor.
     then_do (media_content actor i) (\<lambda>stored.
       let m = mc_media stored
       in ret (200,
            ((''content-type'', (case header_from_str (med_content_type m) of
                                  Some v \<Rightarrow> v | None \<Rightarrow> ''application/octet-stream''))
             # (case header_from_str (content_disposition (med_content_type m) (med_original_filename m)) of
                  Some v \<Rightarrow> [(''content-disposition'', v)] | None \<Rightarrow> [])
             @ [(''x-content-type-options'', ''nosniff''),
              (''content-security-policy'', ''default-src 'none'; sandbox''),
              (''cache-control'', ''private, max-age=3600'')], mc_bytes stored))))"

definition media_remove_handler :: "request \<Rightarrow> uuid \<Rightarrow> unit response action" where
  "media_remove_handler rq i =
     then_do (auth_user_from_request rq) (\<lambda>actor. answer 204 (media_delete actor i))"

definition avatar_upload_handler :: "request \<Rightarrow> bytes \<Rightarrow> user_response response action" where
  "avatar_upload_handler rq contents =
     then_do (auth_user_from_request rq) (\<lambda>actor.
     then_do (read_body rq contents MAX_UPLOAD_BYTES
        (of_avatar_error (AvatarTooLarge (MAX_UPLOAD_BYTES div (1024 * 1024))))) (\<lambda>upload.
       answer 200 (avatars_set actor upload)))"

definition avatar_remove_handler :: "request \<Rightarrow> user_response response action" where
  "avatar_remove_handler rq =
     then_do (auth_user_from_request rq) (\<lambda>actor. answer 200 (avatars_remove actor))"

definition avatar_serve_handler :: "request \<Rightarrow> str \<Rightarrow> (headers \<times> bytes) response action" where
  "avatar_serve_handler rq file =
     then_do (avatars_read file) (\<lambda>contents.
       ret (200, ([(''content-type'', ''image/jpeg''),
         (''cache-control'', ''public, max-age=31536000, immutable''),
         (''x-content-type-options'', ''nosniff''),
         (''cross-origin-resource-policy'', ''cross-origin'')], contents)))"

section \<open>Handlers: OAuth\<close>

definition parse_provider :: "str \<Rightarrow> provider action" where
  "parse_provider name = ok_or (provider_parse name) (of_oauth_error ProviderUnavailable)"

text \<open>\<open>Redirect::to\<close> answers 303 with a \<open>location\<close> header; the body of the model is that location.\<close>

definition oauth_login_handler :: "request \<Rightarrow> str \<Rightarrow> str option \<Rightarrow> str response action" where
  "oauth_login_handler rq name redirect =
     then_do (parse_provider name) (\<lambda>p. answer 303 (login_url p redirect))"

definition frontend_redirect :: "env \<Rightarrow> callback_outcome \<Rightarrow> str" where
  "frontend_redirect e outcome =
     frontend_url (conf e) @ ''/oauth/callback?'' @ form_urlencoded e
       (case outcome of
          LoggedIn code redirect \<Rightarrow> [(''code'', code), (''redirect'', redirect)]
        | Linked p redirect \<Rightarrow> [(''linked'', provider_as_str p), (''redirect'', redirect)]
        | Failed reason \<Rightarrow> [(''error'', reason)])"

definition oauth_callback_handler :: "request \<Rightarrow> str \<Rightarrow> callback_query \<Rightarrow> str response action" where
  "oauth_callback_handler rq name q =
     then_do (parse_provider name) (\<lambda>p.
     then_do (oauth_handle_callback p q) (\<lambda>outcome.
       answer 303 (asks (\<lambda>e. frontend_redirect e outcome))))"

definition oauth_exchange_handler :: "request \<Rightarrow> str body \<Rightarrow> token_response response action" where
  "oauth_exchange_handler rq b =
     then_do (validated validate_exchange b) (\<lambda>code. answer 200 (oauth_exchange code))"

definition oauth_providers_handler :: "request \<Rightarrow> provider_info list response action" where
  "oauth_providers_handler rq = answer 200 (asks (\<lambda>e. oauth_providers (conf e)))"

definition oauth_identities_handler :: "request \<Rightarrow> identity_response list response action" where
  "oauth_identities_handler rq =
     then_do (session_user_from_request rq) (\<lambda>actor. answer 200 (oauth_identities_of actor))"

definition oauth_link_handler :: "request \<Rightarrow> str \<Rightarrow> str response action" where
  "oauth_link_handler rq name =
     then_do (session_user_from_request rq) (\<lambda>actor.
     then_do (parse_provider name) (\<lambda>p. answer 200 (link_url actor p)))"

definition oauth_unlink_handler :: "request \<Rightarrow> str \<Rightarrow> unit response action" where
  "oauth_unlink_handler rq name =
     then_do (session_user_from_request rq) (\<lambda>actor.
     then_do (parse_provider name) (\<lambda>p. answer 204 (oauth_unlink actor p)))"

section \<open>Handlers: passkeys\<close>

definition begin_registration_handler :: "request \<Rightarrow> begin_response response action" where
  "begin_registration_handler rq =
     then_do (session_user_from_request rq) (\<lambda>actor. answer 200 (begin_registration actor))"

definition finish_registration_handler ::
  "request \<Rightarrow> finish_registration_dto body \<Rightarrow> passkey_response response action" where
  "finish_registration_handler rq b =
     then_do (session_user_from_request rq) (\<lambda>actor.
     then_do (validated validate_finish_registration b) (\<lambda>dto.
       answer 201 (finish_registration actor dto)))"

definition begin_login_handler :: "request \<Rightarrow> begin_response response action" where
  "begin_login_handler rq = answer 200 begin_login"

definition finish_login_handler :: "request \<Rightarrow> finish_login_dto body \<Rightarrow> token_response response action" where
  "finish_login_handler rq b =
     then_do (validated validate_finish_login b) (\<lambda>dto. answer 200 (finish_login dto))"

definition passkeys_list_handler :: "request \<Rightarrow> passkey_response list response action" where
  "passkeys_list_handler rq =
     then_do (session_user_from_request rq) (\<lambda>actor. answer 200 (passkeys_list actor))"

definition passkeys_remove_handler :: "request \<Rightarrow> uuid \<Rightarrow> unit response action" where
  "passkeys_remove_handler rq i =
     then_do (session_user_from_request rq) (\<lambda>actor. answer 204 (passkeys_delete actor i))"

section \<open>Handlers: health\<close>

definition liveness_handler :: "request \<Rightarrow> str response action" where
  "liveness_handler rq = ret (200, ''ok'')"

definition readiness_handler :: "request \<Rightarrow> str response action" where
  "readiness_handler rq =
     then_do (attempt (db_query (\<lambda>_. ()))) (\<lambda>r.
       case r of
         Inr _ \<Rightarrow> ret (200, ''ready'')
       | Inl _ \<Rightarrow> ret (503, ''database unavailable''))"

end
