(* ===== verification/Jobs.thy ===== *)
theory Jobs
  imports Schema
begin

text \<open>
  \<open>src/infra/jobs\<close>: the job table with its atomic claim, the worker that runs claimed jobs and retries
  failed ones, and the recurring cleanup that sweeps expired rows and enqueues its own next run.
\<close>

section \<open>The job table\<close>

definition DEFAULT_MAX_ATTEMPTS :: int where "DEFAULT_MAX_ATTEMPTS = 5"

record job =
  j_id :: uuid
  j_kind :: str
  j_payload :: str
  j_attempts :: int
  j_max_attempts :: int

definition job_of :: "job_row \<Rightarrow> job" where
  "job_of r = \<lparr> j_id = jb_id r, j_kind = jb_kind r, j_payload = jb_payload r,
     j_attempts = jb_attempts r, j_max_attempts = jb_max_attempts r \<rparr>"

definition new_job :: "uuid \<Rightarrow> str \<Rightarrow> str \<Rightarrow> time \<Rightarrow> time \<Rightarrow> job_row" where
  "new_job i kind payload run_at now = \<lparr> jb_id = i, jb_kind = kind, jb_payload = payload,
     jb_status = JobPending, jb_attempts = 0, jb_max_attempts = DEFAULT_MAX_ATTEMPTS, jb_run_at = run_at,
     jb_locked_at = None, jb_last_error = None, jb_created_at = now, jb_updated_at = now \<rparr>"

definition job_insert :: "job_row \<Rightarrow> db \<Rightarrow> sqlx_error + unit \<times> db" where
  "job_insert row d =
     (if exists_where (\<lambda>j. jb_id j = jb_id row) (jobs d) then Inl UniqueViolation
      else Inr ((), d\<lparr>jobs := jobs d @ [row]\<rparr>))"

definition enqueue :: "str \<Rightarrow> str \<Rightarrow> time \<Rightarrow> unit action" where
  "enqueue kind payload run_at =
     then_do utc_now (\<lambda>now.
     then_do uuid_v4 (\<lambda>i. db_stmt (job_insert (new_job i kind payload run_at now))))"

definition scheduled :: "str \<Rightarrow> job_row \<Rightarrow> bool" where
  "scheduled kind j \<longleftrightarrow> jb_kind j = kind \<and> (jb_status j = JobPending \<or> jb_status j = JobRunning)"

definition insert_unless_scheduled :: "job_row \<Rightarrow> db \<Rightarrow> sqlx_error + unit \<times> db" where
  "insert_unless_scheduled row d =
     (if exists_where (scheduled (jb_kind row)) (jobs d) then Inr ((), d) else job_insert row d)"

definition ensure_scheduled :: "str \<Rightarrow> unit action" where
  "ensure_scheduled kind =
     then_do utc_now (\<lambda>now.
     then_do uuid_v4 (\<lambda>i. db_stmt (insert_unless_scheduled (new_job i kind ''{}'' now now))))"

text \<open>
  The claim: due pending rows that no concurrent transaction holds, earliest first, at most \<open>lim\<close>. The
  rows come back in the table's order (the order of \<open>RETURNING\<close> is Postgres's own).
\<close>

definition due :: "time \<Rightarrow> (uuid \<Rightarrow> bool) \<Rightarrow> job_row \<Rightarrow> bool" where
  "due now locked j \<longleftrightarrow> jb_status j = JobPending \<and> jb_run_at j \<le> now \<and> \<not> locked (jb_id j)"

definition claim_jobs :: "nat \<Rightarrow> time \<Rightarrow> (uuid \<Rightarrow> bool) \<Rightarrow> db \<Rightarrow> job list \<times> db" where
  "claim_jobs lim now locked d =
     (let claimed = map jb_id (take lim (sort_key jb_run_at (filter (due now locked) (jobs d))));
          hit = (\<lambda>j. jb_id j \<in> set claimed)
      in (map job_of (filter hit (jobs d)),
          d\<lparr>jobs := update_where hit
              (\<lambda>j. j\<lparr>jb_status := JobRunning, jb_locked_at := Some now, jb_updated_at := now\<rparr>) (jobs d)\<rparr>))"

definition claim_batch :: "nat \<Rightarrow> job list action" where
  "claim_batch lim =
     then_do utc_now (\<lambda>now.
     then_do (draw row_locked) (\<lambda>locked. db_exec (claim_jobs lim now locked)))"

definition set_job :: "uuid \<Rightarrow> (job_row \<Rightarrow> job_row) \<Rightarrow> db \<Rightarrow> unit \<times> db" where
  "set_job i f d = ((), d\<lparr>jobs := update_where (\<lambda>j. jb_id j = i) f (jobs d)\<rparr>)"

definition mark_succeeded :: "uuid \<Rightarrow> unit action" where
  "mark_succeeded i =
     then_do utc_now (\<lambda>now.
       db_exec (set_job i (\<lambda>j. j\<lparr>jb_status := JobSucceeded, jb_updated_at := now\<rparr>)))"

definition failed_row :: "bool \<Rightarrow> int \<Rightarrow> time \<Rightarrow> str \<Rightarrow> time \<Rightarrow> job_row \<Rightarrow> job_row" where
  "failed_row dead attempts run_at err now j =
     j\<lparr>jb_status := (if dead then JobDead else JobPending), jb_attempts := attempts, jb_run_at := run_at,
       jb_locked_at := None, jb_last_error := Some err, jb_updated_at := now\<rparr>"

definition reschedule_or_kill :: "job \<Rightarrow> str \<Rightarrow> duration \<Rightarrow> bool action" where
  "reschedule_or_kill job err backoff =
     then_do utc_now (\<lambda>now.
     let attempts = j_attempts job + 1;
         dead = attempts \<ge> j_max_attempts job
     in seq (db_exec (set_job (j_id job) (failed_row dead attempts (now + backoff) err now)))
            (ret dead))"

section \<open>The cleanup job\<close>

definition CLEANUP_KIND :: str where "CLEANUP_KIND = ''cleanup_expired_rows''"
definition INTERVAL :: duration where "INTERVAL = hours 1"
definition SUCCEEDED_JOB_RETENTION :: duration where "SUCCEEDED_JOB_RETENTION = days 1"
definition DEAD_JOB_RETENTION :: duration where "DEAD_JOB_RETENTION = days 30"

definition sweep_auth_tokens :: "time \<Rightarrow> db \<Rightarrow> unit \<times> db" where
  "sweep_auth_tokens cutoff d =
     ((), d\<lparr>auth_tokens := delete_where (\<lambda>t. tok_expires_at t < cutoff) (auth_tokens d)\<rparr>)"

definition sweep_oauth_states :: "time \<Rightarrow> db \<Rightarrow> unit \<times> db" where
  "sweep_oauth_states cutoff d =
     ((), d\<lparr>oauth_states := delete_where (\<lambda>s. st_expires_at s < cutoff) (oauth_states d)\<rparr>)"

definition sweep_challenges :: "time \<Rightarrow> db \<Rightarrow> unit \<times> db" where
  "sweep_challenges cutoff d =
     ((), d\<lparr>webauthn_challenges := delete_where (\<lambda>c. ch_expires_at c < cutoff) (webauthn_challenges d)\<rparr>)"

definition sweep_qr_sessions :: "time \<Rightarrow> db \<Rightarrow> unit \<times> db" where
  "sweep_qr_sessions cutoff d =
     ((), d\<lparr>qr_sessions := delete_where (\<lambda>s. qr_expires_at s < cutoff) (qr_sessions d)\<rparr>)"

definition sweep_login_grants :: "time \<Rightarrow> db \<Rightarrow> unit \<times> db" where
  "sweep_login_grants cutoff d =
     ((), d\<lparr>login_grants := delete_where (\<lambda>g. gr_expires_at g < cutoff) (login_grants d)\<rparr>)"

definition prune_jobs :: "job_status \<Rightarrow> time \<Rightarrow> db \<Rightarrow> unit \<times> db" where
  "prune_jobs status cutoff d =
     ((), d\<lparr>jobs := delete_where (\<lambda>j. jb_status j = status \<and> jb_updated_at j < cutoff) (jobs d)\<rparr>)"

definition prune_job_history :: "unit action" where
  "prune_job_history =
     then_do utc_now (\<lambda>now.
     seq (db_exec (prune_jobs JobSucceeded (now - SUCCEEDED_JOB_RETENTION)))
     (then_do utc_now (\<lambda>later. db_exec (prune_jobs JobDead (later - DEAD_JOB_RETENTION)))))"

definition prune_mails :: "time \<Rightarrow> db \<Rightarrow> unit \<times> db" where
  "prune_mails cutoff d =
     ((), d\<lparr>outbound_mail := delete_where (\<lambda>m. ob_status m = MailDead \<and> ob_updated_at m < cutoff) (outbound_mail d)\<rparr>)"

definition prune_dead_mail :: "unit action" where
  "prune_dead_mail = then_do utc_now (\<lambda>now. db_exec (prune_mails (now - DEAD_JOB_RETENTION)))"

definition cleanup_run :: "unit action" where
  "cleanup_run =
     then_do utc_now (\<lambda>now.
     let cutoff = now - hours 1
     in seq (for_each [sweep_auth_tokens cutoff, sweep_oauth_states cutoff, sweep_challenges cutoff,
               sweep_qr_sessions cutoff, sweep_login_grants cutoff] db_exec)
        (seq prune_job_history prune_dead_mail))"

section \<open>The worker\<close>

definition CLAIM_BATCH :: nat where "CLAIM_BATCH = 8"
definition RETRY_BACKOFF :: "int list" where "RETRY_BACKOFF = [1, 4, 16]"

text \<open>\<open>i32 as usize\<close> keeps a non-negative count and sends a negative one far out of range.\<close>

definition as_usize :: "int \<Rightarrow> nat" where "as_usize n = nat (n mod 2 ^ 64)"

definition backoff :: "int \<Rightarrow> duration" where
  "backoff attempts = seconds (RETRY_BACKOFF ! min (as_usize attempts) (length RETRY_BACKOFF - 1))"

definition job_dispatch :: "job \<Rightarrow> (str + unit) action" where
  "job_dispatch job =
     (if j_kind job = CLEANUP_KIND
      then then_do (attempt (seq cleanup_run
             (then_do utc_now (\<lambda>now. enqueue CLEANUP_KIND ''{}'' (now + INTERVAL))))) (\<lambda>r.
           then_do (asks sqlx_display) (\<lambda>display. ret (map_sum display id r)))
      else ret (Inl (''no handler registered for job kind `'' @ j_kind job @ ''`'')))"

definition process :: "job \<Rightarrow> unit action" where
  "process job =
     then_do (job_dispatch job) (\<lambda>result.
       case result of
         Inr _ \<Rightarrow> then_do (attempt (mark_succeeded (j_id job))) (\<lambda>_. ret ())
       | Inl err \<Rightarrow>
           then_do (attempt (reschedule_or_kill job err (backoff (j_attempts job)))) (\<lambda>_. ret ()))"

text \<open>
  The first thing the worker does, and one turn of its loop; the claimed jobs run in any order, here the
  claimed one. \<open>poll_crashing k\<close> is a turn in which the process dies after \<open>k\<close> of the claimed jobs: the
  rest stay claimed.
\<close>

definition worker_start :: "unit action" where
  "worker_start = then_do (attempt (ensure_scheduled CLEANUP_KIND)) (\<lambda>_. ret ())"

definition poll_crashing :: "nat \<Rightarrow> unit action" where
  "poll_crashing k =
     then_do (attempt (claim_batch CLAIM_BATCH)) (\<lambda>claimed.
       case claimed of Inl _ \<Rightarrow> ret () | Inr js \<Rightarrow> for_each (take k js) process)"

definition poll :: "unit action" where
  "poll =
     then_do (attempt (claim_batch CLAIM_BATCH)) (\<lambda>claimed.
       case claimed of Inl _ \<Rightarrow> ret () | Inr js \<Rightarrow> for_each js process)"

end
