(* ===== verification/MailDelivery.thy ===== *)
theory MailDelivery
  imports Mail
begin

text \<open>
  \<open>src/modules/mail/service/mod.rs\<close>, \<open>transport.rs\<close>, \<open>repository.rs\<close> and \<open>messages\<close>: rendering a message,
  the background delivery with its retries, and the durable outbox that survives a crash. The compiled
  templates and the SMTP client are parameters (\<open>mailer\<close>).
\<close>

section \<open>Errors and rendering\<close>

datatype mail_error = MailConfig str | Render | Build str | Delivery bool str

fun is_retryable :: "mail_error \<Rightarrow> bool" where
  "is_retryable (Delivery permanent reason) = (\<not> permanent)"
| "is_retryable _ = False"

definition VERIFY_EMAIL_SUBJECT :: str where "VERIFY_EMAIL_SUBJECT = ''Verify your email address''"
definition PASSWORD_RESET_SUBJECT :: str where "PASSWORD_RESET_SUBJECT = ''Reset your password''"
definition INVITATION_SUBJECT :: str where "INVITATION_SUBJECT = ''You've been invited to Starter''"
definition PASSWORD_CHANGED_SUBJECT :: str where "PASSWORD_CHANGED_SUBJECT = ''Your password was changed''"
definition EMAIL_CHANGE_CONFIRM_SUBJECT :: str where "EMAIL_CHANGE_CONFIRM_SUBJECT = ''Confirm your new email address''"
definition EMAIL_CHANGE_NOTICE_SUBJECT :: str where "EMAIL_CHANGE_NOTICE_SUBJECT = ''Your account email is changing''"

fun subject :: "mail_message \<Rightarrow> str" where
  "subject (VerifyEmailMail link expires_in) = VERIFY_EMAIL_SUBJECT"
| "subject (PasswordResetMail link expires_in) = PASSWORD_RESET_SUBJECT"
| "subject (InvitationMail link expires_in) = INVITATION_SUBJECT"
| "subject PasswordChangedMail = PASSWORD_CHANGED_SUBJECT"
| "subject (EmailChangeConfirmMail link expires_in) = EMAIL_CHANGE_CONFIRM_SUBJECT"
| "subject (EmailChangeNoticeMail new_email) = EMAIL_CHANGE_NOTICE_SUBJECT"

definition assemble :: "env \<Rightarrow> str \<Rightarrow> str \<Rightarrow> mail_message \<Rightarrow> mail_error + outgoing_mail" where
  "assemble e recipient title m =
     (case ml_render_text (mailer e) recipient m of
        None \<Rightarrow> Inl Render
      | Some text \<Rightarrow> (case ml_render_html (mailer e) recipient m of
          None \<Rightarrow> Inl Render
        | Some html \<Rightarrow> Inr \<lparr> om_to = recipient, om_subject = title, om_text = text, om_html = html \<rparr>))"

definition render :: "env \<Rightarrow> str \<times> mail_message \<Rightarrow> mail_error + outgoing_mail" where
  "render e q = assemble e (fst q) (subject (snd q)) (snd q)"

section \<open>Transport\<close>

definition build_message :: "env \<Rightarrow> outgoing_mail \<Rightarrow> mail_error + unit" where
  "build_message e mail =
     (case ml_mailbox_error (mailer e) (om_to mail) of
        Some reason \<Rightarrow> Inl (Build (''recipient: '' @ reason))
      | None \<Rightarrow> (case ml_multipart_error (mailer e) mail of
          Some reason \<Rightarrow> Inl (Build reason)
        | None \<Rightarrow> Inr ()))"

text \<open>
  \<open>Transport::send\<close>. What the server acknowledged is recorded in \<open>delivered\<close>; with mail disabled the
  logging transport always succeeds and nothing leaves the process.
\<close>

definition transport_send :: "outgoing_mail \<Rightarrow> (env, world, mail_error, unit) prog" where
  "transport_send mail = (\<lambda>e w.
     if \<not> mail_enabled (conf e) then (Inr (), w)
     else case build_message e mail of
       Inl x \<Rightarrow> (Inl x, w)
     | Inr _ \<Rightarrow> (case ml_smtp_send (mailer e) (tick w) mail of
           Inr _ \<Rightarrow> (Inr (), w\<lparr>tick := Suc (tick w), delivered := delivered w @ [mail]\<rparr>)
         | Inl (permanent, reason) \<Rightarrow> (Inl (Delivery permanent reason), w\<lparr>tick := Suc (tick w)\<rparr>)))"

section \<open>Delivery with retries\<close>

datatype delivery_outcome = Sent | GaveUp

definition RETRY_DELAYS :: "duration list" where "RETRY_DELAYS = [seconds 1, seconds 4]"

text \<open>Sleeping lets time pass: what is drawn afterwards is drawn later.\<close>

definition sleep :: "duration \<Rightarrow> world \<Rightarrow> world" where
  "sleep d w = w\<lparr>tick := Suc (tick w)\<rparr>"

function deliver_loop :: "nat \<Rightarrow> outgoing_mail \<Rightarrow> env \<Rightarrow> world \<Rightarrow> delivery_outcome \<times> world" where
  "deliver_loop tried mail e w =
     (case transport_send mail e w of
        (Inr _, w1) \<Rightarrow> (Sent, w1)
      | (Inl x, w1) \<Rightarrow>
          if is_retryable x \<and> tried < length RETRY_DELAYS
          then deliver_loop (Suc tried) mail e (sleep (RETRY_DELAYS ! tried) w1)
          else (GaveUp, w1))"
  by pat_completeness auto
termination
  by (relation "measure (\<lambda>(tried, _). length RETRY_DELAYS - tried)") auto

definition deliver :: "outgoing_mail \<Rightarrow> delivery_outcome action" where
  "deliver mail = (\<lambda>e w. case deliver_loop 0 mail e w of (r, w1) \<Rightarrow> (Inr r, w1))"

lemma transport_send_db: "db (snd (transport_send mail e w)) = db w"
  by (auto simp: transport_send_def split: sum.splits)

lemma deliver_loop_db: "db (snd (deliver_loop tried mail e w)) = db w"
proof (induction tried mail e w rule: deliver_loop.induct)
  case (1 tried mail e w)
  obtain r w1 where send: "transport_send mail e w = (r, w1)" by fastforce
  then have "db w1 = db w" using transport_send_db [of mail e w] by simp
  with 1 send show ?case
    by (subst deliver_loop.simps) (auto simp: sleep_def simp del: deliver_loop.simps split: sum.splits)
qed

declare deliver_loop.simps [simp del]

lemma keeps_deliver [keeps_rules]: "keeps_db I (deliver mail)"
  using deliver_loop_db by (auto simp: keeps_def deliver_def split: prod.splits; metis snd_conv)

section \<open>The durable outbox\<close>

definition outbox_insert_row :: "outbound_mail_row \<Rightarrow> db \<Rightarrow> sqlx_error + unit \<times> db" where
  "outbox_insert_row row d =
     (if exists_where (\<lambda>m. ob_id m = ob_id row) (outbound_mail d) then Inl UniqueViolation
      else Inr ((), d\<lparr>outbound_mail := outbound_mail d @ [row]\<rparr>))"

definition outbox_insert :: "outgoing_mail \<Rightarrow> uuid action" where
  "outbox_insert mail =
     then_do uuid_v4 (\<lambda>i.
     then_do (asks (\<lambda>e. ml_mail_to_json (mailer e) mail)) (\<lambda>payload.
     then_do utc_now (\<lambda>now.
     seq (db_stmt (outbox_insert_row \<lparr> ob_id = i, ob_payload = payload, ob_status = MailPending,
            ob_created_at = now, ob_updated_at = now \<rparr>))
         (ret i))))"

definition outbox_delete :: "uuid \<Rightarrow> db \<Rightarrow> unit \<times> db" where
  "outbox_delete i d = ((), d\<lparr>outbound_mail := delete_where (\<lambda>m. ob_id m = i) (outbound_mail d)\<rparr>)"

definition outbox_remove :: "uuid \<Rightarrow> unit action" where
  "outbox_remove i = db_exec (outbox_delete i)"

definition outbox_kill :: "uuid \<Rightarrow> time \<Rightarrow> db \<Rightarrow> unit \<times> db" where
  "outbox_kill i now d = ((), d\<lparr>outbound_mail := update_where (\<lambda>m. ob_id m = i)
     (\<lambda>m. m\<lparr>ob_status := MailDead, ob_updated_at := now\<rparr>) (outbound_mail d)\<rparr>)"

definition mark_dead :: "uuid \<Rightarrow> unit action" where
  "mark_dead i = then_do utc_now (\<lambda>now. db_exec (outbox_kill i now))"

definition outbox_pending :: "(uuid \<times> outgoing_mail) list action" where
  "outbox_pending =
     then_do (db_query (\<lambda>d. filter (\<lambda>m. ob_status m = MailPending) (outbound_mail d))) (\<lambda>rows.
     asks (\<lambda>e. List.map_filter (\<lambda>row.
       map_option (\<lambda>mail. (ob_id row, mail)) (ml_mail_of_json (mailer e) (ob_payload row))) rows))"

lemma keeps_case_outcome [keeps_rules]:
  "keeps I m \<Longrightarrow> keeps I n \<Longrightarrow> keeps I (case r of Sent \<Rightarrow> m | GaveUp \<Rightarrow> n)"
  by (cases r) simp_all

section \<open>Background tasks\<close>

definition finish :: "uuid \<Rightarrow> delivery_outcome \<Rightarrow> unit action" where
  "finish i outcome =
     then_do (attempt (case outcome of Sent \<Rightarrow> outbox_remove i | GaveUp \<Rightarrow> mark_dead i)) (\<lambda>_. ret ())"

text \<open>The task \<open>dispatch\<close> spawns for a rendered mail; the running service always has the outbox.\<close>

definition delivery_task :: "outgoing_mail \<Rightarrow> unit action" where
  "delivery_task mail =
     then_do (attempt (outbox_insert mail)) (\<lambda>inserted.
       case inserted of
         Inl _ \<Rightarrow> then_do (deliver mail) (\<lambda>_. ret ())
       | Inr i \<Rightarrow> then_do (deliver mail) (finish i))"

definition dispatch :: "str \<times> mail_message \<Rightarrow> unit action" where
  "dispatch q =
     then_do (asks (\<lambda>e. render e q)) (\<lambda>rendered.
       case rendered of Inl _ \<Rightarrow> ret () | Inr mail \<Rightarrow> delivery_task mail)"

definition recover_one :: "uuid \<times> outgoing_mail \<Rightarrow> unit action" where
  "recover_one im = then_do (deliver (snd im)) (finish (fst im))"

definition recover_pending :: "unit action" where
  "recover_pending =
     then_do (attempt outbox_pending) (\<lambda>read.
       case read of Inl _ \<Rightarrow> ret () | Inr pending \<Rightarrow> for_each pending recover_one)"

end
