(* ===== verification/Server.thy ===== *)
theory Server
  imports Http Jobs MailDelivery
begin

text \<open>
  The assembled server (\<open>src/app.rs\<close>, \<open>src/state.rs\<close>, \<open>src/modules/mod.rs\<close> and the routers): one
  constructor of \<open>op\<close> per modelled endpoint, the limiter in front of it, and the response a client
  gets.
\<close>

datatype op =
    UsersCreate request "create_user_dto body"
  | UsersRemove request uuid
  | UsersMe request
  | UsersGetOne request uuid
  | UsersList request "list_users_query body"
  | UsersUpdateMe request "update_profile_dto body"
  | UsersUpdate request uuid "update_user_dto body"
  | AuthRegister request "credentials_dto body"
  | AuthLogin request "credentials_dto body"
  | AuthForgot request "str body"
  | AuthReset request "reset_password_dto body"
  | AuthVerifyEmail request "str body"
  | AuthResend request
  | AuthConfirmChange request "str body"
  | AuthTwoFactorVerify request "verify_totp_dto body"
  | AuthMe request
  | AuthChangePassword request "change_password_dto body"
  | AuthInvite request "invite_user_dto body"
  | AuthRequestChange request "change_email_dto body"
  | AuthTwoFactorSetup request
  | AuthTwoFactorEnable request "str body"
  | AuthTwoFactorDisable request "str body"
  | KeysCreate request "create_api_key_dto body"
  | KeysList request
  | KeysRevoke request uuid
  | QrCreate request
  | QrPoll request str
  | QrScan request str
  | QrApprove request str "str body"
  | QrReject request str
  | AuditList request "(32 word option \<times> 32 word option) body"
  | MediaUpload request "str option body" bytes
  | MediaList request "(32 word option \<times> 32 word option) body"
  | MediaMetadata request uuid
  | MediaContent request uuid
  | MediaRemove request uuid
  | AvatarUpload request bytes
  | AvatarRemove request
  | AvatarServe request str
  | OAuthLogin request str "str option"
  | OAuthCallback request str callback_query
  | OAuthExchange request "str body"
  | OAuthProviders request
  | OAuthIdentities request
  | OAuthLink request str
  | OAuthUnlink request str
  | PasskeyBegin request
  | PasskeyFinish request "finish_registration_dto body"
  | PasskeyLoginBegin request
  | PasskeyLoginFinish request "finish_login_dto body"
  | PasskeyList request
  | PasskeyRemove request uuid
  | HealthLive request
  | HealthReady request

definition status_of :: "'a response action \<Rightarrow> nat action" where
  "status_of m = then_do m (\<lambda>r. ret (fst r))"

fun run_op :: "op \<Rightarrow> nat action" where
  "run_op (UsersCreate rq b) = status_of (users_create_handler rq b)"
| "run_op (UsersRemove rq i) = status_of (users_remove_handler rq i)"
| "run_op (UsersMe rq) = status_of (users_me_handler rq)"
| "run_op (UsersGetOne rq i) = status_of (users_get_one_handler rq i)"
| "run_op (UsersList rq q) = status_of (users_list_handler rq q)"
| "run_op (UsersUpdateMe rq b) = status_of (users_update_me_handler rq b)"
| "run_op (UsersUpdate rq i b) = status_of (users_update_handler rq i b)"
| "run_op (AuthRegister rq b) = status_of (register_handler rq b)"
| "run_op (AuthLogin rq b) = status_of (login_handler rq b)"
| "run_op (AuthForgot rq b) = status_of (forgot_handler rq b)"
| "run_op (AuthReset rq b) = status_of (reset_handler rq b)"
| "run_op (AuthVerifyEmail rq b) = status_of (verify_email_handler rq b)"
| "run_op (AuthResend rq) = status_of (resend_handler rq)"
| "run_op (AuthConfirmChange rq b) = status_of (confirm_change_handler rq b)"
| "run_op (AuthTwoFactorVerify rq b) = status_of (two_factor_verify_handler rq b)"
| "run_op (AuthMe rq) = status_of (auth_me_handler rq)"
| "run_op (AuthChangePassword rq b) = status_of (change_password_handler rq b)"
| "run_op (AuthInvite rq b) = status_of (invite_handler rq b)"
| "run_op (AuthRequestChange rq b) = status_of (request_change_handler rq b)"
| "run_op (AuthTwoFactorSetup rq) = status_of (two_factor_setup_handler rq)"
| "run_op (AuthTwoFactorEnable rq b) = status_of (two_factor_enable_handler rq b)"
| "run_op (AuthTwoFactorDisable rq b) = status_of (two_factor_disable_handler rq b)"
| "run_op (KeysCreate rq b) = status_of (keys_create_handler rq b)"
| "run_op (KeysList rq) = status_of (keys_list_handler rq)"
| "run_op (KeysRevoke rq i) = status_of (keys_revoke_handler rq i)"
| "run_op (QrCreate rq) = status_of (qr_create_handler rq)"
| "run_op (QrPoll rq i) = status_of (qr_poll_handler rq i)"
| "run_op (QrScan rq i) = status_of (qr_scan_handler rq i)"
| "run_op (QrApprove rq i b) = status_of (qr_approve_handler rq i b)"
| "run_op (QrReject rq i) = status_of (qr_reject_handler rq i)"
| "run_op (AuditList rq q) = status_of (audit_list_handler rq q)"
| "run_op (MediaUpload rq q b) = status_of (media_upload_handler rq q b)"
| "run_op (MediaList rq q) = status_of (media_list_handler rq q)"
| "run_op (MediaMetadata rq i) = status_of (media_metadata_handler rq i)"
| "run_op (MediaContent rq i) = status_of (media_content_handler rq i)"
| "run_op (MediaRemove rq i) = status_of (media_remove_handler rq i)"
| "run_op (AvatarUpload rq b) = status_of (avatar_upload_handler rq b)"
| "run_op (AvatarRemove rq) = status_of (avatar_remove_handler rq)"
| "run_op (AvatarServe rq f) = status_of (avatar_serve_handler rq f)"
| "run_op (OAuthLogin rq n r) = status_of (oauth_login_handler rq n r)"
| "run_op (OAuthCallback rq n q) = status_of (oauth_callback_handler rq n q)"
| "run_op (OAuthExchange rq b) = status_of (oauth_exchange_handler rq b)"
| "run_op (OAuthProviders rq) = status_of (oauth_providers_handler rq)"
| "run_op (OAuthIdentities rq) = status_of (oauth_identities_handler rq)"
| "run_op (OAuthLink rq n) = status_of (oauth_link_handler rq n)"
| "run_op (OAuthUnlink rq n) = status_of (oauth_unlink_handler rq n)"
| "run_op (PasskeyBegin rq) = status_of (begin_registration_handler rq)"
| "run_op (PasskeyFinish rq b) = status_of (finish_registration_handler rq b)"
| "run_op (PasskeyLoginBegin rq) = status_of (begin_login_handler rq)"
| "run_op (PasskeyLoginFinish rq b) = status_of (finish_login_handler rq b)"
| "run_op (PasskeyList rq) = status_of (passkeys_list_handler rq)"
| "run_op (PasskeyRemove rq i) = status_of (passkeys_remove_handler rq i)"
| "run_op (HealthLive rq) = status_of (liveness_handler rq)"
| "run_op (HealthReady rq) = status_of (readiness_handler rq)"

section \<open>Limiters and responses\<close>

datatype limiter_choice = Unlimited | Strict request | PollLimiter request

fun limiter_of :: "op \<Rightarrow> limiter_choice" where
  "limiter_of (AuthRegister rq b) = Strict rq"
| "limiter_of (AuthLogin rq b) = Strict rq"
| "limiter_of (AuthForgot rq b) = Strict rq"
| "limiter_of (AuthReset rq b) = Strict rq"
| "limiter_of (AuthVerifyEmail rq b) = Strict rq"
| "limiter_of (AuthResend rq) = Strict rq"
| "limiter_of (AuthConfirmChange rq b) = Strict rq"
| "limiter_of (AuthTwoFactorVerify rq b) = Strict rq"
| "limiter_of (OAuthLogin rq n r) = Strict rq"
| "limiter_of (OAuthCallback rq n q) = Strict rq"
| "limiter_of (OAuthExchange rq b) = Strict rq"
| "limiter_of (PasskeyLoginBegin rq) = Strict rq"
| "limiter_of (PasskeyLoginFinish rq b) = Strict rq"
| "limiter_of (QrCreate rq) = Strict rq"
| "limiter_of (QrPoll rq i) = PollLimiter rq"
| "limiter_of _ = Unlimited"

record server =
  world :: world
  strict_hits :: "str hits"
  qr_poll_hits :: "str hits"

definition UNSPECIFIED :: str where "UNSPECIFIED = ''0.0.0.0''"

definition strict_limiter :: "config \<Rightarrow> rate_limiter" where
  "strict_limiter c = \<lparr> max_requests = rate_limit_per_minute c, window = seconds 60 \<rparr>"

definition qr_poll_limiter :: "config \<Rightarrow> rate_limiter" where
  "qr_poll_limiter c = \<lparr> max_requests = qr_poll_rate_limit_per_minute c, window = seconds 60 \<rparr>"

definition respond :: "app_error + nat \<Rightarrow> nat \<times> error_detail option" where
  "respond r =
     (case r of Inr status \<Rightarrow> (status, None)
      | Inl x \<Rightarrow> (let (status, detail) = error_into_response x in (status, Some detail)))"

definition handle :: "env \<Rightarrow> op \<Rightarrow> server \<Rightarrow> (nat \<times> error_detail option) \<times> server" where
  "handle e op s = (case run_op op e (world s) of (r, w) \<Rightarrow> (respond r, s\<lparr>world := w\<rparr>))"

definition limit_with ::
  "env \<Rightarrow> rate_limiter \<Rightarrow> request \<Rightarrow> nat \<Rightarrow> str hits \<Rightarrow> (app_error + unit) \<times> str hits" where
  "limit_with e l rq n hits =
     enforce l (parse_ip e) (rq_headers rq) (rq_peer rq) UNSPECIFIED (trust_proxy_headers (conf e))
       (instant e n) hits"

definition serve :: "env \<Rightarrow> op \<Rightarrow> server \<Rightarrow> (nat \<times> error_detail option) \<times> server" where
  "serve e op s =
     (let n = tick (world s); s1 = s\<lparr>world := (world s)\<lparr>tick := Suc n\<rparr>\<rparr>
      in case limiter_of op of
           Unlimited \<Rightarrow> handle e op s
         | Strict rq \<Rightarrow>
             (case limit_with e (strict_limiter (conf e)) rq n (strict_hits s) of
                (Inl x, hits) \<Rightarrow> (respond (Inl x), s1\<lparr>strict_hits := hits\<rparr>)
              | (Inr _, hits) \<Rightarrow> handle e op (s1\<lparr>strict_hits := hits\<rparr>))
         | PollLimiter rq \<Rightarrow>
             (case limit_with e (qr_poll_limiter (conf e)) rq n (qr_poll_hits s) of
                (Inl x, hits) \<Rightarrow> (respond (Inl x), s1\<lparr>qr_poll_hits := hits\<rparr>)
              | (Inr _, hits) \<Rightarrow> handle e op (s1\<lparr>qr_poll_hits := hits\<rparr>)))"

section \<open>Beside the requests\<close>

text \<open>
  What \<open>src/cli/serve.rs\<close> starts around the router: the job worker (its start, a turn of its loop, a
  turn cut short by a crash), the delivery of a queued mail in any order, the resending of mail a crash
  left behind, and the first administrator.
\<close>

definition deliver_queued :: "nat \<Rightarrow> unit action" where
  "deliver_queued k = (\<lambda>e w.
     if k < length (mails w)
     then dispatch (mails w ! k) e (w\<lparr>mails := take k (mails w) @ drop (Suc k) (mails w)\<rparr>)
     else (Inr (), w))"

datatype task =
    StartWorker
  | PollJobs
  | PollJobsAndCrash nat
  | DeliverMail nat
  | RecoverMail
  | BootstrapAdmin str str

fun background :: "task \<Rightarrow> unit action" where
  "background StartWorker = worker_start"
| "background PollJobs = poll"
| "background (PollJobsAndCrash k) = poll_crashing k"
| "background (DeliverMail k) = deliver_queued k"
| "background RecoverMail = recover_pending"
| "background (BootstrapAdmin email password) = ensure_bootstrap_admin email password"

datatype event = Request op | Background task

fun step :: "env \<Rightarrow> event \<Rightarrow> server \<Rightarrow> server" where
  "step e (Request op) s = snd (serve e op s)"
| "step e (Background t) s = s\<lparr>world := snd (background t e (world s))\<rparr>"

fun run_server :: "env \<Rightarrow> event list \<Rightarrow> server \<Rightarrow> server" where
  "run_server e [] s = s"
| "run_server e (ev # evs) s = run_server e evs (step e ev s)"

section \<open>Properties\<close>

lemma serve_keeps:
  assumes "\<And>op. keeps_db I (run_op op)" and "I (db (world s))"
  shows "I (db (world (snd (serve e op s))))"
proof -
  have step: "I (db (world (snd (handle e op s))))" if "I (db (world s))" for s
    using keepsD [OF assms(1) [of op], of "world s" e] that
    by (auto simp: handle_def split: prod.splits)
  show ?thesis
    using assms(2) step
    by (auto simp: serve_def Let_def split: limiter_choice.splits prod.splits sum.splits)
qed

lemma step_keeps:
  "(\<And>op. keeps_db I (run_op op)) \<Longrightarrow> (\<And>t. keeps_db I (background t)) \<Longrightarrow> I (db (world s))
   \<Longrightarrow> I (db (world (step e ev s)))"
  by (cases ev) (auto intro: serve_keeps simp: keeps_def)

lemma run_server_keeps:
  assumes "\<And>op. keeps_db I (run_op op)" and "\<And>t. keeps_db I (background t)"
  shows "I (db (world s)) \<Longrightarrow> I (db (world (run_server e evs s)))"
  by (induction evs arbitrary: s) (auto intro: step_keeps [OF assms])

text \<open>A request the limiter turns away gets 429 and touches neither the database nor the mail queue.\<close>

lemma limited_request_inert:
  assumes "limiter_of op = Strict rq"
    and "limit_with e (strict_limiter (conf e)) rq (tick (world s)) (strict_hits s) = (Inl x, hits)"
  shows "fst (fst (serve e op s)) = 429"
    and "db (world (snd (serve e op s))) = db (world s)"
    and "mails (world (snd (serve e op s))) = mails (world s)"
proof -
  have "x = TooManyRequests"
    using assms(2) by (auto simp: limit_with_def enforce_def Let_def split: prod.splits bool.splits)
  then show "fst (fst (serve e op s)) = 429"
    and "db (world (snd (serve e op s))) = db (world s)"
    and "mails (world (snd (serve e op s))) = mails (world s)"
    using assms by (auto simp: serve_def Let_def respond_def error_into_response_def)
qed

end
