(* ===== verification/Invariants.thy ===== *)
theory Invariants
  imports Server
begin

text \<open>
  The contract between the database statements and everything above them. A locale per group of
  tables lists what an invariant \<open>I\<close> has to survive: each SQL statement, under the condition the
  calling code establishes for it. \<open>db_invariant\<close> joins them, and inside it every service method
  and every handler is shown to keep \<open>I\<close>. An invariant of the whole server is then one interpretation.
\<close>

section \<open>Laws of the statements\<close>

text \<open>A change of a user row that touches neither identity nor privileges.\<close>

definition benign :: "user \<Rightarrow> user \<Rightarrow> bool" where
  "benign u v \<longleftrightarrow> usr_id v = usr_id u \<and> usr_email v = usr_email u \<and> usr_role v = usr_role u
     \<and> usr_is_active v = usr_is_active u \<and> usr_deleted_at v = usr_deleted_at u
     \<and> usr_token_version u \<le> usr_token_version v
     \<and> (usr_totp_enabled v \<longrightarrow> usr_totp_enabled u \<and> (usr_totp_secret u \<noteq> None \<longrightarrow> usr_totp_secret v \<noteq> None))"

definition harmless :: "user_patch \<Rightarrow> bool" where
  "harmless p \<longleftrightarrow> up_role p \<noteq> Some User \<and> up_is_active p \<noteq> Some False"

text \<open>No link of this purpose is outstanding for the user.\<close>

definition no_unused :: "uuid \<Rightarrow> token_purpose \<Rightarrow> db \<Rightarrow> bool" where
  "no_unused u p d \<longleftrightarrow> \<not> exists_where
     (\<lambda>t. tok_user_id t = u \<and> tok_purpose t = p \<and> tok_used_at t = None) (auth_tokens d)"

lemma no_unused_use_tokens: "no_unused u p (snd (use_tokens u p now d))"
proof -
  let ?p = "\<lambda>t. tok_user_id t = u \<and> tok_purpose t = p \<and> tok_used_at t = None"
  have "\<not> ?p y" if "y = (if ?p x then x\<lparr>tok_used_at := Some now\<rparr> else x)" for x y
    using that by (cases "?p x") simp_all
  then show ?thesis
    unfolding no_unused_def use_tokens_def exists_where_iff by (auto elim!: in_update_whereE)
qed

locale account_laws =
  fixes I :: "db \<Rightarrow> bool"
  assumes insert_law: "I d \<Longrightarrow> users_insert i now n d = Inr (u, d') \<Longrightarrow> I d'"
    and patch_law: "I d \<Longrightarrow> harmless p \<or> other_active_admins i d \<noteq> 0 \<Longrightarrow> I (snd (apply_patch i now p d))"
    and delete_law: "I d \<Longrightarrow> other_active_admins i d \<noteq> 0 \<or> (\<exists>t. select_by_id i d = Some t \<and> \<not> active_admin t)
          \<Longrightarrow> I (snd (delete_row i now d))"
    and benign_law: "I d \<Longrightarrow> \<forall>u. benign u (f u) \<Longrightarrow> I (d\<lparr>users := update_where q f (users d)\<rparr>)"
    and email_law: "I d \<Longrightarrow> update_email i email now d = Inr (x, d') \<Longrightarrow> I d'"
    and enable_law: "I d \<Longrightarrow> select_by_id i d = Some t \<Longrightarrow> usr_totp_secret t \<noteq> None
          \<Longrightarrow> I (snd (update_user_row i (\<lambda>u. u\<lparr>usr_totp_enabled := True\<rparr>) d))"

locale link_laws =
  fixes I :: "db \<Rightarrow> bool"
  assumes use_law: "I d \<Longrightarrow> I (snd (use_tokens u p now d))"
    and claim_law: "I d \<Longrightarrow> I (snd (claim_token k now d))"
    and issue_law: "I d \<Longrightarrow> no_unused (tok_user_id row) (tok_purpose row) d \<Longrightarrow> token_insert row d = Inr (x, d') \<Longrightarrow> I d'"
    and code_insert_law: "I d \<Longrightarrow> recovery_insert r d = Inr (x, d') \<Longrightarrow> I d'"
    and code_delete_law: "I d \<Longrightarrow> I (snd (recovery_delete u d))"
    and code_claim_law: "I d \<Longrightarrow> I (snd (claim_recovery c now d))"

locale job_laws =
  fixes I :: "db \<Rightarrow> bool"
  assumes token_sweep_law: "I d \<Longrightarrow> I (snd (sweep_auth_tokens cutoff d))"
    and jobs_law: "I d \<Longrightarrow> I (d\<lparr>jobs := js\<rparr>)"
    and outbox_law: "I d \<Longrightarrow> I (d\<lparr>outbound_mail := ms\<rparr>)"

locale key_laws =
  fixes I :: "db \<Rightarrow> bool"
  assumes key_insert_law: "I d \<Longrightarrow> int (length (active_keys (key_user_id row) d)) < MAX_ACTIVE_KEYS_PER_USER
          \<Longrightarrow> key_insert row d = Inr (x, d') \<Longrightarrow> I d'"
    and key_revoke_law: "I d \<Longrightarrow> I (snd (revoke_key u i now d))"
    and key_touch_law: "I d \<Longrightarrow> I (snd (touch_key i now d))"

locale qr_laws =
  fixes I :: "db \<Rightarrow> bool"
  assumes qr_cleanup_law: "I d \<Longrightarrow> I (snd (qr_cleanup now d))"
    and qr_insert_law: "I d \<Longrightarrow> qr_status row = QrPending \<Longrightarrow> qr_attempts row = 0
          \<Longrightarrow> qr_insert row d = Inr (x, d') \<Longrightarrow> I d'"
    and qr_scan_law: "I d \<Longrightarrow> I (snd (qr_update
          (\<lambda>s. qr_id s = i \<and> qr_status s = QrPending \<and> qr_expires_at s > now)
          (\<lambda>s. s\<lparr>qr_status := QrScanned, qr_user_id := Some u\<rparr>) d))"
    and qr_resolve_law: "I d \<Longrightarrow> target \<in> {QrApproved, QrRejected} \<Longrightarrow> I (snd (qr_update
          (\<lambda>s. qr_id s = i \<and> qr_status s = QrScanned \<and> qr_user_id s = Some u \<and> qr_expires_at s > now)
          (\<lambda>s. s\<lparr>qr_status := target\<rparr>) d))"
    and qr_wrong_law: "I d \<Longrightarrow> I (snd (qr_wrong_code i d))"
    and qr_consume_law: "I d \<Longrightarrow> I (snd (consume_qr i now d))"

locale oauth_laws =
  fixes I :: "db \<Rightarrow> bool"
  assumes state_cleanup_law: "I d \<Longrightarrow> I (snd (state_cleanup now d))"
    and state_insert_law: "I d \<Longrightarrow> state_insert st d = Inr (x, d') \<Longrightarrow> I d'"
    and state_claim_law: "I d \<Longrightarrow> I (snd (claim_oauth_state h now d))"
    and identity_insert_law: "I d \<Longrightarrow> identity_insert idn d = Inr (n, d') \<Longrightarrow> I d'"
    and identity_delete_law: "I d \<Longrightarrow> I (snd (identity_delete u pr d))"
    and grant_cleanup_law: "I d \<Longrightarrow> I (snd (grant_cleanup now d))"
    and grant_insert_law: "I d \<Longrightarrow> grant_insert g d = Inr (x, d') \<Longrightarrow> I d'"
    and grant_claim_law: "I d \<Longrightarrow> I (snd (claim_login_grant h now d))"

locale passkey_laws =
  fixes I :: "db \<Rightarrow> bool"
  assumes challenge_cleanup_law: "I d \<Longrightarrow> I (snd (challenge_cleanup now d))"
    and challenge_insert_law: "I d \<Longrightarrow> challenge_insert c d = Inr (x, d') \<Longrightarrow> I d'"
    and challenge_take_law: "I d \<Longrightarrow> I (snd (take_challenge k now d))"
    and passkey_insert_law: "I d \<Longrightarrow> passkey_insert row d = Inr (r, d') \<Longrightarrow> I d'"
    and passkey_used_law: "I d \<Longrightarrow> I (snd (passkey_used i j now d))"
    and passkey_delete_law: "I d \<Longrightarrow> I (snd (passkey_delete u i d))"

locale log_laws =
  fixes I :: "db \<Rightarrow> bool"
  assumes audit_law: "I d \<Longrightarrow> I (d\<lparr>audit_log := xs\<rparr>)"
    and media_law: "I d \<Longrightarrow> I (d\<lparr>media := ms\<rparr>)"

text \<open>An invariant that does not look at a group of tables satisfies the laws of that group.\<close>

lemma link_laws_frame:
  "(\<And>d x. I d \<Longrightarrow> I (d\<lparr>auth_tokens := x\<rparr>)) \<Longrightarrow> (\<And>d x. I d \<Longrightarrow> I (d\<lparr>totp_recovery_codes := x\<rparr>)) \<Longrightarrow> link_laws I"
  by unfold_locales
     (auto simp: use_tokens_def claim_token_def token_insert_def recovery_insert_def recovery_delete_def
        claim_recovery_def split: if_splits)

lemma job_laws_frame:
  "(\<And>d x. I d \<Longrightarrow> I (d\<lparr>auth_tokens := x\<rparr>)) \<Longrightarrow> (\<And>d x. I d \<Longrightarrow> I (d\<lparr>jobs := x\<rparr>))
   \<Longrightarrow> (\<And>d x. I d \<Longrightarrow> I (d\<lparr>outbound_mail := x\<rparr>)) \<Longrightarrow> job_laws I"
  by unfold_locales (auto simp: sweep_auth_tokens_def)

lemma key_laws_frame: "(\<And>d x. I d \<Longrightarrow> I (d\<lparr>api_keys := x\<rparr>)) \<Longrightarrow> key_laws I"
  by unfold_locales (auto simp: key_insert_def revoke_key_def touch_key_def Let_def split: if_splits)

lemma qr_laws_frame: "(\<And>d x. I d \<Longrightarrow> I (d\<lparr>qr_sessions := x\<rparr>)) \<Longrightarrow> qr_laws I"
  by unfold_locales
     (auto simp: qr_cleanup_def qr_insert_def qr_update_def qr_wrong_code_def consume_qr_def Let_def
        split: if_splits)

lemma oauth_laws_frame:
  "(\<And>d x. I d \<Longrightarrow> I (d\<lparr>oauth_states := x\<rparr>)) \<Longrightarrow> (\<And>d x. I d \<Longrightarrow> I (d\<lparr>oauth_identities := x\<rparr>))
   \<Longrightarrow> (\<And>d x. I d \<Longrightarrow> I (d\<lparr>login_grants := x\<rparr>)) \<Longrightarrow> oauth_laws I"
  by unfold_locales
     (auto simp: state_cleanup_def state_insert_def claim_oauth_state_def identity_insert_def
        identity_delete_def grant_cleanup_def grant_insert_def claim_login_grant_def Let_def
        split: if_splits option.splits)

lemma passkey_laws_frame:
  "(\<And>d x. I d \<Longrightarrow> I (d\<lparr>passkeys := x\<rparr>)) \<Longrightarrow> (\<And>d x. I d \<Longrightarrow> I (d\<lparr>webauthn_challenges := x\<rparr>))
   \<Longrightarrow> passkey_laws I"
  by unfold_locales
     (auto simp: challenge_cleanup_def challenge_insert_def take_challenge_def passkey_insert_def
        passkey_used_def passkey_delete_def Let_def split: if_splits option.splits prod.splits)

lemma account_laws_frame: "(\<And>d x. I d \<Longrightarrow> I (d\<lparr>users := x\<rparr>)) \<Longrightarrow> account_laws I"
  by unfold_locales
     (auto simp: users_insert_def apply_patch_def delete_row_def update_email_def update_user_row_def
        Let_def split: if_splits)

lemma map_write_error_snd [simp]: "snd (map_write_error m e w) = snd (m e w)"
  by (auto simp: map_write_error_def split: prod.split sum.split app_error.split sqlx_error.split)

lemma keeps_map_write_error [keeps_rules]: "keeps I m \<Longrightarrow> keeps I (map_write_error m)"
  by (simp add: keeps_def)

lemma keeps_answer [keeps_rules]: "keeps I m \<Longrightarrow> keeps I (answer n m)"
  unfolding answer_def by (intro keeps_rules)

lemma keeps_message [keeps_rules]: "keeps I m \<Longrightarrow> keeps I (message n s m)"
  unfolding message_def by (intro keeps_rules)

lemma keeps_status_of [keeps_rules]: "keeps I m \<Longrightarrow> keeps I (status_of m)"
  unfolding status_of_def by (intro keeps_rules)

lemma keeps_validated [keeps_rules]: "keeps I (validated v b)"
  unfolding validated_def by (intro keeps_rules)

lemma keeps_try_users [keeps_rules]: "keeps I (try_users r)"
  unfolding try_users_def by (intro keeps_rules)

text \<open>A condition checked right before a statement holds when the statement runs.\<close>

lemma keeps_checked:
  assumes "\<And>e w v w'. m e w = (v, w') \<Longrightarrow> db w' = db w \<and> (\<forall>x. v = Inr x \<longrightarrow> C x (db w))"
    and "\<And>x e w. I (db w) \<Longrightarrow> C x (db w) \<Longrightarrow> I (db (snd (k x e w)))"
  shows "keeps_db I (then_do m k)"
proof (rule keepsI)
  fix e w v w'
  assume i: "I (db w)" and run: "then_do m k e w = (v, w')"
  obtain r w1 where m: "m e w = (r, w1)" by fastforce
  note same = assms(1) [OF m]
  show "I (db w')"
  proof (cases r)
    case (Inl x)
    with run m same i show ?thesis by (simp add: then_do_run)
  next
    case (Inr x)
    with run m have "k x e w1 = (v, w')" by (simp add: then_do_run)
    then show ?thesis using assms(2) [of w1 x e] same i Inr by simp
  qed
qed

lemma then_do_post:
  "I (snd (m e w)) \<Longrightarrow> (\<And>x. keeps I (k x)) \<Longrightarrow> I (snd (then_do m k e w))"
  by (auto simp: then_do_run keeps_def split: prod.splits sum.splits; metis snd_conv)

lemma seq_post: "I (snd (m e w)) \<Longrightarrow> keeps I k \<Longrightarrow> I (snd (seq m k e w))"
  unfolding seq_def by (rule then_do_post)

lemma transaction_post:
  assumes "I (db w)" and "I (db (snd (m e (w\<lparr>tick := Suc (tick w)\<rparr>))))"
  shows "I (db (snd (transaction m e w)))"
  using assms
  by (auto simp: transaction_def transaction_if_def Let_def split: prod.splits sum.splits)

lemma users_require_run:
  "users_require i e w = (v, w') \<Longrightarrow> db w' = db w \<and> (\<forall>x. v = Inr x \<longrightarrow> select_by_id i (db w) = Some x)"
  by (cases "select_by_id i (db w)")
     (auto simp: users_require_def users_repo_find_by_id_def run_simps split: if_splits)

lemma users_find_run:
  "users_find_by_id i e w = (v, w') \<Longrightarrow> db w' = db w \<and> (\<forall>x. v = Inr x \<longrightarrow> x = select_by_id i (db w))"
  by (auto simp: users_find_by_id_def users_repo_find_by_id_def run_simps split: if_splits)

lemma check_other_admins_run:
  "check_other_admins i e w = (v, w') \<Longrightarrow>
     db w' = db w \<and> (\<forall>x. v = Inr x \<longrightarrow> other_active_admins i (db w) \<noteq> 0)"
  by (auto simp: check_other_admins_def run_simps split: if_splits)

section \<open>Everything the server does keeps an invariant\<close>

locale db_invariant =
  account_laws I + link_laws I + key_laws I + qr_laws I + oauth_laws I + passkey_laws I + job_laws I + log_laws I
  for I
begin

subsection \<open>Users\<close>

lemma keeps_find [keeps_rules]:
  "keeps_db I (users_repo_find_by_id i)" "keeps_db I (users_find_by_id i)"
  "keeps_db I (users_repo_find_by_email m)" "keeps_db I (users_find_by_email m)"
  "keeps_db I (users_require i)"
  unfolding users_repo_find_by_id_def users_find_by_id_def users_repo_find_by_email_def
    users_find_by_email_def users_require_def
  by (intro keeps_rules)+

lemma keeps_audit [keeps_rules]: "keeps_db I (audit_record a b c j)"
  by (rule keeps_audit_record) (rule audit_law)

lemma keeps_policy [keeps_rules]: "keeps_db I (reject_password_if_policy_violation p m n)"
  unfolding reject_password_if_policy_violation_def Let_def by (intro keeps_rules)

lemma keeps_create [keeps_rules]:
  "keeps_db I (users_repo_create n)" "keeps_db I (create_with_password m p dn r v)"
  "keeps_db I (create_passwordless m dn v)" "keeps_db I (users_create actor dto)"
  unfolding users_create_def create_with_password_def create_passwordless_def Let_def
    users_repo_create_def
  by (intro keeps_rules; erule (1) insert_law)+

lemma keeps_guarded:
  assumes "\<And>w e. I (db w) \<Longrightarrow> g \<and> other_active_admins i (db w) \<noteq> 0 \<or> \<not> g \<and> C (db w)
      \<Longrightarrow> I (db (snd (k e w)))"
    and "\<not> g \<Longrightarrow> \<forall>d. C d"
  shows "keeps_db I (seq (whenever g (check_other_admins i)) k)"
  unfolding seq_def
  by (rule keeps_checked [where C = "\<lambda>_ d. g \<and> other_active_admins i d \<noteq> 0 \<or> \<not> g \<and> C d"])
     (use assms in \<open>auto simp: whenever_run split: if_splits dest: check_other_admins_run\<close>)

lemma keeps_users_repo_update:
  assumes "g \<or> harmless p"
  shows "keeps_db I (users_repo_update i p g)"
  unfolding users_repo_update_def
  by (intro keeps_db_transaction keeps_guarded [where C = "\<lambda>_. True"])
     (use assms in \<open>auto simp: run_simps intro: patch_law\<close>)

lemma keeps_update [keeps_rules]:
  "keeps_db I (users_update_user actor i dto)" "keeps_db I (users_update_profile actor pdto)"
  unfolding users_update_user_def users_update_profile_def Let_def
  by (intro keeps_rules keeps_users_repo_update;
      auto simp: harmless_def user_patch_default_def)+

lemma soft_delete_post:
  assumes "I (db w)" and "g \<or> (\<exists>t. select_by_id i (db w) = Some t \<and> \<not> active_admin t)"
  shows "I (db (snd (users_repo_soft_delete i g e w)))"
proof -
  have step: "I (db (snd (then_do utc_now (\<lambda>now. then_do (db_exec (delete_row i now))
        (\<lambda>affected. ret (affected = 1))) e w)))"
    if "I (db w)" "other_active_admins i (db w) \<noteq> 0 \<or> (\<exists>t. select_by_id i (db w) = Some t \<and> \<not> active_admin t)"
    for e w
    using that by (auto simp: run_simps intro!: delete_law)
  show ?thesis
    unfolding users_repo_soft_delete_def
  proof (rule transaction_post [where I = I, OF assms(1)], cases g)
    case True
    let ?w = "w\<lparr>tick := Suc (tick w)\<rparr>"
    obtain v w1 where c: "check_other_admins i e ?w = (v, w1)" by fastforce
    note same = check_other_admins_run [OF c]
    show "I (db (snd (seq (whenever g (check_other_admins i)) (then_do utc_now (\<lambda>now.
        then_do (db_exec (delete_row i now)) (\<lambda>affected. ret (affected = 1)))) e ?w)))"
      using step [of w1 e] same assms(1) True c by (cases v) (simp_all add: seq_run whenever_run)
  next
    case False
    then show "I (db (snd (seq (whenever g (check_other_admins i)) (then_do utc_now (\<lambda>now.
        then_do (db_exec (delete_row i now)) (\<lambda>affected. ret (affected = 1)))) e (w\<lparr>tick := Suc (tick w)\<rparr>))))"
      using step [of "w\<lparr>tick := Suc (tick w)\<rparr>" e] assms by (simp add: seq_run whenever_run)
  qed
qed

lemma keeps_delete [keeps_rules]: "keeps_db I (users_delete actor i)"
  unfolding users_delete_def Let_def
proof (intro keeps_seq keeps_try_users, rule keeps_checked [OF users_require_run])
  fix x e and w :: world
  assume "I (db w)" and "select_by_id i (db w) = Some x"
  moreover have "keeps_db I (if \<not> deleted then raise (of_users_error UserNotFound)
      else seq (audit_record (au_id actor) USER_DELETED (Some i) (JObject [(''email'', JString (usr_email x))]))
               (ret (usr_avatar_key x)))" for deleted
    by (intro keeps_rules)
  ultimately show "I (db (snd (then_do (users_repo_soft_delete i (is_admin (usr_role x) \<and> usr_is_active x))
      (\<lambda>deleted. if \<not> deleted then raise (of_users_error UserNotFound)
        else seq (audit_record (au_id actor) USER_DELETED (Some i) (JObject [(''email'', JString (usr_email x))]))
                 (ret (usr_avatar_key x))) e w)))"
    by (intro then_do_post [where I = "\<lambda>w. I (db w)"] soft_delete_post)
       (auto simp: active_admin_def is_admin_def)
qed

lemma keeps_benign:
  "(\<And>u. benign u (f u)) \<Longrightarrow> keeps_db I (db_exec (\<lambda>d. (x, d\<lparr>users := update_where q f (users d)\<rparr>)))"
  by (intro keeps_db_exec) (simp add: benign_law)

lemma keeps_credentials [keeps_rules]:
  "keeps_db I (users_set_avatar_key i k)" "keeps_db I (users_set_password i pw)"
  "keeps_db I (users_record_failed_login i n l)" "keeps_db I (users_reset_failed_logins i)"
  "keeps_db I (users_mark_email_verified i)" "keeps_db I (users_change_email i m)"
  "keeps_db I (users_set_pending_totp_secret i s)" "keeps_db I (users_disable_totp i)"
  "keeps_db I (users_sign_in_method_count i)"
  unfolding users_set_avatar_key_def users_repo_set_avatar_key_def users_set_password_def
    users_repo_set_password_hash_def users_record_failed_login_def users_repo_record_failed_login_def
    users_reset_failed_logins_def users_repo_reset_failed_logins_def users_mark_email_verified_def
    users_repo_mark_email_verified_def users_change_email_def users_repo_change_email_def
    users_set_pending_totp_secret_def users_repo_set_pending_totp_secret_def users_disable_totp_def
    users_repo_disable_totp_def users_sign_in_method_count_def users_repo_sign_in_method_count_def
  by (intro keeps_rules;
      (auto simp: update_password_hash_def update_failed_login_def update_user_row_def sign_in_methods_def
         benign_def set_hash_row_def failed_login_row_def verify_row_def
         split: if_splits option.splits intro!: benign_law intro: email_law))+

subsection \<open>One-time links, recovery codes, auth services\<close>

lemma insert_token_post:
  assumes "I (db w)" and "no_unused u p (db w)"
  shows "I (db (snd (tokens_repo_insert u p h m x e w)))"
  using issue_law [OF assms(1), of "\<lparr> tok_id = new_uuid e (tick w), tok_user_id = u, tok_purpose = p,
      tok_token_hash = h, tok_new_email = m, tok_expires_at = x, tok_used_at = None,
      tok_created_at = clock e (Suc (tick w)) \<rparr>"] assms
  by (auto simp: tokens_repo_insert_def run_simps db_stmt_def Let_def split: sum.splits)

lemma invalidate_effect:
  "tokens_repo_invalidate_unused u p e w = (Inr x, w') \<Longrightarrow> no_unused u p (db w')"
  using no_unused_use_tokens [of u p "clock e (tick w)" "db w"]
  by (auto simp: tokens_repo_invalidate_unused_def run_simps split: if_splits)

lemma keeps_invalidate [keeps_rules]:
  "keeps_db I (tokens_repo_invalidate_unused u p)" "keeps_db I (tokens_invalidate u p)"
  unfolding tokens_invalidate_def tokens_repo_invalidate_unused_def
  by (intro keeps_rules use_law; assumption)+

lemma keeps_issue [keeps_rules]: "keeps_db I (tokens_issue u p ttl m)"
proof (rule keepsI)
  fix e w v w'
  assume i: "I (db w)" and run: "tokens_issue u p ttl m e w = (v, w')"
  obtain r w1 where inv: "tokens_repo_invalidate_unused u p e w = (r, w1)" by fastforce
  have i1: "I (db w1)" using keepsD [OF keeps_invalidate(1) _ inv] i by simp
  show "I (db w')"
  proof (cases r)
    case (Inl x)
    with run inv i1 show ?thesis by (simp add: tokens_issue_def seq_run)
  next
    case (Inr x)
    let ?w = "w1\<lparr>tick := Suc (Suc (tick w1))\<rparr>"
    let ?raw = "base64url e (random_bytes e (tick w1))"
    obtain v2 w2 where ins: "tokens_repo_insert u p (secret_hash e ?raw) m
        (clock e (Suc (tick w1)) + ttl) e ?w = (v2, w2)" by fastforce
    have "I (db w2)"
      using insert_token_post [of ?w u p "secret_hash e ?raw" m "clock e (Suc (tick w1)) + ttl" e]
        invalidate_effect [of u p e w x w1] inv Inr i1 ins by simp
    moreover have "w' = w2"
      using run inv Inr ins
      by (auto simp: tokens_issue_def seq_run then_do_run generate_token_def Let_def split: sum.splits)
    ultimately show ?thesis by simp
  qed
qed

lemma keeps_tokens [keeps_rules]:
  "keeps_db I (tokens_redeem p raw)" "keeps_db I (tokens_peek p raw)"
  "keeps_db I (tokens_issued_within u p win)"
  unfolding tokens_redeem_def tokens_repo_claim_def tokens_peek_def tokens_repo_find_unused_def
    tokens_issued_within_def tokens_repo_count_issued_since_def
  by (intro keeps_rules; rule claim_law; assumption)+

lemma keeps_recovery [keeps_rules]:
  "keeps_db I (recovery_replace_all u hs)" "keeps_db I (recovery_claim u h)"
  "keeps_db I (recovery_delete_all u)"
  unfolding recovery_replace_all_def recovery_claim_def recovery_delete_all_def
  by (intro keeps_rules; (erule (1) code_insert_law | rule code_delete_law code_claim_law); assumption?)+

lemma keeps_random_characters [keeps_rules]: "keeps_db I (random_characters n)"
  by (induction n; unfold random_characters.simps random_range_def; intro keeps_rules; assumption?)

lemma keeps_generate_codes [keeps_rules]: "keeps_db I (generate_codes n)"
  by (induction n; unfold generate_codes.simps generate_one_def Let_def; intro keeps_rules; assumption?)

lemma keeps_email_services [keeps_rules]:
  "keeps_db I (send_verification u)" "keeps_db I (resend a)" "keeps_db I (verify_email t)"
  "keeps_db I (request_change a cd)" "keeps_db I (confirm_change t)"
  unfolding send_verification_def resend_def verify_email_def request_change_def confirm_change_def
    current_user_def Let_def
  by (intro keeps_rules)+

lemma keeps_password_services [keeps_rules]:
  "keeps_db I (change_password a pd)" "keeps_db I (forgot m)" "keeps_db I (invite iv)"
  "keeps_db I (reset_password rd)"
  unfolding change_password_def forgot_def invite_def reset_password_def
  by (intro keeps_rules)+

lemma keeps_users_get [keeps_rules]: "keeps_db I (users_get a i)"
  unfolding users_get_def by (intro keeps_rules)

lemma keeps_session_services [keeps_rules]:
  "keeps_db I (bearer_for u)" "keeps_db I (login cd)" "keeps_db I (register cd)" "keeps_db I (me a)"
  unfolding login_def register_def me_def is_locked_def bearer_for_def send_verification_def
  by (intro keeps_rules)+

lemma keeps_totp_services [keeps_rules]:
  "keeps_db I (begin_setup a)" "keeps_db I (totp_disable a pw)" "keeps_db I (verify_login pt c)"
  unfolding begin_setup_def totp_disable_def verify_login_def require_active_user_def
  by (intro keeps_rules)+

lemma require_active_user_run:
  "require_active_user i e w = (v, w') \<Longrightarrow>
     db w' = db w \<and> (\<forall>x. v = Inr x \<longrightarrow> select_by_id i (db w) = Some x \<and> usr_is_active x)"
  by (cases "select_by_id i (db w)")
     (auto simp: require_active_user_def users_find_by_id_def users_repo_find_by_id_def run_simps
        split: if_splits)

lemma enable_post:
  "I (db w) \<Longrightarrow> select_by_id i (db w) = Some t \<Longrightarrow> usr_totp_secret t \<noteq> None
     \<Longrightarrow> I (db (snd (users_enable_totp i e w)))"
  by (auto simp: users_enable_totp_def users_repo_enable_totp_def run_simps intro: enable_law)

lemma verify_code_run: "verify_code s i a c e w = (v, w') \<Longrightarrow> db w' = db w"
  by (auto simp: verify_code_def run_simps split: if_splits)

lemma keeps_confirm_setup [keeps_rules]: "keeps_db I (confirm_setup a code)"
  unfolding confirm_setup_def
proof (rule keeps_checked [OF require_active_user_run])
  fix u e and w :: world
  assume i: "I (db w)" and u: "select_by_id (au_id a) (db w) = Some u \<and> usr_is_active u"
  then have uid: "usr_id u = au_id a" by (auto dest: select_by_id_SomeD)
  let ?tail = "seq (users_enable_totp (usr_id u)) (then_do generate_batch (\<lambda>batch.
      seq (recovery_replace_all (usr_id u) (map gt_hash batch))
        (ret \<lparr> te_recovery_codes = map gt_raw batch \<rparr>)))"
  have rest: "keeps_db I (then_do generate_batch (\<lambda>batch.
      seq (recovery_replace_all (usr_id u) (map gt_hash batch))
        (ret \<lparr> te_recovery_codes = map gt_raw batch \<rparr>)))"
    unfolding generate_batch_def by (intro keeps_rules)
  have tail: "I (db (snd (?tail e w1)))" if "db w1 = db w" "usr_totp_secret u \<noteq> None" for w1
    using enable_post [of w1 "usr_id u" u e] i u uid that
    by (intro seq_post [where I = "\<lambda>w. I (db w)"] rest) simp
  show "I (db (snd ((if usr_totp_enabled u then raise (of_auth_error TotpAlreadyEnabled)
      else then_do (ok_or (usr_totp_secret u) (of_auth_error NoTotpSetupInProgress)) (\<lambda>pending_secret.
       then_do (asks (\<lambda>e. webauthn_rp_name (conf e))) (\<lambda>issuer.
       then_do (verify_code pending_secret issuer (usr_email u) code) (\<lambda>valid.
       if \<not> valid then raise (of_auth_error InvalidTotpCode) else ?tail)))) e w)))"
  proof (cases "usr_totp_enabled u \<or> usr_totp_secret u = None")
    case True
    with i show ?thesis by (cases "usr_totp_secret u") (auto simp: then_do_run)
  next
    case False
    then obtain s where s: "usr_totp_secret u = Some s" by auto
    obtain v w1 where vc: "verify_code s (webauthn_rp_name (conf e)) (usr_email u) code e w = (v, w1)"
      by fastforce
    have same: "db w1 = db w" using verify_code_run [OF vc] .
    show ?thesis
      using False s vc i same tail [OF same] by (cases v) (auto simp: then_do_run)
  qed
qed

subsection \<open>API keys\<close>

lemma list_active_run:
  "keys_repo_list_active u e w = (v, w') \<Longrightarrow>
     db w' = db w \<and> (\<forall>x. v = Inr x \<longrightarrow> length x = length (active_keys u (db w)))"
  by (auto simp: keys_repo_list_active_def run_simps split: if_splits)

lemma insert_key_post:
  assumes "I (db w)" and "int (length (active_keys (nk_user_id n) (db w))) < MAX_ACTIVE_KEYS_PER_USER"
  shows "I (db (snd (keys_repo_insert n e w)))"
  using key_insert_law [OF assms(1), of "\<lparr> key_id = new_uuid e (tick w), key_user_id = nk_user_id n,
      key_name = nk_name n, key_key_prefix = nk_key_prefix n, key_key_hash = nk_key_hash n,
      key_scope = nk_scope n, key_expires_at = nk_expires_at n, key_last_used_at = None,
      key_revoked_at = None, key_created_at = clock e (Suc (tick w)) \<rparr>"] assms
  by (auto simp: keys_repo_insert_def run_simps db_stmt_def Let_def split: sum.splits)

lemma keeps_keys_create [keeps_rules]: "keeps_db I (keys_create a dto)"
  unfolding keys_create_def Let_def
proof (rule keeps_checked [OF list_active_run])
  fix x :: "api_key list" and e and w :: world
  assume i: "I (db w)" and n: "length x = length (active_keys (au_id a) (db w))"
  show "I (db (snd ((if int (length x) \<ge> MAX_ACTIVE_KEYS_PER_USER
      then raise (of_api_keys_error (KeyLimitReached MAX_ACTIVE_KEYS_PER_USER))
      else then_do generate_token (\<lambda>generated.
        then_do (asks (\<lambda>e. secret_hash e (API_KEY_PREFIX @ gt_raw generated))) (\<lambda>h.
        then_do (case ck_expires_in_days dto of None \<Rightarrow> ret None
                 | Some n \<Rightarrow> then_do utc_now (\<lambda>now. ret (Some (now + days (uint n))))) (\<lambda>expires.
        then_do (keys_repo_insert \<lparr> nk_user_id = au_id a, nk_name = trim (ck_name dto),
                   nk_key_prefix = API_KEY_PREFIX @ take DISPLAY_PREFIX_LEN (gt_raw generated),
                   nk_key_hash = h, nk_scope = (case ck_scope dto of None \<Rightarrow> ReadScope | Some s \<Rightarrow> s),
                   nk_expires_at = expires \<rparr>) (\<lambda>stored.
          ret \<lparr> cak_api_key = api_key_response_from stored,
                cak_key = API_KEY_PREFIX @ gt_raw generated \<rparr>))))) e w)))"
  proof (cases "int (length x) \<ge> MAX_ACTIVE_KEYS_PER_USER")
    case True
    with i show ?thesis by simp
  next
    case False
    then have "int (length (active_keys (au_id a) (db w))) < MAX_ACTIVE_KEYS_PER_USER" using n by simp
    then show ?thesis
      using False i insert_key_post
      by (auto simp: then_do_run generate_token_def Let_def keeps_ret split: prod.splits sum.splits option.splits)
         (metis (no_types, lifting) new_api_key.select_convs(1) snd_conv world.select_convs(1)
            world.surjective world.update_convs(2))+
  qed
qed

lemma keeps_keys [keeps_rules]:
  "keeps_db I (keys_list a)" "keeps_db I (keys_revoke a i)" "keeps_db I (keys_authenticate s)"
  "keeps_db I (session_verify i v)"
  unfolding keys_list_def keys_repo_list_active_def keys_revoke_def keys_repo_revoke_def
    keys_authenticate_def keys_repo_find_by_hash_def keys_repo_touch_def session_verify_def
  by (intro keeps_rules; rule key_revoke_law key_touch_law; assumption)+

lemma keeps_callers [keeps_rules]:
  "keeps_db I (auth_user_from_request rq)" "keeps_db I (admin_user_from_request rq)"
  "keeps_db I (session_user_from_request rq)" "keeps_db I (client_meta_from_request rq)"
  unfolding admin_user_from_request_def session_user_from_request_def auth_user_from_request_def
    client_meta_from_request_def Let_def
  by (intro keeps_rules)+

subsection \<open>QR sign-in\<close>

lemma keeps_qr_repo [keeps_rules]:
  "keeps_db I (qr_repo_insert i h c ip ag ex)" "keeps_db I (qr_repo_find i)"
  "keeps_db I (qr_repo_mark_scanned i u)" "keeps_db I (qr_repo_record_wrong_code i)"
  "keeps_db I (qr_repo_consume i)"
  unfolding qr_repo_insert_def qr_repo_find_def qr_repo_mark_scanned_def qr_repo_record_wrong_code_def
    qr_repo_consume_def
  by (intro keeps_rules;
      ((rule qr_cleanup_law qr_scan_law qr_wrong_law qr_consume_law, assumption)
       | (rule qr_insert_law [rotated 3], assumption, assumption, simp, simp)))+

lemma keeps_qr_resolve:
  "target \<in> {QrApproved, QrRejected} \<Longrightarrow> keeps_db I (qr_repo_resolve i u target)"
  unfolding qr_repo_resolve_def by (intro keeps_rules qr_resolve_law)

lemma keeps_qr [keeps_rules]:
  "keeps_db I (qr_create m)" "keeps_db I (qr_scan a i)" "keeps_db I (qr_approve a i c)"
  "keeps_db I (qr_reject a i)" "keeps_db I (collect_token i)" "keeps_db I (qr_poll i sec)"
  unfolding qr_create_def qr_scan_def qr_approve_def qr_reject_def qr_poll_def collect_token_def
    qr_find_live_def qr_find_def require_scanned_by_def random_range_def Let_def
  by (intro keeps_rules keeps_qr_resolve; simp?)+

subsection \<open>OAuth, media, avatars\<close>

lemma keeps_oauth_repo [keeps_rules]:
  "keeps_db I (insert_state h pr v u rp ex)" "keeps_db I (claim_state h)"
  "keeps_db I (find_identity pr x)" "keeps_db I (list_identities u')"
  "keeps_db I (insert_identity u' pr x m)" "keeps_db I (delete_identity u' pr)"
  "keeps_db I (insert_grant h u' ex)" "keeps_db I (claim_grant h)"
  unfolding insert_state_def claim_state_def find_identity_def list_identities_def insert_identity_def
    delete_identity_def insert_grant_def claim_grant_def
  by (intro keeps_rules;
      ((rule state_cleanup_law state_claim_law identity_delete_law grant_cleanup_law grant_claim_law,
        assumption)
       | (erule (1) state_insert_law identity_insert_law grant_insert_law)))+

lemma keeps_provider_calls [keeps_rules]:
  "keeps_db I (client_exchange_code pr c v)" "keeps_db I (fetch_profile pr t)"
  unfolding client_exchange_code_def fetch_profile_def google_profile_def github_profile_def get_json_def
  by (intro keeps_rules | cases pr; simp; intro keeps_rules)+

lemma keeps_oauth [keeps_rules]:
  "keeps_db I (login_url pr r)" "keeps_db I (link_url a pr)" "keeps_db I (oauth_identities_of a)"
  "keeps_db I (oauth_exchange c)" "keeps_db I (oauth_unlink a pr)"
  unfolding login_url_def link_url_def oauth_start_def oauth_identities_of_def oauth_exchange_def
    oauth_unlink_def
  by (intro keeps_rules)+

lemma keeps_oauth_callback: "keeps (\<lambda>w. I (db w)) (oauth_callback pr q)"
  unfolding oauth_callback_def resolve_def grant_for_def oauth_link_def try_provider_def Let_def
  by (intro keeps_rules)

lemma keeps_handle_callback [keeps_rules]: "keeps_db I (oauth_handle_callback pr q)"
  using keeps_oauth_callback [of pr q]
  by (auto simp: keeps_def oauth_handle_callback_def split: prod.splits sum.splits; metis snd_conv)

lemma keeps_media [keeps_rules]:
  "keeps_db I (media_upload a b f)" "keeps_db I (media_delete a i)"
  "keeps_db I (media_delete_all_for_user i)"
  unfolding media_upload_def media_repo_insert_def media_delete_def media_repo_delete_def
    find_accessible_def media_repo_find_by_id_def media_delete_all_for_user_def
    media_repo_delete_all_by_owner_def Let_def
  by (intro keeps_rules;
      (auto simp: media_delete_row_def media_delete_rows_def intro: media_law))+

lemma keeps_avatars [keeps_rules]: "keeps_db I (avatars_set a b)" "keeps_db I (avatars_remove a)"
  unfolding avatars_set_def avatars_remove_def avatars_current_def
  by (intro keeps_rules)+

subsection \<open>Passkeys\<close>

lemma keeps_passkey_repo [keeps_rules]:
  "keeps_db I (insert_challenge i k u j ex)" "keeps_db I (repo_claim_challenge i k u)"
  "keeps_db I (list_by_user u')" "keeps_db I (passkeys_repo_insert u' n c j)"
  "keeps_db I (update_after_use i' j)" "keeps_db I (passkeys_repo_delete u' i')"
  unfolding insert_challenge_def repo_claim_challenge_def list_by_user_def passkeys_repo_insert_def
    update_after_use_def passkeys_repo_delete_def
  by (intro keeps_rules;
      ((rule challenge_cleanup_law challenge_take_law passkey_used_law passkey_delete_law, assumption)
       | (erule (1) challenge_insert_law passkey_insert_law)))+

lemma keeps_ceremonies [keeps_rules]:
  "keeps_db I (begin_registration a)" "keeps_db I (finish_registration a fd)"
  "keeps_db I begin_login" "keeps_db I (finish_login ld)" "keeps_db I (passkeys_list a)"
  "keeps_db I (passkeys_delete a i')"
  unfolding begin_registration_def finish_registration_def begin_login_def finish_login_def
    passkeys_list_def passkeys_delete_def active_user_def store_challenge_def claim_challenge_def
    touch_passkey_def Let_def
  by (intro keeps_rules)+

subsection \<open>Handlers\<close>

lemma keeps_users_list [keeps_rules]: "keeps_db I (users_list c q)"
  unfolding users_list_def users_repo_list_def Let_def by (intro keeps_rules)

lemma keeps_parse_provider [keeps_rules]: "keeps_db I (parse_provider n)"
  unfolding parse_provider_def by (intro keeps_rules)

lemma keeps_read_body [keeps_rules]: "keeps_db I (read_body rq b l t)"
  unfolding read_body_def by (intro keeps_rules)

lemma keeps_users_handlers [keeps_rules]:
  "keeps_db I (users_create_handler rq cb)" "keeps_db I (users_remove_handler rq i)"
  "keeps_db I (users_me_handler rq)" "keeps_db I (users_get_one_handler rq i)"
  "keeps_db I (users_list_handler rq lb)" "keeps_db I (users_update_me_handler rq pb)"
  "keeps_db I (users_update_handler rq i ub)"
  unfolding users_create_handler_def users_remove_handler_def users_me_handler_def
    users_get_one_handler_def users_list_handler_def users_update_me_handler_def users_update_handler_def
  by (intro keeps_rules)+

lemma keeps_public_auth_handlers [keeps_rules]:
  "keeps_db I (register_handler rq cb)" "keeps_db I (login_handler rq cb)"
  "keeps_db I (forgot_handler rq sb)" "keeps_db I (reset_handler rq rb)"
  "keeps_db I (verify_email_handler rq sb)" "keeps_db I (resend_handler rq)"
  "keeps_db I (confirm_change_handler rq sb)" "keeps_db I (two_factor_verify_handler rq vb)"
  unfolding register_handler_def login_handler_def forgot_handler_def reset_handler_def
    verify_email_handler_def resend_handler_def confirm_change_handler_def two_factor_verify_handler_def
  by (intro keeps_rules)+

lemma keeps_auth_handlers [keeps_rules]:
  "keeps_db I (auth_me_handler rq)" "keeps_db I (change_password_handler rq pb)"
  "keeps_db I (invite_handler rq ib)" "keeps_db I (request_change_handler rq eb)"
  "keeps_db I (two_factor_setup_handler rq)" "keeps_db I (two_factor_enable_handler rq sb)"
  "keeps_db I (two_factor_disable_handler rq sb)"
  unfolding auth_me_handler_def change_password_handler_def invite_handler_def
    request_change_handler_def two_factor_setup_handler_def two_factor_enable_handler_def
    two_factor_disable_handler_def
  by (intro keeps_rules)+

lemma keeps_feature_handlers [keeps_rules]:
  "keeps_db I (keys_create_handler rq kb)" "keeps_db I (keys_list_handler rq)"
  "keeps_db I (keys_revoke_handler rq i)" "keeps_db I (qr_create_handler rq)"
  "keeps_db I (qr_poll_handler rq s)" "keeps_db I (qr_scan_handler rq s)"
  "keeps_db I (qr_approve_handler rq s sb)" "keeps_db I (qr_reject_handler rq s)"
  "keeps_db I (audit_list_handler rq pgb)"
  unfolding keys_create_handler_def keys_list_handler_def keys_revoke_handler_def qr_create_handler_def
    qr_poll_handler_def qr_scan_handler_def qr_approve_handler_def qr_reject_handler_def
    audit_list_handler_def
  by (intro keeps_rules)+

lemma keeps_file_handlers [keeps_rules]:
  "keeps_db I (media_upload_handler rq q b)" "keeps_db I (media_list_handler rq pgb)"
  "keeps_db I (media_metadata_handler rq i)" "keeps_db I (media_content_handler rq i)"
  "keeps_db I (media_remove_handler rq i)" "keeps_db I (avatar_upload_handler rq b)"
  "keeps_db I (avatar_remove_handler rq)" "keeps_db I (avatar_serve_handler rq s)"
  unfolding media_upload_handler_def media_list_handler_def media_metadata_handler_def
    media_content_handler_def media_remove_handler_def avatar_upload_handler_def
    avatar_remove_handler_def avatar_serve_handler_def Let_def
  by (intro keeps_rules)+

lemma keeps_oauth_handlers [keeps_rules]:
  "keeps_db I (oauth_login_handler rq n r)" "keeps_db I (oauth_callback_handler rq n cq)"
  "keeps_db I (oauth_exchange_handler rq sb)" "keeps_db I (oauth_providers_handler rq)"
  "keeps_db I (oauth_identities_handler rq)" "keeps_db I (oauth_link_handler rq n)"
  "keeps_db I (oauth_unlink_handler rq n)"
  unfolding oauth_login_handler_def oauth_callback_handler_def oauth_exchange_handler_def
    oauth_providers_handler_def oauth_identities_handler_def oauth_link_handler_def
    oauth_unlink_handler_def
  by (intro keeps_rules)+

lemma keeps_passkey_handlers [keeps_rules]:
  "keeps_db I (begin_registration_handler rq)" "keeps_db I (finish_registration_handler rq fb)"
  "keeps_db I (begin_login_handler rq)" "keeps_db I (finish_login_handler rq lb)"
  "keeps_db I (passkeys_list_handler rq)" "keeps_db I (passkeys_remove_handler rq i)"
  unfolding begin_registration_handler_def finish_registration_handler_def begin_login_handler_def
    finish_login_handler_def passkeys_list_handler_def passkeys_remove_handler_def
  by (intro keeps_rules)+

lemma keeps_health_handlers [keeps_rules]:
  "keeps_db I (liveness_handler rq)" "keeps_db I (readiness_handler rq)"
  unfolding liveness_handler_def readiness_handler_def by (intro keeps_rules)+

lemma keeps_run_op: "keeps_db I (run_op op)"
  by (cases op) (simp_all only: run_op.simps, (intro keeps_rules)+)

lemma keeps_bootstrap [keeps_rules]: "keeps_db I (ensure_bootstrap_admin m p)"
  unfolding ensure_bootstrap_admin_def count_active_admins_def by (intro keeps_rules)

subsection \<open>Background tasks\<close>

lemma sweep_laws:
  "I d \<Longrightarrow> I (snd (sweep_oauth_states c d))" "I d \<Longrightarrow> I (snd (sweep_challenges c d))"
  "I d \<Longrightarrow> I (snd (sweep_qr_sessions c d))" "I d \<Longrightarrow> I (snd (sweep_login_grants c d))"
  using state_cleanup_law [of d c] challenge_cleanup_law [of d c] qr_cleanup_law [of d c]
    grant_cleanup_law [of d c]
  by (simp_all add: sweep_oauth_states_def state_cleanup_def sweep_challenges_def challenge_cleanup_def
      sweep_qr_sessions_def qr_cleanup_def sweep_login_grants_def grant_cleanup_def)

lemma keeps_job_table [keeps_rules]:
  "keeps_db I (enqueue k p t)" "keeps_db I (ensure_scheduled k)" "keeps_db I (claim_batch n)"
  "keeps_db I (mark_succeeded i)" "keeps_db I (reschedule_or_kill j x b)" "keeps_db I prune_job_history"
  unfolding enqueue_def ensure_scheduled_def claim_batch_def mark_succeeded_def reschedule_or_kill_def
    prune_job_history_def Let_def
  by (intro keeps_rules; auto simp: job_insert_def insert_unless_scheduled_def claim_jobs_def set_job_def
      prune_jobs_def Let_def jobs_law split: if_splits)+

lemma keeps_cleanup [keeps_rules]: "keeps_db I cleanup_run"
  unfolding cleanup_run_def prune_dead_mail_def Let_def for_each.simps
  by (intro keeps_rules; auto simp: prune_mails_def intro: token_sweep_law sweep_laws outbox_law)

lemma keeps_worker [keeps_rules]:
  "keeps_db I (process j)" "keeps_db I worker_start" "keeps_db I poll" "keeps_db I (poll_crashing n)"
  unfolding process_def job_dispatch_def worker_start_def poll_def poll_crashing_def
  by (intro keeps_rules)+

lemma keeps_outbox [keeps_rules]:
  "keeps_db I (outbox_insert m)" "keeps_db I (finish i r)" "keeps_db I outbox_pending"
  unfolding outbox_insert_def finish_def outbox_remove_def mark_dead_def outbox_pending_def
  by (intro keeps_rules; auto simp: outbox_insert_row_def outbox_delete_def outbox_kill_def outbox_law
      split: if_splits)+

lemma keeps_delivery [keeps_rules]:
  "keeps_db I (dispatch q)" "keeps_db I recover_pending"
  unfolding dispatch_def delivery_task_def recover_pending_def recover_one_def
  by (intro keeps_rules)+

lemma keeps_deliver_queued [keeps_rules]: "keeps_db I (deliver_queued k)"
proof (rule keepsI)
  fix e w v w'
  assume "I (db w)" and "deliver_queued k e w = (v, w')"
  then show "I (db w')"
    using keepsD [OF keeps_delivery(1), of "w\<lparr>mails := take k (mails w) @ drop (Suc k) (mails w)\<rparr>"]
    by (auto simp: deliver_queued_def split: if_splits)
qed

lemma keeps_background: "keeps_db I (background t)"
  by (cases t) (simp_all only: background.simps, (intro keeps_rules)+)

text \<open>Hence the invariant holds after any sequence of requests and background tasks.\<close>

lemma always: "I (db (world s)) \<Longrightarrow> I (db (world (run_server e evs s)))"
  by (rule run_server_keeps [OF keeps_run_op keeps_background])

end

end
