(* ===== verification/ServerInvariants.thy ===== *)
theory ServerInvariants
  imports Invariants
begin

text \<open>
  The invariants of the server, each an interpretation of \<open>db_invariant\<close>: what holds of the tables
  after any sequence of requests.
\<close>

lemma ids_update_where:
  "(\<And>u. usr_id (f u) = usr_id u) \<Longrightarrow> map usr_id (update_where p f rows) = map usr_id rows"
  by (simp add: map_update_where_same)

lemma log_laws_frame:
  "(\<And>d x. I d \<Longrightarrow> I (d\<lparr>audit_log := x\<rparr>)) \<Longrightarrow> (\<And>d x. I d \<Longrightarrow> I (d\<lparr>media := x\<rparr>)) \<Longrightarrow> log_laws I"
  by unfold_locales

section \<open>Accounts\<close>

definition emails_unique :: "user list \<Rightarrow> bool" where
  "emails_unique rows \<longleftrightarrow> (\<forall>u \<in> set rows. \<forall>v \<in> set rows.
     user_live u \<longrightarrow> user_live v \<longrightarrow> usr_email u = usr_email v \<longrightarrow> usr_id u = usr_id v)"

definition accounts_ok :: "db \<Rightarrow> bool" where
  "accounts_ok d \<longleftrightarrow> distinct (map usr_id (users d)) \<and> emails_unique (users d)"

lemma emails_uniqueI:
  "(\<And>u v. u \<in> set rows \<Longrightarrow> v \<in> set rows \<Longrightarrow> user_live u \<Longrightarrow> user_live v \<Longrightarrow> usr_email u = usr_email v
     \<Longrightarrow> usr_id u = usr_id v) \<Longrightarrow> emails_unique rows"
  unfolding emails_unique_def by blast

lemma emails_uniqueD:
  "emails_unique rows \<Longrightarrow> u \<in> set rows \<Longrightarrow> v \<in> set rows \<Longrightarrow> user_live u \<Longrightarrow> user_live v
     \<Longrightarrow> usr_email u = usr_email v \<Longrightarrow> usr_id u = usr_id v"
  unfolding emails_unique_def by blast

lemma emails_unique_update:
  assumes "emails_unique rows" and "\<And>u. usr_id (f u) = usr_id u"
    and "\<And>u. user_live (f u) \<Longrightarrow> user_live u \<and> usr_email (f u) = usr_email u"
  shows "emails_unique (update_where p f rows)"
proof (rule emails_uniqueI)
  fix u v
  assume u: "u \<in> set (update_where p f rows)" "user_live u"
    and v: "v \<in> set (update_where p f rows)" "user_live v" and same: "usr_email u = usr_email v"
  obtain a where a: "a \<in> set rows" "u = (if p a then f a else a)" using in_update_whereE [OF u(1)] .
  obtain b where b: "b \<in> set rows" "v = (if p b then f b else b)" using in_update_whereE [OF v(1)] .
  have la: "user_live a" "usr_email a = usr_email u" "usr_id a = usr_id u"
    using a u(2) assms(2,3) [of a] by (auto split: if_splits)
  have lb: "user_live b" "usr_email b = usr_email v" "usr_id b = usr_id v"
    using b v(2) assms(2,3) [of b] by (auto split: if_splits)
  show "usr_id u = usr_id v"
    using emails_uniqueD [OF assms(1) a(1) b(1) la(1) lb(1)] la lb same by simp
qed

lemma accounts_ok_update:
  assumes "accounts_ok d" and "\<And>u. usr_id (f u) = usr_id u"
    and "\<And>u. user_live (f u) \<Longrightarrow> user_live u \<and> usr_email (f u) = usr_email u"
  shows "accounts_ok (d\<lparr>users := update_where p f (users d)\<rparr>)"
  using assms(1,2) emails_unique_update [of "users d" f p, OF _ assms(2,3)]
  by (simp add: accounts_ok_def ids_update_where)

lemma accounts_ok_insert:
  assumes "accounts_ok d" and "users_insert i now n d = Inr (u, d')"
  shows "accounts_ok d'"
proof -
  have d': "d' = d\<lparr>users := users d @ [u]\<rparr>" and u: "usr_id u = i" "usr_email u = nu_email n"
    and fresh: "\<And>v. v \<in> set (users d) \<Longrightarrow> usr_id v \<noteq> i"
      "\<And>v. v \<in> set (users d) \<Longrightarrow> user_live v \<Longrightarrow> usr_email v \<noteq> nu_email n"
    using assms(2) by (auto simp: users_insert_def Let_def split: if_splits)
  have "i \<notin> usr_id ` set (users d)" using fresh(1) by blast
  moreover have "emails_unique (users d @ [u])"
  proof (rule emails_uniqueI)
    fix a b
    assume ab: "a \<in> set (users d @ [u])" "b \<in> set (users d @ [u])" "user_live a" "user_live b"
      "usr_email a = usr_email b"
    then consider "a \<in> set (users d)" "b \<in> set (users d)" | "a = u" "b = u"
      | "a = u" "b \<in> set (users d)" | "a \<in> set (users d)" "b = u" by auto
    then show "usr_id a = usr_id b"
      using ab(3-5) emails_uniqueD [of "users d" a b] assms(1) fresh(2) [of a] fresh(2) [of b] u(2)
      by cases (simp_all add: accounts_ok_def)
  qed
  ultimately show ?thesis using assms(1) u(1) by (simp add: d' accounts_ok_def)
qed

lemma accounts_ok_email:
  assumes "accounts_ok d" and "update_email i email now d = Inr (x, d')"
  shows "accounts_ok d'"
proof -
  let ?p = "\<lambda>u. usr_id u = i \<and> user_live u"
  let ?f = "\<lambda>u. u\<lparr>usr_email := email, usr_email_verified_at := Some now, usr_updated_at := Some now\<rparr>"
  have d': "d' = d\<lparr>users := update_where ?p ?f (users d)\<rparr>"
    and free: "\<And>a b. a \<in> set (users d) \<Longrightarrow> ?p a \<Longrightarrow> b \<in> set (users d) \<Longrightarrow> usr_email b = email
      \<Longrightarrow> user_live b \<Longrightarrow> usr_id b = i"
    using assms(2) by (auto simp: update_email_def split: if_splits)
  have "emails_unique (update_where ?p ?f (users d))"
  proof (rule emails_uniqueI)
    fix u v
    assume u: "u \<in> set (update_where ?p ?f (users d))" "user_live u"
      and v: "v \<in> set (update_where ?p ?f (users d))" "user_live v" and same: "usr_email u = usr_email v"
    obtain a where a: "a \<in> set (users d)" "u = (if ?p a then ?f a else a)"
      using in_update_whereE [OF u(1)] .
    obtain b where b: "b \<in> set (users d)" "v = (if ?p b then ?f b else b)"
      using in_update_whereE [OF v(1)] .
    have live: "user_live a" "user_live b"
      using a(2) b(2) u(2) v(2) by (auto simp: user_live_def split: if_splits)
    have ids: "usr_id u = usr_id a" "usr_id v = usr_id b" using a(2) b(2) by simp_all
    have uniq: "emails_unique (users d)" using assms(1) by (simp add: accounts_ok_def)
    consider "usr_id a = i" "usr_id b = i" | "usr_id a = i" "usr_id b \<noteq> i"
      | "usr_id a \<noteq> i" "usr_id b = i" | "usr_id a \<noteq> i" "usr_id b \<noteq> i" by blast
    then show "usr_id u = usr_id v"
    proof cases
      case 1
      then show ?thesis using ids by simp
    next
      case 2
      then have "usr_email b = email" using a(2) b(2) live same by simp
      then show ?thesis using free [OF a(1) _ b(1)] 2 live by blast
    next
      case 3
      then have "usr_email a = email" using a(2) b(2) live same by simp
      then show ?thesis using free [OF b(1) _ a(1)] 3 live by blast
    next
      case 4
      then have "usr_email a = usr_email b" using a(2) b(2) same by simp
      then show ?thesis using emails_uniqueD [OF uniq a(1) b(1) live] ids by simp
    qed
  qed
  then show ?thesis
    using assms(1) by (simp add: d' accounts_ok_def ids_update_where)
qed

lemma patch_user_keeps [simp]:
  "usr_id (patch_user now p u) = usr_id u" "usr_email (patch_user now p u) = usr_email u"
  "usr_deleted_at (patch_user now p u) = usr_deleted_at u"
  "usr_totp_enabled (patch_user now p u) = usr_totp_enabled u"
  "usr_totp_secret (patch_user now p u) = usr_totp_secret u"
  by (simp_all add: patch_user_def)

lemma mark_deleted_keeps [simp]:
  "usr_id (mark_deleted now u) = usr_id u" "usr_email (mark_deleted now u) = usr_email u"
  "\<not> user_live (mark_deleted now u)"
  "usr_totp_enabled (mark_deleted now u) = usr_totp_enabled u"
  "usr_totp_secret (mark_deleted now u) = usr_totp_secret u"
  by (simp_all add: mark_deleted_def user_live_def)

lemma accounts_account_laws: "account_laws accounts_ok"
proof
  fix d :: db and i :: uuid and p now
  assume "accounts_ok d"
  then show "accounts_ok (snd (apply_patch i now p d))"
    unfolding apply_patch_def Let_def snd_conv
    by (intro accounts_ok_update) (auto simp: user_live_def)
  show "accounts_ok (snd (delete_row i now d))"
    unfolding delete_row_def snd_conv using \<open>accounts_ok d\<close>
    by (intro accounts_ok_update) auto
  show "accounts_ok (snd (update_user_row i (\<lambda>u. u\<lparr>usr_totp_enabled := True\<rparr>) d))"
    unfolding update_user_row_def snd_conv using \<open>accounts_ok d\<close>
    by (intro accounts_ok_update) (auto simp: user_live_def)
next
  fix d :: db and f and q :: "user \<Rightarrow> bool"
  assume "accounts_ok d" and "\<forall>u. benign u (f u)"
  then show "accounts_ok (d\<lparr>users := update_where q f (users d)\<rparr>)"
    by (intro accounts_ok_update) (auto simp: benign_def user_live_def)
qed (fact accounts_ok_insert accounts_ok_email)+

interpretation accounts: db_invariant accounts_ok
  by (intro db_invariant.intro accounts_account_laws link_laws_frame key_laws_frame qr_laws_frame
        oauth_laws_frame passkey_laws_frame job_laws_frame log_laws_frame)
     (simp_all add: accounts_ok_def)

section \<open>An administrator remains\<close>

definition admin_remains :: "db \<Rightarrow> bool" where
  "admin_remains d \<longleftrightarrow> distinct (map usr_id (users d)) \<and> (\<exists>u \<in> set (users d). active_admin u)"

lemma admin_remains_update:
  assumes "admin_remains d" and "\<And>u. usr_id (f u) = usr_id u"
    and "(\<forall>u. active_admin u \<longrightarrow> active_admin (f u)) \<or> (\<exists>a \<in> set (users d). active_admin a \<and> \<not> p a)"
  shows "admin_remains (d\<lparr>users := update_where p f (users d)\<rparr>)"
proof -
  obtain a where a: "a \<in> set (users d)" "active_admin (if p a then f a else a)"
    using assms(1,3) unfolding admin_remains_def by (metis (full_types))
  then have "(if p a then f a else a) \<in> set (update_where p f (users d))"
    by (auto intro: in_update_whereI)
  with a assms(1,2) show ?thesis by (auto simp: admin_remains_def ids_update_where)
qed

lemma admin_remains_guard:
  "0 < other_active_admins i d \<Longrightarrow> \<exists>a \<in> set (users d). active_admin a \<and> \<not> (usr_id a = i \<and> user_live a)"
  by (auto simp: other_active_admins_def)

lemma admin_remains_other:
  assumes "admin_remains d" and "select_by_id i d = Some t" and "\<not> active_admin t"
  shows "\<exists>a \<in> set (users d). active_admin a \<and> \<not> (usr_id a = i \<and> user_live a)"
proof -
  obtain a where a: "a \<in> set (users d)" "active_admin a" using assms(1) by (auto simp: admin_remains_def)
  have "t \<in> set (users d)" "usr_id t = i" using assms(2) by (auto dest: select_by_id_SomeD)
  then have "usr_id a \<noteq> i"
    using distinct_key_unique [of usr_id "users d" a t] a assms(1,3) by (auto simp: admin_remains_def)
  with a show ?thesis by blast
qed

lemma harmless_patch:
  assumes "harmless p" and "active_admin u"
  shows "active_admin (patch_user now p u)"
proof (cases "up_role p")
  case None
  then show ?thesis using assms
    by (auto simp: harmless_def active_admin_def patch_user_def user_live_def split: option.split)
next
  case (Some r)
  then have "r = Admin" using assms(1) by (cases r) (auto simp: harmless_def)
  then show ?thesis using assms Some
    by (auto simp: harmless_def active_admin_def patch_user_def user_live_def split: option.split)
qed

lemma admin_account_laws: "account_laws admin_remains"
proof
  fix d d' i now n u x email
  assume "admin_remains d"
  then show "users_insert i now n d = Inr (u, d') \<Longrightarrow> admin_remains d'"
    by (auto simp: admin_remains_def users_insert_def Let_def split: if_splits)
  show "update_email i email now d = Inr (x, d') \<Longrightarrow> admin_remains d'"
    using \<open>admin_remains d\<close>
    by (auto simp: update_email_def active_admin_def user_live_def split: if_splits
        intro!: admin_remains_update)
next
  fix d i p now
  assume "admin_remains d" and "harmless p \<or> other_active_admins i d \<noteq> 0"
  then show "admin_remains (snd (apply_patch i now p d))"
    unfolding apply_patch_def Let_def snd_conv
    by (intro admin_remains_update) (auto simp: harmless_patch dest: admin_remains_guard)
next
  fix d i now
  assume "admin_remains d"
    and "other_active_admins i d \<noteq> 0 \<or> (\<exists>t. select_by_id i d = Some t \<and> \<not> active_admin t)"
  then show "admin_remains (snd (delete_row i now d))"
    unfolding delete_row_def snd_conv
    by (intro admin_remains_update) (auto dest: admin_remains_guard admin_remains_other)
next
  fix d :: db and f and q :: "user \<Rightarrow> bool"
  assume "admin_remains d" and "\<forall>u. benign u (f u)"
  then show "admin_remains (d\<lparr>users := update_where q f (users d)\<rparr>)"
    by (intro admin_remains_update) (auto simp: benign_def active_admin_def user_live_def)
next
  fix d :: db and i :: uuid
  assume "admin_remains d"
  then show "admin_remains (snd (update_user_row i (\<lambda>u. u\<lparr>usr_totp_enabled := True\<rparr>) d))"
    unfolding update_user_row_def snd_conv
    by (intro admin_remains_update) (auto simp: active_admin_def user_live_def)
qed

interpretation admins: db_invariant admin_remains
  by (intro db_invariant.intro admin_account_laws link_laws_frame key_laws_frame qr_laws_frame
        oauth_laws_frame passkey_laws_frame job_laws_frame log_laws_frame)
     (simp_all add: admin_remains_def)

end
