(* ===== verification/TableInvariants.thy ===== *)
theory TableInvariants
  imports ServerInvariants
begin

text \<open>
  The invariants of the credential tables: emailed links, two-factor state, API keys, QR sessions,
  OAuth rows, and the references between tables.
\<close>

section \<open>Links: unique hashes, one outstanding link per purpose\<close>

definition outstanding :: "uuid \<Rightarrow> token_purpose \<Rightarrow> auth_token \<Rightarrow> bool" where
  "outstanding u p t \<longleftrightarrow> tok_user_id t = u \<and> tok_purpose t = p \<and> tok_used_at t = None"

lemma use_tokens_none_left:
  "t \<in> set (auth_tokens (snd (use_tokens i p now d))) \<Longrightarrow> \<not> outstanding i p t"
  by (auto simp: use_tokens_def outstanding_def elim!: in_update_whereE split: if_splits)

definition links_ok :: "db \<Rightarrow> bool" where
  "links_ok d \<longleftrightarrow> hashes_unique d \<and> (\<forall>u p. count_where (outstanding u p) (auth_tokens d) \<le> 1)"

lemma count_where_spend_le:
  assumes "\<And>x. q (f x) \<Longrightarrow> q x"
  shows "count_where q (update_where p f rows) \<le> count_where q rows"
  using assms by (induction rows) (auto intro: le_SucI)

lemma links_ok_spend:
  assumes "links_ok d"
  shows "links_ok (d\<lparr>auth_tokens := update_where p (\<lambda>t. t\<lparr>tok_used_at := Some now\<rparr>) (auth_tokens d)\<rparr>)"
proof -
  have "count_where (outstanding u q) (update_where p (\<lambda>t. t\<lparr>tok_used_at := Some now\<rparr>) (auth_tokens d))
      \<le> count_where (outstanding u q) (auth_tokens d)" for u q
    by (rule count_where_spend_le) (simp add: outstanding_def)
  then show ?thesis
    using assms unfolding links_ok_def hashes_unique_def
    by (auto simp: map_update_where_same) (meson order_trans)
qed

lemma links_ok_issue:
  assumes "links_ok d" and "no_unused (tok_user_id row) (tok_purpose row) d"
    and "token_insert row d = Inr (x, d')"
  shows "links_ok d'"
proof -
  have d': "d' = d\<lparr>auth_tokens := auth_tokens d @ [row]\<rparr>"
    and fresh: "tok_token_hash row \<notin> tok_token_hash ` set (auth_tokens d)"
    using assms(3) by (auto simp: token_insert_def split: if_splits)
  have none: "count_where (outstanding (tok_user_id row) (tok_purpose row)) (auth_tokens d) = 0"
    using assms(2) by (simp add: no_unused_def outstanding_def)
  have "count_where (outstanding u p) (auth_tokens d @ [row]) \<le> 1" for u p
    using assms(1) none by (cases "outstanding u p row") (auto simp: links_ok_def outstanding_def)
  then show ?thesis
    using assms(1) fresh by (simp add: d' links_ok_def hashes_unique_def)
qed

lemma links_link_laws: "link_laws links_ok"
  by unfold_locales
     (auto simp: use_tokens_def claim_token_def recovery_insert_def recovery_delete_def claim_recovery_def
        intro: links_ok_spend links_ok_issue split: if_splits;
      simp add: links_ok_def hashes_unique_def)+

lemma count_where_delete_le: "count_where q (delete_where p rows) \<le> count_where q rows"
  by (induction rows) (auto intro: le_SucI)

lemma links_job_laws: "job_laws links_ok"
proof unfold_locales
  fix d cutoff
  assume ok: "links_ok d"
  have "count_where (outstanding u p) (delete_where q (auth_tokens d)) \<le> 1" for u p q
    using ok count_where_delete_le [of "outstanding u p" q "auth_tokens d"]
    unfolding links_ok_def by (meson le_trans)
  with ok show "links_ok (snd (sweep_auth_tokens cutoff d))"
    by (simp add: links_ok_def hashes_unique_def sweep_auth_tokens_def)
       (simp add: delete_where_def distinct_map_filter)
qed (simp_all add: links_ok_def hashes_unique_def)

interpretation links: db_invariant links_ok
  by (intro db_invariant.intro account_laws_frame links_link_laws key_laws_frame qr_laws_frame
        oauth_laws_frame passkey_laws_frame links_job_laws log_laws_frame)
     (simp_all add: links_ok_def hashes_unique_def)

section \<open>Two-factor: enabled means a secret is stored\<close>

definition totp_ok :: "db \<Rightarrow> bool" where
  "totp_ok d \<longleftrightarrow> distinct (map usr_id (users d))
     \<and> list_all (\<lambda>u. usr_totp_enabled u \<longrightarrow> usr_totp_secret u \<noteq> None) (users d)"

lemma totp_ok_update:
  assumes "totp_ok d" and "\<And>u. usr_id (f u) = usr_id u"
    and "\<And>u. u \<in> set (users d) \<Longrightarrow> p u \<Longrightarrow> usr_totp_enabled (f u) \<Longrightarrow>
      (usr_totp_enabled u \<longrightarrow> usr_totp_secret u \<noteq> None) \<Longrightarrow> usr_totp_secret (f u) \<noteq> None"
  shows "totp_ok (d\<lparr>users := update_where p f (users d)\<rparr>)"
proof -
  have "list_all (\<lambda>u. usr_totp_enabled u \<longrightarrow> usr_totp_secret u \<noteq> None) (update_where p f (users d))"
    unfolding list_all_iff
  proof
    fix v
    assume "v \<in> set (update_where p f (users d))"
    then obtain u where u: "u \<in> set (users d)" "v = (if p u then f u else u)" by (rule in_update_whereE)
    have "usr_totp_enabled u \<longrightarrow> usr_totp_secret u \<noteq> None"
      using assms(1) u(1) by (simp add: totp_ok_def list_all_iff)
    then show "usr_totp_enabled v \<longrightarrow> usr_totp_secret v \<noteq> None"
      using u assms(3) [of u] by (cases "p u") auto
  qed
  then show ?thesis using assms(1,2) by (simp add: totp_ok_def ids_update_where)
qed

lemma totp_account_laws: "account_laws totp_ok"
proof
  fix d d' i now n u x email
  assume ok: "totp_ok d"
  then show "users_insert i now n d = Inr (u, d') \<Longrightarrow> totp_ok d'"
    by (auto simp: totp_ok_def users_insert_def Let_def split: if_splits)
  show "update_email i email now d = Inr (x, d') \<Longrightarrow> totp_ok d'"
    using ok by (auto simp: update_email_def split: if_splits intro!: totp_ok_update)
next
  fix d :: db and i :: uuid and p now
  assume ok: "totp_ok d"
  then show "totp_ok (snd (apply_patch i now p d))"
    unfolding apply_patch_def Let_def snd_conv by (intro totp_ok_update) auto
  show "totp_ok (snd (delete_row i now d))"
    unfolding delete_row_def snd_conv using ok by (intro totp_ok_update) auto
next
  fix d :: db and f and q :: "user \<Rightarrow> bool"
  assume "totp_ok d" and "\<forall>u. benign u (f u)"
  then show "totp_ok (d\<lparr>users := update_where q f (users d)\<rparr>)"
    by (intro totp_ok_update) (auto simp: benign_def)
next
  fix d :: db and i t
  assume ok: "totp_ok d" and t: "select_by_id i d = Some t" "usr_totp_secret t \<noteq> None"
  have "t \<in> set (users d)" "usr_id t = i" using t(1) by (auto dest: select_by_id_SomeD)
  then have "u = t" if "u \<in> set (users d)" "usr_id u = i" for u
    using distinct_key_unique [of usr_id "users d" u t] that ok by (simp add: totp_ok_def)
  with t ok show "totp_ok (snd (update_user_row i (\<lambda>u. u\<lparr>usr_totp_enabled := True\<rparr>) d))"
    unfolding update_user_row_def snd_conv by (intro totp_ok_update) auto
qed

interpretation totp: db_invariant totp_ok
  by (intro db_invariant.intro totp_account_laws link_laws_frame key_laws_frame qr_laws_frame
        oauth_laws_frame passkey_laws_frame job_laws_frame log_laws_frame)
     (simp_all add: totp_ok_def)

section \<open>API keys: at most twenty active per user, unique hashes\<close>

definition keys_ok :: "db \<Rightarrow> bool" where
  "keys_ok d \<longleftrightarrow> distinct (map key_key_hash (api_keys d)) \<and> distinct (map key_id (api_keys d))
     \<and> (\<forall>u. int (length (active_keys u d)) \<le> MAX_ACTIVE_KEYS_PER_USER)"

lemma active_keys_count: "length (active_keys u d) =
    count_where (\<lambda>k. key_user_id k = u \<and> key_revoked_at k = None) (api_keys d)"
  by (simp add: active_keys_def count_where_def)

lemma keys_ok_update:
  assumes "keys_ok d" and "\<And>k. key_key_hash (f k) = key_key_hash k" and "\<And>k. key_id (f k) = key_id k"
    and "\<And>k. key_user_id (f k) = key_user_id k"
    and "\<And>k. key_revoked_at (f k) = None \<Longrightarrow> key_revoked_at k = None"
  shows "keys_ok (d\<lparr>api_keys := update_where p f (api_keys d)\<rparr>)"
proof -
  have "count_where (\<lambda>k. key_user_id k = u \<and> key_revoked_at k = None) (update_where p f (api_keys d))
      \<le> count_where (\<lambda>k. key_user_id k = u \<and> key_revoked_at k = None) (api_keys d)" for u
    by (rule count_where_spend_le) (use assms in auto)
  then show ?thesis
    using assms(1-3) unfolding keys_ok_def active_keys_count
    by (auto simp: map_update_where_same) (meson of_nat_mono order_trans)
qed

lemma keys_key_laws: "key_laws keys_ok"
proof
  fix d row x d'
  assume ok: "keys_ok d" and lt: "int (length (active_keys (key_user_id row) d)) < MAX_ACTIVE_KEYS_PER_USER"
    and ins: "key_insert row d = Inr (x, d')"
  have d': "d' = d\<lparr>api_keys := api_keys d @ [row]\<rparr>"
    and fresh: "key_key_hash row \<notin> key_key_hash ` set (api_keys d)" "key_id row \<notin> key_id ` set (api_keys d)"
    using ins by (auto simp: key_insert_def split: if_splits)
  have "int (length (active_keys u d')) \<le> MAX_ACTIVE_KEYS_PER_USER" for u
    using ok lt unfolding active_keys_count d' keys_ok_def
    by (cases "key_user_id row = u") (auto simp: active_keys_count)
  then show "keys_ok d'" using ok fresh by (simp add: d' keys_ok_def)
next
  fix d u i now
  assume "keys_ok d"
  then show "keys_ok (snd (revoke_key u i now d))" "keys_ok (snd (touch_key i now d))"
    unfolding revoke_key_def touch_key_def Let_def snd_conv by (intro keys_ok_update; simp)+
qed

interpretation keys: db_invariant keys_ok
  by (intro db_invariant.intro account_laws_frame link_laws_frame keys_key_laws qr_laws_frame
        oauth_laws_frame passkey_laws_frame job_laws_frame log_laws_frame)
     (simp_all add: keys_ok_def active_keys_def)

section \<open>QR sessions\<close>

text \<open>
  A session that was scanned has an approver, and one that is still open has fewer than three wrong
  codes behind it.
\<close>

definition qr_row_ok :: "qr_session \<Rightarrow> bool" where
  "qr_row_ok s \<longleftrightarrow> (qr_status s \<in> {QrScanned, QrApproved, QrConsumed} \<longrightarrow> qr_user_id s \<noteq> None)
     \<and> 0 \<le> qr_attempts s \<and> (qr_status s \<noteq> QrRejected \<longrightarrow> qr_attempts s < MAX_CODE_ATTEMPTS)
     \<and> qr_attempts s \<le> MAX_CODE_ATTEMPTS"

definition qr_ok :: "db \<Rightarrow> bool" where
  "qr_ok d \<longleftrightarrow> qr_unique d \<and> list_all qr_row_ok (qr_sessions d)"

lemma qr_ok_update:
  assumes "qr_ok d" and "\<And>s. qr_id (f s) = qr_id s" and "\<And>s. p s \<Longrightarrow> qr_row_ok s \<Longrightarrow> qr_row_ok (f s)"
  shows "qr_ok (d\<lparr>qr_sessions := update_where p f (qr_sessions d)\<rparr>)"
proof -
  have "list_all qr_row_ok (update_where p f (qr_sessions d))"
    unfolding list_all_iff
  proof
    fix v
    assume "v \<in> set (update_where p f (qr_sessions d))"
    then obtain s where s: "s \<in> set (qr_sessions d)" "v = (if p s then f s else s)" by (rule in_update_whereE)
    have "qr_row_ok s" using assms(1) s(1) by (simp add: qr_ok_def list_all_iff)
    then show "qr_row_ok v" using s(2) assms(3) [of s] by simp
  qed
  then show ?thesis using assms(1,2) by (simp add: qr_ok_def qr_unique_def map_update_where_same)
qed

lemma qr_qr_laws: "qr_laws qr_ok"
proof
  fix d now
  assume "qr_ok d"
  then show "qr_ok (snd (qr_cleanup now d))"
    by (simp add: qr_ok_def qr_unique_def qr_cleanup_def delete_where_def distinct_map_filter list_all_iff)
next
  fix d row x d'
  assume "qr_ok d" and "qr_status row = QrPending" and "qr_attempts row = 0" and "qr_insert row d = Inr (x, d')"
  then show "qr_ok d'"
    by (auto simp: qr_ok_def qr_unique_def qr_insert_def qr_row_ok_def MAX_CODE_ATTEMPTS_def split: if_splits, metis+)
next
  fix d i now u
  assume ok: "qr_ok d"
  show "qr_ok (snd (qr_update (\<lambda>s. qr_id s = i \<and> qr_status s = QrPending \<and> qr_expires_at s > now)
      (\<lambda>s. s\<lparr>qr_status := QrScanned, qr_user_id := Some u\<rparr>) d))"
    unfolding qr_update_def snd_conv using ok by (intro qr_ok_update) (auto simp: qr_row_ok_def)
  show "qr_ok (snd (qr_update
      (\<lambda>s. qr_id s = i \<and> qr_status s = QrScanned \<and> qr_user_id s = Some u \<and> qr_expires_at s > now)
      (\<lambda>s. s\<lparr>qr_status := target\<rparr>) d))" if "target \<in> {QrApproved, QrRejected}" for target
    unfolding qr_update_def snd_conv using ok that by (intro qr_ok_update) (auto simp: qr_row_ok_def)
  show "qr_ok (snd (qr_wrong_code i d))"
    unfolding qr_wrong_code_def snd_conv using ok
    by (intro qr_ok_update) (auto simp: qr_row_ok_def wrong_code_row_def MAX_CODE_ATTEMPTS_def)
  show "qr_ok (snd (consume_qr i now d))"
    unfolding consume_qr_def Let_def snd_conv using ok by (intro qr_ok_update) (auto simp: qr_row_ok_def)
qed

interpretation qr: db_invariant qr_ok
  by (intro db_invariant.intro account_laws_frame link_laws_frame key_laws_frame qr_qr_laws
        oauth_laws_frame passkey_laws_frame job_laws_frame log_laws_frame)
     (simp_all add: qr_ok_def qr_unique_def)

section \<open>OAuth rows\<close>

definition identities_unique :: "db \<Rightarrow> bool" where
  "identities_unique d \<longleftrightarrow>
     distinct (map (\<lambda>i. (oid_provider i, oid_provider_user_id i)) (oauth_identities d))"

definition oauth_ok :: "db \<Rightarrow> bool" where
  "oauth_ok d \<longleftrightarrow> states_unique d \<and> grants_unique d \<and> identities_unique d"

lemma oauth_oauth_laws: "oauth_laws oauth_ok"
proof
  fix d
  assume ok: "oauth_ok d"
  show "oauth_ok (snd (state_cleanup now d))" "oauth_ok (snd (grant_cleanup now d))" for now
    using ok by (simp_all add: oauth_ok_def states_unique_def grants_unique_def identities_unique_def
        state_cleanup_def grant_cleanup_def delete_where_def distinct_map_filter)
  show "oauth_ok (snd (claim_oauth_state h now d))" "oauth_ok (snd (claim_login_grant h now d))"
    "oauth_ok (snd (identity_delete u pr d))" for h now u pr
    using ok by (simp_all add: oauth_ok_def states_unique_def grants_unique_def identities_unique_def
        claim_oauth_state_def claim_login_grant_def identity_delete_def delete_where_def Let_def
        distinct_map_filter map_update_where_same)
  show "state_insert st d = Inr (x, d') \<Longrightarrow> oauth_ok d'" "grant_insert g d = Inr (x, d') \<Longrightarrow> oauth_ok d'"
    for st g x d'
    using ok by (auto simp: oauth_ok_def states_unique_def grants_unique_def identities_unique_def
        state_insert_def grant_insert_def split: if_splits option.splits, metis+)
  show "identity_insert idn d = Inr (n, d') \<Longrightarrow> oauth_ok d'" for idn n d'
    using ok by (auto simp: oauth_ok_def states_unique_def grants_unique_def identities_unique_def
        identity_insert_def split: if_splits, metis+)
qed

interpretation oauth: db_invariant oauth_ok
  by (intro db_invariant.intro account_laws_frame link_laws_frame key_laws_frame qr_laws_frame
        oauth_oauth_laws passkey_laws_frame job_laws_frame log_laws_frame)
     (simp_all add: oauth_ok_def states_unique_def grants_unique_def identities_unique_def)

section \<open>References\<close>

text \<open>Every credential row belongs to an account that exists: accounts are only ever soft-deleted.\<close>

definition has_user :: "db \<Rightarrow> uuid \<Rightarrow> bool" where
  "has_user d i \<longleftrightarrow> i \<in> usr_id ` set (users d)"

definition refs_ok :: "db \<Rightarrow> bool" where
  "refs_ok d \<longleftrightarrow> list_all (\<lambda>t. has_user d (tok_user_id t)) (auth_tokens d)
     \<and> list_all (\<lambda>r. has_user d (rec_user_id r)) (totp_recovery_codes d)
     \<and> list_all (\<lambda>k. has_user d (key_user_id k)) (api_keys d)
     \<and> list_all (\<lambda>i. has_user d (oid_user_id i)) (oauth_identities d)
     \<and> list_all (\<lambda>g. has_user d (gr_user_id g)) (login_grants d)"

lemma refs_ok_grow:
  assumes "refs_ok d" and "usr_id ` set (users d) \<subseteq> usr_id ` set us"
  shows "refs_ok (d\<lparr>users := us\<rparr>)"
proof -
  have mono: "list_all (\<lambda>x. g x \<in> usr_id ` set us) xs"
    if "list_all (\<lambda>x. g x \<in> usr_id ` set (users d)) xs" for g :: "'a \<Rightarrow> uuid" and xs
    using that assms(2) by (auto simp: list_all_iff)
  show ?thesis using assms(1) by (simp add: refs_ok_def has_user_def mono)
qed

lemma refs_ok_update:
  "refs_ok d \<Longrightarrow> (\<And>u. usr_id (f u) = usr_id u) \<Longrightarrow> refs_ok (d\<lparr>users := update_where p f (users d)\<rparr>)"
  by (rule refs_ok_grow) (auto simp: ids_update_where simp flip: set_map)

lemma refs_account_laws: "account_laws refs_ok"
  by unfold_locales
     (auto simp: users_insert_def apply_patch_def delete_row_def update_email_def update_user_row_def
        benign_def Let_def split: if_splits intro!: refs_ok_update intro: refs_ok_grow)

lemma list_all_update_where:
  "list_all q rows \<Longrightarrow> (\<And>x. q x \<Longrightarrow> q (f x)) \<Longrightarrow> list_all q (update_where p f rows)"
  by (induction rows) auto

lemma list_all_delete_where: "list_all q rows \<Longrightarrow> list_all q (delete_where p rows)"
  by (simp add: list_all_iff)

lemmas refs_simps = refs_ok_def has_user_def list_all_update_where list_all_delete_where

lemma refs_link_laws: "link_laws refs_ok"
  by unfold_locales
     (auto simp: refs_simps use_tokens_def claim_token_def token_insert_def recovery_insert_def
        recovery_delete_def claim_recovery_def split: if_splits, (metis imageI)+)

lemma refs_key_laws: "key_laws refs_ok"
  by unfold_locales (auto simp: refs_simps key_insert_def revoke_key_def touch_key_def Let_def split: if_splits,
      (metis imageI)+)

lemma refs_oauth_laws: "oauth_laws refs_ok"
  by unfold_locales
     (auto simp: refs_simps state_cleanup_def state_insert_def claim_oauth_state_def identity_insert_def
        identity_delete_def grant_cleanup_def grant_insert_def claim_login_grant_def Let_def
        split: if_splits option.splits, (metis imageI)+)

lemma refs_job_laws: "job_laws refs_ok"
  by unfold_locales (auto simp: refs_simps sweep_auth_tokens_def)

interpretation refs: db_invariant refs_ok
  by (intro db_invariant.intro refs_account_laws refs_link_laws refs_key_laws qr_laws_frame
        refs_oauth_laws passkey_laws_frame refs_job_laws log_laws_frame)
     (simp_all add: refs_ok_def has_user_def)

end
