(* ===== verification/Samples.thy ===== *)
theory Samples
  imports TableInvariants
begin

text \<open>
  A concrete environment and concrete tables on which the hypotheses of the properties are shown to
  hold together: toy versions of the third-party functions (an injective text hash, a printable
  token format that decodes to what was encoded), a clock that advances one second per draw, and a
  database that always answers.
\<close>

definition sample_conf :: config where
  "sample_conf = \<lparr> mail_enabled = True, jwt_secret = ''secret'', jwt_ttl_secs = 40, frontend_url = ''https://app/'',
     password_reset_ttl_minutes = 30, email_verification_ttl_hours = 24, email_change_ttl_minutes = 30,
     require_verified_email = False, rate_limit_per_minute = 2, trust_proxy_headers = False,
     check_password_breaches = False, max_failed_login_attempts = 3, account_lockout_minutes = 15,
     webauthn_rp_name = ''app'', qr_ttl_secs = 120, qr_poll_rate_limit_per_minute = 60,
     storage_backend = LocalDisk, max_upload_bytes = 1000, allowed_content_types = [''image/png''],
     public_api_url = ''https://api'', oauth_google = None, oauth_github = None \<rparr>"

text \<open>A token is one character per claim, followed by the secret; claims out of range do not encode.\<close>

definition sample_encode :: "claims \<Rightarrow> str \<Rightarrow> str option" where
  "sample_encode c secret =
     (if sub c < 90 \<and> 0 \<le> tv c \<and> tv c < 90 \<and> 0 \<le> iat c \<and> iat c < 200 \<and> 0 \<le> exp c \<and> exp c < 200
      then Some ([char_of (sub c + 32), char_of (nat (tv c) + 32), char_of (nat (iat c)),
                  char_of (nat (exp c)), (case claim_role c of Admin \<Rightarrow> CHR ''a'' | User \<Rightarrow> CHR ''u'')] @ secret)
      else None)"

definition sample_decode :: "int \<Rightarrow> str \<Rightarrow> str \<Rightarrow> claims option" where
  "sample_decode now t secret =
     (case t of a # b # c # d # r # rest \<Rightarrow>
        if rest = secret \<and> int (of_char d) > now
        then Some \<lparr> sub = of_char a - 32, claim_role = (if r = CHR ''a'' then Admin else User),
                    tv = int (of_char b) - 32, iat = int (of_char c), exp = int (of_char d) \<rparr>
        else None
      | _ \<Rightarrow> None)"

lemma sample_decode_encode:
  "sample_encode c secret = Some t \<Longrightarrow> now < exp c \<Longrightarrow> sample_decode now t secret = Some c"
  by (cases "claim_role c") (auto simp: sample_encode_def sample_decode_def split: if_splits)

text \<open>A toy authenticator: the browser answers with the stored state and the credential's own text.\<close>

definition sample_webauthn :: webauthn_lib where
  "sample_webauthn = \<lparr> wa_start_registration = (\<lambda>n u m d x. Some (''options'', ''state'')),
     wa_finish_registration = (\<lambda>c s. if s = ''state'' then Some c else None),
     wa_start_discoverable = (\<lambda>n. Some (''options'', ''state'')), wa_identify = (\<lambda>c. Some 2),
     wa_finish_discoverable = (\<lambda>c s ks. if s = ''state'' \<and> c \<in> set ks then Some c else None),
     wa_update_credential = (\<lambda>p r. if p = r then Some p else None), wa_cred_id = map (\<lambda>c. word_of_nat (of_char c)),
     wa_passkey_to_json = Some, wa_passkey_of_json = Some, wa_state_to_json = Some,
     wa_state_of_json = Some \<rparr>"

text \<open>A mail server that answers, and a printable form of a mail whose four parts are separated by line ends.\<close>

definition sample_mailer :: mail_lib where
  "sample_mailer = \<lparr> ml_render_text = (\<lambda>r m. Some ''text''), ml_render_html = (\<lambda>r m. Some ''html''),
     ml_mailbox_error = (\<lambda>a. if CHR ''@'' \<in> set a then None else Some ''no at sign''),
     ml_multipart_error = (\<lambda>m. None), ml_smtp_send = (\<lambda>n m. Inr ()),
     ml_mail_to_json = (\<lambda>m. om_to m @ [CHR 0x0A] @ om_subject m @ [CHR 0x0A] @ om_text m @ [CHR 0x0A] @ om_html m),
     ml_mail_of_json = (\<lambda>s. case split_on (CHR 0x0A) s of
        [a, b, c, d] \<Rightarrow> Some \<lparr> om_to = a, om_subject = b, om_text = c, om_html = d \<rparr> | _ \<Rightarrow> None) \<rparr>"

definition sample_env :: env where
  "sample_env = \<lparr> conf = sample_conf, clock = (\<lambda>n. (40 + int n) * 1000000000),
     new_uuid = (\<lambda>n. 10 + n), random_bytes = (\<lambda>n. [word_of_nat n]), random_index = (\<lambda>k n. k),
     db_ok = (\<lambda>_. True), blocking_ok = (\<lambda>_. True),
     base64url = (\<lambda>bs. map (\<lambda>b. char_of (unat b + 64)) bs),
     sha256 = (\<lambda>s. map (\<lambda>c. word_of_nat (of_char c)) s), sha1 = (\<lambda>s. []),
     argon2_hash = (\<lambda>n p. Some (''h:'' @ p)), argon2_verify = (\<lambda>p h. h = ''h:'' @ p),
     jwt_encode = sample_encode, jwt_decode = sample_decode,
     zxcvbn = (\<lambda>p ks. (4, None)), pwned_range = (\<lambda>n p. None),
     totp_generate_secret = (\<lambda>n. ''S'' @ nat_to_string n), totp_build_ok = (\<lambda>s i a. True),
     totp_check_at = (\<lambda>s t c. c = ''code'' @ s), totp_qr_base64 = (\<lambda>s i a. Some ''qr''),
     totp_url = (\<lambda>s i a. ''url''), json_to_string = (\<lambda>j. Some ''json''),
     json_of_string = (\<lambda>s. Some JNull), valid_email = (\<lambda>s. CHR ''@'' \<in> set s),
     qr_svg_of = (\<lambda>s. Some ''svg''), collation_key = map of_char, parse_ip = (\<lambda>s. Some s),
     instant = (\<lambda>n. int n * 1000000000), io_ok = (\<lambda>_. True), io_written = (\<lambda>_. 0),
     infer_get = (\<lambda>b. Some (''image/png'', ''png'')), guess_format = (\<lambda>b. Some Png),
     decode_square = (\<lambda>x y z b. Inr [(1, 2, 3, 255)]), jpeg_encode = (\<lambda>q p. Some [1, 2, 3]),
     url_with_query = (\<lambda>u q. Some u), form_urlencoded = (\<lambda>q. concat (map snd q)),
     http_post_form = (\<lambda>n u f. None), http_get_bearer = (\<lambda>n u t. None),
     webauthn = sample_webauthn, mailer = sample_mailer, row_locked = (\<lambda>_ _. False),
     sqlx_display = (\<lambda>_. ''database error'') \<rparr>"

definition sample_user :: "uuid \<Rightarrow> str \<Rightarrow> role \<Rightarrow> user" where
  "sample_user i m r = \<lparr> usr_id = i, usr_email = m, usr_password_hash = ''h:correct horse'',
     usr_display_name = None, usr_role = r, usr_is_active = True, usr_email_verified_at = Some 0,
     usr_created_at = 0, usr_updated_at = None, usr_deleted_at = None, usr_avatar_key = None,
     usr_password_set = True, usr_token_version = 1, usr_failed_login_attempts = 0,
     usr_locked_until = None, usr_totp_secret = None, usr_totp_enabled = False \<rparr>"

definition ada :: user where "ada = sample_user 1 ''ada@x'' Admin"
definition bob :: user where "bob = sample_user 2 ''bob@x'' User"

definition sample_db :: db where "sample_db = empty_db\<lparr>users := [ada, bob]\<rparr>"

definition world_of :: "db \<Rightarrow> world" where
  "world_of d = \<lparr> db = d, tick = 0, mails = [], objects = (\<lambda>_. None), delivered = [] \<rparr>"

definition server_of :: "db \<Rightarrow> server" where
  "server_of d = \<lparr> world = world_of d, strict_hits = [], qr_poll_hits = [] \<rparr>"

definition bearer :: "http_method \<Rightarrow> str \<Rightarrow> request" where
  "bearer m t = \<lparr> rq_method = m, rq_headers = [(''authorization'', ''Bearer '' @ t)], rq_peer = Some ''10.0.0.1'' \<rparr>"

definition anonymous :: request where
  "anonymous = \<lparr> rq_method = POST, rq_headers = [], rq_peer = Some ''10.0.0.1'' \<rparr>"

text \<open>A token of Ada, as the toy encoder prints it.\<close>

definition ada_token :: str where "ada_token = ''!!(~asecret''"
definition bob_token :: str where "bob_token = [CHR 0x22] @ ''!(~usecret''"

lemmas sample_defs = sample_env_def sample_webauthn_def sample_mailer_def sample_conf_def sample_user_def ada_def bob_def sample_db_def
  world_of_def server_of_def bearer_def anonymous_def empty_db_def

lemma runs_to: "fst r = v \<Longrightarrow> r = (v, snd r)"
  by (cases r) simp

end
