(* ===== verification/AdminGuard.thy ===== *)
theory AdminGuard
  imports Samples
begin

text \<open>
  The last-administrator guard under concurrency (\<open>src/modules/users/repositories/admin_changes.rs\<close>
  with \<open>update_user.rs\<close> and \<open>delete_user.rs\<close>). Requests are interleaved at the granularity of
  statements: the read of the target row, the advisory lock, the count, and the write with its commit
  are separate steps. The lock is held from its acquisition to the end of the transaction.
\<close>

section \<open>Steps\<close>

datatype change = Patch uuid user_patch | Remove uuid

fun change_target :: "change \<Rightarrow> uuid" where
  "change_target (Patch i p) = i"
| "change_target (Remove i) = i"

fun apply_change :: "change \<Rightarrow> time \<Rightarrow> db \<Rightarrow> db" where
  "apply_change (Patch i p) now d = snd (apply_patch i now p d)"
| "apply_change (Remove i) now d = snd (delete_row i now d)"

datatype proc = ReadTarget uuid | Ready change bool | HasLock change | Counted change | Done bool

fun holds_lock :: "proc \<Rightarrow> bool" where
  "holds_lock (HasLock c) = True"
| "holds_lock (Counted c) = True"
| "holds_lock _ = False"

record race =
  rdb :: db
  procs :: "proc list"

definition patch_of :: "update_user_dto \<Rightarrow> user_patch" where
  "patch_of dto = \<lparr> up_display_name = uu_display_name dto, up_role = uu_role dto,
     up_is_active = uu_is_active dto \<rparr>"

definition update_guard :: "update_user_dto \<Rightarrow> bool" where
  "update_guard dto \<longleftrightarrow> uu_role dto = Some User \<or> uu_is_active dto = Some False"

definition delete_guard :: "user \<Rightarrow> bool" where
  "delete_guard target \<longleftrightarrow> is_admin (usr_role target) \<and> usr_is_active target"

text \<open>\<open>dels\<close> says whether delete requests arrive at all.\<close>

inductive race_step :: "bool \<Rightarrow> race \<Rightarrow> race \<Rightarrow> bool" for dels where
  arrive_update: "live_caller (rdb s) actor \<Longrightarrow> is_admin (au_role actor)
      \<Longrightarrow> check_admin_update actor i dto = Inr ()
      \<Longrightarrow> race_step dels s (s\<lparr>procs := procs s @ [Ready (Patch i (patch_of dto)) (update_guard dto)]\<rparr>)"
| arrive_delete: "dels \<Longrightarrow> live_caller (rdb s) actor \<Longrightarrow> is_admin (au_role actor)
      \<Longrightarrow> check_delete actor i = Inr ()
      \<Longrightarrow> race_step dels s (s\<lparr>procs := procs s @ [ReadTarget i]\<rparr>)"
| read_target: "k < length (procs s) \<Longrightarrow> procs s ! k = ReadTarget i \<Longrightarrow> select_by_id i (rdb s) = Some t
      \<Longrightarrow> race_step dels s (s\<lparr>procs := (procs s)[k := Ready (Remove i) (delete_guard t)]\<rparr>)"
| lock: "k < length (procs s) \<Longrightarrow> procs s ! k = Ready c True \<Longrightarrow> \<not> list_ex holds_lock (procs s)
      \<Longrightarrow> race_step dels s (s\<lparr>procs := (procs s)[k := HasLock c]\<rparr>)"
| count_ok: "k < length (procs s) \<Longrightarrow> procs s ! k = HasLock c
      \<Longrightarrow> other_active_admins (change_target c) (rdb s) \<noteq> 0
      \<Longrightarrow> race_step dels s (s\<lparr>procs := (procs s)[k := Counted c]\<rparr>)"
| write_guarded: "k < length (procs s) \<Longrightarrow> procs s ! k = Counted c
      \<Longrightarrow> race_step dels s (s\<lparr>rdb := apply_change c now (rdb s), procs := (procs s)[k := Done True]\<rparr>)"
| write_unguarded: "k < length (procs s) \<Longrightarrow> procs s ! k = Ready c False
      \<Longrightarrow> race_step dels s (s\<lparr>rdb := apply_change c now (rdb s), procs := (procs s)[k := Done True]\<rparr>)"
| fail: "k < length (procs s) \<Longrightarrow> race_step dels s (s\<lparr>procs := (procs s)[k := Done False]\<rparr>)"

inductive race_run :: "bool \<Rightarrow> race \<Rightarrow> race \<Rightarrow> bool" for dels where
  race_refl: "race_run dels s s"
| race_trans: "race_run dels s s1 \<Longrightarrow> race_step dels s1 s2 \<Longrightarrow> race_run dels s s2"

section \<open>Updates are safe\<close>

definition update_proc :: "proc \<Rightarrow> bool" where
  "update_proc q \<longleftrightarrow> (case q of
       ReadTarget i \<Rightarrow> False
     | Ready c g \<Rightarrow> (case c of Patch i p \<Rightarrow> g \<or> harmless p | Remove i \<Rightarrow> False)
     | HasLock c \<Rightarrow> (case c of Patch i p \<Rightarrow> True | Remove i \<Rightarrow> False)
     | Counted c \<Rightarrow> (case c of Patch i p \<Rightarrow> True | Remove i \<Rightarrow> False)
     | Done b \<Rightarrow> True)"

definition count_fresh :: "db \<Rightarrow> proc \<Rightarrow> bool" where
  "count_fresh d q \<longleftrightarrow> (case q of Counted c \<Rightarrow> other_active_admins (change_target c) d \<noteq> 0 | _ \<Rightarrow> True)"

definition one_holder :: "proc list \<Rightarrow> bool" where
  "one_holder ps \<longleftrightarrow> (\<forall>j k. j < length ps \<longrightarrow> k < length ps \<longrightarrow> holds_lock (ps ! j) \<longrightarrow> holds_lock (ps ! k)
     \<longrightarrow> j = k)"

definition race_inv :: "race \<Rightarrow> bool" where
  "race_inv s \<longleftrightarrow> admin_remains (rdb s) \<and> list_all update_proc (procs s)
     \<and> list_all (count_fresh (rdb s)) (procs s) \<and> one_holder (procs s)"

lemma one_holder_update:
  assumes "one_holder ps" and "holds_lock q \<Longrightarrow> holds_lock (ps ! k) \<or> \<not> list_ex holds_lock ps"
  shows "one_holder (ps[k := q])"
  unfolding one_holder_def
proof (intro allI impI)
  fix i j
  assume len: "i < length (ps[k := q])" "j < length (ps[k := q])"
    and h: "holds_lock (ps[k := q] ! i)" "holds_lock (ps[k := q] ! j)"
  have other: "\<not> holds_lock (ps ! n)" if "\<not> list_ex holds_lock ps" "n < length ps" for n
    using that by (simp add: list_ex_iff)
  have same: "a = b" if "a < length ps" "b < length ps" "holds_lock (ps ! a)" "holds_lock (ps ! b)" for a b
    using assms(1) that unfolding one_holder_def by blast
  show "i = j"
    using len h assms(2) other same by (cases "i = k"; cases "j = k") (auto simp: nth_list_update)
qed

lemma one_holder_release: "one_holder ps \<Longrightarrow> \<not> holds_lock q \<Longrightarrow> one_holder (ps[k := q])"
  by (rule one_holder_update) simp_all

lemma one_holder_snoc:
  assumes "one_holder ps" and "\<not> holds_lock q"
  shows "one_holder (ps @ [q])"
  using assms unfolding one_holder_def by (auto simp: nth_append less_Suc_eq split: if_splits)

lemma list_all_list_update: "list_all P ps \<Longrightarrow> P q \<Longrightarrow> list_all P (ps[k := q])"
  by (auto simp: list_all_iff dest: subsetD [OF set_update_subset_insert])

lemma other_active_admins_iff:
  "other_active_admins i d \<noteq> 0 \<longleftrightarrow> (\<exists>a \<in> set (users d). active_admin a \<and> usr_id a \<noteq> i)"
  by (simp add: other_active_admins_def)

lemma other_active_admins_harmless:
  assumes "harmless p"
  shows "other_active_admins i d \<noteq> 0 \<Longrightarrow> other_active_admins i (snd (apply_patch j now p d)) \<noteq> 0"
proof -
  assume "other_active_admins i d \<noteq> 0"
  then obtain a where a: "a \<in> set (users d)" "active_admin a" "usr_id a \<noteq> i"
    unfolding other_active_admins_iff by blast
  let ?a = "if usr_id a = j \<and> user_live a then patch_user now p a else a"
  have "?a \<in> set (users (snd (apply_patch j now p d)))"
    using a(1) by (auto simp: apply_patch_def Let_def intro: in_update_whereI)
  moreover have "active_admin ?a \<and> usr_id ?a \<noteq> i" using a harmless_patch [OF assms] by simp
  ultimately show ?thesis unfolding other_active_admins_iff by blast
qed

lemma apply_patch_admins:
  "admin_remains d \<Longrightarrow> harmless p \<or> other_active_admins i d \<noteq> 0 \<Longrightarrow> admin_remains (snd (apply_patch i now p d))"
  by (rule account_laws.patch_law [OF admin_account_laws])

lemma update_proc_arrival: "update_proc (Ready (Patch i (patch_of dto)) (update_guard dto))"
  by (auto simp: update_proc_def harmless_def patch_of_def update_guard_def)

lemma write_guarded_inv:
  assumes "race_inv s" and "k < length (procs s)" and "procs s ! k = Counted c"
  shows "race_inv (s\<lparr>rdb := apply_change c now (rdb s), procs := (procs s)[k := Done True]\<rparr>)"
proof -
  have q: "update_proc (Counted c)" "count_fresh (rdb s) (Counted c)"
    using assms by (auto simp: race_inv_def list_all_length)
  then obtain i p where c: "c = Patch i p" by (cases c) (auto simp: update_proc_def)
  have "admin_remains (apply_change c now (rdb s))"
    using q(2) assms(1) by (auto simp: c count_fresh_def race_inv_def intro: apply_patch_admins)
  moreover have "\<not> holds_lock ((procs s)[k := Done True] ! j)" if "j < length (procs s)" for j
    using assms that by (cases "j = k") (auto simp: race_inv_def one_holder_def)
  then have "list_all (count_fresh d) ((procs s)[k := Done True])" for d
    by (auto simp: list_all_length count_fresh_def split: proc.split) (metis holds_lock.simps(2))
  ultimately show ?thesis
    using assms(1) by (simp add: race_inv_def one_holder_release list_all_list_update update_proc_def)
qed

lemma write_unguarded_inv:
  assumes "race_inv s" and "k < length (procs s)" and "procs s ! k = Ready c False"
  shows "race_inv (s\<lparr>rdb := apply_change c now (rdb s), procs := (procs s)[k := Done True]\<rparr>)"
proof -
  have q: "update_proc (Ready c False)"
    using assms by (auto simp: race_inv_def list_all_length)
  then obtain i p where c: "c = Patch i p" "harmless p" by (cases c) (auto simp: update_proc_def)
  have "count_fresh (apply_change c now (rdb s)) r" if "count_fresh (rdb s) r" for r
    using that other_active_admins_harmless [OF c(2)]
    by (auto simp: c(1) count_fresh_def split: proc.splits)
  then have "list_all (count_fresh (apply_change c now (rdb s))) ((procs s)[k := Done True])"
    using assms(1)
    by (intro list_all_list_update) (auto simp: race_inv_def list_all_iff count_fresh_def)
  then show ?thesis
    using assms(1) apply_patch_admins [of "rdb s" p i now] c
    by (simp add: race_inv_def one_holder_release list_all_list_update update_proc_def)
qed

lemma race_step_inv:
  assumes "race_step False s s'" and "race_inv s"
  shows "race_inv s'"
  using assms
proof (cases rule: race_step.cases)
  case (arrive_update actor i dto)
  with assms(2) update_proc_arrival show ?thesis
    by (simp add: race_inv_def count_fresh_def one_holder_snoc)
next
  case (read_target k i t)
  with assms(2) have "update_proc (ReadTarget i)" by (auto simp: race_inv_def list_all_length)
  then show ?thesis by (simp add: update_proc_def)
next
  case (lock k c)
  with assms(2) have "update_proc (Ready c True)" by (auto simp: race_inv_def list_all_length)
  then have "update_proc (HasLock c)" by (auto simp: update_proc_def split: change.splits)
  with lock assms(2) show ?thesis
    by (simp add: race_inv_def one_holder_update list_all_list_update count_fresh_def)
next
  case (count_ok k c)
  with assms(2) have "update_proc (HasLock c)" by (auto simp: race_inv_def list_all_length)
  then have "update_proc (Counted c)" by (auto simp: update_proc_def split: change.splits)
  with count_ok assms(2) show ?thesis
    by (simp add: race_inv_def one_holder_update list_all_list_update count_fresh_def)
next
  case (fail k)
  with assms(2) show ?thesis
    by (simp add: race_inv_def one_holder_release list_all_list_update count_fresh_def update_proc_def)
qed (simp_all add: write_guarded_inv write_unguarded_inv)

lemma race_run_inv: "race_run False s s' \<Longrightarrow> race_inv s \<Longrightarrow> race_inv s'"
  by (induction rule: race_run.induct) (auto intro: race_step_inv)

lemma race_inv_start: "admin_remains d \<Longrightarrow> race_inv \<lparr> rdb = d, procs = [] \<rparr>"
  by (simp add: race_inv_def one_holder_def)

section \<open>A deletion race\<close>

text \<open>
  The scenario behind the counterexample: Ada, the only administrator, asks to delete Bob; the row
  read says he is no administrator. Another request promotes Bob, Bob demotes Ada under the guard,
  and the deletion then goes through without it.
\<close>

definition promote :: update_user_dto where
  "promote = \<lparr> uu_display_name = None, uu_role = Some Admin, uu_is_active = None \<rparr>"

definition demote :: update_user_dto where
  "demote = \<lparr> uu_display_name = None, uu_role = Some User, uu_is_active = None \<rparr>"

definition ada_caller :: auth_user where "ada_caller = auth_user_session 1 Admin"
definition bob_caller :: auth_user where "bob_caller = auth_user_session 2 Admin"

lemmas race_defs = promote_def demote_def ada_caller_def bob_caller_def auth_user_session_def
  live_caller_def user_live_def check_admin_update_def check_delete_def patch_of_def update_guard_def

definition race_dels :: "change list" where
  "race_dels = [Patch 2 (patch_of promote), Patch 1 (patch_of demote), Remove 2]"

definition after :: "nat \<Rightarrow> db" where
  "after n = fold (\<lambda>c d. apply_change c 0 d) (take n race_dels) sample_db"

lemma after_simps:
  "after 0 = sample_db"
  "after (Suc 0) = sample_db\<lparr>users := [ada, bob\<lparr>usr_role := Admin, usr_updated_at := Some 0\<rparr>]\<rparr>"
  "after 2 = sample_db\<lparr>users := [ada\<lparr>usr_role := User, usr_updated_at := Some 0\<rparr>,
     bob\<lparr>usr_role := Admin, usr_updated_at := Some 0\<rparr>]\<rparr>"
  "after 3 = sample_db\<lparr>users := [ada\<lparr>usr_role := User, usr_updated_at := Some 0\<rparr>,
     bob\<lparr>usr_role := Admin, usr_updated_at := Some 0, usr_deleted_at := Some 0,
     usr_is_active := False\<rparr>]\<rparr>"
  by (simp_all add: after_def race_dels_def apply_patch_def patch_user_def delete_row_def mark_deleted_def
      race_defs sample_defs Let_def)


abbreviation snap :: "db \<Rightarrow> proc list \<Rightarrow> race" where
  "snap d ps \<equiv> \<lparr> rdb = d, procs = ps \<rparr>"

lemma after_step: "n < 3 \<Longrightarrow> apply_change (race_dels ! n) 0 (after n) = after (Suc n)"
  unfolding after_def by (subst take_Suc_conv_app_nth) (simp_all add: race_dels_def)

lemma deletion_reads_early:
  "race_run True (snap (after 0) []) (snap (after 0) [Ready (race_dels ! 2) False])"
proof -
  have "race_step True (snap (after 0) []) (snap (after 0) [ReadTarget 2])"
    using arrive_delete [of True "snap (after 0) []" ada_caller 2]
    by (simp add: race_defs after_simps sample_defs)
  moreover have "select_by_id 2 (after 0) = Some bob"
    by (simp add: after_simps select_by_id_def sample_defs user_live_def)
  then have "race_step True (snap (after 0) [ReadTarget 2]) (snap (after 0) [Ready (race_dels ! 2) False])"
    using read_target [of 0 "snap (after 0) [ReadTarget 2]" 2 bob True]
    by (simp add: delete_guard_def race_dels_def sample_defs)
  ultimately show ?thesis by (meson race_refl race_trans)
qed

lemma promotion_between:
  "race_run True (snap (after 0) [x]) (snap (after (Suc 0)) [x, Done True])"
proof -
  have "race_step True (snap (after 0) [x]) (snap (after 0) [x, Ready (race_dels ! 0) False])"
    using arrive_update [of "snap (after 0) [x]" ada_caller 2 promote True]
    by (simp add: race_defs after_simps sample_defs race_dels_def)
  moreover have "race_step True (snap (after 0) [x, Ready (race_dels ! 0) False]) (snap (after (Suc 0)) [x, Done True])"
    using write_unguarded [of 1 "snap (after 0) [x, Ready (race_dels ! 0) False]" "race_dels ! 0" True 0]
      after_step [of 0]
    by simp
  ultimately show ?thesis by (meson race_refl race_trans)
qed

lemma demotion_guarded:
  assumes "\<not> holds_lock x" and "\<not> holds_lock y"
  shows "race_run True (snap (after (Suc 0)) [x, y]) (snap (after 2) [x, y, Done True])"
proof -
  let ?c = "race_dels ! 1"
  have "race_step True (snap (after (Suc 0)) [x, y]) (snap (after (Suc 0)) [x, y, Ready ?c True])"
    using arrive_update [of "snap (after (Suc 0)) [x, y]" bob_caller 1 demote True]
    by (simp add: race_defs after_simps sample_defs race_dels_def)
  moreover have "race_step True (snap (after (Suc 0)) [x, y, Ready ?c True]) (snap (after (Suc 0)) [x, y, HasLock ?c])"
    using lock [of 2 "snap (after (Suc 0)) [x, y, Ready ?c True]" ?c True] assms by simp
  moreover have "other_active_admins (change_target ?c) (after (Suc 0)) \<noteq> 0"
    unfolding other_active_admins_iff
    by (simp add: after_simps race_dels_def active_admin_def user_live_def sample_defs)
  then have "race_step True (snap (after (Suc 0)) [x, y, HasLock ?c]) (snap (after (Suc 0)) [x, y, Counted ?c])"
    using count_ok [of 2 "snap (after (Suc 0)) [x, y, HasLock ?c]" ?c True] by simp
  moreover have "race_step True (snap (after (Suc 0)) [x, y, Counted ?c]) (snap (after 2) [x, y, Done True])"
    using write_guarded [of 2 "snap (after (Suc 0)) [x, y, Counted ?c]" ?c True 0] after_step [of 1]
    by (simp add: numeral_2_eq_2)
  ultimately show ?thesis by (meson race_refl race_trans)
qed

lemma race_run_comp: "race_run dels s1 s2 \<Longrightarrow> race_run dels s s1 \<Longrightarrow> race_run dels s s2"
  by (induction rule: race_run.induct) (auto intro: race_trans)

lemma deletion_race:
  "race_run True (snap (after 0) []) (snap (after 3) [Done True, Done True, Done True])"
proof -
  let ?x = "Ready (race_dels ! 2) False"
  have "race_run True (snap (after 0) []) (snap (after 2) [?x, Done True, Done True])"
    using deletion_reads_early promotion_between [of ?x] demotion_guarded [of ?x "Done True"]
    by (auto intro: race_run_comp)
  moreover have "race_step True (snap (after 2) [?x, Done True, Done True])
      (snap (after 3) [Done True, Done True, Done True])"
    using write_unguarded [of 0 "snap (after 2) [?x, Done True, Done True]" "race_dels ! 2" True 0]
      after_step [of 2]
    by simp
  ultimately show ?thesis by (rule race_trans)
qed

end
