(* ===== verification/AuthFacts.thy ===== *)
theory AuthFacts
  imports AdminGuard
begin

text \<open>
  What a successful run of the token, password and sign-in operations tells: elimination rules that
  take a run apart, and the effect of each operation on the tables.
\<close>

section \<open>Elimination rules\<close>

lemma users_find_by_email_InrE [elim!]:
  assumes "users_find_by_email m e w = (Inr v, w')"
  obtains "v = select_by_email (normalize_email m) (db w)" and "w' = w\<lparr>tick := Suc (tick w)\<rparr>"
  using assms by (auto simp: users_find_by_email_def users_repo_find_by_email_def)

lemma tokens_issue_InrE [elim!]:
  assumes "tokens_issue u p ttl m e w = (Inr raw, w')"
  obtains t d where "db w' = (db w)\<lparr>auth_tokens := auth_tokens d @ [t]\<rparr>"
    and "d = snd (use_tokens u p (clock e (tick w)) (db w))"
    and "tok_user_id t = u" and "tok_purpose t = p" and "tok_token_hash t = secret_hash e raw"
    and "tok_used_at t = None" and "tok_new_email t = m"
    and "tok_expires_at t = clock e (Suc (Suc (Suc (tick w)))) + ttl"
    and "mails w' = mails w"
  using assms
  by (auto simp: tokens_issue_def tokens_repo_invalidate_unused_def tokens_repo_insert_def
      token_insert_def use_tokens_def split: if_splits)

lemma tokens_issue_statements:
  assumes "tokens_issue u p ttl m e w = (Inr raw, w')"
  obtains row now where "tok_user_id row = u" and "tok_purpose row = p"
    and "token_insert row (snd (use_tokens u p now (db w))) = Inr ((), db w')"
proof -
  let ?d = "snd (use_tokens u p (clock e (tick w)) (db w))"
  from assms have "\<exists>row. tok_user_id row = u \<and> tok_purpose row = p \<and> token_insert row ?d = Inr ((), db w')"
    unfolding tokens_issue_def tokens_repo_invalidate_unused_def tokens_repo_insert_def
    by (elim seq_InrE then_do_InrE db_stmt_InrE) (auto intro!: exI)
  with that show ?thesis by blast
qed

text \<open>The access token of a completed sign-in: signed, for this user, at the row's token version.\<close>

definition token_for :: "env \<Rightarrow> user \<Rightarrow> str \<Rightarrow> bool" where
  "token_for e u t \<longleftrightarrow> (\<exists>c. jwt_encode e c (jwt_secret (conf e)) = Some t
     \<and> sub c = usr_id u \<and> tv c = usr_token_version u)"

lemma token_forI:
  "jwt_encode e c (jwt_secret (conf e)) = Some t \<Longrightarrow> sub c = usr_id u \<Longrightarrow> tv c = usr_token_version u
     \<Longrightarrow> token_for e u t"
  unfolding token_for_def by blast

lemma issue_for_token: "issue_for u e w = (Inr t, w') \<Longrightarrow> token_for e u t"
  by (auto intro: token_forI)

lemma bearer_for_InrE [elim!]:
  assumes "bearer_for u e w = (Inr t, w')"
  obtains "token_for e u (tr_access_token t)" and "w' = w\<lparr>tick := Suc (tick w)\<rparr>"
proof -
  from assms obtain c where c: "jwt_encode e c (jwt_secret (conf e)) = Some (tr_access_token t)"
    "sub c = usr_id u" "tv c = usr_token_version u" and "w' = w\<lparr>tick := Suc (tick w)\<rparr>"
    by (auto simp: bearer_for_def)
  with that token_forI [OF c] show ?thesis by simp
qed

lemma tokens_redeem_InrE [elim!]:
  assumes "tokens_redeem p raw e w = (Inr t, w')"
  obtains t0 where "t0 \<in> set (auth_tokens (db w))"
    and "token_valid p (secret_hash e raw) (clock e (tick w)) t0"
    and "t = t0\<lparr>tok_used_at := Some (clock e (tick w))\<rparr>"
    and "claim_token (p, secret_hash e raw) (clock e (tick w)) (db w) = (Some t, db w')"
    and "w' = w\<lparr>tick := Suc (Suc (tick w)), db := db w'\<rparr>"
proof -
  from assms have c: "claim_token (p, secret_hash e raw) (clock e (tick w)) (db w) = (Some t, db w')"
    and w': "w' = w\<lparr>tick := Suc (Suc (tick w)), db := db w'\<rparr>"
    by (auto simp: tokens_redeem_def tokens_repo_claim_def)
  with claim_token_effect(4) [OF c, of t] that show ?thesis by auto
qed

lemma tokens_peek_InrE [elim!]:
  assumes "tokens_peek p raw e w = (Inr t, w')"
  obtains "t \<in> set (auth_tokens (db w))" and "token_valid p (secret_hash e raw) (clock e (tick w)) t"
    and "w' = w\<lparr>tick := Suc (Suc (tick w))\<rparr>"
  using assms by (auto simp: tokens_peek_def tokens_repo_find_unused_def dest!: find_SomeD [OF sym])

lemma users_require_InrE [elim!]:
  assumes "users_require i e w = (Inr u, w')"
  obtains "select_by_id i (db w) = Some u" and "w' = w\<lparr>tick := Suc (tick w)\<rparr>"
  using assms by (auto simp: users_require_def users_repo_find_by_id_def)

lemma policy_InrE [elim!]:
  assumes "reject_password_if_policy_violation p m n e w = (Inr x, w')"
  obtains "db w' = db w" and "mails w' = mails w"
    and "fst (zxcvbn e p (m # (case n of None \<Rightarrow> [] | Some k \<Rightarrow> [k]))) \<ge> MINIMUM_STRENGTH_SCORE"
proof -
  have d: "keeps_db (\<lambda>d. d = db w) (reject_password_if_policy_violation p m n)"
    unfolding reject_password_if_policy_violation_def Let_def by (intro keeps_rules)
  have m: "keeps (\<lambda>v. mails v = mails w) (reject_password_if_policy_violation p m n)"
    unfolding reject_password_if_policy_violation_def has_appeared_in_a_known_breach_def Let_def
    by (intro keeps_rules) (simp add: keeps_def)
  have "db w' = db w" using keepsD [OF d refl assms] .
  moreover have "mails w' = mails w" using keepsD [OF m refl assms] .
  ultimately show ?thesis
    using that assms
    by (auto simp: reject_password_if_policy_violation_def reject_if_too_weak_def Let_def
        split: sum.splits if_splits prod.splits)
qed

section \<open>Changing a password\<close>

lemma select_by_id_update:
  assumes "\<And>u. usr_id (f u) = usr_id u" and "\<And>u. user_live (f u) = user_live u"
  shows "select_by_id i (d\<lparr>users := update_where p f (users d)\<rparr>)
       = map_option (\<lambda>u. if p u then f u else u) (select_by_id i d)"
proof -
  have "List.find (\<lambda>u. usr_id u = i \<and> user_live u) (update_where p f us)
      = map_option (\<lambda>u. if p u then f u else u) (List.find (\<lambda>u. usr_id u = i \<and> user_live u) us)" for us
    using assms by (induction us) auto
  then show ?thesis by (simp add: select_by_id_def)
qed

lemma set_hash_row_simps [simp]:
  "usr_id (set_hash_row h now u) = usr_id u" "user_live (set_hash_row h now u) = user_live u"
  "usr_token_version (set_hash_row h now u) = usr_token_version u + 1"
  "usr_password_hash (set_hash_row h now u) = h" "usr_is_active (set_hash_row h now u) = usr_is_active u"
  by (simp_all add: set_hash_row_def user_live_def)

lemma users_set_password_InrE:
  assumes "users_set_password i p e w = (Inr x, w')"
  obtains u h now n where "select_by_id i (db w) = Some u" and "argon2_hash e n p = Some h"
    and "db w' = (db w)\<lparr>users := update_where (\<lambda>u. usr_id u = i \<and> user_live u) (set_hash_row h now) (users (db w))\<rparr>"
    and "select_by_id i (db w') = Some (set_hash_row h now u)" and "mails w' = mails w"
proof -
  from assms obtain u h now n where *: "select_by_id i (db w) = Some u" "argon2_hash e n p = Some h"
    "db w' = (db w)\<lparr>users := update_where (\<lambda>u. usr_id u = i \<and> user_live u) (set_hash_row h now) (users (db w))\<rparr>"
    "mails w' = mails w"
    by (auto simp: users_set_password_def users_repo_set_password_hash_def update_password_hash_def
        split: if_splits)
  moreover have "select_by_id i (db w') = Some (set_hash_row h now u)"
    using * select_by_id_SomeD [OF *(1)] by (simp add: select_by_id_update)
  ultimately show ?thesis using that by blast
qed

end
