(* ===== verification/AccessProperties.thy ===== *)
theory AccessProperties
  imports AuthFacts
begin

text \<open>
  Who may do what: properties of the extractors and of the guards in the handlers' signatures.
\<close>

section \<open>Routes by guard\<close>

fun needs_session :: "op \<Rightarrow> request option" where
  "needs_session (AuthChangePassword rq b) = Some rq"
| "needs_session (AuthRequestChange rq b) = Some rq"
| "needs_session (AuthTwoFactorSetup rq) = Some rq"
| "needs_session (AuthTwoFactorEnable rq b) = Some rq"
| "needs_session (AuthTwoFactorDisable rq b) = Some rq"
| "needs_session (KeysCreate rq b) = Some rq"
| "needs_session (KeysList rq) = Some rq"
| "needs_session (KeysRevoke rq i) = Some rq"
| "needs_session (QrScan rq i) = Some rq"
| "needs_session (QrApprove rq i b) = Some rq"
| "needs_session (QrReject rq i) = Some rq"
| "needs_session (OAuthIdentities rq) = Some rq"
| "needs_session (OAuthLink rq n) = Some rq"
| "needs_session (OAuthUnlink rq n) = Some rq"
| "needs_session (PasskeyBegin rq) = Some rq"
| "needs_session (PasskeyFinish rq b) = Some rq"
| "needs_session (PasskeyList rq) = Some rq"
| "needs_session (PasskeyRemove rq i) = Some rq"
| "needs_session _ = None"

fun needs_admin :: "op \<Rightarrow> request option" where
  "needs_admin (UsersCreate rq b) = Some rq"
| "needs_admin (UsersRemove rq i) = Some rq"
| "needs_admin (UsersList rq q) = Some rq"
| "needs_admin (UsersUpdate rq i b) = Some rq"
| "needs_admin (AuthInvite rq b) = Some rq"
| "needs_admin (AuditList rq q) = Some rq"
| "needs_admin _ = None"

text \<open>A guarded handler is its extractor followed by the rest.\<close>

lemma needs_session_shape:
  "needs_session op = Some rq \<Longrightarrow> \<exists>k. run_op op = then_do (session_user_from_request rq) k"
  by (cases op)
     (auto simp: status_of_def then_do_assoc change_password_handler_def request_change_handler_def
        two_factor_setup_handler_def two_factor_enable_handler_def two_factor_disable_handler_def
        keys_create_handler_def keys_list_handler_def keys_revoke_handler_def qr_scan_handler_def
        qr_approve_handler_def qr_reject_handler_def oauth_identities_handler_def oauth_link_handler_def
        oauth_unlink_handler_def begin_registration_handler_def finish_registration_handler_def
        passkeys_list_handler_def passkeys_remove_handler_def)

lemma needs_admin_shape:
  "needs_admin op = Some rq \<Longrightarrow> \<exists>k. run_op op = then_do (admin_user_from_request rq) k"
  by (cases op)
     (auto simp: status_of_def then_do_assoc users_create_handler_def users_remove_handler_def
        users_list_handler_def users_update_handler_def invite_handler_def audit_list_handler_def)

lemma keys_authenticate_frame:
  "keys_authenticate s e w = (v, w') \<Longrightarrow> db w' = (db w)\<lparr>api_keys := api_keys (db w')\<rparr>"
  by (auto simp: keys_authenticate_def keys_repo_find_by_hash_def keys_repo_touch_def touch_key_def
      users_find_by_id_def users_repo_find_by_id_def run_simps ok_or_def split: if_splits option.splits)

lemma keys_authenticate_credential:
  "keys_authenticate s e w = (Inr u, w') \<Longrightarrow> au_credential u \<noteq> Session"
  by (erule keys_authenticate_InrE) simp

lemma session_user_refuses_key:
  assumes "presented_credential (rq_headers rq) = Inr p" and "starts_with p API_KEY_PREFIX"
  shows "\<exists>x w'. session_user_from_request rq e w = (Inl x, w') \<and> db w' = (db w)\<lparr>api_keys := api_keys (db w')\<rparr>"
proof -
  obtain v w' where k: "keys_authenticate p e w = (v, w')" by fastforce
  note frame = keys_authenticate_frame [OF k]
  show ?thesis
  proof (cases v)
    case (Inl x)
    with k frame assms show ?thesis
      by (simp add: session_user_from_request_def auth_user_from_request_def then_do_run)
  next
    case (Inr u)
    with k have "au_credential u \<noteq> Session" using keys_authenticate_credential by blast
    with k Inr frame assms show ?thesis
      by (simp add: session_user_from_request_def auth_user_from_request_def then_do_run Let_def)
  qed
qed

section \<open>Properties\<close>

text \<open>
  C10: whoever a request authenticates as, by token or by API key, is at that moment an existing,
  not deleted, active user, and the role the handler sees is the one stored in the row.
\<close>

theorem authenticated_caller_is_live:
  assumes "auth_user_from_request rq e w = (Inr u, w')"
  shows "\<exists>row \<in> set (users (db w)). usr_id row = au_id u \<and> usr_role row = au_role u
     \<and> usr_deleted_at row = None \<and> usr_is_active row"
  using caller.verify_live [OF assms] by (auto simp: live_caller_def user_live_def)

theorem authenticated_caller_is_live_witness:
  "\<exists>row \<in> set (users sample_db). usr_id row = 1 \<and> usr_role row = Admin
     \<and> usr_deleted_at row = None \<and> usr_is_active row"
proof -
  have "fst (auth_user_from_request (bearer GET ada_token) sample_env (world_of sample_db))
      = Inr \<lparr> au_id = 1, au_role = Admin, au_credential = Session \<rparr>"
    by code_simp
  from authenticated_caller_is_live [OF runs_to [OF this]] show ?thesis by (simp add: world_of_def)
qed



text \<open>
  A read-only API key gets through only with a safe HTTP method.
\<close>

theorem read_only_key_needs_safe_method:
  assumes "auth_user_from_request rq e w = (Inr u, w')" and "au_credential u = ApiKeyCred ReadScope"
  shows "rq_method rq \<in> {GET, HEAD, OPTIONS, TRACE}"
  using assms
  by (auto elim!: auth_user_from_request_InrE session_verify_InrE simp: is_safe_def auth_user_session_def)

definition reader_key :: api_key where
  "reader_key = \<lparr> key_id = 7, key_user_id = 2, key_name = ''ci'', key_key_prefix = ''ak_k'',
     key_key_hash = secret_hash sample_env ''ak_k'', key_scope = ReadScope, key_expires_at = None,
     key_last_used_at = None, key_revoked_at = None, key_created_at = 0 \<rparr>"

theorem read_only_key_needs_safe_method_witness:
  "\<exists>w'. auth_user_from_request (bearer GET ''ak_k'') sample_env (world_of (sample_db\<lparr>api_keys := [reader_key]\<rparr>))
     = (Inr \<lparr> au_id = 2, au_role = User, au_credential = ApiKeyCred ReadScope \<rparr>, w')
     \<and> rq_method (bearer GET ''ak_k'') \<in> {GET, HEAD, OPTIONS, TRACE}"
proof -
  let ?w = "world_of (sample_db\<lparr>api_keys := [reader_key]\<rparr>)"
  have "fst (auth_user_from_request (bearer GET ''ak_k'') sample_env ?w)
      = Inr \<lparr> au_id = 2, au_role = User, au_credential = ApiKeyCred ReadScope \<rparr>"
    by code_simp
  note run = runs_to [OF this]
  from run read_only_key_needs_safe_method [OF run] show ?thesis by auto
qed

text \<open>
  C12: an administration endpoint (creating, listing, changing, deleting and inviting users, reading
  the audit log) succeeds only while the caller it authenticates is an active administrator.
\<close>

theorem admin_endpoints_need_admin:
  assumes "needs_admin op = Some rq" and "run_op op e w = (Inr status, w')"
  shows "\<exists>u w1 row. auth_user_from_request rq e w = (Inr u, w1) \<and> row \<in> set (users (db w))
     \<and> usr_id row = au_id u \<and> active_admin row"
proof -
  obtain k where "run_op op = then_do (admin_user_from_request rq) k"
    using needs_admin_shape [OF assms(1)] by blast
  with assms(2) obtain u w1 where run: "admin_user_from_request rq e w = (Inr u, w1)" by auto
  then have "auth_user_from_request rq e w = (Inr u, w1)" and "au_role u = Admin"
    by (auto elim: admin_user_from_request_InrE)
  with admin.verify_live [OF run] show ?thesis by (auto simp: live_caller_def active_admin_def)
qed

theorem admin_endpoints_need_admin_witness:
  "\<exists>u w1 row. auth_user_from_request (bearer GET ada_token) sample_env (world_of sample_db) = (Inr u, w1)
     \<and> row \<in> set (users sample_db) \<and> usr_id row = au_id u \<and> active_admin row"
proof -
  have "fst (run_op (AuditList (bearer GET ada_token) (Inr (None, None))) sample_env (world_of sample_db)) = Inr 200"
    by code_simp
  from admin_endpoints_need_admin [OF _ runs_to [OF this]] show ?thesis by (simp add: world_of_def)
qed

end
