(* ===== verification/AccountProperties.thy ===== *)
theory AccountProperties
  imports AuthFacts
begin

text \<open>
  Sign-in, lockout, password and two-factor flows.
\<close>

section \<open>Sign-in\<close>

text \<open>
  C14: a successful password sign-in means that the address belongs to an active account, the password
  verifies against the stored hash, the account is not locked, its address is verified when the
  configuration asks for it, and the answer is an access token for that account, or, exactly when
  two-factor is enabled, an outstanding pending token.
\<close>

theorem login_sound:
  assumes "login dto e w = (Inr r, w')"
  shows "\<exists>u. select_by_email (normalize_email (cr_email dto)) (db w) = Some u
     \<and> argon2_verify e (cr_password dto) (usr_password_hash u) \<and> usr_is_active u
     \<and> (require_verified_email (conf e) \<longrightarrow> is_email_verified u)
     \<and> (\<forall>t. usr_locked_until u = Some t \<longrightarrow> t \<le> clock e (Suc (tick w)))
     \<and> (case r of Authenticated t \<Rightarrow> \<not> usr_totp_enabled u \<and> token_for e u (tr_access_token t)
        | TwoFactorRequired b p \<Rightarrow> usr_totp_enabled u
            \<and> token_live (db w') (TwoFactorPending, secret_hash e p))"
  using assms
  by (auto simp: login_def is_locked_def two_factor_required_def token_live_def
      users_reset_failed_logins_def users_repo_reset_failed_logins_def
      split: option.splits if_splits)

theorem login_sound_witness:
  "\<exists>u. select_by_email ''ada@x'' sample_db = Some u \<and> usr_is_active u
     \<and> argon2_verify sample_env ''correct horse'' (usr_password_hash u)"
proof -
  have "fst (login \<lparr> cr_email = '' Ada@x'', cr_password = ''correct horse'' \<rparr> sample_env (world_of sample_db))
      = Inr (Authenticated \<lparr> tr_access_token = ''!!+Sasecret'', tr_token_type = ''Bearer'', tr_expires_in = 40 \<rparr>)"
    by code_simp
  moreover have "normalize_email '' Ada@x'' = ''ada@x''" by code_simp
  ultimately show ?thesis
    using login_sound [of "\<lparr> cr_email = '' Ada@x'', cr_password = ''correct horse'' \<rparr>" sample_env "world_of sample_db",
        OF runs_to]
    by (auto simp: world_of_def)
qed

text \<open>When every round trip goes through, sign-in is decided by the account alone.\<close>

definition healthy :: "env \<Rightarrow> bool" where
  "healthy e \<longleftrightarrow> (\<forall>n. db_ok e n) \<and> (\<forall>n. blocking_ok e n)"

definition locked_at :: "time \<Rightarrow> user \<Rightarrow> bool" where
  "locked_at now u \<longleftrightarrow> (case usr_locked_until u of None \<Rightarrow> False | Some t \<Rightarrow> t > now)"

lemma login_unknown:
  "healthy e \<Longrightarrow> select_by_email (normalize_email (cr_email dto)) (db w) = None \<Longrightarrow>
     login dto e w = (Inl (of_auth_error InvalidCredentials), w\<lparr>tick := Suc (tick w)\<rparr>)"
  by (simp add: healthy_def login_def users_find_by_email_def users_repo_find_by_email_def run_simps)

lemma login_locked:
  "healthy e \<Longrightarrow> select_by_email (normalize_email (cr_email dto)) (db w) = Some u
     \<Longrightarrow> locked_at (clock e (Suc (tick w))) u \<Longrightarrow>
     login dto e w = (Inl (of_auth_error InvalidCredentials), w\<lparr>tick := Suc (Suc (tick w))\<rparr>)"
  by (auto simp: healthy_def login_def users_find_by_email_def users_repo_find_by_email_def is_locked_def
      locked_at_def run_simps split: option.splits)

lemma login_wrong_password:
  assumes "healthy e" and "select_by_email (normalize_email (cr_email dto)) (db w) = Some u"
    and "\<not> locked_at (clock e (Suc (tick w))) u"
    and "\<not> argon2_verify e (cr_password dto) (usr_password_hash u)"
    and "update_failed_login (usr_id u) (max_failed_login_attempts (conf e)) until (db w) = Inr ((), d)"
    and "until = clock e (if usr_locked_until u = None then Suc (Suc (tick w)) else Suc (Suc (Suc (tick w))))
           + minutes (account_lockout_minutes (conf e))"
  shows "\<exists>n. login dto e w = (Inl (of_auth_error InvalidCredentials), w\<lparr>tick := n, db := d\<rparr>)"
  using assms
  by (cases "usr_locked_until u")
     (auto simp: healthy_def login_def users_find_by_email_def users_repo_find_by_email_def is_locked_def
      locked_at_def verify_blocking_def run_limited_def password_verify_def users_record_failed_login_def
      users_repo_record_failed_login_def db_stmt_def Let_def run_simps)

text \<open>
  C15: sign-in does not tell an unknown address, a locked account and a wrong password apart: with the
  database answering, all three get the same 401.
\<close>

theorem login_failures_indistinguishable:
  assumes "healthy e"
    and "case select_by_email (normalize_email (cr_email dto)) (db w) of
           None \<Rightarrow> True
         | Some u \<Rightarrow> locked_at (clock e (Suc (tick w))) u
             \<or> \<not> argon2_verify e (cr_password dto) (usr_password_hash u)
               \<and> (\<forall>v \<in> set (users (db w)). int4_ok (usr_failed_login_attempts v + 1))"
  shows "fst (login dto e w) = Inl (Unauthorized ''invalid email or password'')"
proof (cases "select_by_email (normalize_email (cr_email dto)) (db w)")
  case None
  then show ?thesis using login_unknown [OF assms(1)] by simp
next
  case (Some u)
  show ?thesis
  proof (cases "locked_at (clock e (Suc (tick w))) u")
    case True
    then show ?thesis using login_locked [OF assms(1) Some] by simp
  next
    case False
    with assms(2) Some have wrong: "\<not> argon2_verify e (cr_password dto) (usr_password_hash u)"
      and small: "\<forall>v \<in> set (users (db w)). int4_ok (usr_failed_login_attempts v + 1)" by auto
    have "\<exists>d. update_failed_login (usr_id u) (max_failed_login_attempts (conf e)) until (db w) = Inr ((), d)"
      for until
      using small by (auto simp: update_failed_login_def)
    then show ?thesis
      using login_wrong_password [OF assms(1) Some False wrong _ refl] by (metis fst_conv of_auth_error.simps(8) auth_error_to_string.simps(1))
  qed
qed

theorem login_failures_indistinguishable_witness:
  "fst (login \<lparr> cr_email = ''ada@x'', cr_password = ''wrong'' \<rparr> sample_env (world_of sample_db))
     = Inl (Unauthorized ''invalid email or password'')"
proof (rule login_failures_indistinguishable)
  show "healthy sample_env" by (simp add: healthy_def sample_env_def)
qed code_simp

section \<open>Lockout\<close>

fun fail_logins :: "env \<Rightarrow> credentials_dto list \<Rightarrow> world \<Rightarrow> world" where
  "fail_logins e [] w = w"
| "fail_logins e (dto # rest) w = fail_logins e rest (snd (login dto e w))"

lemma select_by_email_update:
  assumes "\<And>u. usr_email (f u) = usr_email u" and "\<And>u. user_live (f u) = user_live u"
  shows "select_by_email m (d\<lparr>users := update_where p f (users d)\<rparr>)
       = map_option (\<lambda>u. if p u then f u else u) (select_by_email m d)"
proof -
  have "List.find (\<lambda>u. usr_email u = m \<and> user_live u) (update_where p f us)
      = map_option (\<lambda>u. if p u then f u else u) (List.find (\<lambda>u. usr_email u = m \<and> user_live u) us)" for us
    using assms by (induction us) auto
  then show ?thesis by (simp add: select_by_email_def)
qed

lemma select_by_email_SomeD:
  "select_by_email m d = Some u \<Longrightarrow> u \<in> set (users d) \<and> usr_email u = m \<and> user_live u"
  by (auto simp: select_by_email_def dest!: find_SomeD)

lemma failed_login_row_simps [simp]:
  "usr_id (failed_login_row n t u) = usr_id u" "usr_email (failed_login_row n t u) = usr_email u"
  "user_live (failed_login_row n t u) = user_live u"
  "usr_password_hash (failed_login_row n t u) = usr_password_hash u"
  "usr_failed_login_attempts (failed_login_row n t u) = usr_failed_login_attempts u + 1"
  by (simp_all add: failed_login_row_def user_live_def)

lemma failed_login_step:
  assumes "healthy e" and "distinct (map usr_id (users (db w)))"
    and "select_by_email (normalize_email (cr_email dto)) (db w) = Some u"
    and "usr_locked_until u = None" and "int4_ok (usr_failed_login_attempts u + 1)"
    and "\<not> argon2_verify e (cr_password dto) (usr_password_hash u)"
  shows "\<exists>n t. select_by_email (normalize_email (cr_email dto)) (db (snd (login dto e w)))
          = Some (failed_login_row (max_failed_login_attempts (conf e))
              (clock e n + minutes (account_lockout_minutes (conf e))) u)
      \<and> distinct (map usr_id (users (db (snd (login dto e w)))))"
proof -
  let ?until = "clock e (Suc (Suc (tick w))) + minutes (account_lockout_minutes (conf e))"
  let ?f = "failed_login_row (max_failed_login_attempts (conf e)) ?until"
  let ?d = "(db w)\<lparr>users := update_where (\<lambda>v. usr_id v = usr_id u) ?f (users (db w))\<rparr>"
  have u: "u \<in> set (users (db w))" using assms(3) by (auto dest: select_by_email_SomeD)
  have "\<not> exists_where (\<lambda>v. usr_id v = usr_id u \<and> \<not> int4_ok (usr_failed_login_attempts v + 1)) (users (db w))"
    using distinct_key_unique [OF assms(2) _ u] assms(5) by auto
  then have "update_failed_login (usr_id u) (max_failed_login_attempts (conf e)) ?until (db w) = Inr ((), ?d)"
    by (simp add: update_failed_login_def)
  then obtain n where "login dto e w = (Inl (of_auth_error InvalidCredentials), w\<lparr>tick := n, db := ?d\<rparr>)"
    using login_wrong_password [OF assms(1,3) _ assms(6)] assms(4) by (auto simp: locked_at_def)
  then show ?thesis
    using assms(2,3) by (auto simp: select_by_email_update ids_update_where)
qed

lemma fail_logins_count:
  assumes "healthy e" and "distinct (map usr_id (users (db w)))"
    and "select_by_email m (db w) = Some u" and "usr_locked_until u = None"
    and "0 \<le> usr_failed_login_attempts u" and "dtos \<noteq> []"
    and "usr_failed_login_attempts u + int (length dtos) = max_failed_login_attempts (conf e)"
    and "int4_ok (max_failed_login_attempts (conf e))"
    and "\<And>dto. dto \<in> set dtos \<Longrightarrow> normalize_email (cr_email dto) = m
            \<and> \<not> argon2_verify e (cr_password dto) (usr_password_hash u)"
  shows "\<exists>v n. select_by_email m (db (fail_logins e dtos w)) = Some v
      \<and> usr_locked_until v = Some (clock e n + minutes (account_lockout_minutes (conf e)))"
  using assms(2-9)
proof (induction dtos arbitrary: w u)
  case (Cons dto rest)
  let ?w = "snd (login dto e w)"
  have "int4_ok (usr_failed_login_attempts u + 1)"
    using Cons.prems(4,6,7) by (auto simp: int4_ok_def)
  then obtain n where
    sel: "select_by_email m (db ?w) = Some (failed_login_row (max_failed_login_attempts (conf e))
              (clock e n + minutes (account_lockout_minutes (conf e))) u)" (is "_ = Some ?v")
    and dist: "distinct (map usr_id (users (db ?w)))"
    using failed_login_step [OF assms(1) Cons.prems(1) _ Cons.prems(3)] Cons.prems(2) Cons.prems(8) [of dto]
    by auto
  show ?case
  proof (cases "rest = []")
    case True
    then have "usr_locked_until ?v = Some (clock e n + minutes (account_lockout_minutes (conf e)))"
      using Cons.prems(6) by (simp add: failed_login_row_def)
    with sel True show ?thesis by auto
  next
    case False
    then have "1 \<le> int (length rest)" by (cases rest) auto
    then have "usr_locked_until ?v = None"
      using Cons.prems(3,6) by (simp add: failed_login_row_def)
    then show ?thesis
      using Cons.IH [OF dist sel] Cons.prems(4,6,7,8) False by simp
  qed
qed simp



text \<open>
  While an account is locked no password is even looked at: the right one is refused like any
  other and no table changes.
\<close>

theorem locked_account_refuses_right_password:
  assumes "healthy e" and "select_by_email (normalize_email (cr_email dto)) (db w) = Some u"
    and "usr_locked_until u = Some t" and "clock e (Suc (tick w)) < t"
  shows "fst (login dto e w) = Inl (Unauthorized ''invalid email or password'')
     \<and> db (snd (login dto e w)) = db w"
  using login_locked [OF assms(1,2)] assms(3,4) by (simp add: locked_at_def)

theorem locked_account_refuses_right_password_witness:
  "fst (login \<lparr> cr_email = ''ada@x'', cr_password = ''correct horse'' \<rparr> sample_env
        (world_of (sample_db\<lparr>users := [ada\<lparr>usr_locked_until := Some (minutes 9)\<rparr>]\<rparr>)))
     = Inl (Unauthorized ''invalid email or password'')"
proof -
  let ?dto = "\<lparr> cr_email = ''ada@x'', cr_password = ''correct horse'' \<rparr>"
  let ?w = "world_of (sample_db\<lparr>users := [ada\<lparr>usr_locked_until := Some (minutes 9)\<rparr>]\<rparr>)"
  have "select_by_email (normalize_email (cr_email ?dto)) (db ?w) = Some (ada\<lparr>usr_locked_until := Some (minutes 9)\<rparr>)"
    by code_simp
  moreover have "healthy sample_env" by (simp add: healthy_def sample_env_def)
  ultimately show ?thesis
    using locked_account_refuses_right_password [of sample_env ?dto ?w]
    by (simp add: sample_env_def world_of_def minutes_def)
qed

end
