(* ===== verification/CredentialProperties.thy ===== *)
theory CredentialProperties
  imports AuthFacts
begin

text \<open>
  Changing credentials and finishing a sign-in: password change and reset, the access token that every
  sign-in hands out, and the second factor.
\<close>

section \<open>Passwords\<close>

text \<open>A session is refused unless its token version is the stored one.\<close>

lemma session_verify_stale:
  assumes "select_by_id i (db w) = Some u" and "v \<noteq> usr_token_version u"
  shows "\<exists>x. fst (session_verify i v e w) = Inl x"
  using assms
  by (auto simp: session_verify_def users_find_by_id_def users_repo_find_by_id_def ok_or_def run_simps
      split: option.splits)

lemma change_password_InrE:
  assumes "change_password actor dto e w = (Inr x, w')"
  obtains u h now n where "select_by_id (au_id actor) (db w) = Some u"
    and "argon2_verify e (cp_current_password dto) (usr_password_hash u)"
    and "argon2_hash e n (cp_new_password dto) = Some h"
    and "select_by_id (au_id actor) (db w') = Some (set_hash_row h now u)"
proof -
  from assms obtain u w2 where u: "select_by_id (au_id actor) (db w) = Some u"
    "argon2_verify e (cp_current_password dto) (usr_password_hash u)"
    and set: "users_set_password (usr_id u) (cp_new_password dto) e (w\<lparr>tick := Suc (Suc (tick w))\<rparr>) = (Inr (), w2)"
    and db: "w' = w2\<lparr>mails := mails w2 @ [(usr_email u, PasswordChangedMail)]\<rparr>"
    by (auto simp: change_password_def users_find_by_id_def users_repo_find_by_id_def
        send_password_changed_def split: if_splits)
  have "usr_id u = au_id actor" using select_by_id_SomeD [OF u(1)] by simp
  with set show ?thesis
    using u db that by (auto elim!: users_set_password_InrE)
qed

text \<open>
  C17: changing a password needs the current one, stores a hash of the new one, and ends every session
  signed before the change: whatever token version at or below the old one a token carries, it is
  refused from then on.
\<close>

theorem password_change_revokes_sessions:
  assumes "change_password actor dto e w = (Inr (), w')"
    and "select_by_id (au_id actor) (db w) = Some u"
  shows "argon2_verify e (cp_current_password dto) (usr_password_hash u)
     \<and> (\<exists>u' n. select_by_id (au_id actor) (db w') = Some u'
          \<and> argon2_hash e n (cp_new_password dto) = Some (usr_password_hash u'))
     \<and> (\<forall>v w2. v \<le> usr_token_version u \<longrightarrow> db w2 = db w'
          \<longrightarrow> (\<exists>x. fst (session_verify (au_id actor) v e w2) = Inl x))"
proof -
  obtain h now n where *: "argon2_verify e (cp_current_password dto) (usr_password_hash u)"
    "argon2_hash e n (cp_new_password dto) = Some h"
    "select_by_id (au_id actor) (db w') = Some (set_hash_row h now u)"
    using assms by (auto elim!: change_password_InrE)
  have "\<exists>x. fst (session_verify (au_id actor) v e w2) = Inl x"
    if "v \<le> usr_token_version u" "db w2 = db w'" for v w2
    using session_verify_stale [of "au_id actor" w2 "set_hash_row h now u" v e] that *(3) by simp
  with * show ?thesis by auto
qed

theorem password_change_revokes_sessions_witness:
  "\<exists>w' x. change_password (auth_user_session 1 Admin)
       \<lparr> cp_current_password = ''correct horse'', cp_new_password = ''battery staple'' \<rparr>
       sample_env (world_of sample_db) = (Inr (), w')
     \<and> fst (session_verify 1 1 sample_env w') = Inl x"
proof -
  let ?dto = "\<lparr> cp_current_password = ''correct horse'', cp_new_password = ''battery staple'' \<rparr>"
  have "fst (change_password (auth_user_session 1 Admin) ?dto sample_env (world_of sample_db)) = Inr ()"
    by code_simp
  note run = runs_to [OF this]
  have "select_by_id 1 sample_db = Some ada" by code_simp
  with password_change_revokes_sessions [OF run, of ada] run show ?thesis
    by (fastforce simp: auth_user_session_def world_of_def sample_defs)
qed

lemma verify_row_simps [simp]:
  "usr_id (verify_row now u) = usr_id u" "user_live (verify_row now u) = user_live u"
  "usr_token_version (verify_row now u) = usr_token_version u"
  "usr_password_hash (verify_row now u) = usr_password_hash u"
  "is_email_verified (verify_row now u)"
  by (simp_all add: verify_row_def user_live_def is_email_verified_def split: option.split)

lemma users_mark_email_verified_InrE:
  assumes "users_mark_email_verified i e w = (Inr x, w')"
  obtains now where "db w' = (db w)\<lparr>users := update_where (\<lambda>u. usr_id u = i \<and> user_live u) (verify_row now) (users (db w))\<rparr>"
    and "mails w' = mails w"
  using assms by (auto simp: users_mark_email_verified_def users_repo_mark_email_verified_def)

lemma tokens_invalidate_InrE:
  assumes "tokens_invalidate i p e w = (Inr x, w')"
  obtains now where "db w' = snd (use_tokens i p now (db w))" and "mails w' = mails w"
  using assms by (auto simp: tokens_invalidate_def tokens_repo_invalidate_unused_def use_tokens_def)

lemma claim_token_users: "claim_token k now d = (r, d') \<Longrightarrow> users d' = users d"
  by (auto simp: claim_token_def)

lemma claim_token_recovery:
  "claim_token k now d = (r, d') \<Longrightarrow> totp_recovery_codes d' = totp_recovery_codes d"
  by (auto simp: claim_token_def)

lemma select_by_id_frame: "select_by_id i (d\<lparr>auth_tokens := ts\<rparr>) = select_by_id i d"
  by (simp add: select_by_id_def)

text \<open>
  C19: a password reset succeeds only with an unused, unexpired reset link of an active account; it
  stores a hash of the new password, ends the older sessions, marks the address verified and leaves no
  other reset link of that account usable.
\<close>

theorem password_reset_sound:
  assumes "reset_password dto e w = (Inr (), w')"
  shows "\<exists>t \<in> set (auth_tokens (db w)). token_valid PasswordReset (secret_hash e (rp_token dto)) (clock e (tick w)) t
     \<and> (\<exists>u u' n. select_by_id (tok_user_id t) (db w) = Some u \<and> usr_is_active u
          \<and> select_by_id (tok_user_id t) (db w') = Some u' \<and> is_email_verified u'
          \<and> argon2_hash e n (rp_new_password dto) = Some (usr_password_hash u')
          \<and> usr_token_version u' = usr_token_version u + 1)
     \<and> (\<forall>t' \<in> set (auth_tokens (db w')). \<not> outstanding (tok_user_id t) PasswordReset t')"
proof -
  from assms obtain t u w1 w2 w3 w4 where red: "tokens_redeem PasswordReset (rp_token dto) e w = (Inr t, w1)"
    and u: "select_by_id (tok_user_id t) (db w1) = Some u" "usr_is_active u"
    and set: "users_set_password (usr_id u) (rp_new_password dto) e (w1\<lparr>tick := Suc (tick w1)\<rparr>) = (Inr (), w2)"
    and ver: "users_mark_email_verified (usr_id u) e w2 = (Inr (), w3)"
    and inv: "tokens_invalidate (usr_id u) PasswordReset e w3 = (Inr (), w4)"
    and w': "db w' = db w4"
    by (fastforce simp: reset_password_def send_password_changed_def del: tokens_redeem_InrE)
  from red obtain t0 where t0: "t0 \<in> set (auth_tokens (db w))"
    "token_valid PasswordReset (secret_hash e (rp_token dto)) (clock e (tick w)) t0"
    "tok_user_id t = tok_user_id t0" and same: "users (db w1) = users (db w)"
    by (auto dest: claim_token_users)
  have id: "usr_id u = tok_user_id t0" and live: "user_live u"
    using select_by_id_SomeD [OF u(1)] t0(3) by simp_all
  from set obtain h now n where "argon2_hash e n (rp_new_password dto) = Some h"
    "select_by_id (usr_id u) (db w2) = Some (set_hash_row h now u)"
    using u(1) id t0(3) by (auto elim!: users_set_password_InrE)
  moreover from ver obtain now' where
    "db w3 = (db w2)\<lparr>users := update_where (\<lambda>u'. usr_id u' = usr_id u \<and> user_live u') (verify_row now') (users (db w2))\<rparr>"
    by (rule users_mark_email_verified_InrE)
  moreover from inv obtain now'' where w4: "db w4 = snd (use_tokens (usr_id u) PasswordReset now'' (db w3))"
    by (rule tokens_invalidate_InrE)
  ultimately have "\<exists>u'. select_by_id (usr_id u) (db w') = Some u' \<and> is_email_verified u'
      \<and> argon2_hash e n (rp_new_password dto) = Some (usr_password_hash u')
      \<and> usr_token_version u' = usr_token_version u + 1"
    using live by (auto simp: w' use_tokens_def select_by_id_update select_by_id_frame)
  moreover have "\<forall>t' \<in> set (auth_tokens (db w')). \<not> outstanding (tok_user_id t0) PasswordReset t'"
    using use_tokens_none_left by (auto simp: w' w4 id [symmetric])
  moreover have "select_by_id (tok_user_id t0) (db w) = Some u"
    using u(1) t0(3) same by (simp add: select_by_id_def)
  ultimately show ?thesis using t0 u(2) id by auto
qed

definition reset_link :: auth_token where
  "reset_link = \<lparr> tok_id = 5, tok_user_id = 2, tok_purpose = PasswordReset,
     tok_token_hash = secret_hash sample_env ''raw'', tok_new_email = None, tok_expires_at = hours 1,
     tok_used_at = None, tok_created_at = 0 \<rparr>"

theorem password_reset_sound_witness:
  "\<exists>w'. reset_password \<lparr> rp_token = ''raw'', rp_new_password = ''battery staple'' \<rparr> sample_env
       (world_of (sample_db\<lparr>auth_tokens := [reset_link]\<rparr>)) = (Inr (), w')
     \<and> (\<forall>t' \<in> set (auth_tokens (db w')). \<not> outstanding 2 PasswordReset t')"
proof -
  let ?dto = "\<lparr> rp_token = ''raw'', rp_new_password = ''battery staple'' \<rparr>"
  have "fst (reset_password ?dto sample_env (world_of (sample_db\<lparr>auth_tokens := [reset_link]\<rparr>))) = Inr ()"
    by code_simp
  note run = runs_to [OF this]
  from run password_reset_sound [OF run] show ?thesis
    by (auto simp: world_of_def reset_link_def)
qed

section \<open>Access tokens\<close>

text \<open>
  C21: the access token a sign-in hands out works: until it expires, a request that presents it is
  authenticated as its user with the role stored at that moment, as long as the account is active and
  its token version has not moved. The JWT library is assumed to decode what it encoded.
\<close>

theorem issued_token_authenticates:
  assumes "bearer_for u e w = (Inr t, w1)"
    and "\<forall>c secret token now. jwt_encode e c secret = Some token \<longrightarrow> now < exp c
           \<longrightarrow> jwt_decode e now token secret = Some c"
    and "presented_credential (rq_headers rq) = Inr (tr_access_token t)"
    and "\<not> starts_with (tr_access_token t) ''ak_''"
    and "select_by_id (usr_id u) (db w2) = Some u'" and "usr_is_active u'"
    and "usr_token_version u' = usr_token_version u"
    and "timestamp (clock e (tick w2)) < timestamp (clock e (tick w)) + jwt_ttl_secs (conf e)"
    and "db_ok e (Suc (tick w2))"
  shows "fst (auth_user_from_request rq e w2) = Inr (auth_user_session (usr_id u) (usr_role u'))"
proof -
  from assms(1) obtain c where "jwt_encode e c (jwt_secret (conf e)) = Some (tr_access_token t)"
    "sub c = usr_id u" "tv c = usr_token_version u"
    "exp c = timestamp (clock e (tick w)) + jwt_ttl_secs (conf e)"
    by (auto simp: bearer_for_def)
  with assms(2-9) show ?thesis
    by (auto simp: auth_user_from_request_def API_KEY_PREFIX_def jwt_verify_def session_verify_def
        users_find_by_id_def users_repo_find_by_id_def run_simps select_by_id_SomeD)
qed

lemma sample_jwt_law:
  "\<forall>c secret token now. jwt_encode sample_env c secret = Some token \<longrightarrow> now < exp c
     \<longrightarrow> jwt_decode sample_env now token secret = Some c"
  using sample_decode_encode by (simp add: sample_env_def)

theorem issued_token_authenticates_witness:
  "fst (auth_user_from_request (bearer GET ''!!(Pasecret'') sample_env (world_of sample_db))
     = Inr (auth_user_session 1 Admin)"
proof -
  have "fst (bearer_for ada sample_env (world_of sample_db))
      = Inr \<lparr> tr_access_token = ''!!(Pasecret'', tr_token_type = ''Bearer'', tr_expires_in = 40 \<rparr>"
    by code_simp
  moreover have "presented_credential (rq_headers (bearer GET ''!!(Pasecret'')) = Inr ''!!(Pasecret''"
    by code_simp
  moreover have "\<not> starts_with ''!!(Pasecret'' ''ak_''" by code_simp
  moreover have "select_by_id 1 sample_db = Some ada" by code_simp
  ultimately show ?thesis
    using issued_token_authenticates [OF runs_to sample_jwt_law, of ada "world_of sample_db"
        "\<lparr> tr_access_token = ''!!(Pasecret'', tr_token_type = ''Bearer'', tr_expires_in = 40 \<rparr>"
        "bearer GET ''!!(Pasecret''" "world_of sample_db" ada]
    by (simp add: sample_defs timestamp_def)
qed

section \<open>Second factor\<close>

lemma recovery_claim_InrE [elim!]:
  assumes "recovery_claim i h e w = (Inr b, w')"
  obtains "b \<longleftrightarrow> recovery_live (db w) (i, h)" and "b \<Longrightarrow> \<not> recovery_live (db w') (i, h)"
    and "auth_tokens (db w') = auth_tokens (db w)" and "users (db w') = users (db w)"
    and "\<not> b \<Longrightarrow> db w' = db w"
proof -
  from assms obtain r where c: "claim_recovery (i, h) (clock e (tick w)) (db w) = (r, db w')"
    and b: "b \<longleftrightarrow> r \<noteq> None"
    by (auto simp: recovery_claim_def)
  have "b \<longleftrightarrow> recovery_live (db w) (i, h)"
    using c b by (auto simp: claim_recovery_def recovery_live_def split: if_splits)
  moreover have "\<not> recovery_live (db w') (i, h)" if b
    using recovery.claim_spends c b that by (metis (full_types) not_None_eq)
  moreover have "db w' = db w" if "\<not> b"
    using c b that by (auto simp: claim_recovery_def update_where_none split: if_splits)
  moreover have "db w' = snd (claim_recovery (i, h) (clock e (tick w)) (db w))" using c by simp
  ultimately show ?thesis using that by (simp add: claim_recovery_def)
qed

lemma verify_code_db: "verify_code s i a c e w = (v, w') \<Longrightarrow> db w' = db w"
  by (auto simp: verify_code_def run_simps split: if_splits)

text \<open>
  C22: the second step of a sign-in succeeds only with an unused, unexpired pending token of an active
  account with two-factor enabled, and a code that the authenticator accepts or that is an unused
  recovery code, which is spent; the pending token is consumed and the answer is an access token for
  that account.
\<close>

theorem two_factor_login_sound:
  assumes "verify_login pending code e w = (Inr r, w')"
  shows "\<exists>t \<in> set (auth_tokens (db w)). token_valid TwoFactorPending (secret_hash e pending) (clock e (tick w)) t
     \<and> (\<exists>u s. select_by_id (tok_user_id t) (db w) = Some u \<and> usr_is_active u \<and> usr_totp_enabled u
          \<and> usr_totp_secret u = Some s \<and> token_for e u (tr_access_token r)
          \<and> ((\<exists>n. totp_check_at e s (clock e n) code)
             \<or> recovery_live (db w) (usr_id u, secret_hash e code)
               \<and> \<not> recovery_live (db w') (usr_id u, secret_hash e code)))
     \<and> (hashes_unique (db w) \<longrightarrow> \<not> token_live (db w') (TwoFactorPending, secret_hash e pending))"
proof -
  from assms obtain t u s w2 w3 t1 where
    t: "t \<in> set (auth_tokens (db w))" "token_valid TwoFactorPending (secret_hash e pending) (clock e (tick w)) t"
    and u: "select_by_id (tok_user_id t) (db w) = Some u" "usr_is_active u" "usr_totp_enabled u"
      "usr_totp_secret u = Some s"
    and ok: "verify_code s (webauthn_rp_name (conf e)) (usr_email u) code e (w\<lparr>tick := Suc (Suc (Suc (tick w)))\<rparr>) = (Inr True, w2)
      \<or> (\<exists>w1. verify_code s (webauthn_rp_name (conf e)) (usr_email u) code e (w\<lparr>tick := Suc (Suc (Suc (tick w)))\<rparr>) = (Inr False, w1) \<and> recovery_claim (usr_id u) (secret_hash e code) e w1 = (Inr True, w2))"
      (is "?app \<or> (\<exists>w1. ?rec w1)")
    and red: "tokens_redeem TwoFactorPending pending e w2 = (Inr t1, w3)"
    and bear: "bearer_for u e w3 = (Inr r, w')"
    unfolding verify_login_def
    by (auto split: if_splits del: tokens_redeem_InrE verify_code_InrE recovery_claim_InrE bearer_for_InrE)
  have "(\<exists>n. totp_check_at e s (clock e n) code) \<and> db w2 = db w
      \<or> recovery_live (db w) (usr_id u, secret_hash e code) \<and> \<not> recovery_live (db w2) (usr_id u, secret_hash e code)
        \<and> auth_tokens (db w2) = auth_tokens (db w)"
    using ok by auto
  moreover from red have "totp_recovery_codes (db w3) = totp_recovery_codes (db w2)"
    and "hashes_unique (db w2) \<longrightarrow> \<not> token_live (db w3) (TwoFactorPending, secret_hash e pending)"
    using link.claim_spends by (auto dest: claim_token_recovery)
  moreover from bear have "token_for e u (tr_access_token r)" and "db w' = db w3" by auto
  ultimately have "(\<exists>n. totp_check_at e s (clock e n) code)
      \<or> recovery_live (db w) (usr_id u, secret_hash e code) \<and> \<not> recovery_live (db w') (usr_id u, secret_hash e code)"
    and "hashes_unique (db w) \<longrightarrow> \<not> token_live (db w') (TwoFactorPending, secret_hash e pending)"
    by (auto simp: recovery_live_def hashes_unique_def)
  with t u \<open>token_for e u (tr_access_token r)\<close> show ?thesis by (intro bexI [of _ t]) auto
qed

definition guarded_bob :: user where
  "guarded_bob = bob\<lparr>usr_totp_secret := Some ''K'', usr_totp_enabled := True\<rparr>"

definition guarded_db :: db where
  "guarded_db = sample_db\<lparr>users := [ada, guarded_bob],
     auth_tokens := [reset_link\<lparr>tok_purpose := TwoFactorPending\<rparr>]\<rparr>"

theorem two_factor_login_sound_witness:
  "\<exists>r w'. verify_login ''raw'' ''codeK'' sample_env (world_of guarded_db) = (Inr r, w')
     \<and> \<not> token_live (db w') (TwoFactorPending, secret_hash sample_env ''raw'')"
proof -
  let ?r = "\<lparr> tr_access_token = CHR 0x22 # ''!.Vusecret'', tr_token_type = ''Bearer'', tr_expires_in = 40 \<rparr>"
  have "fst (verify_login ''raw'' ''codeK'' sample_env (world_of guarded_db)) = Inr ?r" by code_simp
  note run = runs_to [OF this]
  have "hashes_unique (db (world_of guarded_db))"
    by (simp add: hashes_unique_def world_of_def guarded_db_def)
  with run two_factor_login_sound [OF run] show ?thesis by blast
qed

lemma seq_InlE:
  assumes "seq m k r s = (Inl e, s')"
  obtains (first) "m r s = (Inl e, s')"
    | (second) x s1 where "m r s = (Inr x, s1)" and "k r s1 = (Inl e, s')"
  using assms unfolding seq_def by (rule then_do_InlE)

lemma tokens_peek_db: "tokens_peek p raw e w = (v, w') \<Longrightarrow> db w' = db w"
  by (auto simp: tokens_peek_def tokens_repo_find_unused_def ok_or_def run_simps split: if_splits option.splits)

lemma users_find_by_id_db: "users_find_by_id i e w = (v, w') \<Longrightarrow> db w' = db w"
  by (auto simp: users_find_by_id_def users_repo_find_by_id_def run_simps split: if_splits)

lemma recovery_claim_Inl_db: "recovery_claim i h e w = (Inl x, w') \<Longrightarrow> db w' = db w"
  by (auto simp: recovery_claim_def run_simps split: if_splits)

lemma tokens_redeem_Inl_error:
  "tokens_redeem p raw e w = (Inl x, w') \<Longrightarrow> x \<noteq> of_auth_error InvalidTotpCode"
  by (auto simp: tokens_redeem_def tokens_repo_claim_def ok_or_def run_simps split: if_splits option.splits)

lemma bearer_for_Inl_error: "bearer_for u e w = (Inl x, w') \<Longrightarrow> x \<noteq> of_auth_error InvalidTotpCode"
  by (auto simp: bearer_for_def issue_for_def jwt_issue_def Let_def ok_or_def run_simps split: option.splits)

lemma ok_or_db: "ok_or v x e w = (y, w') \<Longrightarrow> w' = w"
  by (cases v) auto

lemmas reading_steps = tokens_peek_db users_find_by_id_db verify_code_db recovery_claim_Inl_db
  ok_or_db

text \<open>
  A wrong second-factor code costs nothing but the attempt: no table changes, so the pending token
  stays usable for another try.
\<close>

theorem wrong_second_factor_keeps_pending_token:
  assumes "verify_login pending code e w = (Inl (Unauthorized ''that code is incorrect or has expired''), w')"
  shows "db w' = db w"
  using assms unfolding verify_login_def
  by (auto elim!: then_do_InlE seq_InlE split: if_splits
      dest!: reading_steps tokens_redeem_Inl_error bearer_for_Inl_error)

theorem wrong_second_factor_keeps_pending_token_witness:
  "\<exists>w'. verify_login ''raw'' ''000000'' sample_env (world_of guarded_db)
       = (Inl (Unauthorized ''that code is incorrect or has expired''), w') \<and> db w' = guarded_db"
proof -
  have "fst (verify_login ''raw'' ''000000'' sample_env (world_of guarded_db))
      = Inl (Unauthorized ''that code is incorrect or has expired'')"
    by code_simp
  note run = runs_to [OF this]
  from run wrong_second_factor_keeps_pending_token [OF run] show ?thesis
    by (auto simp: world_of_def)
qed

text \<open>
  Starting a second-factor enrolment while the second factor is active replaces the active secret,
  without the password and with the factor still enabled: from then on only codes of the new secret,
  which the answer shows to the caller, pass.
\<close>

theorem setup_replaces_active_second_factor:
  assumes "begin_setup actor e w = (Inr r, w')" and "select_by_id (au_id actor) (db w) = Some u"
    and "usr_totp_enabled u"
  shows "\<exists>u'. select_by_id (au_id actor) (db w') = Some u' \<and> usr_totp_enabled u'
     \<and> usr_totp_secret u' = Some (ts_secret r)"
  using assms select_by_id_SomeD [OF assms(2)]
  by (auto simp: begin_setup_def require_active_user_def users_set_pending_totp_secret_def
      users_repo_set_pending_totp_secret_def update_user_row_def select_by_id_update user_live_def
      split: if_splits option.splits)

theorem setup_replaces_active_second_factor_witness:
  "\<exists>r w' u'. begin_setup (auth_user_session 2 User) sample_env (world_of guarded_db) = (Inr r, w')
     \<and> select_by_id 2 (db w') = Some u' \<and> usr_totp_enabled u' \<and> usr_totp_secret u' = Some (ts_secret r)"
proof -
  let ?r = "\<lparr> ts_secret = ''S1'', ts_qr_code_data_uri = ''data:image/png;base64,qr'', ts_provisioning_uri = ''url'' \<rparr>"
  have "fst (begin_setup (auth_user_session 2 User) sample_env (world_of guarded_db)) = Inr ?r" by code_simp
  note run = runs_to [OF this]
  have "select_by_id 2 guarded_db = Some guarded_bob" by code_simp
  with run setup_replaces_active_second_factor [OF run, of guarded_bob] show ?thesis
    by (fastforce simp: auth_user_session_def world_of_def guarded_bob_def)
qed

end
