(* ===== verification/SessionProperties.thy ===== *)
theory SessionProperties
  imports AuthFacts
begin

text \<open>
  One-time credentials, API keys and QR sign-in: single use, round trips, and the life cycle of a QR
  session as a refinement of an abstract state machine.
\<close>

section \<open>Single use\<close>

text \<open>
  C23: however often and in whatever order mailed links are redeemed, each one is accepted at most once.
\<close>

theorem mailed_link_accepted_once:
  assumes "distinct (map tok_token_hash (auth_tokens d))"
  shows "times_claimed (purpose, h) (claims claim_token ops d) \<le> 1"
  using assms by (intro link.claimed_at_most_once) (simp add: hashes_unique_def)

theorem mailed_link_accepted_once_witness:
  "times_claimed (PasswordReset, ''h'') (claims claim_token [((PasswordReset, ''h''), 1), ((PasswordReset, ''h''), 2)]
     (sample_db\<lparr>auth_tokens := [\<lparr> tok_id = 5, tok_user_id = 2, tok_purpose = PasswordReset,
        tok_token_hash = ''h'', tok_new_email = None, tok_expires_at = 9, tok_used_at = None,
        tok_created_at = 0 \<rparr>]\<rparr>)) \<le> 1"
  by (rule mailed_link_accepted_once) simp

text \<open>
  An approved QR sign-in is collected at most once, however many devices poll for it.
\<close>

theorem qr_approval_collected_once:
  assumes "distinct (map qr_id (qr_sessions d))"
  shows "times_claimed i (claims consume_qr ops d) \<le> 1"
  using assms by (intro approval.claimed_at_most_once) (simp add: qr_unique_def)

definition approved_session :: qr_session where
  "approved_session = \<lparr> qr_id = ''s'', qr_secret_hash = secret_hash sample_env ''poll'', qr_code = ''0042'',
     qr_status = QrApproved, qr_user_id = Some 2, qr_requester_ip = None, qr_requester_agent = None,
     qr_attempts = 0, qr_expires_at = minutes 2, qr_created_at = 0 \<rparr>"

theorem qr_approval_collected_once_witness:
  "times_claimed ''s'' (claims consume_qr [(''s'', 1), (''s'', 2)] (sample_db\<lparr>qr_sessions := [approved_session]\<rparr>)) \<le> 1"
  by (rule qr_approval_collected_once) simp

section \<open>API keys\<close>

lemma find_snoc_fresh:
  "(\<And>x. x \<in> set xs \<Longrightarrow> \<not> p x) \<Longrightarrow> p y \<Longrightarrow> List.find p (xs @ [y]) = Some y"
  by (induction xs) auto

lemma keys_create_InrE:
  assumes "keys_create actor dto e w = (Inr r, w')"
  obtains k where "api_keys (db w') = api_keys (db w) @ [k]" and "users (db w') = users (db w)"
    and "key_user_id k = au_id actor" and "key_key_hash k = secret_hash e (cak_key r)"
    and "key_scope k = (case ck_scope dto of None \<Rightarrow> ReadScope | Some s \<Rightarrow> s)"
    and "key_revoked_at k = None" and "cak_api_key r = api_key_response_from k"
    and "\<forall>j \<in> set (api_keys (db w)). key_key_hash j \<noteq> key_key_hash k"
  using assms
  by (auto simp: keys_create_def keys_repo_list_active_def keys_repo_insert_def key_insert_def Let_def
      api_key_response_from_def split: if_splits option.splits)

text \<open>
  A freshly created API key works: presented before its expiry, it authenticates as its owner, with
  the owner's stored role and with the scope that was asked for (read-only unless it says otherwise).
\<close>

theorem created_api_key_authenticates:
  assumes "keys_create actor dto e w = (Inr r, w1)" and "db w2 = db w1"
    and "select_by_id (au_id actor) (db w) = Some u" and "usr_is_active u"
    and "case akr_expires_at (cak_api_key r) of None \<Rightarrow> True | Some t \<Rightarrow> clock e (tick w2) < t"
    and "\<forall>n. db_ok e n"
  shows "fst (keys_authenticate (cak_key r) e w2)
     = Inr \<lparr> au_id = au_id actor, au_role = usr_role u,
             au_credential = ApiKeyCred (case ck_scope dto of None \<Rightarrow> ReadScope | Some s \<Rightarrow> s) \<rparr>"
proof -
  from assms(1) obtain k where k: "api_keys (db w1) = api_keys (db w) @ [k]" "users (db w1) = users (db w)"
    "key_user_id k = au_id actor" "key_key_hash k = secret_hash e (cak_key r)"
    "key_scope k = (case ck_scope dto of None \<Rightarrow> ReadScope | Some s \<Rightarrow> s)"
    "key_revoked_at k = None" "cak_api_key r = api_key_response_from k"
    "\<forall>j \<in> set (api_keys (db w)). key_key_hash j \<noteq> key_key_hash k"
    by (rule keys_create_InrE)
  have "List.find (\<lambda>j. key_key_hash j = secret_hash e (cak_key r)) (api_keys (db w2)) = Some k"
    using k(1,4,8) assms(2) by (auto intro: find_snoc_fresh)
  moreover have "is_usable k (clock e (tick w2))"
    using assms(5) k(6,7) by (simp add: is_usable_def api_key_response_from_def)
  moreover have "select_by_id (au_id actor) (db w2) = Some u"
    using assms(2,3) k(2) by (simp add: select_by_id_def)
  ultimately show ?thesis
    using assms(4,6) k(3,5) select_by_id_SomeD [OF assms(3)]
    by (simp add: keys_authenticate_def keys_repo_find_by_hash_def users_find_by_id_def
        users_repo_find_by_id_def keys_repo_touch_def run_simps)
qed

theorem created_api_key_authenticates_witness:
  "\<exists>r w1. keys_create (auth_user_session 2 User) \<lparr> ck_name = ''ci'', ck_scope = None, ck_expires_in_days = None \<rparr>
       sample_env (world_of sample_db) = (Inr r, w1)
     \<and> fst (keys_authenticate (cak_key r) sample_env w1)
       = Inr \<lparr> au_id = 2, au_role = User, au_credential = ApiKeyCred ReadScope \<rparr>"
proof -
  let ?dto = "\<lparr> ck_name = ''ci'', ck_scope = None, ck_expires_in_days = None \<rparr>"
  let ?r = "\<lparr> cak_api_key = \<lparr> akr_id = 12, akr_name = ''ci'', akr_key_prefix = ''ak_A'', akr_scope = ReadScope,
       akr_expires_at = None, akr_last_used_at = None, akr_created_at = 43000000000 \<rparr>, cak_key = ''ak_A'' \<rparr>"
  have "trim ''ci'' = ''ci''" and "char_of (65 :: nat) = CHR ''A''" by code_simp+
  then have "fst (keys_create (auth_user_session 2 User) ?dto sample_env (world_of sample_db)) = Inr ?r"
    by (simp add: keys_create_def keys_repo_list_active_def active_keys_def order_by_def keys_repo_insert_def
        key_insert_def db_stmt_def generate_token_def API_KEY_PREFIX_def DISPLAY_PREFIX_LEN_def
        MAX_ACTIVE_KEYS_PER_USER_def api_key_response_from_def Let_def run_simps sample_defs auth_user_session_def)
  then obtain w1 where run: "keys_create (auth_user_session 2 User) ?dto sample_env (world_of sample_db) = (Inr ?r, w1)"
    using runs_to by metis
  have "select_by_id (au_id (auth_user_session 2 User)) (db (world_of sample_db)) = Some bob"
    and "usr_is_active bob" and "usr_role bob = User" and "au_id (auth_user_session 2 User) = 2"
    by code_simp+
  moreover have "\<forall>n. db_ok sample_env n" by (simp add: sample_env_def)
  ultimately show ?thesis
    using created_api_key_authenticates [OF run refl, of bob] run by simp
qed

text \<open>
  Revoking takes effect at once: whatever text is presented that hashes to the revoked key's hash,
  it no longer authenticates anyone.
\<close>

theorem revoked_api_key_refused:
  assumes "keys_revoke actor i e w = (Inr (), w1)" and "keys_ok (db w)"
    and "k \<in> set (api_keys (db w))" and "key_id k = i" and "secret_hash e presented = key_key_hash k"
    and "db w2 = db w1"
  shows "key_user_id k = au_id actor \<and> (\<exists>x. fst (keys_authenticate presented e w2) = Inl x)"
proof -
  let ?p = "\<lambda>k. key_id k = i \<and> key_user_id k = au_id actor \<and> key_revoked_at k = None"
  from assms(1) obtain now where
    db: "db w1 = (db w)\<lparr>api_keys := update_where ?p (\<lambda>k. k\<lparr>key_revoked_at := Some now\<rparr>) (api_keys (db w))\<rparr>"
    and one: "count_where ?p (api_keys (db w)) = 1"
    by (auto simp: keys_revoke_def keys_repo_revoke_def revoke_key_def Let_def split: if_splits)
  have uniq: "distinct (map key_id (api_keys (db w)))" "distinct (map key_key_hash (api_keys (db w)))"
    using assms(2) by (auto simp: keys_ok_def)
  from one have "\<exists>j \<in> set (api_keys (db w)). ?p j" unfolding count_where_pos_iff [symmetric] by simp
  then have p: "?p k" using distinct_key_unique [OF uniq(1) _ assms(3)] assms(4) by auto
  have "key_revoked_at j \<noteq> None" if "j \<in> set (api_keys (db w1))" "key_key_hash j = key_key_hash k" for j
  proof -
    from that(1) obtain j0 where j0: "j0 \<in> set (api_keys (db w))"
      "j = (if ?p j0 then j0\<lparr>key_revoked_at := Some now\<rparr> else j0)"
      unfolding db by (auto elim!: in_update_whereE)
    with that(2) have "j0 = k" using distinct_key_unique [OF uniq(2) j0(1) assms(3)] by (auto split: if_splits)
    with j0 p show ?thesis by simp
  qed
  then have "keys_authenticate presented e w2 \<noteq> (Inr v, w3)" for v w3
    using assms(5,6) by (force elim!: keys_authenticate_InrE simp: is_usable_def dest!: find_SomeD)
  then have "\<exists>x. fst (keys_authenticate presented e w2) = Inl x"
    by (cases "keys_authenticate presented e w2") (metis fst_conv sumE)
  with p show ?thesis by simp
qed

definition ci_key :: api_key where
  "ci_key = \<lparr> key_id = 7, key_user_id = 2, key_name = ''ci'', key_key_prefix = ''ak_k'',
     key_key_hash = secret_hash sample_env ''ak_k'', key_scope = WriteScope, key_expires_at = None,
     key_last_used_at = None, key_revoked_at = None, key_created_at = 0 \<rparr>"

theorem revoked_api_key_refused_witness:
  "\<exists>w1 x. keys_revoke (auth_user_session 2 User) 7 sample_env (world_of (sample_db\<lparr>api_keys := [ci_key]\<rparr>)) = (Inr (), w1)
     \<and> fst (keys_authenticate ''ak_k'' sample_env w1) = Inl x"
proof -
  have "fst (keys_revoke (auth_user_session 2 User) 7 sample_env (world_of (sample_db\<lparr>api_keys := [ci_key]\<rparr>))) = Inr ()"
    by code_simp
  then obtain w1 where run: "keys_revoke (auth_user_session 2 User) 7 sample_env
      (world_of (sample_db\<lparr>api_keys := [ci_key]\<rparr>)) = (Inr (), w1)"
    using runs_to by metis
  have "keys_ok (db (world_of (sample_db\<lparr>api_keys := [ci_key]\<rparr>)))"
    by (simp add: keys_ok_def active_keys_def world_of_def MAX_ACTIVE_KEYS_PER_USER_def)
  moreover have "ci_key \<in> set (api_keys (db (world_of (sample_db\<lparr>api_keys := [ci_key]\<rparr>))))"
    and "key_id ci_key = 7" and "secret_hash sample_env ''ak_k'' = key_key_hash ci_key"
    by (simp_all add: world_of_def ci_key_def)
  ultimately show ?thesis
    using revoked_api_key_refused [OF run, of ci_key "''ak_k''" w1] run by simp
qed

section \<open>QR sign-in\<close>

lemma qr_find_InrE [elim!]:
  assumes "qr_find i e w = (Inr s, w')"
  obtains "select_qr i (db w) = Some s" and "w' = w\<lparr>tick := Suc (tick w)\<rparr>"
  using assms by (auto simp: qr_find_def qr_repo_find_def)

lemma qr_repo_consume_InrE [elim!]:
  assumes "qr_repo_consume i e w = (Inr r, w')"
  obtains "consume_qr i (clock e (tick w)) (db w) = (map_option Some r, db w')"
  using assms by (auto simp: qr_repo_consume_def split: option.splits)

lemma collect_token_InrE:
  assumes "collect_token i e w = (Inr r, w')" and "po_access_token r = Some t"
  obtains u d where "consume_qr i (clock e (tick w)) (db w) = (Some (Some (usr_id u)), d)" and "db w' = d"
    and "select_by_id (usr_id u) d = Some u" and "usr_is_active u" and "token_for e u t"
proof -
  from assms obtain w1 uid u where c: "consume_qr i (clock e (tick w)) (db w) = (Some (Some uid), db w1)"
    and u: "select_by_id uid (db w1) = Some u" "usr_is_active u"
    and t: "issue_for u e (w1\<lparr>tick := Suc (tick w1)\<rparr>) = (Inr t, w')"
    by (auto simp: collect_token_def poll_status_def users_find_by_id_def users_repo_find_by_id_def
        split: option.splits if_splits del: issue_for_InrE)
  from t have "db w' = db w1" by auto
  moreover have "usr_id u = uid" using select_by_id_SomeD [OF u(1)] by simp
  ultimately show ?thesis using that [of u "db w1"] c u issue_for_token [OF t] by simp
qed

lemma consume_qr_row:
  assumes "consume_qr i now d = (Some v, d')" and "qr_unique d" and "select_qr i d = Some s"
  shows "qr_status s = QrApproved" and "v = qr_user_id s" and "users d' = users d"
proof -
  from assms(1) obtain s' where s': "s' \<in> set (qr_sessions d)" "qr_id s' = i" "qr_status s' = QrApproved"
    "v = qr_user_id s'" and d: "users d' = users d"
    by (auto simp: consume_qr_def Let_def dest!: find_SomeD)
  have "s \<in> set (qr_sessions d)" "qr_id s = i" using assms(3) by (auto simp: select_qr_def dest!: find_SomeD)
  with s' assms(2) have "s' = s" by (auto simp: qr_unique_def dest: distinct_key_unique)
  with s' d show "qr_status s = QrApproved" "v = qr_user_id s" "users d' = users d" by auto
qed

text \<open>
  C24: polling hands out an access token only to whoever holds the poll secret of the session, only
  after the user who scanned it approved it and before it expires; the token is for that user, who is
  active, and the approval is used up.
\<close>

theorem qr_poll_sound:
  assumes "qr_poll i secret e w = (Inr r, w')" and "po_access_token r = Some t"
    and "qr_unique (db w)"
  shows "\<exists>s u p. s \<in> set (qr_sessions (db w)) \<and> qr_id s = i \<and> qr_status s = QrApproved
     \<and> secret = Some p \<and> secret_hash e p = qr_secret_hash s \<and> clock e (Suc (tick w)) < qr_expires_at s
     \<and> qr_user_id s = Some (usr_id u) \<and> select_by_id (usr_id u) (db w) = Some u \<and> usr_is_active u
     \<and> token_for e u t \<and> \<not> qr_collectable (db w') i"
proof -
  from assms(1,2) obtain s p where s: "select_qr i (db w) = Some s" "secret = Some p"
    "secret_hash e p = qr_secret_hash s" "clock e (Suc (tick w)) < qr_expires_at s"
    and run: "collect_token i e (w\<lparr>tick := Suc (Suc (tick w))\<rparr>) = (Inr r, w')"
    by (auto simp: qr_poll_def poll_status_def split: if_splits)
  from run assms(2) obtain u where c: "consume_qr i (clock e (Suc (Suc (tick w)))) (db w) = (Some (Some (usr_id u)), db w')"
    and u: "select_by_id (usr_id u) (db w') = Some u" "usr_is_active u" "token_for e u t"
    by (auto elim!: collect_token_InrE)
  note row = consume_qr_row [OF c assms(3) s(1)]
  have "select_by_id (usr_id u) (db w) = Some u" using u(1) row(3) by (simp add: select_by_id_def)
  moreover have "s \<in> set (qr_sessions (db w))" "qr_id s = i"
    using s(1) by (auto simp: select_qr_def dest!: find_SomeD)
  moreover have "\<not> qr_collectable (db w') i" using consume_qr_effect(3) [OF c refl assms(3)] by simp
  ultimately show ?thesis using s u row by metis
qed

definition qr_db :: db where "qr_db = sample_db\<lparr>qr_sessions := [approved_session]\<rparr>"

theorem qr_poll_sound_witness:
  "\<exists>r w'. qr_poll ''s'' (Some ''poll'') sample_env (world_of qr_db) = (Inr r, w') \<and> \<not> qr_collectable (db w') ''s''"
proof -
  let ?r = "\<lparr> po_status = ''approved'', po_access_token = Some (CHR 0x22 # ''!-Uusecret''),
      po_token_type = Some ''Bearer'', po_expires_in = Some 40 \<rparr>"
  have "fst (qr_poll ''s'' (Some ''poll'') sample_env (world_of qr_db)) = Inr ?r" by code_simp
  then obtain w' where run: "qr_poll ''s'' (Some ''poll'') sample_env (world_of qr_db) = (Inr ?r, w')"
    using runs_to by metis
  moreover have "qr_unique (db (world_of qr_db))" by (simp add: qr_unique_def world_of_def qr_db_def)
  ultimately show ?thesis using qr_poll_sound [OF run] by auto
qed

section \<open>The life cycle of a QR session\<close>

text \<open>
  The abstract machine of one session identifier: absent, or a status with the user it is bound to.
\<close>

type_synonym qr_view = "(qr_status \<times> uuid option) option"

inductive qr_edge :: "qr_view \<Rightarrow> qr_view \<Rightarrow> bool" where
  created: "qr_edge None (Some (QrPending, v))"
| scanned: "qr_edge (Some (QrPending, v)) (Some (QrScanned, Some u))"
| approved: "qr_edge (Some (QrScanned, Some u)) (Some (QrApproved, Some u))"
| rejected: "qr_edge (Some (QrScanned, v)) (Some (QrRejected, v))"
| collected: "qr_edge (Some (QrApproved, v)) (Some (QrConsumed, v))"
| removed: "qr_edge (Some x) None"

inductive_simps qr_edge_simps: "qr_edge (Some (st, v)) (Some (st', v'))"

definition qr_abs :: "str \<Rightarrow> db \<Rightarrow> qr_view" where
  "qr_abs i d = map_option (\<lambda>s. (qr_status s, qr_user_id s)) (select_qr i d)"

definition qr_history :: "qr_view \<Rightarrow> str \<Rightarrow> db \<Rightarrow> bool" where
  "qr_history v i d \<longleftrightarrow> qr_unique d \<and> qr_edge\<^sup>*\<^sup>* v (qr_abs i d)"

lemma qr_history_update:
  assumes "qr_history v i d" and "\<And>s. qr_id (f s) = qr_id s"
    and "\<And>s. p s \<Longrightarrow> (qr_status (f s), qr_user_id (f s)) = (qr_status s, qr_user_id s)
           \<or> qr_edge (Some (qr_status s, qr_user_id s)) (Some (qr_status (f s), qr_user_id (f s)))"
  shows "qr_history v i (d\<lparr>qr_sessions := update_where p f (qr_sessions d)\<rparr>)"
proof -
  let ?d = "d\<lparr>qr_sessions := update_where p f (qr_sessions d)\<rparr>"
  have "qr_edge\<^sup>*\<^sup>* (qr_abs i d) (qr_abs i ?d)"
  proof (cases "select_qr i d")
    case (Some s)
    then have "qr_abs i ?d = Some (qr_status (if p s then f s else s), qr_user_id (if p s then f s else s))"
      using find_update_where_key [of qr_id f i p "qr_sessions d"] assms(2)
      by (simp add: qr_abs_def select_qr_def)
    with Some assms(3) [of s] show ?thesis
      by (cases "p s") (auto simp: qr_abs_def)
  qed (use find_update_where_key [of qr_id f i p "qr_sessions d"] assms(2) in
      \<open>simp add: qr_abs_def select_qr_def\<close>)
  with assms(1,2) show ?thesis
    by (auto simp: qr_history_def qr_unique_def map_update_where_same)
qed

lemma find_delete_where_key:
  "distinct (map k rows) \<Longrightarrow> List.find (\<lambda>x. k x = v) (delete_where p rows)
     = ok_opt_filter (\<lambda>x. \<not> p x) (List.find (\<lambda>x. k x = v) rows)"
  by (induction rows) (auto simp: find_None_iff split: option.split dest!: find_SomeD)

lemma find_append: "List.find p (xs @ ys) = (case List.find p xs of None \<Rightarrow> List.find p ys | Some x \<Rightarrow> Some x)"
  by (induction xs) auto

lemma qr_abs_cleanup: "qr_unique d \<Longrightarrow> qr_edge\<^sup>*\<^sup>* (qr_abs i d) (qr_abs i (snd (qr_cleanup now d)))"
  by (auto simp: qr_unique_def qr_abs_def select_qr_def qr_cleanup_def find_delete_where_key
      intro: r_into_rtranclp [of qr_edge] qr_edge.removed split: option.split)

lemma qr_abs_insert:
  assumes "qr_insert row d = Inr (x, d')" and "qr_status row = QrPending"
  shows "qr_edge\<^sup>*\<^sup>* (qr_abs i d) (qr_abs i d')"
proof -
  have "qr_edge\<^sup>*\<^sup>* None (Some (QrPending, v))" for v
    by (rule r_into_rtranclp) (rule qr_edge.created)
  with assms show ?thesis
    by (auto simp: qr_abs_def select_qr_def qr_insert_def find_append split: option.split if_splits)
qed

lemma qr_history_laws: "qr_laws (qr_history v i)"
proof
  fix d now
  assume h: "qr_history v i d"
  then have "qr_unique (snd (qr_cleanup now d))"
    by (simp add: qr_history_def qr_unique_def qr_cleanup_def delete_where_def distinct_map_filter)
  with h qr_abs_cleanup [of d i now] show "qr_history v i (snd (qr_cleanup now d))"
    by (auto simp: qr_history_def)
next
  fix d row x d'
  assume h: "qr_history v i d" and r: "qr_status row = QrPending" "qr_insert row d = Inr (x, d')"
  then have "qr_unique d'"
    by (auto simp: qr_history_def qr_unique_def qr_insert_def split: if_splits) metis
  with h r qr_abs_insert [of row d x d' i] show "qr_history v i d'"
    by (auto simp: qr_history_def)
next
  fix d j now u
  assume h: "qr_history v i d"
  show "qr_history v i (snd (qr_update (\<lambda>s. qr_id s = j \<and> qr_status s = QrPending \<and> qr_expires_at s > now)
      (\<lambda>s. s\<lparr>qr_status := QrScanned, qr_user_id := Some u\<rparr>) d))"
    unfolding qr_update_def snd_conv using h by (rule qr_history_update) (auto simp: qr_edge_simps)
  show "qr_history v i (snd (qr_update
      (\<lambda>s. qr_id s = j \<and> qr_status s = QrScanned \<and> qr_user_id s = Some u \<and> qr_expires_at s > now)
      (\<lambda>s. s\<lparr>qr_status := target\<rparr>) d))" if "target \<in> {QrApproved, QrRejected}" for target
    unfolding qr_update_def snd_conv using h by (rule qr_history_update) (use that in \<open>auto simp: qr_edge_simps\<close>)
  show "qr_history v i (snd (qr_wrong_code j d))"
    unfolding qr_wrong_code_def snd_conv using h
    by (rule qr_history_update) (auto simp: qr_edge_simps wrong_code_row_def)
  show "qr_history v i (snd (consume_qr j now d))"
    unfolding consume_qr_def Let_def snd_conv using h by (rule qr_history_update) (auto simp: qr_edge_simps)
qed

interpretation qr_life: db_invariant "qr_history v i"
  by (intro db_invariant.intro account_laws_frame link_laws_frame key_laws_frame qr_history_laws
        oauth_laws_frame passkey_laws_frame job_laws_frame log_laws_frame)
     (simp_all add: qr_history_def qr_unique_def qr_abs_def select_qr_def)



end
