(* ===== verification/PasskeyProperties.thy ===== *)
theory PasskeyProperties
  imports AuthFacts
begin

text \<open>
  Passkeys: what a completed sign-in ceremony proves, that a ceremony is answered once, and that removing
  a passkey leaves a way to sign in.
\<close>

section \<open>Signing in\<close>

lemma claim_challenge_InrE:
  assumes "claim_challenge i kind u e w = (Inr (Some state), w')"
  obtains j where "take_challenge (i, kind, u) (clock e (tick w)) (db w) = (Some j, db w')"
    and "wa_state_of_json (webauthn e) j = Some state"
  using assms by (auto simp: claim_challenge_def repo_claim_challenge_def split: option.splits)

lemma take_challenge_SomeE:
  assumes "take_challenge (i, kind, u) now d = (Some j, d')"
  obtains c where "c \<in> set (webauthn_challenges d)" and "ch_id c = i" and "ch_kind c = kind"
    and "ch_user_id c = u" and "now < ch_expires_at c" and "ch_state_json c = j"
    and "d' = d\<lparr>webauthn_challenges := webauthn_challenges d'\<rparr>"
  using assms by (auto simp: take_challenge_def Let_def dest!: find_SomeD)

lemma touch_keeps_challenges:
  "keeps_db (\<lambda>d. webauthn_challenges d = cs) (for_each known (touch_passkey result))"
  unfolding touch_passkey_def update_after_use_def
  by (intro keeps_rules) (simp add: passkey_used_def)

text \<open>
  C26: a passkey signs someone in only if the answer names a stored, unexpired sign-in ceremony, the
  account the browser names is active (and verified where that is required), and the WebAuthn library
  accepts the answer for that ceremony against the passkeys stored for that very account; the ceremony
  is spent and the access token is that account's.
\<close>

theorem passkey_sign_in_sound:
  assumes "finish_login dto e w = (Inr r, w')"
  shows "\<exists>c \<in> set (webauthn_challenges (db w)). \<exists>u state result.
       ch_id c = fl_challenge_id dto \<and> ch_kind c = Authentication \<and> ch_user_id c = None
     \<and> clock e (tick w) < ch_expires_at c \<and> wa_state_of_json (webauthn e) (ch_state_json c) = Some state
     \<and> wa_identify (webauthn e) (fl_credential dto) = Some (usr_id u)
     \<and> select_by_id (usr_id u) (db w) = Some u \<and> usr_is_active u
     \<and> wa_finish_discoverable (webauthn e) (fl_credential dto) state
         (map snd (decoded e (passkeys_of (usr_id u) (db w)))) = Some result
     \<and> (require_verified_email (conf e) \<longrightarrow> is_email_verified u)
     \<and> token_for e u (tr_access_token r)
     \<and> (challenges_unique (db w) \<longrightarrow> \<not> challenge_open (db w') (fl_challenge_id dto, Authentication, None))"
proof -
  let ?k = "(fl_challenge_id dto, Authentication, None)"
  from assms obtain state i w1 u w3 result where
    claimed: "claim_challenge (fl_challenge_id dto) Authentication None e w = (Inr (Some state), w1)"
    and i: "wa_identify (webauthn e) (fl_credential dto) = Some i"
    and u: "select_by_id i (db w1) = Some u" "usr_is_active u"
    and res: "wa_finish_discoverable (webauthn e) (fl_credential dto) state
         (map snd (decoded e (passkeys_of (usr_id u) (db w1)))) = Some result"
    and touch: "for_each (decoded e (passkeys_of (usr_id u) (db w1))) (touch_passkey result) e (w1\<lparr>tick := Suc (Suc (tick w1))\<rparr>) = (Inr (), w3)"
    and ver: "require_verified_email (conf e) \<longrightarrow> is_email_verified u"
    and bear: "bearer_for u e w3 = (Inr r, w')"
    unfolding finish_login_def Let_def list_by_user_def
    by (auto split: if_splits option.splits del: bearer_for_InrE)
  from claimed obtain j where take: "take_challenge ?k (clock e (tick w)) (db w) = (Some j, db w1)"
    and j: "wa_state_of_json (webauthn e) j = Some state" by (rule claim_challenge_InrE)
  from take obtain c where c: "c \<in> set (webauthn_challenges (db w))" "ch_id c = fl_challenge_id dto"
    "ch_kind c = Authentication" "ch_user_id c = None" "clock e (tick w) < ch_expires_at c" "ch_state_json c = j"
    and frame: "db w1 = (db w)\<lparr>webauthn_challenges := webauthn_challenges (db w1)\<rparr>"
    by (rule take_challenge_SomeE)
  have same: "users (db w1) = users (db w)" "passkeys (db w1) = passkeys (db w)"
    by (subst frame, simp)+
  from u(1) have sel: "select_by_id i (db w) = Some u" and id: "usr_id u = i"
    using same(1) by (auto simp: select_by_id_def dest: find_SomeD)
  have "webauthn_challenges (db w3) = webauthn_challenges (db w1)"
    using keepsD [OF touch_keeps_challenges _ touch] by simp
  moreover from bear have "token_for e u (tr_access_token r)" and "db w' = db w3" by auto
  moreover have "challenges_unique (db w) \<longrightarrow> \<not> challenge_open (db w1) ?k"
    using ceremony.claim_spends [OF _ take] by blast
  ultimately show ?thesis
    using c j i id sel u(2) res ver same(2)
    by (intro bexI [of _ c] exI [of _ u] exI [of _ state] exI [of _ result])
       (auto simp: challenge_open_def passkeys_of_def)
qed

definition bobs_passkey :: passkey_row where
  "bobs_passkey = \<lparr> pk_id = 7, pk_user_id = 2, pk_name = ''laptop'', pk_credential_id = ''k'',
     pk_credential_json = ''key'', pk_created_at = 0, pk_last_used_at = None \<rparr>"

definition ceremony_db :: db where
  "ceremony_db = sample_db\<lparr>passkeys := [bobs_passkey], webauthn_challenges := [\<lparr> ch_id = ''c'',
     ch_kind = Authentication, ch_user_id = None, ch_state_json = ''state'', ch_expires_at = minutes 5,
     ch_created_at = 0 \<rparr>]\<rparr>"

theorem passkey_sign_in_sound_witness:
  "\<exists>r w'. finish_login \<lparr> fl_challenge_id = ''c'', fl_credential = ''key'' \<rparr> sample_env (world_of ceremony_db) = (Inr r, w')
     \<and> \<not> challenge_open (db w') (''c'', Authentication, None)"
proof -
  let ?dto = "\<lparr> fl_challenge_id = ''c'', fl_credential = ''key'' \<rparr>"
  have "\<not> isl (fst (finish_login ?dto sample_env (world_of ceremony_db)))" by code_simp
  then obtain r where "fst (finish_login ?dto sample_env (world_of ceremony_db)) = Inr r"
    by (metis sum.collapse(2))
  note run = runs_to [OF this]
  have "challenges_unique (db (world_of ceremony_db))"
    by (simp add: challenges_unique_def world_of_def ceremony_db_def)
  with run passkey_sign_in_sound [OF run] show ?thesis by auto
qed

text \<open>
  A WebAuthn ceremony is answered at most once, however often and by whomever its identifier is
  presented.
\<close>

theorem ceremony_answered_once:
  assumes "distinct (map ch_id (webauthn_challenges d))"
  shows "times_claimed (i, kind, u) (claims take_challenge ops d) \<le> 1"
  using assms by (intro ceremony.claimed_at_most_once) (simp add: challenges_unique_def)

theorem ceremony_answered_once_witness:
  "times_claimed (''c'', Authentication, None) (claims take_challenge
     [((''c'', Authentication, None), 1), ((''c'', Authentication, None), 2)] ceremony_db) \<le> 1"
  by (rule ceremony_answered_once) (simp add: ceremony_db_def)

section \<open>Removing a passkey\<close>

lemma count_where_delete_one:
  assumes "distinct (map key xs)"
  shows "count_where p xs \<le> Suc (count_where p (delete_where (\<lambda>x. key x = i \<and> q x) xs))"
  using assms
proof (induction xs)
  case (Cons x xs)
  show ?case
  proof (cases "key x = i \<and> q x")
    case True
    then have "delete_where (\<lambda>x. key x = i \<and> q x) xs = xs"
      using Cons.prems unfolding delete_where_def by (intro filter_True) (auto simp: rev_image_eqI)
    then show ?thesis using True by (simp add: delete_where_def count_where_def)
  qed (use Cons in \<open>auto simp: delete_where_def count_where_def\<close>)
qed (simp add: count_where_def)

text \<open>
  Removing a passkey only removes one of the caller's own, and the account keeps at least one way to
  sign in.
\<close>

theorem passkey_removal_keeps_a_sign_in_method:
  assumes "passkeys_delete actor i e w = (Inr (), w')" and "distinct (map pk_id (passkeys (db w)))"
  shows "(\<exists>p \<in> set (passkeys (db w)). pk_id p = i \<and> pk_user_id p = au_id actor)
     \<and> (\<exists>n \<ge> 1. sign_in_methods (au_id actor) (db w') = Inr (n, db w'))"
proof -
  let ?q = "\<lambda>p. pk_id p = i \<and> pk_user_id p = au_id actor"
  let ?mine = "\<lambda>p. pk_user_id p = au_id actor"
  from assms(1) obtain n where own: "list_ex (\<lambda>p. pk_id p = i) (passkeys_of (au_id actor) (db w))"
    and n: "sign_in_methods (au_id actor) (db w) = Inr (n, db w)" "n \<ge> 2"
    and db: "db w' = (db w)\<lparr>passkeys := delete_where ?q (passkeys (db w))\<rparr>"
    by (auto simp: passkeys_delete_def list_by_user_def users_sign_in_method_count_def
        users_repo_sign_in_method_count_def passkeys_repo_delete_def passkey_delete_def Let_def
        sign_in_methods_def split: if_splits option.splits)
  have "count_where ?mine (passkeys (db w)) \<le> Suc (count_where ?mine (delete_where ?q (passkeys (db w))))"
    using count_where_delete_one [OF assms(2)] .
  with n have "\<exists>n \<ge> 1. sign_in_methods (au_id actor) (db w') = Inr (n, db w')"
    by (auto simp: sign_in_methods_def db split: option.splits)
  with own show ?thesis by (auto simp: list_ex_iff passkeys_of_def)
qed

theorem passkey_removal_keeps_a_sign_in_method_witness:
  "\<exists>w' n. passkeys_delete (auth_user_session 2 User) 7 sample_env (world_of ceremony_db) = (Inr (), w')
     \<and> n \<ge> 1 \<and> sign_in_methods 2 (db w') = Inr (n, db w')"
proof -
  have "fst (passkeys_delete (auth_user_session 2 User) 7 sample_env (world_of ceremony_db)) = Inr ()"
    by code_simp
  note run = runs_to [OF this]
  have "distinct (map pk_id (passkeys (db (world_of ceremony_db))))"
    by (simp add: world_of_def ceremony_db_def)
  from run passkey_removal_keeps_a_sign_in_method [OF run this] show ?thesis
    by (auto simp: auth_user_session_def)
qed

end
