(* ===== verification/OAuthProperties.thy ===== *)
theory OAuthProperties
  imports AuthFacts
begin

text \<open>
  Signing in through a provider: where the browser may be sent, which account a profile opens, and what
  unlinking leaves.
\<close>

section \<open>Redirects\<close>


section \<open>Which account a profile opens\<close>

lemma insert_grant_stores:
  "insert_grant h i t e w = (Inr x, w') \<Longrightarrow> \<exists>g \<in> set (login_grants (db w')). gr_code_hash g = h \<and> gr_user_id g = i"
  by (auto simp: insert_grant_def grant_insert_def split: if_splits)

definition grants_sign_in :: "env \<Rightarrow> world \<Rightarrow> callback_outcome \<Rightarrow> str \<Rightarrow> uuid \<Rightarrow> bool" where
  "grants_sign_in e w out redirect i \<longleftrightarrow> (\<exists>code. out = LoggedIn code redirect
     \<and> (\<exists>g \<in> set (login_grants (db w)). gr_code_hash g = secret_hash e code \<and> gr_user_id g = i))"

lemma grant_for_InrE [elim!]:
  assumes "grant_for i redirect e w = (Inr out, w')"
  obtains u where "grants_sign_in e w' out redirect i"
    and "select_by_id i (db w) = Some u" and "usr_is_active u"
proof -
  have "grants_sign_in e w' out redirect i \<and> (\<exists>u. select_by_id i (db w) = Some u \<and> usr_is_active u)"
    using assms
    by (auto simp: grant_for_def users_find_by_id_def users_repo_find_by_id_def grants_sign_in_def
        dest!: insert_grant_stores split: if_splits) blast+
  with that show ?thesis by blast
qed

lemma create_passwordless_InrE [elim!]:
  assumes "create_passwordless m n v e w = (Inr u, w')"
  obtains "\<forall>v \<in> set (users (db w)). usr_id v \<noteq> usr_id u"
  using assms
  by (auto simp: create_passwordless_def users_repo_create_def users_insert_def map_write_error_def Let_def
      split: if_splits prod.splits sum.splits app_error.splits sqlx_error.splits)

text \<open>When a profile may open the account \<open>i\<close>: it is linked, or the provider vouches for its address.\<close>

definition linked_to :: "provider \<Rightarrow> provider_profile \<Rightarrow> db \<Rightarrow> uuid \<Rightarrow> bool" where
  "linked_to p profile d i \<longleftrightarrow> (\<exists>idn \<in> set (oauth_identities d). oid_provider idn = p
     \<and> oid_provider_user_id idn = pp_provider_user_id profile \<and> oid_user_id idn = i)"

definition vouched_for :: "provider_profile \<Rightarrow> db \<Rightarrow> uuid \<Rightarrow> bool" where
  "vouched_for profile d i \<longleftrightarrow> pp_email_verified profile \<and> (\<exists>m. pp_email profile = Some m
     \<and> (case select_by_email (normalize_email m) d of
          Some u \<Rightarrow> usr_id u = i \<and> usr_is_active u \<and> is_email_verified u
        | None \<Rightarrow> \<forall>v \<in> set (users d). usr_id v \<noteq> i))"

lemma resolve_known:
  assumes "resolve p profile None redirect e w = (Inr out, w')"
    and "List.find (\<lambda>i. oid_provider i = p \<and> oid_provider_user_id i = pp_provider_user_id profile)
           (oauth_identities (db w)) = Some idn"
  shows "grants_sign_in e w' out redirect (oid_user_id idn) \<and> linked_to p profile (db w) (oid_user_id idn)"
proof
  show "grants_sign_in e w' out redirect (oid_user_id idn)"
    using assms by (auto simp: resolve_def find_identity_def)
  show "linked_to p profile (db w) (oid_user_id idn)"
    using assms(2) by (auto simp: linked_to_def dest!: find_SomeD)
qed

lemma resolve_unknown:
  assumes "resolve p profile None redirect e w = (Inr out, w')"
    and "List.find (\<lambda>i. oid_provider i = p \<and> oid_provider_user_id i = pp_provider_user_id profile)
           (oauth_identities (db w)) = None"
  obtains i where "grants_sign_in e w' out redirect i" and "vouched_for profile (db w) i"
proof -
  from assms obtain m u w1 w2 w3 where m: "pp_email profile = Some m" "pp_email_verified profile"
    and u: "(case select_by_email (normalize_email m) (db w) of
        Some existing \<Rightarrow> existing = u \<and> usr_is_active u \<and> is_email_verified u
      | None \<Rightarrow> \<forall>v \<in> set (users (db w)). usr_id v \<noteq> usr_id u)"
    and g: "grant_for (usr_id u) redirect e w3 = (Inr out, w')"
    by (auto simp: resolve_def find_identity_def oauth_link_def Let_def
        split: option.splits if_splits del: grant_for_InrE)
  from u m have "vouched_for profile (db w) (usr_id u)"
    by (auto simp: vouched_for_def split: option.splits)
  with g that show ?thesis by blast
qed

text \<open>
  C27: a provider sign-in opens an account only when that provider identity is already linked to it, or
  when the provider vouches for the email address and that address belongs to an active account that
  verified it too, or to no account at all, in which case the account is new.
\<close>

theorem provider_sign_in_sound:
  assumes "resolve p profile None redirect e w = (Inr out, w')"
  shows "\<exists>i. grants_sign_in e w' out redirect i \<and> (linked_to p profile (db w) i \<or> vouched_for profile (db w) i)"
  using resolve_known [OF assms] resolve_unknown [OF assms] by (metis not_None_eq)

definition github_profile_of_bob :: provider_profile where
  "github_profile_of_bob = \<lparr> pp_provider_user_id = ''77'', pp_email = Some ''Bob@x'', pp_email_verified = True,
     pp_name = None \<rparr>"

definition linked_db :: db where
  "linked_db = sample_db\<lparr>oauth_identities := [\<lparr> oid_id = 5, oid_user_id = 2, oid_provider = Github,
     oid_provider_user_id = ''77'', oid_email = None, oid_created_at = 0 \<rparr>]\<rparr>"

theorem provider_sign_in_sound_witness:
  "\<exists>out w' i. resolve Github github_profile_of_bob None ''/'' sample_env (world_of linked_db) = (Inr out, w')
     \<and> grants_sign_in sample_env w' out ''/'' i"
proof -
  have "fst (resolve Github github_profile_of_bob None ''/'' sample_env (world_of linked_db))
      = Inr (LoggedIn [char_of (66 :: nat)] ''/'')"
    by (simp add: resolve_def find_identity_def grant_for_def users_find_by_id_def users_repo_find_by_id_def
        select_by_id_def user_live_def generate_token_def insert_grant_def grant_insert_def grant_cleanup_def
        github_profile_of_bob_def linked_db_def Let_def db_stmt_def run_simps sample_defs)
  then obtain w' where run: "resolve Github github_profile_of_bob None ''/'' sample_env (world_of linked_db)
      = (Inr (LoggedIn [char_of (66 :: nat)] ''/''), w')"
    using runs_to by metis
  from run provider_sign_in_sound [OF run] show ?thesis by blast
qed

section \<open>Unlinking\<close>

definition two_githubs :: db where
  "two_githubs = sample_db\<lparr>users := [ada, bob\<lparr>usr_password_set := False\<rparr>],
     oauth_identities := map (\<lambda>n. \<lparr> oid_id = n, oid_user_id = 2, oid_provider = Github,
        oid_provider_user_id = nat_to_string n, oid_email = None, oid_created_at = int n \<rparr>) [5, 6]\<rparr>"

text \<open>
  Unlinking counts identities but deletes by provider: an account without a password that linked two
  identities of one provider has two sign-in methods, passes the check, and is left with none.
\<close>

theorem unlink_can_remove_every_sign_in_method:
  "\<exists>w'. oauth_unlink (auth_user_session 2 User) Github sample_env (world_of two_githubs) = (Inr (), w')
     \<and> sign_in_methods 2 (db w') = Inr (0, db w')"
  by (simp add: oauth_unlink_def list_identities_def users_sign_in_method_count_def
      users_repo_sign_in_method_count_def sign_in_methods_def delete_identity_def identity_delete_def
      two_githubs_def db_stmt_def Let_def run_simps sample_defs auth_user_session_def)

end
