(* ===== verification/ContentProperties.thy ===== *)
theory ContentProperties
  imports AuthFacts
begin

text \<open>
  Uploaded files, listings, rate limits and error answers.
\<close>

section \<open>Files\<close>

lemma storage_put_success:
  assumes "storage_put key contents ct e w = (Inr (), w')"
  shows "objects w' key = Some contents" and "is_valid_key key" and "db w' = db w"
  using assms
  by (auto simp: storage_defs run_simps Let_def split: if_splits storage_backend.splits)

lemma find_snoc: "\<forall>x \<in> set xs. \<not> p x \<Longrightarrow> p y \<Longrightarrow> List.find p (xs @ [y]) = Some y"
  by (induction xs) auto

lemma media_upload_InrE:
  assumes "media_upload actor upload name e w = (Inr r, w')"
  obtains m where "r = media_response_from m" and "media (db w') = media (db w) @ [m]"
    and "\<forall>j \<in> set (media (db w)). med_id j \<noteq> med_id m" and "med_owner_id m = au_id actor"
    and "objects w' (med_storage_key m) = Some upload" and "is_valid_key (med_storage_key m)"
    and "med_content_type m \<in> set (allowed_content_types (conf e))"
    and "length upload \<le> max_upload_bytes (conf e)" and "upload \<noteq> []"
proof -
  from assms obtain ct ext u w1 m where put: "storage_put (MEDIA_KEY_PREFIX @ uuid_simple u @ ''.'' @ ext) upload ct e
      (w\<lparr>tick := Suc (tick w)\<rparr>) = (Inr (), w1)"
    and ins: "media_repo_insert (au_id actor) (MEDIA_KEY_PREFIX @ uuid_simple u @ ''.'' @ ext) ct
      (int (length upload)) name e w1 = (Inr m, w')"
    and r: "r = media_response_from m" and ok: "ct \<in> set (allowed_content_types (conf e))"
      "length upload \<le> max_upload_bytes (conf e)" "upload \<noteq> []"
    by (auto simp: media_upload_def Let_def not_less split: if_splits sum.splits)
  from ins have "media (db w') = media (db w1) @ [m]" "\<forall>j \<in> set (media (db w1)). med_id j \<noteq> med_id m"
    "med_owner_id m = au_id actor" "med_storage_key m = MEDIA_KEY_PREFIX @ uuid_simple u @ ''.'' @ ext"
    "med_content_type m = ct" "objects w' = objects w1"
    by (auto simp: media_repo_insert_def media_insert_def split: if_splits del: media_insert_InrE)
  with r ok storage_put_success [OF put] show ?thesis using that by simp
qed

lemma uploaded_key_valid: "is_valid_key (MEDIA_KEY_PREFIX @ uuid_simple u @ ''.png'')"
proof -
  let ?name = "uuid_simple u @ ''.png''"
  have hex: "is_lower_hex c" if "c \<in> set (uuid_simple u)" for c
    using uuid_simple_hex [of u] that by (simp add: list_all_iff)
  have seg: "c \<noteq> CHR ''/'' \<and> (is_ascii_alphanumeric c \<or> c = CHR ''.'')" if "c \<in> set ?name" for c
    using that hex is_lower_hex_safe by (auto simp: is_ascii_alphanumeric_def ascii_code_def)
  have "split_on (CHR ''/'') (''media'' @ CHR ''/'' # ?name) = [''media'', ?name]"
  proof -
    have "CHR ''/'' \<notin> set ''media''" by simp
    moreover have "CHR ''/'' \<notin> set ?name" using seg by blast
    ultimately show ?thesis by (metis split_on_append split_on_no_sep)
  qed
  moreover have "valid_segment ?name"
    using seg length_uuid_simple [of u] by (auto simp: valid_segment_def list_all_iff)
  moreover have "valid_segment ''media''"
    by (simp add: valid_segment_def is_ascii_alphanumeric_def ascii_code_def)
  ultimately show ?thesis by (simp add: is_valid_key_def MEDIA_KEY_PREFIX_def)
qed

text \<open>
  C29: an accepted upload comes back byte for byte: it was non-empty, within the configured size and of
  an allowed content type, and downloading it as its owner returns exactly the bytes uploaded.
\<close>

theorem upload_download_round_trip:
  assumes "media_upload actor upload name e w = (Inr r, w1)"
    and "media (db w2) = media (db w1)" and "objects w2 = objects w1" and "\<forall>n. db_ok e n" and "\<forall>n. io_ok e n"
  shows "\<exists>m. fst (media_content actor (mr_id r) e w2) = Inr \<lparr> mc_media = m, mc_bytes = upload \<rparr>
     \<and> med_content_type m \<in> set (allowed_content_types (conf e)) \<and> upload \<noteq> []
     \<and> length upload \<le> max_upload_bytes (conf e)"
proof -
  from assms(1) obtain m where m: "r = media_response_from m" "media (db w1) = media (db w) @ [m]"
    "\<forall>j \<in> set (media (db w)). med_id j \<noteq> med_id m" "med_owner_id m = au_id actor"
    "objects w1 (med_storage_key m) = Some upload" "is_valid_key (med_storage_key m)"
    "med_content_type m \<in> set (allowed_content_types (conf e))" "length upload \<le> max_upload_bytes (conf e)"
    "upload \<noteq> []"
    by (rule media_upload_InrE)
  have "List.find (\<lambda>j. med_id j = med_id m) (media (db w2)) = Some m"
    using m(2,3) assms(2) find_snoc [of "media (db w)"] by simp
  with m assms(3-5) show ?thesis
    by (auto simp: media_content_def find_accessible_def media_repo_find_by_id_def storage_get_def
        media_response_from_def Let_def run_simps)
qed

theorem upload_download_round_trip_witness:
  "\<exists>r w1 m. media_upload (auth_user_session 2 User) [1, 2] None sample_env (world_of sample_db) = (Inr r, w1)
     \<and> fst (media_content (auth_user_session 2 User) (mr_id r) sample_env w1) = Inr \<lparr> mc_media = m, mc_bytes = [1, 2] \<rparr>"
proof -
  have "\<exists>r. fst (media_upload (auth_user_session 2 User) [1, 2] None sample_env (world_of sample_db)) = Inr r"
    by (auto simp: media_upload_def storage_put_def fs_write_def fs_rename_def io_def media_repo_insert_def
        media_insert_def db_stmt_def auth_user_session_def uploaded_key_valid Let_def run_simps sample_defs)
  then obtain r w1 where run: "media_upload (auth_user_session 2 User) [1, 2] None sample_env (world_of sample_db) = (Inr r, w1)"
    using runs_to by metis
  have "\<forall>n. db_ok sample_env n" and "\<forall>n. io_ok sample_env n" by (simp_all add: sample_env_def)
  with upload_download_round_trip [OF run refl refl] run show ?thesis by blast
qed

text \<open>
  C30: a file is read, described and deleted only by its owner or by an administrator; to anyone else it
  does not exist.
\<close>

theorem media_private_to_owner:
  assumes "m \<in> set (media (db w))" and "distinct (map med_id (media (db w)))"
    and "med_owner_id m \<noteq> au_id actor" and "au_role actor \<noteq> Admin" and "\<forall>n. db_ok e n"
  shows "fst (media_metadata actor (med_id m) e w) = Inl NotFound
     \<and> fst (media_content actor (med_id m) e w) = Inl NotFound
     \<and> fst (media_delete actor (med_id m) e w) = Inl NotFound
     \<and> db (snd (media_delete actor (med_id m) e w)) = db w"
proof -
  have "List.find (\<lambda>j. med_id j = med_id m) (media (db w)) = Some m"
    using assms(1,2) by (intro find_distinct_key [of med_id]) auto
  then have "find_accessible actor (med_id m) e w = (Inl NotFound, w\<lparr>tick := Suc (tick w)\<rparr>)"
    using assms(3-5)
    by (simp add: find_accessible_def media_repo_find_by_id_def is_admin_def run_simps)
  then show ?thesis by (simp add: media_metadata_def media_content_def media_delete_def run_simps)
qed

theorem media_private_to_owner_witness:
  "fst (media_content (auth_user_session 2 User) 5 sample_env (world_of (sample_db\<lparr>media :=
       [\<lparr> med_id = 5, med_owner_id = 1, med_storage_key = ''media/a.png'', med_content_type = ''image/png'',
          med_size_bytes = 2, med_original_filename = None, med_created_at = 0 \<rparr>]\<rparr>))) = Inl NotFound"
proof -
  let ?m = "\<lparr> med_id = 5, med_owner_id = 1, med_storage_key = ''media/a.png'', med_content_type = ''image/png'',
          med_size_bytes = 2, med_original_filename = None, med_created_at = 0 \<rparr>"
  have "\<forall>n. db_ok sample_env n" by (simp add: sample_env_def)
  with media_private_to_owner [of ?m "world_of (sample_db\<lparr>media := [?m]\<rparr>)" "auth_user_session 2 User" sample_env]
  show ?thesis by (simp add: world_of_def auth_user_session_def)
qed



section \<open>Limits\<close>



text \<open>
  Behind a trusted proxy only the address the proxy appended counts for the limit: a client cannot
  choose its own by sending the header itself.
\<close>

theorem forwarded_address_cannot_be_spoofed:
  assumes "header_get hs ''x-forwarded-for'' = Some (spoofed @ CHR '','' # hop)"
    and "CHR '','' \<notin> set hop" and "parse (trim hop) = Some ip"
  shows "client_ip parse hs peer True = ip"
  using assms by (rule client_ip_last_hop)

theorem forwarded_address_cannot_be_spoofed_witness:
  "client_ip Some [(''x-forwarded-for'', ''9.9.9.9, 10.0.0.7'')] ''10.0.0.1'' True = ''10.0.0.7''"
proof -
  have "header_get [(''x-forwarded-for'', ''9.9.9.9, 10.0.0.7'')] ''x-forwarded-for''
      = Some (''9.9.9.9'' @ CHR '','' # '' 10.0.0.7'')" and "trim '' 10.0.0.7'' = ''10.0.0.7''"
    by code_simp+
  then show ?thesis by (intro forwarded_address_cannot_be_spoofed) simp_all
qed

section \<open>Listings\<close>

text \<open>
  Paging loses and repeats nothing: with the page size the client asked for (clamped to 1 to 100),
  the pages one after the other are the whole listing, and no row offset leaves the 64-bit range.
\<close>

theorem pages_cover_the_listing:
  assumes "n < 2 ^ 32" and "length rows \<le> n * nat (limit (pagination_new None per))"
  shows "concat (map (\<lambda>k. let p = pagination_new (Some (word_of_nat k)) per
                          in sql_page (limit p) (offset p) rows) [1..<Suc n]) = rows
     \<and> (\<forall>pg. 0 \<le> offset (pagination_new pg per) \<and> offset (pagination_new pg per) < 2 ^ 63)"
  using pages_tile [OF assms(1), of per rows] assms(2) offset_fits_i64 by auto

theorem pages_cover_the_listing_witness:
  "concat (map (\<lambda>k. let p = pagination_new (Some (word_of_nat k)) (Some 2)
                    in sql_page (limit p) (offset p) [10, 20, 30 :: nat]) [1..<Suc 2]) = [10, 20, 30]"
proof -
  have "limit (pagination_new None (Some 2)) = 2"
    by (simp add: limit_def pagination_new_def unwrap_or_def clamp_word_def MAX_PER_PAGE_def)
  with pages_cover_the_listing [of 2 "[10, 20, 30 :: nat]" "Some 2"] show ?thesis by simp
qed

text \<open>
  Searching users finds exactly the live accounts whose address or display name contains the text
  typed, wildcard characters and backslashes in it standing for themselves.
\<close>

theorem search_is_substring_match:
  assumes "users_repo_list collate f e w = (Inr (rows, n), w')" and "uf_search f = Some q"
  shows "n = length (filter (\<lambda>u. user_live u \<and> (sublist q (usr_email u)
       \<or> (case usr_display_name u of None \<Rightarrow> False | Some m \<Rightarrow> sublist q m))) (users (db w)))
     \<and> (\<forall>u \<in> set rows. u \<in> set (users (db w)) \<and> user_live u \<and> (sublist q (usr_email u)
       \<or> (case usr_display_name u of None \<Rightarrow> False | Some m \<Rightarrow> sublist q m)))"
proof -
  have "matches_search (Some (''%'' @ escape_like q @ ''%'')) u \<longleftrightarrow> sublist q (usr_email u)
      \<or> (case usr_display_name u of None \<Rightarrow> False | Some m \<Rightarrow> sublist q m)" for u
    using sql_like_search by (simp add: matches_search_def split: option.split)
  moreover have "set (order_users collate c dir us) = set us" for c dir us
    by (simp add: order_users_def split: user_sort.split)
  ultimately show ?thesis
    using assms
    by (auto simp: users_repo_list_def Let_def sql_page_def dest!: in_set_takeD in_set_dropD)
qed

theorem search_is_substring_match_witness:
  "\<exists>rows w'. users_repo_list (map of_char) \<lparr> uf_search = Some ''a_'', uf_sort = SortEmail, uf_order = Asc,
       uf_limit = 20, uf_offset = 0 \<rparr> sample_env (world_of sample_db) = (Inr (rows, 0), w')"
proof -
  let ?f = "\<lparr> uf_search = Some ''a_'', uf_sort = SortEmail, uf_order = Asc, uf_limit = 20, uf_offset = 0 \<rparr>"
  have "\<exists>r. fst (users_repo_list (map of_char) ?f sample_env (world_of sample_db)) = Inr r"
    by (simp add: users_repo_list_def Let_def run_simps sample_env_def)
  then obtain rows n w' where run: "users_repo_list (map of_char) ?f sample_env (world_of sample_db) = (Inr (rows, n), w')"
    by (metis runs_to surj_pair)
  have "\<not> sublist ''a_'' ''ada@x''" and "\<not> sublist ''a_'' ''bob@x''" by code_simp+
  then have "n = 0"
    using search_is_substring_match [OF run] by (simp add: sample_defs)
  with run show ?thesis by blast
qed

text \<open>
  Flattening a transparent pixel onto white is exact and never wraps: each 8-bit channel is the
  blend computed in unbounded arithmetic.
\<close>

theorem flattening_is_exact:
  "unat (over_white alpha channel) = (unat channel * unat alpha + 255 * (255 - unat alpha)) div 255
   \<and> over_white 255 channel = channel \<and> over_white 0 channel = 255"
proof -
  let ?b = "over_white alpha channel" and ?w = "over_white 0 channel" and ?o = "over_white 255 channel"
  have "unat ?w = 255" and "unat ?o = unat channel"
    using over_white_exact [of 0 channel] over_white_exact [of 255 channel] by simp_all
  then have "?w = 255" and "?o = channel"
    by (simp_all add: word_unat_eq_iff)
  with over_white_exact show ?thesis by simp
qed

section \<open>Error answers\<close>

text \<open>
  Every error answers with a status between 400 and 599, and one with a 5xx status tells the client
  nothing of its cause.
\<close>

theorem errors_hide_internals:
  "400 \<le> fst (error_into_response x) \<and> fst (error_into_response x) < 600
   \<and> (fst (error_into_response x) < 500 \<or> error_into_response x
       = (500, \<lparr> ed_code = ''internal_error'', ed_message = ''Something went wrong'', ed_details = None \<rparr>))"
  by (cases x) (simp_all add: error_into_response_def)

end
