(* ===== verification/BackgroundProperties.thy ===== *)
theory BackgroundProperties
  imports AuthFacts
begin

text \<open>
  The work beside the requests: bounded mail delivery and an outbox that loses nothing, jobs that are
  claimed once and retried a bounded number of times, and the recurring cleanup.
\<close>

section \<open>Mail delivery\<close>

lemma deliver_loop_attempts:
  assumes "mail_enabled (conf e)" and "build_message e mail = Inr ()"
    and "deliver_loop tried mail e w = (r, w')"
  shows "\<exists>k. k + tried \<le> max tried 2
     \<and> (\<forall>j < k. \<exists>reason. ml_smtp_send (mailer e) (tick w + 2 * j) mail = Inl (False, reason))
     \<and> (case r of
          Sent \<Rightarrow> ml_smtp_send (mailer e) (tick w + 2 * k) mail = Inr () \<and> delivered w' = delivered w @ [mail]
        | GaveUp \<Rightarrow> (\<exists>permanent reason. ml_smtp_send (mailer e) (tick w + 2 * k) mail = Inl (permanent, reason)
            \<and> (permanent \<or> k + tried \<ge> 2)) \<and> delivered w' = delivered w)"
  using assms
proof (induction tried mail e w arbitrary: r w' rule: deliver_loop.induct)
  case (1 tried mail e w)
  show ?case
  proof (cases "ml_smtp_send (mailer e) (tick w) mail")
    case (Inr x)
    then show ?thesis
      using 1(2-4) by (intro exI [of _ 0]) (auto simp: deliver_loop.simps [of tried] transport_send_def)
  next
    case (Inl pr)
    obtain permanent reason where pr: "pr = (permanent, reason)" by fastforce
    let ?w1 = "w\<lparr>tick := Suc (tick w)\<rparr>"
    have send: "transport_send mail e w = (Inl (Delivery permanent reason), ?w1)"
      using 1(2,3) Inl pr by (simp add: transport_send_def)
    show ?thesis
    proof (cases "\<not> permanent \<and> tried < 2")
      case False
      then show ?thesis
        using 1(4) send Inl pr
        by (intro exI [of _ 0]) (auto simp: deliver_loop.simps [of tried] RETRY_DELAYS_def)
    next
      case True
      let ?w2 = "sleep (RETRY_DELAYS ! tried) ?w1"
      from True have next_try: "deliver_loop (Suc tried) mail e ?w2 = (r, w')"
        using 1(4) send by (simp add: deliver_loop.simps [of tried] RETRY_DELAYS_def)
      from 1(1) [OF send [symmetric], of "Delivery permanent reason", simplified, OF _ 1(2,3) next_try] True
      obtain k where k: "k + Suc tried \<le> max (Suc tried) 2"
        "\<forall>j<k. \<exists>reason. ml_smtp_send (mailer e) (tick ?w2 + 2 * j) mail = Inl (False, reason)"
        "case r of
           Sent \<Rightarrow> ml_smtp_send (mailer e) (tick ?w2 + 2 * k) mail = Inr () \<and> delivered w' = delivered ?w2 @ [mail]
         | GaveUp \<Rightarrow> (\<exists>permanent reason. ml_smtp_send (mailer e) (tick ?w2 + 2 * k) mail = Inl (permanent, reason)
             \<and> (permanent \<or> k + Suc tried \<ge> 2)) \<and> delivered w' = delivered ?w2"
        by (auto simp: RETRY_DELAYS_def)
      have early: "\<exists>reason. ml_smtp_send (mailer e) (tick w + 2 * j) mail = Inl (False, reason)" if "j < Suc k" for j
        using that k(2) Inl pr True by (cases j) (auto simp: sleep_def)
      show ?thesis
        using k(1,3) early True by (intro exI [of _ "Suc k"]) (auto simp: sleep_def split: delivery_outcome.splits)
    qed
  qed
qed

text \<open>
  Delivering a mail ends after at most three attempts. Every attempt but the last failed for a passing
  reason; the last one was acknowledged, or failed for good, or was the third.
\<close>

theorem delivery_attempts_bounded:
  assumes "mail_enabled (conf e)" and "build_message e mail = Inr ()"
  shows "\<exists>r w'. deliver mail e w = (Inr r, w')
     \<and> (\<exists>k \<le> 2. (\<forall>j < k. \<exists>reason. ml_smtp_send (mailer e) (tick w + 2 * j) mail = Inl (False, reason))
     \<and> (case r of
          Sent \<Rightarrow> ml_smtp_send (mailer e) (tick w + 2 * k) mail = Inr () \<and> delivered w' = delivered w @ [mail]
        | GaveUp \<Rightarrow> (\<exists>permanent reason. ml_smtp_send (mailer e) (tick w + 2 * k) mail = Inl (permanent, reason)
            \<and> (permanent \<or> k = 2)) \<and> delivered w' = delivered w))"
proof -
  obtain r w' where run: "deliver_loop 0 mail e w = (r, w')" by fastforce
  then have "deliver mail e w = (Inr r, w')" by (simp add: deliver_def)
  with deliver_loop_attempts [OF assms run] show ?thesis
    by (cases r) (simp_all, (metis le_antisym)+)
qed

definition greeting :: outgoing_mail where
  "greeting = \<lparr> om_to = ''bob@x'', om_subject = ''Hi'', om_text = ''t'', om_html = ''h'' \<rparr>"

text \<open>A mail server that refuses everything, for the moment.\<close>

definition refusing_env :: env where
  "refusing_env = sample_env\<lparr>mailer := sample_mailer\<lparr>ml_smtp_send := (\<lambda>_ _. Inl (False, ''later''))\<rparr>\<rparr>"

theorem delivery_attempts_bounded_witness:
  "\<exists>w'. deliver greeting refusing_env (world_of sample_db) = (Inr GaveUp, w') \<and> delivered w' = []"
proof -
  have "mail_enabled (conf refusing_env)" and "build_message refusing_env greeting = Inr ()"
    by code_simp+
  note bounded = delivery_attempts_bounded [OF this, of "world_of sample_db"]
  have "fst (deliver greeting refusing_env (world_of sample_db)) = Inr GaveUp" by code_simp
  with bounded show ?thesis by (auto simp: world_of_def)
qed

section \<open>The outbox\<close>

lemma transport_send_delivered:
  assumes "mail_enabled (conf e)" and "transport_send mail e w = (v, w')"
  shows "delivered w' = delivered w @ (case v of Inl _ \<Rightarrow> [] | Inr _ \<Rightarrow> [mail])"
proof (cases "build_message e mail")
  case (Inr x)
  then show ?thesis
    using assms by (cases "ml_smtp_send (mailer e) (tick w) mail") (auto simp: transport_send_def split: sum.splits)
qed (use assms in \<open>auto simp: transport_send_def split: sum.splits\<close>)

lemma deliver_loop_delivered:
  assumes "mail_enabled (conf e)" and "deliver_loop tried mail e w = (r, w')"
  shows "delivered w' = delivered w @ (if r = Sent then [mail] else [])"
  using assms
proof (induction tried mail e w arbitrary: r w' rule: deliver_loop.induct)
  case (1 tried mail e w)
  obtain v w1 where send: "transport_send mail e w = (v, w1)" by fastforce
  note w1 = transport_send_delivered [OF 1(2) send]
  show ?case
  proof (cases v)
    case (Inl x)
    show ?thesis
    proof (cases "is_retryable x \<and> tried < length RETRY_DELAYS")
      case True
      then have "deliver_loop (Suc tried) mail e (sleep (RETRY_DELAYS ! tried) w1) = (r, w')"
        using 1(3) send Inl by (simp add: deliver_loop.simps [of tried])
      from 1(1) [OF send [symmetric] Inl True 1(2) this] show ?thesis using w1 Inl by (simp add: sleep_def)
    next
      case False
      then show ?thesis using 1(3) send Inl w1 by (auto simp: deliver_loop.simps [of tried])
    qed
  next
    case (Inr x)
    then show ?thesis using 1(3) send w1 by (auto simp: deliver_loop.simps [of tried])
  qed
qed

lemma deliver_run:
  assumes "deliver mail e w = (v, w')"
  obtains r where "v = Inr r" and "db w' = db w"
    and "mail_enabled (conf e) \<longrightarrow> delivered w' = delivered w @ (if r = Sent then [mail] else [])"
proof -
  obtain r w1 where run: "deliver_loop 0 mail e w = (r, w1)" by fastforce
  then have "v = Inr r" and "w' = w1" using assms by (simp_all add: deliver_def)
  with that deliver_loop_delivered [of e 0 mail w r w1] run deliver_loop_db [of 0 mail e w]
  show thesis by auto
qed

text \<open>The bookkeeping after a delivery: done, or left undone when the database does not answer.\<close>

lemma finish_cases:
  assumes "finish i r e w = (v, w')"
  obtains (undone) "v = Inr ()" and "delivered w' = delivered w" and "db w' = db w" and "\<exists>n. \<not> db_ok e n"
  | (sent) "v = Inr ()" and "delivered w' = delivered w" and "r = Sent" and "db w' = snd (outbox_delete i (db w))"
  | (gave_up) now where "v = Inr ()" and "delivered w' = delivered w" and "r = GaveUp"
      and "db w' = snd (outbox_kill i now (db w))"
  using assms
  by (cases r) (auto simp: finish_def outbox_remove_def mark_dead_def run_simps split: if_splits; blast)+

lemma finish_keeps_unsent:
  assumes "finish i GaveUp e w = (v, w')" and "m \<in> set (outbound_mail (db w))"
  shows "\<exists>m' \<in> set (outbound_mail (db w')). ob_id m' = ob_id m \<and> ob_payload m' = ob_payload m"
  using assms(1)
proof (cases rule: finish_cases)
  case (gave_up now)
  let ?f = "\<lambda>m. m\<lparr>ob_status := MailDead, ob_updated_at := now\<rparr>"
  let ?m = "if ob_id m = i then ?f m else m"
  have "?m \<in> set (outbound_mail (db w'))"
    unfolding gave_up(4) outbox_kill_def using in_update_whereI [OF assms(2) refl, of "\<lambda>m. ob_id m = i" ?f] by simp
  then show ?thesis by (rule bexI [rotated]) simp
qed (use assms(2) in auto)

text \<open>
  C35: a mail handed to delivery is not lost. If the database takes it into the outbox, then when the task
  ends the mail server has acknowledged it, or it is still in the outbox: pending, to be sent again at the
  next start, or dead, to be looked at.
\<close>

theorem mail_never_lost:
  assumes "delivery_task mail e w = (v, w')" and "mail_enabled (conf e)"
    and "db_ok e (tick w + 2)" and "\<forall>m \<in> set (outbound_mail (db w)). ob_id m \<noteq> new_uuid e (tick w)"
  shows "delivered w' = delivered w @ [mail]
     \<or> (\<exists>m \<in> set (outbound_mail (db w')). ob_id m = new_uuid e (tick w) \<and> ob_payload m = ml_mail_to_json (mailer e) mail)"
proof -
  let ?i = "new_uuid e (tick w)"
  let ?m = "\<lparr> ob_id = ?i, ob_payload = ml_mail_to_json (mailer e) mail, ob_status = MailPending,
     ob_created_at = clock e (Suc (tick w)), ob_updated_at = clock e (Suc (tick w)) \<rparr>"
  let ?w1 = "w\<lparr>tick := tick w + 3, db := (db w)\<lparr>outbound_mail := outbound_mail (db w) @ [?m]\<rparr>\<rparr>"
  have "outbox_insert mail e w = (Inr ?i, ?w1)"
    using assms(3,4)
    by (auto simp: outbox_insert_def outbox_insert_row_def db_stmt_def exists_where_iff run_simps numeral_2_eq_2 numeral_3_eq_3)
  moreover obtain u w2 where del: "deliver mail e ?w1 = (u, w2)" by fastforce
  moreover from del obtain r where r: "u = Inr r" "db w2 = db ?w1"
    "mail_enabled (conf e) \<longrightarrow> delivered w2 = delivered ?w1 @ (if r = Sent then [mail] else [])"
    by (rule deliver_run)
  ultimately have fin: "finish ?i r e w2 = (v, w')"
    using assms(1) by (simp add: delivery_task_def run_simps)
  show ?thesis
  proof (cases r)
    case Sent
    with fin r(3) assms(2) show ?thesis by (auto elim: finish_cases)
  next
    case GaveUp
    with finish_keeps_unsent [of ?i e w2 v w' ?m] fin r(2) show ?thesis by auto
  qed
qed

theorem mail_never_lost_witness:
  "\<exists>w'. delivery_task greeting refusing_env (world_of sample_db) = (Inr (), w')
     \<and> (\<exists>m \<in> set (outbound_mail (db w')). ob_payload m = ml_mail_to_json sample_mailer greeting)"
proof -
  have "fst (delivery_task greeting refusing_env (world_of sample_db)) = Inr ()" by code_simp
  note run = runs_to [OF this]
  have "delivered (snd (delivery_task greeting refusing_env (world_of sample_db))) = []" by code_simp
  moreover have "mail_enabled (conf refusing_env)" and "db_ok refusing_env (tick (world_of sample_db) + 2)"
    and "\<forall>m \<in> set (outbound_mail (db (world_of sample_db))). ob_id m \<noteq> new_uuid refusing_env (tick (world_of sample_db))"
    and "mailer refusing_env = sample_mailer\<lparr>ml_smtp_send := (\<lambda>_ _. Inl (False, ''later''))\<rparr>"
    by (simp_all add: refusing_env_def sample_defs)
  ultimately show ?thesis using mail_never_lost [OF run] run by auto
qed

text \<open>What one resend does to the outbox, when the database answers.\<close>

definition settled :: "uuid \<Rightarrow> outgoing_mail \<Rightarrow> world \<Rightarrow> bool" where
  "settled i mail w \<longleftrightarrow> mail \<in> set (delivered w) \<and> (\<forall>m \<in> set (outbound_mail (db w)). ob_id m \<noteq> i)
     \<or> (\<forall>m \<in> set (outbound_mail (db w)). ob_id m = i \<longrightarrow> ob_status m = MailDead)
       \<and> (\<exists>m \<in> set (outbound_mail (db w)). ob_id m = i)"

lemma outbox_delete_set:
  "m \<in> set (outbound_mail (snd (outbox_delete i d))) \<longleftrightarrow> m \<in> set (outbound_mail d) \<and> ob_id m \<noteq> i"
  by (auto simp: outbox_delete_def)

lemma in_update_where_other:
  assumes "\<And>x. key (f x) = key x" and "key y \<noteq> i"
  shows "y \<in> set (update_where (\<lambda>x. key x = i) f rows) \<longleftrightarrow> y \<in> set rows"
  using assms by (induction rows) auto

lemma outbox_kill_set:
  "ob_id m \<noteq> i \<Longrightarrow> m \<in> set (outbound_mail (snd (outbox_kill i now d))) \<longleftrightarrow> m \<in> set (outbound_mail d)"
  by (simp add: outbox_kill_def in_update_where_other)

lemma outbox_kill_dead:
  assumes "m \<in> set (outbound_mail (snd (outbox_kill i now d)))" and "ob_id m = i"
  shows "ob_status m = MailDead"
proof -
  from assms(1) obtain x where "m = (if ob_id x = i then x\<lparr>ob_status := MailDead, ob_updated_at := now\<rparr> else x)"
    by (auto simp: outbox_kill_def elim: in_update_whereE)
  with assms(2) show ?thesis by (cases "ob_id x = i") auto
qed

lemma outbox_kill_ids: "ob_id ` set (outbound_mail (snd (outbox_kill i now d))) = ob_id ` set (outbound_mail d)"
proof -
  have "map ob_id (outbound_mail (snd (outbox_kill i now d))) = map ob_id (outbound_mail d)"
    by (simp add: outbox_kill_def map_update_where_same)
  then show ?thesis by (metis set_map)
qed

lemma recover_one_settles:
  assumes "recover_one (i, mail) e w = (v, w')" and "mail_enabled (conf e)" and "\<forall>n. db_ok e n"
    and "\<exists>m \<in> set (outbound_mail (db w)). ob_id m = i"
  shows "v = Inr ()" and "settled i mail w'"
    and "ob_id m \<noteq> i \<Longrightarrow> m \<in> set (outbound_mail (db w')) \<longleftrightarrow> m \<in> set (outbound_mail (db w))"
    and "set (delivered w) \<subseteq> set (delivered w')"
proof -
  obtain u w1 where del: "deliver mail e w = (u, w1)" by fastforce
  then obtain r where r: "u = Inr r" "db w1 = db w"
    "mail_enabled (conf e) \<longrightarrow> delivered w1 = delivered w @ (if r = Sent then [mail] else [])"
    by (rule deliver_run)
  have fin: "finish i r e w1 = (v, w')" using assms(1) del r(1) by (simp add: recover_one_def run_simps)
  from fin have "v = Inr () \<and> settled i mail w' \<and> (ob_id m \<noteq> i \<longrightarrow>
      (m \<in> set (outbound_mail (db w')) \<longleftrightarrow> m \<in> set (outbound_mail (db w)))) \<and> set (delivered w) \<subseteq> set (delivered w')" for m
  proof (cases rule: finish_cases)
    case sent
    then show ?thesis using r assms(2) by (auto simp: settled_def outbox_delete_set)
  next
    case (gave_up now)
    have "\<exists>m \<in> set (outbound_mail (db w')). ob_id m = i"
      using assms(4) r(2) outbox_kill_ids [of i now "db w"] gave_up(4) by (metis image_iff)
    then show ?thesis
      using gave_up r assms(2) outbox_kill_dead by (auto simp: settled_def outbox_kill_set)
  qed (use assms(3) in auto)
  then show "v = Inr ()" and "settled i mail w'"
    and "ob_id m \<noteq> i \<Longrightarrow> m \<in> set (outbound_mail (db w')) \<longleftrightarrow> m \<in> set (outbound_mail (db w))"
    and "set (delivered w) \<subseteq> set (delivered w')" for m
    by blast+
qed

lemma settled_mono:
  assumes "settled i mail w" and "set (delivered w) \<subseteq> set (delivered w')"
    and "\<And>m. ob_id m = i \<Longrightarrow> m \<in> set (outbound_mail (db w')) \<longleftrightarrow> m \<in> set (outbound_mail (db w))"
  shows "settled i mail w'"
  using assms unfolding settled_def by blast

lemma recover_all:
  assumes "for_each pending recover_one e w = (v, w')" and "mail_enabled (conf e)" and "\<forall>n. db_ok e n"
    and "distinct (map fst pending)" and "fst ` set pending \<subseteq> ob_id ` set (outbound_mail (db w))"
  shows "v = Inr () \<and> (\<forall>im \<in> set pending. settled (fst im) (snd im) w')
     \<and> (\<forall>m. ob_id m \<notin> fst ` set pending \<longrightarrow> (m \<in> set (outbound_mail (db w')) \<longleftrightarrow> m \<in> set (outbound_mail (db w))))
     \<and> set (delivered w) \<subseteq> set (delivered w')"
  using assms
proof (induction pending arbitrary: w)
  case (Cons im pending)
  obtain i mail where im: "im = (i, mail)" by fastforce
  obtain u w1 where one: "recover_one (i, mail) e w = (u, w1)" by fastforce
  have here: "\<exists>m \<in> set (outbound_mail (db w)). ob_id m = i" using Cons.prems(5) im by auto
  note now = recover_one_settles [OF one Cons.prems(2,3) here]
  have rest: "for_each pending recover_one e w1 = (v, w')"
    using Cons.prems(1) one now(1) im by (simp add: run_simps)
  have fresh: "i \<notin> fst ` set pending" and dist: "distinct (map fst pending)" using Cons.prems(4) im by auto
  have "fst ` set pending \<subseteq> ob_id ` set (outbound_mail (db w1))"
  proof
    fix k assume k: "k \<in> fst ` set pending"
    then obtain m where "m \<in> set (outbound_mail (db w))" "ob_id m = k" using Cons.prems(5) im by auto
    then show "k \<in> ob_id ` set (outbound_mail (db w1))" using now(3) [of m] fresh k by force
  qed
  note IH = Cons.IH [OF rest Cons.prems(2,3) dist this]
  have "settled i mail w'"
    using IH fresh by (intro settled_mono [OF now(2)]) auto
  with IH im now(3,4) show ?case by auto
qed simp

lemma outbox_pending_run:
  assumes "\<forall>n. db_ok e n"
  obtains w' where "outbox_pending e w = (Inr (List.map_filter (\<lambda>row.
       map_option (\<lambda>mail. (ob_id row, mail)) (ml_mail_of_json (mailer e) (ob_payload row)))
       (filter (\<lambda>m. ob_status m = MailPending) (outbound_mail (db w)))), w')"
    and "db w' = db w" and "delivered w' = delivered w"
  using assms that by (simp add: outbox_pending_def run_simps)

lemma map_filter_ids:
  assumes "distinct (map key rows)"
  shows "distinct (map fst (List.map_filter (\<lambda>r. map_option (Pair (key r)) (g r)) (filter p rows)))"
    and "fst ` set (List.map_filter (\<lambda>r. map_option (Pair (key r)) (g r)) (filter p rows)) \<subseteq> key ` set rows"
  using assms
  by (induction rows) (auto simp: List.map_filter_def split: option.splits)

text \<open>
  Mail that a crash left in the outbox is settled at the next start: with the database answering, every
  readable pending row is sent and removed, or given up on and kept as dead; none is left pending.
\<close>

theorem interrupted_mail_is_resent:
  assumes "recover_pending e w = (v, w')" and "mail_enabled (conf e)" and "\<forall>n. db_ok e n"
    and "distinct (map ob_id (outbound_mail (db w)))"
    and "m \<in> set (outbound_mail (db w))" and "ob_status m = MailPending"
    and "ml_mail_of_json (mailer e) (ob_payload m) = Some mail"
  shows "mail \<in> set (delivered w') \<and> (\<forall>k \<in> set (outbound_mail (db w')). ob_id k \<noteq> ob_id m)
     \<or> (\<exists>k \<in> set (outbound_mail (db w')). ob_id k = ob_id m)
       \<and> (\<forall>k \<in> set (outbound_mail (db w')). ob_id k = ob_id m \<longrightarrow> ob_status k = MailDead)"
proof -
  let ?p = "List.map_filter (\<lambda>row. map_option (Pair (ob_id row)) (ml_mail_of_json (mailer e) (ob_payload row)))
       (filter (\<lambda>m. ob_status m = MailPending) (outbound_mail (db w)))"
  obtain w1 where read: "outbox_pending e w = (Inr ?p, w1)" and w1: "db w1 = db w" "delivered w1 = delivered w"
    by (rule outbox_pending_run [OF assms(3), of w])
  have loop: "for_each ?p recover_one e w1 = (v, w')"
    using assms(1) read by (simp add: recover_pending_def run_simps)
  have "(ob_id m, mail) \<in> set ?p"
    using assms(5-7) by (force simp: List.map_filter_def)
  moreover have "fst ` set ?p \<subseteq> ob_id ` set (outbound_mail (db w1))"
    unfolding w1(1) by (rule map_filter_ids(2) [OF assms(4)])
  from recover_all [OF loop assms(2,3) map_filter_ids(1) [OF assms(4)] this]
  have "\<forall>im \<in> set ?p. settled (fst im) (snd im) w'" by (elim conjE)
  ultimately have "settled (fst (ob_id m, mail)) (snd (ob_id m, mail)) w'" by (rule bspec [rotated])
  then have "settled (ob_id m) mail w'" by simp
  then show ?thesis unfolding settled_def by blast
qed

definition crashed_db :: db where
  "crashed_db = sample_db\<lparr>outbound_mail := [\<lparr> ob_id = 3, ob_payload = ml_mail_to_json sample_mailer greeting,
     ob_status = MailPending, ob_created_at = 0, ob_updated_at = 0 \<rparr>]\<rparr>"

theorem interrupted_mail_is_resent_witness:
  "\<exists>w'. recover_pending sample_env (world_of crashed_db) = (Inr (), w') \<and> greeting \<in> set (delivered w')"
proof -
  let ?m = "\<lparr> ob_id = 3, ob_payload = ml_mail_to_json sample_mailer greeting, ob_status = MailPending,
     ob_created_at = 0, ob_updated_at = 0 \<rparr>"
  have "fst (recover_pending sample_env (world_of crashed_db)) = Inr ()" by code_simp
  note run = runs_to [OF this]
  have "mail_enabled (conf sample_env)" by code_simp
  moreover have "\<forall>n. db_ok sample_env n" by (simp add: sample_env_def)
  moreover have "distinct (map ob_id (outbound_mail (db (world_of crashed_db))))"
    and "?m \<in> set (outbound_mail (db (world_of crashed_db)))" and "ob_status ?m = MailPending"
    by (simp_all add: world_of_def crashed_db_def)
  moreover have "ml_mail_of_json (mailer sample_env) (ob_payload ?m) = Some greeting" by code_simp
  ultimately have "greeting \<in> set (delivered (snd (recover_pending sample_env (world_of crashed_db))))
     \<or> (\<exists>k \<in> set (outbound_mail (db (snd (recover_pending sample_env (world_of crashed_db))))). ob_id k = ob_id ?m)"
    using interrupted_mail_is_resent [OF run] by blast
  moreover have "outbound_mail (db (snd (recover_pending sample_env (world_of crashed_db)))) = []" by code_simp
  ultimately show ?thesis using run by auto
qed

section \<open>Jobs are claimed once\<close>

text \<open>The identifiers a sequence of claims hands out, with any limits, moments and locked rows.\<close>

fun claimed_ids :: "(nat \<times> time \<times> (uuid \<Rightarrow> bool)) list \<Rightarrow> db \<Rightarrow> uuid list" where
  "claimed_ids [] d = []"
| "claimed_ids ((lim, now, locked) # cs) d =
     (case claim_jobs lim now locked d of (js, d') \<Rightarrow> map j_id js @ claimed_ids cs d')"

definition claimable :: "db \<Rightarrow> uuid set" where
  "claimable d = {jb_id j |j. j \<in> set (jobs d) \<and> jb_status j = JobPending}"

lemma claim_jobs_effect:
  assumes "claim_jobs lim now locked d = (js, d')" and "distinct (map jb_id (jobs d))"
  shows "distinct (map jb_id (jobs d'))" and "distinct (map j_id js)" and "j_id ` set js \<subseteq> claimable d"
    and "claimable d' = claimable d - j_id ` set js"
proof -
  define ids where "ids = set (map jb_id (take lim (sort_key jb_run_at (filter (due now locked) (jobs d)))))"
  let ?f = "\<lambda>j. j\<lparr>jb_status := JobRunning, jb_locked_at := Some now, jb_updated_at := now\<rparr>"
  have js: "js = map job_of (filter (\<lambda>j. jb_id j \<in> ids) (jobs d))"
    and d': "jobs d' = update_where (\<lambda>j. jb_id j \<in> ids) ?f (jobs d)"
    using assms(1) by (auto simp: claim_jobs_def Let_def ids_def)
  have from_due: "\<exists>k \<in> set (jobs d). jb_id k = i \<and> jb_status k = JobPending" if "i \<in> ids" for i
    using that unfolding ids_def by (auto dest!: in_set_takeD simp: due_def)
  have pend: "jb_status j = JobPending" if "j \<in> set (jobs d)" "jb_id j \<in> ids" for j
    using from_due [OF that(2)] distinct_key_unique [OF assms(2) that(1)] by metis
  have map_ids: "map j_id js = filter (\<lambda>i. i \<in> ids) (map jb_id (jobs d))"
    by (simp add: js job_of_def filter_map o_def)
  show "distinct (map jb_id (jobs d'))" using assms(2) by (simp add: d' map_update_where_same)
  show "distinct (map j_id js)" unfolding map_ids using assms(2) by simp
  have set_ids: "j_id ` set js = {jb_id j |j. j \<in> set (jobs d) \<and> jb_id j \<in> ids}"
  proof -
    have "j_id ` set js = set (filter (\<lambda>i. i \<in> ids) (map jb_id (jobs d)))"
      unfolding map_ids [symmetric] by simp
    then show ?thesis by auto
  qed
  show "j_id ` set js \<subseteq> claimable d" using pend unfolding set_ids claimable_def by blast
  have upd: "x \<in> set (jobs d') \<and> jb_status x = JobPending \<longleftrightarrow>
      x \<in> set (jobs d) \<and> jb_status x = JobPending \<and> jb_id x \<notin> ids" for x
    unfolding d' by (auto simp: set_update_where image_iff)
  have "claimable d' = {jb_id j |j. j \<in> set (jobs d) \<and> jb_status j = JobPending \<and> jb_id j \<notin> ids}"
    unfolding claimable_def using upd by blast
  moreover have "claimable d - j_id ` set js = {jb_id j |j. j \<in> set (jobs d) \<and> jb_status j = JobPending \<and> jb_id j \<notin> ids}"
    unfolding set_ids claimable_def by auto
  ultimately show "claimable d' = claimable d - j_id ` set js" by simp
qed

lemma claimed_ids_claimable:
  "distinct (map jb_id (jobs d)) \<Longrightarrow> distinct (claimed_ids cs d) \<and> set (claimed_ids cs d) \<subseteq> claimable d"
proof (induction cs arbitrary: d)
  case (Cons c cs)
  obtain lim now locked where c: "c = (lim, now, locked)" by (cases c) auto
  obtain js d' where claim: "claim_jobs lim now locked d = (js, d')" by fastforce
  note eff = claim_jobs_effect [OF claim Cons.prems]
  from Cons.IH [OF eff(1)] eff(2-4) c claim show ?case by auto
qed simp



section \<open>A job that keeps failing\<close>

text \<open>The worker polls once in each of a list of environments, one per turn of its loop.\<close>

fun polls :: "env list \<Rightarrow> world \<Rightarrow> world" where
  "polls [] w = w"
| "polls (e # es) w = polls es (snd (poll e w))"

text \<open>A moment at which the database answers, nothing is locked, and the clock shows \<open>t\<close>.\<close>

definition at_time :: "time \<Rightarrow> env \<Rightarrow> bool" where
  "at_time t e \<longleftrightarrow> (\<forall>n. clock e n = t \<and> db_ok e n \<and> (\<forall>i. \<not> row_locked e n i))"

lemma backoff_values: "backoff 0 = seconds 1" "backoff 1 = seconds 4" "2 \<le> n \<Longrightarrow> n < 2 ^ 64 \<Longrightarrow> backoff n = seconds 16"
  by (simp_all add: backoff_def as_usize_def RETRY_BACKOFF_def min_def)

lemma backoff_le: "0 \<le> n \<Longrightarrow> n < 2 ^ 64 \<Longrightarrow> backoff n \<le> seconds 16"
  using backoff_values by (cases "n = 0"; cases "n = 1") (auto simp: seconds_def)

text \<open>One turn of the loop over a single job without a handler: tried and put back, or left alone.\<close>

lemma poll_failing:
  assumes "at_time t e" and "jobs (db w) = [r]" and "jb_kind r \<noteq> CLEANUP_KIND"
  shows "jb_status r = JobPending \<Longrightarrow> jb_run_at r \<le> t \<Longrightarrow> \<exists>x.
      jobs (db (snd (poll e w))) = [failed_row (jb_attempts r + 1 \<ge> jb_max_attempts r) (jb_attempts r + 1)
        (t + backoff (jb_attempts r)) x t r]"
    and "jb_status r = JobDead \<Longrightarrow> jobs (db (snd (poll e w))) = [r]"
  using assms
  by (auto simp: poll_def claim_batch_def claim_jobs_def due_def process_def job_dispatch_def job_of_def
      reschedule_or_kill_def set_job_def failed_row_def at_time_def CLAIM_BATCH_def Let_def run_simps)

lemma failing_job_rounds:
  assumes "jobs (db w) = [r]" and "jb_kind r \<noteq> CLEANUP_KIND" and "jb_max_attempts r = 5"
    and "jb_attempts r = int a" and "a \<le> 5" and "jb_status r = (if a < 5 then JobPending else JobDead)"
    and "list_all2 at_time ts es" and "sorted_wrt (\<lambda>s t. s + seconds 16 \<le> t) ts" and "\<forall>t \<in> set ts. jb_run_at r \<le> t \<or> a = 5"
  shows "\<exists>r'. jobs (db (polls es w)) = [r'] \<and> jb_id r' = jb_id r \<and> jb_attempts r' = int (min (a + length es) 5)
     \<and> jb_status r' = (if a + length es < 5 then JobPending else JobDead)"
  using assms
proof (induction es arbitrary: w r a ts)
  case (Cons e es)
  obtain t ts' where ts: "ts = t # ts'" "at_time t e" "list_all2 at_time ts' es"
    using Cons.prems(7) by (cases ts) auto
  have gap: "\<forall>s \<in> set ts'. t + seconds 16 \<le> s" and sorted: "sorted_wrt (\<lambda>s t. s + seconds 16 \<le> t) ts'"
    using Cons.prems(8) ts(1) by auto
  show ?case
  proof (cases "a = 5")
    case True
    then have "jobs (db (snd (poll e w))) = [r]" using poll_failing(2) [OF ts(2) Cons.prems(1,2)] Cons.prems(6) by simp
    from Cons.IH [OF this Cons.prems(2-6) ts(3) sorted] True show ?thesis by simp
  next
    case False
    with Cons.prems(5,6,9) ts(1) have due: "jb_status r = JobPending" "jb_run_at r \<le> t" by auto
    from poll_failing(1) [OF ts(2) Cons.prems(1,2) due] obtain x where
      next_row: "jobs (db (snd (poll e w))) = [failed_row (jb_attempts r + 1 \<ge> jb_max_attempts r) (jb_attempts r + 1)
        (t + backoff (jb_attempts r)) x t r]" (is "_ = [?r]") by blast
    have "backoff (jb_attempts r) \<le> seconds 16" using Cons.prems(4,5) by (intro backoff_le) auto
    then have "\<forall>s \<in> set ts'. jb_run_at ?r \<le> s \<or> Suc a = 5" using gap by (auto simp: failed_row_def)
    moreover have "jb_status ?r = (if Suc a < 5 then JobPending else JobDead)" and "jb_attempts ?r = int (Suc a)"
      and "jb_max_attempts ?r = 5" and "jb_kind ?r \<noteq> CLEANUP_KIND" and "Suc a \<le> 5" and "jb_id ?r = jb_id r"
      using Cons.prems(2-5) False by (auto simp: failed_row_def)
    ultimately show ?thesis
      using Cons.IH [OF next_row, of "Suc a" ts'] ts(3) sorted by simp
  qed
qed simp


definition stopped_at :: "time \<Rightarrow> env" where "stopped_at t = sample_env\<lparr>clock := (\<lambda>_. t)\<rparr>"


section \<open>The cleanup job\<close>

text \<open>The tables whose rows expire.\<close>

abbreviation expiring :: "db \<Rightarrow> auth_token list \<times> oauth_state list \<times> webauthn_challenge list \<times> qr_session list \<times> login_grant list" where
  "expiring d \<equiv> (auth_tokens d, oauth_states d, webauthn_challenges d, qr_sessions d, login_grants d)"

lemma delete_where_less: "delete_where (\<lambda>x. f x < c) rows = filter (\<lambda>x. c \<le> f x) rows" for c :: "'a :: linorder"
  by (simp add: delete_where_def not_less)

definition swept :: "time \<Rightarrow> db \<Rightarrow> auth_token list \<times> oauth_state list \<times> webauthn_challenge list \<times> qr_session list \<times> login_grant list" where
  "swept c d = (filter (\<lambda>t. c \<le> tok_expires_at t) (auth_tokens d), filter (\<lambda>s. c \<le> st_expires_at s) (oauth_states d),
     filter (\<lambda>x. c \<le> ch_expires_at x) (webauthn_challenges d), filter (\<lambda>s. c \<le> qr_expires_at s) (qr_sessions d),
     filter (\<lambda>g. c \<le> gr_expires_at g) (login_grants d))"

lemma sweeps_effect:
  assumes "for_each [sweep_auth_tokens c, sweep_oauth_states c, sweep_challenges c, sweep_qr_sessions c,
     sweep_login_grants c] db_exec e w = (Inr v, w')"
  shows "expiring (db w') = swept c (db w)" and "users (db w') = users (db w)"
  using assms
  by (auto simp: sweep_auth_tokens_def sweep_oauth_states_def sweep_challenges_def sweep_qr_sessions_def
      sweep_login_grants_def swept_def delete_where_less)

lemma prunes_effect:
  "prune_job_history e w = (Inr v, w') \<Longrightarrow> expiring (db w') = expiring (db w) \<and> users (db w') = users (db w)"
  "prune_dead_mail e w = (Inr v, w') \<Longrightarrow> expiring (db w') = expiring (db w) \<and> users (db w') = users (db w)"
  by (auto simp: prune_job_history_def prune_jobs_def prune_dead_mail_def prune_mails_def)

lemma cleanup_run_effect:
  assumes "cleanup_run e w = (Inr v, w')"
  shows "expiring (db w') = swept (clock e (tick w) - hours 1) (db w)" and "users (db w') = users (db w)"
proof -
  let ?c = "clock e (tick w) - hours 1"
  from assms obtain x y w1 w2 where 1: "for_each [sweep_auth_tokens ?c, sweep_oauth_states ?c, sweep_challenges ?c,
      sweep_qr_sessions ?c, sweep_login_grants ?c] db_exec e (w\<lparr>tick := Suc (tick w)\<rparr>) = (Inr x, w1)"
    and 2: "prune_job_history e w1 = (Inr y, w2)" and 3: "prune_dead_mail e w2 = (Inr v, w')"
    unfolding cleanup_run_def Let_def
    by (elim then_do_InrE seq_InrE) (simp del: for_each.simps)
  show "expiring (db w') = swept ?c (db w)" "users (db w') = users (db w)"
    using sweeps_effect [OF 1] prunes_effect(1) [OF 2] prunes_effect(2) [OF 3] by (simp_all add: swept_def)
qed

text \<open>
  A successful cleanup removes exactly the rows that expired more than an hour before, so nothing that
  could still be used, leaves the accounts alone, and schedules its next run one hour ahead.
\<close>

theorem cleanup_sweeps_and_reschedules:
  assumes "job_dispatch job e w = (Inr (Inr ()), w')" and "j_kind job = CLEANUP_KIND"
  shows "expiring (db w') = swept (clock e (tick w) - hours 1) (db w) \<and> users (db w') = users (db w)
     \<and> (\<exists>j n. j \<in> set (jobs (db w')) \<and> jb_kind j = CLEANUP_KIND \<and> jb_status j = JobPending
          \<and> jb_run_at j = clock e n + hours 1)"
proof -
  let ?k = "seq cleanup_run (then_do utc_now (\<lambda>now. enqueue CLEANUP_KIND ''{}'' (now + INTERVAL)))"
  obtain r w1 where k: "?k e w = (r, w1)" by (rule prod.exhaust)
  have "job_dispatch job e w = (Inr (map_sum (sqlx_display e) id r), w1)"
    using assms(2) k by (simp add: job_dispatch_def then_do_run [of "attempt ?k"] attempt_run then_do_run [of "asks f" for f])
  then have "w1 = w'" and "r = Inr ()" using assms(1) by (cases r; simp)+
  then have "?k e w = (Inr (), w')" using k by simp
  then obtain v w1 where clean: "cleanup_run e w = (Inr v, w1)"
    and enq: "enqueue CLEANUP_KIND ''{}'' (clock e (tick w1) + INTERVAL) e (w1\<lparr>tick := Suc (tick w1)\<rparr>) = (Inr (), w')"
    by (elim seq_InrE then_do_InrE) simp
  let ?j = "\<lambda>i. new_job i CLEANUP_KIND ''{}'' (clock e (tick w1) + INTERVAL) (clock e (Suc (tick w1)))"
  from enq obtain i where w': "db w' = (db w1)\<lparr>jobs := jobs (db w1) @ [?j i]\<rparr>"
    by (auto simp: enqueue_def job_insert_def split: if_splits)
  then have "?j i \<in> set (jobs (db w')) \<and> jb_kind (?j i) = CLEANUP_KIND \<and> jb_status (?j i) = JobPending
      \<and> jb_run_at (?j i) = clock e (tick w1) + hours 1"
    by (simp add: new_job_def INTERVAL_def)
  moreover have "expiring (db w') = swept (clock e (tick w) - hours 1) (db w)" and "users (db w') = users (db w)"
    using cleanup_run_effect [OF clean] w' by simp_all
  ultimately show ?thesis by blast
qed

theorem cleanup_sweeps_and_reschedules_witness:
  "\<exists>w'. job_dispatch (job_of (new_job 1 CLEANUP_KIND ''{}'' 0 0)) sample_env (world_of sample_db) = (Inr (Inr ()), w')
     \<and> (\<exists>j \<in> set (jobs (db w')). jb_kind j = CLEANUP_KIND \<and> jb_status j = JobPending)"
proof -
  let ?j = "job_of (new_job 1 CLEANUP_KIND ''{}'' 0 0)"
  have "fst (job_dispatch ?j sample_env (world_of sample_db)) = Inr (Inr ())"
    by (simp add: job_dispatch_def job_of_def new_job_def cleanup_run_def prune_job_history_def prune_dead_mail_def
        prune_jobs_def prune_mails_def enqueue_def job_insert_def db_stmt_def sweep_auth_tokens_def
        sweep_oauth_states_def sweep_challenges_def sweep_qr_sessions_def sweep_login_grants_def Let_def
        run_simps sample_defs)
  note run = runs_to [OF this]
  have "j_kind ?j = CLEANUP_KIND" by (simp add: job_of_def new_job_def)
  from run cleanup_sweeps_and_reschedules [OF run this] show ?thesis by blast
qed

section \<open>A cleanup cut short by a crash\<close>

text \<open>
  The rows of the cleanup job after a crash in the middle of it: one is still marked as running, none is
  pending. \<open>S\<close> collects the identifiers of jobs of other kinds, \<open>x\<close> the rows of the expiring tables.
\<close>

definition cleanup_stuck :: "db \<Rightarrow> bool" where
  "cleanup_stuck d \<longleftrightarrow> distinct (map jb_id (jobs d))
     \<and> (\<exists>j \<in> set (jobs d). jb_kind j = CLEANUP_KIND \<and> jb_status j = JobRunning)
     \<and> (\<forall>j \<in> set (jobs d). jb_kind j = CLEANUP_KIND \<longrightarrow> jb_status j \<noteq> JobPending)"

definition stuck_at where
  "stuck_at S x d \<longleftrightarrow> cleanup_stuck d \<and> expiring d = x \<and> (\<forall>j \<in> set (jobs d). jb_id j \<in> S \<longrightarrow> jb_kind j \<noteq> CLEANUP_KIND)"

lemma stuck_at_update:
  assumes "stuck_at S x d" and "\<And>j. jb_id (f j) = jb_id j \<and> jb_kind (f j) = jb_kind j" and "\<And>j. p j \<Longrightarrow> jb_id j \<in> S"
  shows "stuck_at S x (d\<lparr>jobs := update_where p f (jobs d)\<rparr>)"
proof -
  from assms(1) obtain j where j: "j \<in> set (jobs d)" "jb_kind j = CLEANUP_KIND" "jb_status j = JobRunning"
    by (auto simp: stuck_at_def cleanup_stuck_def)
  then have "\<not> p j" using assms(1,3) by (auto simp: stuck_at_def)
  with j(1) have "j \<in> set (update_where p f (jobs d))" by (auto intro: in_update_whereI)
  moreover have "jb_kind k = CLEANUP_KIND \<Longrightarrow> jb_status k \<noteq> JobPending"
    and "jb_id k \<in> S \<Longrightarrow> jb_kind k \<noteq> CLEANUP_KIND" if k: "k \<in> set (update_where p f (jobs d))" for k
  proof -
    from k obtain y where y: "y \<in> set (jobs d)" "k = (if p y then f y else y)" by (rule in_update_whereE)
    show "jb_kind k = CLEANUP_KIND \<Longrightarrow> jb_status k \<noteq> JobPending" and "jb_id k \<in> S \<Longrightarrow> jb_kind k \<noteq> CLEANUP_KIND"
      using y assms by (cases "p y"; auto simp: stuck_at_def cleanup_stuck_def)+
  qed
  ultimately show ?thesis
    using assms(1,2) j by (auto simp: stuck_at_def cleanup_stuck_def map_update_where_same)
qed

lemma set_job_keeps_stuck:
  assumes "i \<in> S" and "\<And>j. jb_id (f j) = jb_id j \<and> jb_kind (f j) = jb_kind j"
  shows "keeps_db (stuck_at S x) (db_exec (set_job i f))"
  by (rule keeps_db_exec) (use assms in \<open>auto simp: set_job_def intro: stuck_at_update\<close>)

lemma process_keeps_stuck:
  assumes "j_kind job \<noteq> CLEANUP_KIND" and "j_id job \<in> S"
  shows "keeps_db (stuck_at S x) (process job)"
proof -
  have "keeps_db (stuck_at S x) (mark_succeeded (j_id job))"
    unfolding mark_succeeded_def by (intro keeps_rules set_job_keeps_stuck assms(2)) simp
  moreover have "keeps_db (stuck_at S x) (reschedule_or_kill job err b)" for err b
    unfolding reschedule_or_kill_def Let_def
    by (intro keeps_rules set_job_keeps_stuck assms(2)) (simp add: failed_row_def)
  ultimately show ?thesis
    unfolding process_def job_dispatch_def if_not_P [OF assms(1)] by (intro keeps_rules)
qed

lemma claim_keeps_stuck:
  assumes "claim_jobs lim now locked d = (js, d')" and "stuck_at {} x d"
  shows "stuck_at (j_id ` set js) x d'" and "\<forall>job \<in> set js. j_kind job \<noteq> CLEANUP_KIND"
proof -
  define ids where "ids = set (map jb_id (take lim (sort_key jb_run_at (filter (due now locked) (jobs d)))))"
  let ?f = "\<lambda>j. j\<lparr>jb_status := JobRunning, jb_locked_at := Some now, jb_updated_at := now\<rparr>"
  have js: "js = map job_of (filter (\<lambda>j. jb_id j \<in> ids) (jobs d))"
    and d': "d' = d\<lparr>jobs := update_where (\<lambda>j. jb_id j \<in> ids) ?f (jobs d)\<rparr>"
    using assms(1) by (auto simp: claim_jobs_def Let_def ids_def)
  have dist: "distinct (map jb_id (jobs d))" using assms(2) by (simp add: stuck_at_def cleanup_stuck_def)
  have "j_id ` set js \<subseteq> claimable d" using claim_jobs_effect(3) [OF assms(1) dist] .
  moreover have "jb_kind j \<noteq> CLEANUP_KIND" if "j \<in> set (jobs d)" "jb_id j \<in> claimable d" for j
  proof -
    from that(2) obtain k where k: "k \<in> set (jobs d)" "jb_id k = jb_id j" "jb_status k = JobPending"
      by (auto simp: claimable_def)
    then have "k = j" using distinct_key_unique [OF dist k(1) that(1)] by simp
    with k assms(2) show ?thesis by (auto simp: stuck_at_def cleanup_stuck_def)
  qed
  ultimately have foreign: "jb_kind j \<noteq> CLEANUP_KIND" if "j \<in> set (jobs d)" "jb_id j \<in> j_id ` set js" for j
    using that by blast
  then show "\<forall>job \<in> set js. j_kind job \<noteq> CLEANUP_KIND"
    unfolding js by (auto simp: job_of_def image_iff)
  have "stuck_at (j_id ` set js) x d" using assms(2) foreign by (simp add: stuck_at_def)
  moreover have "update_where (\<lambda>j. jb_id j \<in> ids) ?f (jobs d) = update_where (\<lambda>j. jb_id j \<in> j_id ` set js) ?f (jobs d)"
    by (auto simp: js job_of_def image_iff update_where_def)
  ultimately show "stuck_at (j_id ` set js) x d'"
    unfolding d' by (simp add: stuck_at_update)
qed

lemma keeps_for_each_set: "(\<And>x. x \<in> set xs \<Longrightarrow> keeps I (f x)) \<Longrightarrow> keeps I (for_each xs f)"
  by (induction xs) (auto intro!: keeps_rules)

lemma claimed_jobs_stuck:
  assumes "claim_batch n e w = (v, w1)" and "stuck_at {} x (db w)"
  shows "\<forall>y. v = Inl y \<longrightarrow> db w1 = db w"
    and "\<forall>js. v = Inr js \<longrightarrow> stuck_at (j_id ` set js) x (db w1) \<and> (\<forall>job \<in> set js. j_kind job \<noteq> CLEANUP_KIND)"
  using assms claim_keeps_stuck [where x = x]
  by (auto simp: claim_batch_def run_simps split: if_splits; metis prod.collapse)+

lemma stuck_at_weaken: "stuck_at S x d \<Longrightarrow> stuck_at {} x d"
  by (simp add: stuck_at_def)

lemma claim_then_process_keeps_stuck:
  assumes "\<And>js. set (sel js) \<subseteq> set js"
  shows "keeps_db (stuck_at {} x) (then_do (attempt (claim_batch n)) (\<lambda>claimed.
     case claimed of Inl _ \<Rightarrow> ret () | Inr js \<Rightarrow> for_each (sel js) process))"
proof (rule keepsI)
  fix e w v w'
  assume stuck: "stuck_at {} x (db w)"
    and run: "then_do (attempt (claim_batch n)) (\<lambda>claimed.
      case claimed of Inl _ \<Rightarrow> ret () | Inr js \<Rightarrow> for_each (sel js) process) e w = (v, w')"
  obtain c w1 where claim: "claim_batch n e w = (c, w1)" by fastforce
  show "stuck_at {} x (db w')"
  proof (cases c)
    case (Inl y)
    then have "w' = w1" using run claim by (simp add: then_do_run attempt_run)
    with claimed_jobs_stuck(1) [OF claim stuck] Inl stuck show ?thesis by simp
  next
    case (Inr js)
    with claimed_jobs_stuck(2) [OF claim stuck] have
      st: "stuck_at (j_id ` set js) x (db w1)" and other: "\<forall>job \<in> set js. j_kind job \<noteq> CLEANUP_KIND" by auto
    have loop: "for_each (sel js) process e w1 = (v, w')" using run claim Inr by (simp add: then_do_run attempt_run)
    have "keeps_db (stuck_at (j_id ` set js) x) (for_each (sel js) process)"
      using other assms [of js] by (intro keeps_for_each_set process_keeps_stuck) auto
    from keepsD [OF this st loop] show ?thesis by (rule stuck_at_weaken)
  qed
qed

lemma worker_start_keeps_stuck: "keeps_db (stuck_at {} x) worker_start"
proof -
  have "insert_unless_scheduled (new_job i CLEANUP_KIND p t u) d = Inr ((), d)" if "cleanup_stuck d" for i p t u d
    using that by (auto simp: insert_unless_scheduled_def new_job_def cleanup_stuck_def scheduled_def exists_where_iff)
  then show ?thesis
    unfolding worker_start_def ensure_scheduled_def by (intro keeps_rules) (simp add: stuck_at_def)
qed

text \<open>The job worker's own steps.\<close>

fun worker_task :: "task \<Rightarrow> bool" where
  "worker_task StartWorker = True"
| "worker_task PollJobs = True"
| "worker_task (PollJobsAndCrash k) = True"
| "worker_task _ = False"

lemma worker_task_keeps_stuck: "worker_task t \<Longrightarrow> keeps_db (stuck_at {} x) (background t)"
  using claim_then_process_keeps_stuck [of id x CLAIM_BATCH] claim_then_process_keeps_stuck [of "take k" x CLAIM_BATCH for k]
  by (cases t) (auto simp: poll_def poll_crashing_def worker_start_keeps_stuck dest: in_set_takeD)

text \<open>
  C40: a crash in the middle of the cleanup stops it for good. The claimed row stays marked as running; the
  worker never takes up a running row, and scheduling the job at a start counts it as scheduled. So however
  often the worker is restarted and polls, the cleanup never runs again and no expired row is swept.
\<close>

theorem interrupted_cleanup_never_resumes:
  assumes "cleanup_stuck (db (world s))" and "list_all worker_task ts"
  shows "cleanup_stuck (db (world (run_server e (map Background ts) s)))
     \<and> expiring (db (world (run_server e (map Background ts) s))) = expiring (db (world s))"
proof -
  have "stuck_at {} x (db (world (run_server e (map Background ts) s)))" if "stuck_at {} x (db (world s))" for x
    using assms(2) that
  proof (induction ts arbitrary: s)
    case (Cons t ts)
    then have "stuck_at {} x (db (snd (background t e (world s))))"
      using worker_task_keeps_stuck [of t x] by (auto simp: keeps_def)
    with Cons show ?case by simp
  qed simp
  from this [of "expiring (db (world s))"] assms(1) show ?thesis by (simp add: stuck_at_def)
qed

text \<open>The state is reached from an empty job table: the worker starts, claims the cleanup and dies.\<close>

theorem interrupted_cleanup_never_resumes_witness:
  "cleanup_stuck (db (world (run_server sample_env (map Background [StartWorker, PollJobs])
     (run_server sample_env (map Background [StartWorker, PollJobsAndCrash 0]) (server_of sample_db)))))"
proof -
  have "cleanup_stuck (db (world (run_server sample_env (map Background [StartWorker, PollJobsAndCrash 0]) (server_of sample_db))))"
    by (simp add: worker_start_def ensure_scheduled_def insert_unless_scheduled_def job_insert_def new_job_def
        poll_crashing_def claim_batch_def claim_jobs_def due_def CLAIM_BATCH_def db_stmt_def cleanup_stuck_def
        CLEANUP_KIND_def Let_def run_simps sample_defs)
  from interrupted_cleanup_never_resumes [OF this, of "[StartWorker, PollJobs]" sample_env] show ?thesis by simp
qed

end
