(* ===== verification/Permits.thy ===== *)
theory Permits
  imports Main
begin

text \<open>
  The permits that bound how much CPU-heavy work runs at once: password hashing (\<open>run_limited\<close> and the
  process-wide cell \<open>PERMITS\<close> of \<open>src/common/security/password.rs\<close>), image processing
  (\<open>AvatarService::set\<close>) and background jobs (\<open>Worker::run\<close>). A caller waits for a permit, hands the work
  and the permit to the blocking pool, and waits for its end; it may be cancelled at either wait. Callers
  and work interleave freely, so a run is a sequence of steps of a relation.
\<close>

section \<open>The semaphore cell\<close>

record semaphore =
  sem_cap :: nat
  sem_free :: nat

definition semaphore_new :: "nat \<Rightarrow> semaphore" where
  "semaphore_new n = \<lparr> sem_cap = n, sem_free = n \<rparr>"

definition DEFAULT_MAX_CONCURRENT_HASHES :: nat where "DEFAULT_MAX_CONCURRENT_HASHES = 8"

definition MAX_CONCURRENT_PROCESSING :: nat where "MAX_CONCURRENT_PROCESSING = 4"

definition MAX_CONCURRENT_JOBS :: nat where "MAX_CONCURRENT_JOBS = 4"

text \<open>\<open>PERMITS\<close> is a \<open>OnceLock\<close>: \<open>None\<close> until the first call sets it. \<open>set\<close> on a full cell is an error that
  the code ignores.\<close>

definition set_max_concurrent_hashes :: "nat \<Rightarrow> semaphore option \<Rightarrow> semaphore option" where
  "set_max_concurrent_hashes n cell =
     (case cell of None \<Rightarrow> Some (semaphore_new (max n 1)) | Some s \<Rightarrow> Some s)"

definition permits :: "semaphore option \<Rightarrow> semaphore \<times> semaphore option" where
  "permits cell =
     (let s = (case cell of None \<Rightarrow> semaphore_new DEFAULT_MAX_CONCURRENT_HASHES | Some s \<Rightarrow> s)
      in (s, Some s))"

definition available_permits :: "semaphore option \<Rightarrow> nat" where
  "available_permits cell = sem_free (fst (permits cell))"

section \<open>Limited work\<close>

text \<open>
  \<open>Waiting\<close> on \<open>acquire_owned\<close>; \<open>Working present\<close> in the blocking pool with a permit, \<open>present\<close> telling whether
  the caller still waits for the result; \<open>Finished ok\<close> with \<open>ok\<close> false when the work panicked, which the caller
  sees as an internal error; \<open>Cancelled\<close> before a permit was taken.
\<close>

datatype work = Waiting | Working bool | Finished bool | Cancelled

record pool =
  pl_sem :: semaphore
  pl_work :: "work list"

definition put_work :: "nat \<Rightarrow> work \<Rightarrow> pool \<Rightarrow> pool" where
  "put_work i x p = p\<lparr>pl_work := (pl_work p)[i := x]\<rparr>"

definition take_permit :: "pool \<Rightarrow> pool" where
  "take_permit p = p\<lparr>pl_sem := (pl_sem p)\<lparr>sem_free := sem_free (pl_sem p) - 1\<rparr>\<rparr>"

definition drop_permit :: "pool \<Rightarrow> pool" where
  "drop_permit p = p\<lparr>pl_sem := (pl_sem p)\<lparr>sem_free := sem_free (pl_sem p) + 1\<rparr>\<rparr>"

inductive limited_step :: "pool \<Rightarrow> pool \<Rightarrow> bool" where
  arrive: "limited_step p (p\<lparr>pl_work := pl_work p @ [Waiting]\<rparr>)"
| acquire: "i < length (pl_work p) \<Longrightarrow> pl_work p ! i = Waiting \<Longrightarrow> 0 < sem_free (pl_sem p) \<Longrightarrow>
    limited_step p (put_work i (Working True) (take_permit p))"
| give_up: "i < length (pl_work p) \<Longrightarrow> pl_work p ! i = Waiting \<Longrightarrow> limited_step p (put_work i Cancelled p)"
| abandon: "i < length (pl_work p) \<Longrightarrow> pl_work p ! i = Working True \<Longrightarrow> limited_step p (put_work i (Working False) p)"
| finish: "i < length (pl_work p) \<Longrightarrow> pl_work p ! i = Working present \<Longrightarrow>
    limited_step p (put_work i (Finished ok) (drop_permit p))"

abbreviation limited_run :: "pool \<Rightarrow> pool \<Rightarrow> bool" where
  "limited_run \<equiv> limited_step\<^sup>*\<^sup>*"

definition pool_new :: "semaphore \<Rightarrow> pool" where
  "pool_new s = \<lparr> pl_sem = s, pl_work = [] \<rparr>"

fun is_working :: "work \<Rightarrow> bool" where
  "is_working (Working _) = True"
| "is_working _ = False"

definition running :: "pool \<Rightarrow> nat" where
  "running p = length (filter is_working (pl_work p))"

section \<open>The contract of a pool\<close>

lemma filter_update_count:
  assumes "i < length xs"
  shows "length (filter P (xs[i := y])) + (if P (xs ! i) then 1 else 0) = length (filter P xs) + (if P y then 1 else 0)"
  using assms
proof (induction xs arbitrary: i)
  case (Cons x xs)
  then show ?case by (cases i) auto
qed simp

lemma running_put:
  "i < length (pl_work p) \<Longrightarrow> running (put_work i x p) + (if is_working (pl_work p ! i) then 1 else 0)
     = running p + (if is_working x then 1 else 0)"
  using filter_update_count [of i "pl_work p" is_working x] by (simp add: running_def put_work_def)

lemma permit_simps [simp]:
  "running (take_permit p) = running p" "running (drop_permit p) = running p"
  "pl_work (take_permit p) = pl_work p" "pl_work (drop_permit p) = pl_work p"
  "pl_sem (put_work i x p) = pl_sem p" "pl_work (put_work i x p) = (pl_work p)[i := x]"
  "sem_free (pl_sem (take_permit p)) = sem_free (pl_sem p) - 1"
  "sem_free (pl_sem (drop_permit p)) = sem_free (pl_sem p) + 1"
  "sem_cap (pl_sem (take_permit p)) = sem_cap (pl_sem p)" "sem_cap (pl_sem (drop_permit p)) = sem_cap (pl_sem p)"
  by (simp_all add: running_def take_permit_def drop_permit_def put_work_def)

text \<open>Permits are neither lost nor made: a permit is free or held by running work.\<close>

lemma step_conserves:
  assumes "limited_step p q"
  shows "sem_free (pl_sem q) + running q = sem_free (pl_sem p) + running p"
  using assms
proof cases
  case arrive
  then show ?thesis by (simp add: running_def)
next
  case (acquire i)
  then show ?thesis using running_put [of i "take_permit p" "Working True"] by simp
next
  case (give_up i)
  then show ?thesis using running_put [of i p Cancelled] by simp
next
  case (abandon i)
  then show ?thesis using running_put [of i p "Working False"] by simp
next
  case (finish i present ok)
  then show ?thesis using running_put [of i "drop_permit p" "Finished ok"] by simp
qed

locale limited_pool =
  fixes cap :: nat
  assumes cap_pos: "1 \<le> cap"
begin

definition start :: pool where "start = pool_new (semaphore_new cap)"

lemma conserved:
  assumes "limited_run start p"
  shows "sem_free (pl_sem p) + running p = cap"
  using assms
proof (induction rule: rtranclp_induct)
  case base
  then show ?case by (simp add: start_def pool_new_def semaphore_new_def running_def)
next
  case (step p q)
  then show ?case using step_conserves by simp
qed

lemma never_over_cap: "limited_run start p \<Longrightarrow> running p \<le> cap"
  using conserved by fastforce

lemma nothing_leaks: "limited_run start p \<Longrightarrow> running p = 0 \<Longrightarrow> sem_free (pl_sem p) = cap"
  using conserved by fastforce

text \<open>Nobody waits for ever: a waiting caller gets a permit at once, or after one of the running ends.\<close>

lemma waiter_can_proceed:
  assumes "limited_run start p" and "i < length (pl_work p)" and "pl_work p ! i = Waiting"
  shows "\<exists>q. limited_run p q \<and> pl_work q ! i = Working True"
proof (cases "0 < sem_free (pl_sem p)")
  case True
  from r_into_rtranclp [where r = limited_step, OF acquire [OF assms(2,3) True]] assms(2) show ?thesis
    by (intro exI [of _ "put_work i (Working True) (take_permit p)"]) simp
next
  case False
  then have "running p = cap" using conserved [OF assms(1)] by simp
  with cap_pos have "filter is_working (pl_work p) \<noteq> []" by (auto simp: running_def)
  then obtain k present where k: "k < length (pl_work p)" "pl_work p ! k = Working present"
    by (metis filter_False in_set_conv_nth is_working.elims(2))
  with assms(3) have "i \<noteq> k" by auto
  define p1 where "p1 = put_work k (Finished True) (drop_permit p)"
  have 1: "limited_step p p1" unfolding p1_def using k by (rule finish)
  have "limited_step p1 (put_work i (Working True) (take_permit p1))"
    by (rule acquire) (use assms(2,3) \<open>i \<noteq> k\<close> in \<open>simp_all add: p1_def\<close>)
  with 1 have "limited_run p (put_work i (Working True) (take_permit p1))" by (metis r_into_rtranclp rtranclp.rtrancl_into_rtrancl)
  then show ?thesis using assms(2) by (intro exI [of _ "put_work i (Working True) (take_permit p1)"]) (simp add: p1_def)
qed

end

text \<open>The three pools of the program.\<close>

interpretation hashes: limited_pool "max n 1" for n
  by unfold_locales simp

interpretation images: limited_pool MAX_CONCURRENT_PROCESSING
  by unfold_locales (simp add: MAX_CONCURRENT_PROCESSING_def)

interpretation background_jobs: limited_pool MAX_CONCURRENT_JOBS
  by unfold_locales (simp add: MAX_CONCURRENT_JOBS_def)

section \<open>Which cap is in force\<close>

definition hash_cap :: "semaphore option \<Rightarrow> nat" where
  "hash_cap cell = sem_cap (fst (permits cell))"

lemma first_cap_wins: "set_max_concurrent_hashes m (Some s) = Some s"
  by (simp add: set_max_concurrent_hashes_def)

lemma cap_after_set: "hash_cap (set_max_concurrent_hashes n None) = max n 1"
  by (simp add: hash_cap_def permits_def set_max_concurrent_hashes_def semaphore_new_def Let_def)

section \<open>Hashing is bounded\<close>

lemma start_of_cell: "pool_new (fst (permits (set_max_concurrent_hashes n None))) = hashes.start n"
  unfolding hashes.start_def by (simp add: permits_def set_max_concurrent_hashes_def Let_def)

text \<open>
  C34: however callers arrive, are cancelled or time out, and whatever the work does, the number of password
  hashes in progress never exceeds the configured cap (at least one), a permit is either free or held by
  running work, so none is ever lost, and a caller that waits can always still get its turn.
\<close>

theorem concurrent_hashes_bounded:
  assumes "limited_run (pool_new (fst (permits (set_max_concurrent_hashes n None)))) p"
  shows "running p \<le> max n 1 \<and> sem_free (pl_sem p) + running p = max n 1
     \<and> (\<forall>i < length (pl_work p). pl_work p ! i = Waiting \<longrightarrow> (\<exists>q. limited_run p q \<and> pl_work q ! i = Working True))"
proof -
  have run: "limited_run (hashes.start n) p" using assms by (simp only: start_of_cell)
  show ?thesis
    using hashes.never_over_cap [OF run] hashes.conserved [OF run] hashes.waiter_can_proceed [OF run] by blast
qed

text \<open>One permit, two callers: the first is cancelled while its work runs, the second still waits.\<close>

definition abandoned_pool :: pool where
  "abandoned_pool = put_work 0 (Working False) (put_work 0 (Working True) (take_permit
     \<lparr> pl_sem = semaphore_new 1, pl_work = [Waiting, Waiting] \<rparr>))"

lemma abandoned_pool_reached:
  "limited_run (pool_new (fst (permits (set_max_concurrent_hashes 0 None)))) abandoned_pool"
proof -
  let ?p0 = "pool_new (semaphore_new 1)"
  let ?p1 = "?p0\<lparr>pl_work := pl_work ?p0 @ [Waiting]\<rparr>"
  let ?p2 = "?p1\<lparr>pl_work := pl_work ?p1 @ [Waiting]\<rparr>"
  let ?p3 = "put_work 0 (Working True) (take_permit ?p2)"
  have "limited_step ?p0 ?p1" and "limited_step ?p1 ?p2" by (rule arrive)+
  moreover have "limited_step ?p2 ?p3" by (rule acquire) (simp_all add: pool_new_def semaphore_new_def)
  moreover have "limited_step ?p3 (put_work 0 (Working False) ?p3)"
    by (rule abandon) (simp_all add: pool_new_def semaphore_new_def)
  ultimately have "limited_run ?p0 (put_work 0 (Working False) ?p3)"
    by (meson rtranclp.rtrancl_into_rtrancl rtranclp.rtrancl_refl)
  then show ?thesis
    by (simp add: abandoned_pool_def pool_new_def permits_def set_max_concurrent_hashes_def Let_def)
qed

theorem concurrent_hashes_bounded_witness:
  "running abandoned_pool = 1 \<and> (\<exists>q. limited_run abandoned_pool q \<and> pl_work q ! 1 = Working True)"
proof -
  have "pl_work abandoned_pool = [Working False, Waiting]" by (simp add: abandoned_pool_def)
  moreover from this have "running abandoned_pool = 1" by (simp add: running_def)
  ultimately show ?thesis using concurrent_hashes_bounded [OF abandoned_pool_reached] by simp
qed

end
