(* ===== verification/Config.thy ===== *)
theory Config
  imports Mail Security Permits
begin

text \<open>
  \<open>src/config\<close>: the configuration read from environment variables, every validation and every default in
  the order of the code. The variables are a map; the standard library's number and flag parsers are
  modelled, its socket address parser and the URL library are parameters.
\<close>

section \<open>Errors and parsers\<close>

datatype config_error = Missing str | Invalid str str

definition and_then :: "'e + 'a \<Rightarrow> ('a \<Rightarrow> 'e + 'b) \<Rightarrow> 'e + 'b" where
  "and_then v f = (case v of Inl x \<Rightarrow> Inl x | Inr y \<Rightarrow> f y)"

type_synonym vars = "str \<Rightarrow> str option"
type_synonym 'a parser = "str \<Rightarrow> str + 'a"

record socket_addr =
  sa_text :: str
  sa_port :: nat

record parsers =
  ps_socket_addr :: "socket_addr parser"
  ps_url :: "(str \<times> str option) parser" \<comment> \<open>the origin and the host\<close>

fun parse_digits :: "bool \<Rightarrow> int \<Rightarrow> int \<Rightarrow> int \<Rightarrow> int parser" where
  "parse_digits neg lo hi acc [] = Inr acc"
| "parse_digits neg lo hi acc (c # cs) =
     (if \<not> is_ascii_digit c then Inl ''invalid digit found in string''
      else let d = int (ascii_code c - 48); next_acc = (if neg then acc * 10 - d else acc * 10 + d)
           in if next_acc > hi then Inl ''number too large to fit in target type''
              else if next_acc < lo then Inl ''number too small to fit in target type''
              else parse_digits neg lo hi next_acc cs)"

definition parse_int :: "int \<Rightarrow> int \<Rightarrow> int parser" where
  "parse_int lo hi s =
     (case s of
        [] \<Rightarrow> Inl ''cannot parse integer from empty string''
      | c # cs \<Rightarrow>
          if cs \<noteq> [] \<and> c = CHR ''+'' then parse_digits False lo hi 0 cs
          else if cs \<noteq> [] \<and> c = CHR ''-'' \<and> lo < 0 then parse_digits True lo hi 0 cs
          else parse_digits False lo hi 0 s)"

definition parse_i64 :: "int parser" where "parse_i64 = parse_int (- (2 ^ 63)) (2 ^ 63 - 1)"
definition parse_i32 :: "int parser" where "parse_i32 = parse_int (- (2 ^ 31)) (2 ^ 31 - 1)"
definition parse_u32 :: "int parser" where "parse_u32 = parse_int 0 (2 ^ 32 - 1)"
definition parse_u16 :: "int parser" where "parse_u16 = parse_int 0 (2 ^ 16 - 1)"
definition parse_u64 :: "int parser" where "parse_u64 = parse_int 0 (2 ^ 64 - 1)"

definition parse_bool :: "bool parser" where
  "parse_bool s = (if s = ''true'' then Inr True else if s = ''false'' then Inr False
     else Inl ''provided string was not `true` or `false`'')"

definition parse_string :: "str parser" where "parse_string s = Inr s"

datatype smtp_tls = TlsNone | StartTls | Tls

definition parse_smtp_tls :: "smtp_tls parser" where
  "parse_smtp_tls s =
     (let l = to_lowercase s
      in if l = ''none'' then Inr TlsNone
         else if l = ''starttls'' then Inr StartTls
         else if l = ''tls'' then Inr Tls
         else Inl (''`'' @ l @ ''` is not one of none | starttls | tls''))"

section \<open>Reading variables\<close>

definition non_empty :: "vars \<Rightarrow> str \<Rightarrow> str option" where
  "non_empty vs name = ok_opt_filter (\<lambda>v. trim v \<noteq> []) (vs name)"

definition required :: "vars \<Rightarrow> str \<Rightarrow> config_error + str" where
  "required vs name = (case non_empty vs name of None \<Rightarrow> Inl (Missing name) | Some v \<Rightarrow> Inr v)"

definition optional_var :: "'a parser \<Rightarrow> vars \<Rightarrow> str \<Rightarrow> 'a \<Rightarrow> config_error + 'a" where
  "optional_var parse vs name dflt =
     (case non_empty vs name of
        None \<Rightarrow> Inr dflt
      | Some raw \<Rightarrow> (case parse raw of Inl reason \<Rightarrow> Inl (Invalid name reason) | Inr v \<Rightarrow> Inr v))"

definition parse_cors_allowed_origins :: "vars \<Rightarrow> str \<Rightarrow> str list" where
  "parse_cors_allowed_origins vs frontend =
     (case non_empty vs ''CORS_ALLOWED_ORIGINS'' of
        Some raw \<Rightarrow> map trim (split_on (CHR '','') raw)
      | None \<Rightarrow> [frontend])"

section \<open>Feature modules\<close>

record s3_storage_config =
  s3_bucket :: str
  s3_force_path_style :: bool
  s3_endpoint_url :: "str option"

record storage_config =
  sc_upload_dir :: str
  sc_s3 :: "s3_storage_config option"

definition storage_from_env :: "vars \<Rightarrow> config_error + storage_config" where
  "storage_from_env vs =
     and_then (case non_empty vs ''S3_BUCKET'' of
         Some bucket \<Rightarrow>
           and_then (optional_var parse_bool vs ''S3_FORCE_PATH_STYLE'' (non_empty vs ''AWS_ENDPOINT_URL'' \<noteq> None)) (\<lambda>style.
             Inr (Some \<lparr> s3_bucket = bucket, s3_force_path_style = style,
                         s3_endpoint_url = non_empty vs ''AWS_ENDPOINT_URL'' \<rparr>))
       | None \<Rightarrow> Inr None) (\<lambda>s3.
     and_then (optional_var parse_string vs ''UPLOAD_DIR'' ''./uploads'') (\<lambda>upload_dir.
       Inr \<lparr> sc_upload_dir = upload_dir, sc_s3 = s3 \<rparr>))"

definition google_config :: "str \<Rightarrow> str \<Rightarrow> oauth_provider_config" where
  "google_config i secret = \<lparr> client_id = i, client_secret = secret,
     authorize_endpoint = ''https://accounts.google.com/o/oauth2/v2/auth'',
     token_url = ''https://oauth2.googleapis.com/token'',
     userinfo_url = ''https://openidconnect.googleapis.com/v1/userinfo'', emails_url = None \<rparr>"

definition github_config :: "str \<Rightarrow> str \<Rightarrow> oauth_provider_config" where
  "github_config i secret = \<lparr> client_id = i, client_secret = secret,
     authorize_endpoint = ''https://github.com/login/oauth/authorize'',
     token_url = ''https://github.com/login/oauth/access_token'',
     userinfo_url = ''https://api.github.com/user'', emails_url = Some ''https://api.github.com/user/emails'' \<rparr>"

record oauth_config =
  oc_public_api_url :: str
  oc_google :: "oauth_provider_config option"
  oc_github :: "oauth_provider_config option"

definition both_or_neither :: "str \<Rightarrow> config_error" where
  "both_or_neither name = Invalid name ''the client id and the client secret must be set together''"

definition provider_from_env ::
  "vars \<Rightarrow> str \<Rightarrow> str \<Rightarrow> (str \<Rightarrow> str \<Rightarrow> 'c) \<Rightarrow> config_error + 'c option" where
  "provider_from_env vs id_name secret_name build =
     (case (non_empty vs id_name, non_empty vs secret_name) of
        (Some i, Some secret) \<Rightarrow> Inr (Some (build i secret))
      | (None, None) \<Rightarrow> Inr None
      | _ \<Rightarrow> Inl (both_or_neither id_name))"

definition oauth_from_env :: "vars \<Rightarrow> socket_addr \<Rightarrow> config_error + oauth_config" where
  "oauth_from_env vs bind_addr =
     and_then (optional_var parse_string vs ''PUBLIC_API_URL'' (''http://localhost:'' @ nat_to_string (sa_port bind_addr))) (\<lambda>url.
     and_then (provider_from_env vs ''GOOGLE_CLIENT_ID'' ''GOOGLE_CLIENT_SECRET'' google_config) (\<lambda>google.
     and_then (provider_from_env vs ''GITHUB_CLIENT_ID'' ''GITHUB_CLIENT_SECRET'' github_config) (\<lambda>github.
       Inr \<lparr> oc_public_api_url = trim_end_slashes url, oc_google = google, oc_github = github \<rparr>)))"

record webauthn_config =
  wc_rp_id :: str
  wc_rp_name :: str
  wc_origin :: str

definition webauthn_from_env :: "parsers \<Rightarrow> vars \<Rightarrow> str \<Rightarrow> config_error + webauthn_config" where
  "webauthn_from_env ps vs frontend =
     (case ps_url ps frontend of
        Inl reason \<Rightarrow> Inl (Invalid ''FRONTEND_URL'' reason)
      | Inr (default_origin, host) \<Rightarrow>
          and_then (optional_var parse_string vs ''WEBAUTHN_RP_ID''
              (case host of None \<Rightarrow> ''localhost'' | Some h \<Rightarrow> h)) (\<lambda>rp_id.
          and_then (optional_var parse_string vs ''WEBAUTHN_RP_NAME'' ''api-starter-axum'') (\<lambda>rp_name.
          and_then (optional_var parse_string vs ''WEBAUTHN_ORIGIN'' default_origin) (\<lambda>origin.
            Inr \<lparr> wc_rp_id = rp_id, wc_rp_name = rp_name, wc_origin = origin \<rparr>))))"

record metrics_config =
  mc_bind_addr :: socket_addr
  mc_token :: "str option"

definition metrics_from_env :: "parsers \<Rightarrow> vars \<Rightarrow> config_error + metrics_config" where
  "metrics_from_env ps vs =
     and_then (optional_var (ps_socket_addr ps) vs ''METRICS_BIND_ADDR'' \<lparr> sa_text = ''127.0.0.1:9091'', sa_port = 9091 \<rparr>) (\<lambda>addr.
       Inr \<lparr> mc_bind_addr = addr, mc_token = non_empty vs ''METRICS_TOKEN'' \<rparr>)"

record qr_login_config =
  qc_ttl_secs :: int
  qc_poll_rate_limit_per_minute :: int

definition qr_login_from_env :: "vars \<Rightarrow> config_error + qr_login_config" where
  "qr_login_from_env vs =
     and_then (optional_var parse_i64 vs ''QR_LOGIN_TTL_SECS'' 120) (\<lambda>ttl.
     if \<not> (30 \<le> ttl \<and> ttl \<le> 900) then Inl (Invalid ''QR_LOGIN_TTL_SECS'' ''must be between 30 and 900'')
     else and_then (optional_var parse_u32 vs ''QR_POLL_RATE_LIMIT_PER_MINUTE'' 120) (\<lambda>limit.
       Inr \<lparr> qc_ttl_secs = ttl, qc_poll_rate_limit_per_minute = limit \<rparr>))"

record media_config =
  md_max_upload_bytes :: int
  md_allowed_content_types :: "str list"

definition DEFAULT_ALLOWED_MEDIA_TYPES :: str where
  "DEFAULT_ALLOWED_MEDIA_TYPES = ''image/jpeg,image/png,image/gif,image/webp,application/pdf,video/mp4,video/webm,audio/mpeg,audio/ogg''"

definition media_from_env :: "vars \<Rightarrow> int \<Rightarrow> config_error + media_config" where
  "media_from_env vs max_request_body_bytes =
     and_then (optional_var parse_u64 vs ''MEDIA_MAX_UPLOAD_BYTES'' (8 * 1024 * 1024)) (\<lambda>max_upload.
     if max_upload > max_request_body_bytes
     then Inl (Invalid ''MEDIA_MAX_UPLOAD_BYTES'' (int_to_string max_upload @ '' exceeds MAX_REQUEST_BODY_BYTES (''
            @ int_to_string max_request_body_bytes
            @ ''), so uploads that large would be rejected before reaching the media handler''))
     else let raw = (case non_empty vs ''MEDIA_ALLOWED_CONTENT_TYPES'' of
                None \<Rightarrow> DEFAULT_ALLOWED_MEDIA_TYPES | Some r \<Rightarrow> r)
          in Inr \<lparr> md_max_upload_bytes = max_upload,
               md_allowed_content_types =
                 filter (\<lambda>t. t \<noteq> []) (map (\<lambda>t. to_lowercase (trim t)) (split_on (CHR '','') raw)) \<rparr>)"

section \<open>The configuration\<close>

record smtp_config =
  smtp_enabled :: bool
  smtp_host :: str
  smtp_port :: int
  smtp_tls_mode :: smtp_tls
  smtp_username :: "str option"
  smtp_password :: "str option"
  smtp_from :: str

record account_config =
  ac_password_reset_ttl_minutes :: int
  ac_email_verification_ttl_hours :: int
  ac_email_change_ttl_minutes :: int
  ac_require_verified_email :: bool
  ac_rate_limit_per_minute :: int
  ac_max_concurrent_hashes :: int
  ac_trust_proxy_headers :: bool
  ac_check_password_breaches :: bool
  ac_max_failed_login_attempts :: int
  ac_account_lockout_minutes :: int

record bootstrap_admin =
  ba_email :: str
  ba_password :: str

record app_config =
  cfg_database_url :: str
  cfg_database_max_connections :: int
  cfg_bind_addr :: socket_addr
  cfg_cors_allowed_origins :: "str list"
  cfg_max_request_body_bytes :: int
  cfg_jwt_secret :: str
  cfg_jwt_ttl_secs :: int
  cfg_smtp :: smtp_config
  cfg_frontend_url :: str
  cfg_account :: account_config
  cfg_bootstrap_admin :: "bootstrap_admin option"
  cfg_storage :: storage_config
  cfg_media :: media_config
  cfg_oauth :: oauth_config
  cfg_webauthn :: webauthn_config
  cfg_qr_login :: qr_login_config
  cfg_metrics :: metrics_config

definition smtp_from_env :: "vars \<Rightarrow> config_error + smtp_config" where
  "smtp_from_env vs =
     and_then (optional_var parse_bool vs ''MAIL_ENABLED'' False) (\<lambda>on.
     if on then
       and_then (required vs ''SMTP_HOST'') (\<lambda>host.
       and_then (optional_var parse_u16 vs ''SMTP_PORT'' 587) (\<lambda>port.
       and_then (optional_var parse_smtp_tls vs ''SMTP_TLS'' StartTls) (\<lambda>tls.
       and_then (required vs ''MAIL_FROM'') (\<lambda>sender.
         Inr \<lparr> smtp_enabled = True, smtp_host = host, smtp_port = port, smtp_tls_mode = tls,
               smtp_username = non_empty vs ''SMTP_USERNAME'', smtp_password = non_empty vs ''SMTP_PASSWORD'',
               smtp_from = sender \<rparr>))))
     else
       and_then (optional_var parse_string vs ''MAIL_FROM'' ''App <no-reply@localhost>'') (\<lambda>sender.
         Inr \<lparr> smtp_enabled = False, smtp_host = [], smtp_port = 0, smtp_tls_mode = TlsNone,
               smtp_username = None, smtp_password = None, smtp_from = sender \<rparr>))"

definition bootstrap_from_env :: "vars \<Rightarrow> config_error + bootstrap_admin option" where
  "bootstrap_from_env vs =
     (case (non_empty vs ''ADMIN_EMAIL'', non_empty vs ''ADMIN_PASSWORD'') of
        (Some email, Some password) \<Rightarrow> Inr (Some \<lparr> ba_email = email, ba_password = password \<rparr>)
      | (None, None) \<Rightarrow> Inr None
      | _ \<Rightarrow> Inl (Invalid ''ADMIN_EMAIL'' ''ADMIN_EMAIL and ADMIN_PASSWORD must be set together''))"

definition account_from_env :: "vars \<Rightarrow> int \<Rightarrow> config_error + account_config" where
  "account_from_env vs max_concurrent_hashes =
     and_then (optional_var parse_i64 vs ''PASSWORD_RESET_TTL_MINUTES'' 30) (\<lambda>reset.
     and_then (optional_var parse_i64 vs ''EMAIL_VERIFICATION_TTL_HOURS'' 24) (\<lambda>verification.
     and_then (optional_var parse_i64 vs ''EMAIL_CHANGE_TTL_MINUTES'' 60) (\<lambda>email_change.
     and_then (optional_var parse_bool vs ''REQUIRE_VERIFIED_EMAIL'' False) (\<lambda>verified.
     and_then (optional_var parse_u32 vs ''RATE_LIMIT_PER_MINUTE'' 20) (\<lambda>rate.
     and_then (optional_var parse_bool vs ''TRUST_PROXY_HEADERS'' False) (\<lambda>proxy.
     and_then (optional_var parse_bool vs ''CHECK_PASSWORD_BREACHES'' False) (\<lambda>breaches.
     and_then (optional_var parse_i32 vs ''MAX_FAILED_LOGIN_ATTEMPTS'' 5) (\<lambda>failures.
     and_then (optional_var parse_i64 vs ''ACCOUNT_LOCKOUT_MINUTES'' 15) (\<lambda>lockout.
       Inr \<lparr> ac_password_reset_ttl_minutes = reset, ac_email_verification_ttl_hours = verification,
             ac_email_change_ttl_minutes = email_change, ac_require_verified_email = verified,
             ac_rate_limit_per_minute = rate, ac_max_concurrent_hashes = max_concurrent_hashes,
             ac_trust_proxy_headers = proxy, ac_check_password_breaches = breaches,
             ac_max_failed_login_attempts = failures, ac_account_lockout_minutes = lockout \<rparr>)))))))))"

definition from_env :: "parsers \<Rightarrow> vars \<Rightarrow> config_error + app_config" where
  "from_env ps vs =
     and_then (required vs ''JWT_SECRET'') (\<lambda>secret.
     if length secret < 32 then Inl (Invalid ''JWT_SECRET'' ''must be at least 32 characters'')
     else and_then (optional_var parse_u64 vs ''MAX_CONCURRENT_HASHES'' (int DEFAULT_MAX_CONCURRENT_HASHES)) (\<lambda>hashes.
     if hashes = 0 then Inl (Invalid ''MAX_CONCURRENT_HASHES'' ''must be at least 1'')
     else and_then (smtp_from_env vs) (\<lambda>smtp.
     and_then (bootstrap_from_env vs) (\<lambda>admin.
     and_then (optional_var (ps_socket_addr ps) vs ''BIND_ADDR'' \<lparr> sa_text = ''127.0.0.1:3000'', sa_port = 3000 \<rparr>) (\<lambda>bind_addr.
     and_then (optional_var parse_string vs ''FRONTEND_URL'' ''http://localhost:5173'') (\<lambda>raw_frontend.
     let frontend = trim_end_slashes raw_frontend
     in and_then (webauthn_from_env ps vs frontend) (\<lambda>rp.
     let cors = parse_cors_allowed_origins vs frontend
     in and_then (optional_var parse_u64 vs ''MAX_REQUEST_BODY_BYTES'' (10 * 1024 * 1024)) (\<lambda>body_limit.
     and_then (required vs ''DATABASE_URL'') (\<lambda>database_url.
     and_then (optional_var parse_u32 vs ''DATABASE_MAX_CONNECTIONS'' 10) (\<lambda>connections.
     and_then (optional_var parse_i64 vs ''JWT_TTL_SECS'' 3600) (\<lambda>ttl.
     and_then (account_from_env vs hashes) (\<lambda>account.
     and_then (storage_from_env vs) (\<lambda>storage.
     and_then (media_from_env vs body_limit) (\<lambda>uploads.
     and_then (oauth_from_env vs bind_addr) (\<lambda>providers.
     and_then (qr_login_from_env vs) (\<lambda>qr.
     and_then (metrics_from_env ps vs) (\<lambda>metrics.
       Inr \<lparr> cfg_database_url = database_url, cfg_database_max_connections = connections,
             cfg_bind_addr = bind_addr, cfg_cors_allowed_origins = cors,
             cfg_max_request_body_bytes = body_limit, cfg_jwt_secret = secret, cfg_jwt_ttl_secs = ttl,
             cfg_smtp = smtp, cfg_frontend_url = frontend, cfg_account = account,
             cfg_bootstrap_admin = admin, cfg_storage = storage, cfg_media = uploads,
             cfg_oauth = providers, cfg_webauthn = rp, cfg_qr_login = qr, cfg_metrics = metrics \<rparr>)))))))))))))))))"

text \<open>What \<open>AppState\<close> hands to the services.\<close>

definition state_config :: "app_config \<Rightarrow> config" where
  "state_config c =
     \<lparr> mail_enabled = smtp_enabled (cfg_smtp c),
       jwt_secret = cfg_jwt_secret c,
       jwt_ttl_secs = cfg_jwt_ttl_secs c,
       frontend_url = cfg_frontend_url c,
       password_reset_ttl_minutes = ac_password_reset_ttl_minutes (cfg_account c),
       email_verification_ttl_hours = ac_email_verification_ttl_hours (cfg_account c),
       email_change_ttl_minutes = ac_email_change_ttl_minutes (cfg_account c),
       require_verified_email = ac_require_verified_email (cfg_account c),
       rate_limit_per_minute = word_of_int (ac_rate_limit_per_minute (cfg_account c)),
       trust_proxy_headers = ac_trust_proxy_headers (cfg_account c),
       check_password_breaches = ac_check_password_breaches (cfg_account c),
       max_failed_login_attempts = ac_max_failed_login_attempts (cfg_account c),
       account_lockout_minutes = ac_account_lockout_minutes (cfg_account c),
       webauthn_rp_name = wc_rp_name (cfg_webauthn c),
       qr_ttl_secs = qc_ttl_secs (cfg_qr_login c),
       qr_poll_rate_limit_per_minute = word_of_int (qc_poll_rate_limit_per_minute (cfg_qr_login c)),
       storage_backend = (case sc_s3 (cfg_storage c) of None \<Rightarrow> LocalDisk | Some _ \<Rightarrow> S3),
       max_upload_bytes = nat (md_max_upload_bytes (cfg_media c)),
       allowed_content_types = md_allowed_content_types (cfg_media c),
       public_api_url = oc_public_api_url (cfg_oauth c),
       oauth_google = oc_google (cfg_oauth c),
       oauth_github = oc_github (cfg_oauth c) \<rparr>"

section \<open>Inversion\<close>

lemma and_then_Inr [simp]: "and_then v f = Inr y \<longleftrightarrow> (\<exists>x. v = Inr x \<and> f x = Inr y)"
  by (cases v) (auto simp: and_then_def)

lemma parse_digits_range:
  "parse_digits neg lo hi acc s = Inr v \<Longrightarrow> lo \<le> acc \<Longrightarrow> acc \<le> hi \<Longrightarrow> lo \<le> v \<and> v \<le> hi"
  by (induction neg lo hi acc s rule: parse_digits.induct) (auto simp: Let_def split: if_splits)

lemma parse_int_range: "parse_int lo hi s = Inr v \<Longrightarrow> lo \<le> 0 \<Longrightarrow> 0 \<le> hi \<Longrightarrow> lo \<le> v \<and> v \<le> hi"
  by (auto simp: parse_int_def simp del: parse_digits.simps split: list.splits if_splits dest: parse_digits_range)

lemma optional_var_cases:
  assumes "optional_var parse vs name dflt = Inr v"
  obtains "v = dflt" | raw where "parse raw = Inr v"
  using assms by (auto simp: optional_var_def split: option.splits sum.splits)

end
