(* ===== verification/Middleware.thy ===== *)
theory Middleware
  imports Config Http Permits
begin

text \<open>
  What surrounds the routes: the global layers of \<open>src/common/middleware\<close> (their order and settings, the
  cross-origin policy, the request id of a log span), the scrape endpoint of \<open>src/infra/metrics.rs\<close> and the
  log set-up of \<open>src/infra/telemetry.rs\<close>. The layers themselves are third-party code; what the repository
  decides is which of them are used, in which order and with which settings.
\<close>

section \<open>Layers\<close>

definition X_REQUEST_ID :: str where "X_REQUEST_ID = ''x-request-id''"

datatype cors_policy = Permissive | AllowOrigins "str list"

definition cors_layer :: "str list \<Rightarrow> cors_policy" where
  "cors_layer allowed_origins =
     (if list_ex (\<lambda>origin. origin = ''*'') allowed_origins then Permissive
      else AllowOrigins (List.map_filter header_from_str allowed_origins))"

datatype layer =
    SetRequestId str
  | TraceHttp
  | PropagateRequestId str
  | Timeout nat duration
  | Compression
  | Cors cors_policy
  | BodyLimit int

definition stack_apply :: "str list \<Rightarrow> int \<Rightarrow> layer list" where
  "stack_apply cors_allowed_origins max_request_body_bytes =
     [SetRequestId X_REQUEST_ID, TraceHttp, PropagateRequestId X_REQUEST_ID, Timeout 408 (seconds 10), Compression,
      Cors (cors_layer cors_allowed_origins), BodyLimit max_request_body_bytes]"

text \<open>The id a span carries: the header, when it is readable text.\<close>

record span =
  sp_method :: http_method
  sp_request_id :: str

definition make_span :: "request \<Rightarrow> span" where
  "make_span rq =
     \<lparr> sp_method = rq_method rq,
       sp_request_id = (case header_get (rq_headers rq) X_REQUEST_ID of Some v \<Rightarrow> v | None \<Rightarrow> ''-'') \<rparr>"

section \<open>Metrics\<close>

record metrics_state =
  mx_handle :: str
  mx_token :: "str option"

definition metrics_render :: "metrics_state \<Rightarrow> headers \<Rightarrow> str response" where
  "metrics_render st hs =
     (case mx_token st of
        Some expected \<Rightarrow>
          (let presented = Option.bind (header_get hs ''authorization'') (\<lambda>v. strip_prefix v ''Bearer '')
           in if presented \<noteq> Some expected then (401, []) else (200, mx_handle st))
      | None \<Rightarrow> (200, mx_handle st))"

text \<open>The scrape listener serves one route; \<open>get\<close> answers \<open>HEAD\<close> too, without the body.\<close>

definition metrics_router :: "str \<Rightarrow> str option \<Rightarrow> http_method \<Rightarrow> str \<Rightarrow> headers \<Rightarrow> str response" where
  "metrics_router handle token method path hs =
     (if path \<noteq> ''/metrics'' then (404, [])
      else case method of
        GET \<Rightarrow> metrics_render \<lparr> mx_handle = handle, mx_token = token \<rparr> hs
      | HEAD \<Rightarrow> (fst (metrics_render \<lparr> mx_handle = handle, mx_token = token \<rparr> hs), [])
      | _ \<Rightarrow> (405, []))"

text \<open>The recorder is installed by the first call and shared by all later ones.\<close>

definition layer_and_handle :: "'p \<Rightarrow> 'p option \<Rightarrow> 'p \<times> 'p option" where
  "layer_and_handle new_pair cell = (case cell of Some p \<Rightarrow> (p, cell) | None \<Rightarrow> (new_pair, Some new_pair))"

text \<open>One turn of the sampler, every 15 seconds; the pool's two numbers are the driver's.\<close>

definition sample_gauges :: "nat \<Rightarrow> nat \<Rightarrow> 'ip hits \<Rightarrow> semaphore option \<Rightarrow> (str \<times> nat) list" where
  "sample_gauges pool_size pool_idle hits hash_permits =
     [(''db_pool_connections'', pool_size), (''db_pool_idle_connections'', pool_idle),
      (''rate_limiter_tracked_clients'', tracked_clients hits),
      (''password_hash_permits_available'', available_permits hash_permits)]"

section \<open>Logs\<close>

datatype log_format = JsonLines | PlainText

definition telemetry_init :: "(str \<Rightarrow> bool) \<Rightarrow> vars \<Rightarrow> str \<times> log_format" where
  "telemetry_init filter_ok vs =
     (case vs ''RUST_LOG'' of
        Some f \<Rightarrow> if filter_ok f then f else ''api_starter_axum=debug,tower_http=debug,sqlx=warn,info''
      | None \<Rightarrow> ''api_starter_axum=debug,tower_http=debug,sqlx=warn,info'',
      if vs ''LOG_FORMAT'' = Some ''json'' then JsonLines else PlainText)"

section \<open>Facts\<close>

lemma map_filter_header: "o' \<in> set (List.map_filter header_from_str os) \<longleftrightarrow> o' \<in> set os \<and> header_from_str o' \<noteq> None"
  by (auto simp: List.map_filter_def header_from_str_def image_iff split: if_splits)

text \<open>
  A layer of the stack sees the request id that the first one set: the span is made inside it, and the
  response gets it on the way out.
\<close>

lemma request_id_is_set_first:
  "stack_apply os n = SetRequestId X_REQUEST_ID # TraceHttp # PropagateRequestId X_REQUEST_ID # drop 3 (stack_apply os n)"
  by (simp add: stack_apply_def)

lemma recorder_installed_once:
  "layer_and_handle a cell = (p, cell') \<Longrightarrow> layer_and_handle b cell' = (p, cell')"
  by (auto simp: layer_and_handle_def split: option.splits)

lemma metrics_need_their_token:
  "fst (metrics_render st hs) = 200 \<longleftrightarrow>
     mx_token st = None \<or> Option.bind (header_get hs ''authorization'') (\<lambda>v. strip_prefix v ''Bearer '') = mx_token st"
  by (auto simp: metrics_render_def Let_def split: option.splits)

lemma metrics_router_needs_token:
  "fst (metrics_router handle (Some t) method path hs) = 200
     \<Longrightarrow> path = ''/metrics'' \<and> Option.bind (header_get hs ''authorization'') (\<lambda>v. strip_prefix v ''Bearer '') = Some t"
  by (auto simp: metrics_router_def metrics_need_their_token split: if_splits http_method.splits)

end
