(* ===== verification/ConfigProperties.thy ===== *)
theory ConfigProperties
  imports Config Middleware
begin

text \<open>
  The configuration: what every accepted configuration satisfies, and that a blank variable is an unset one.
\<close>

section \<open>What is accepted\<close>

lemma optional_range:
  assumes "optional_var (parse_int lo hi) vs name dflt = Inr v" and "lo \<le> 0" and "0 \<le> hi" and "lo \<le> dflt" and "dflt \<le> hi"
  shows "lo \<le> v \<and> v \<le> hi"
  using assms(1) by (cases rule: optional_var_cases) (use assms parse_int_range in auto)

lemma trim_end_slashes_last: "trim_end_slashes t = [] \<or> last (trim_end_slashes t) \<noteq> CHR ''/''"
  using hd_dropWhile [of "\<lambda>c. c = CHR ''/''" "rev t"] by (auto simp: trim_end_slashes_def last_rev)

lemma qr_login_range: "qr_login_from_env vs = Inr q \<Longrightarrow> 30 \<le> qc_ttl_secs q \<and> qc_ttl_secs q \<le> 900
    \<and> 0 \<le> qc_poll_rate_limit_per_minute q \<and> qc_poll_rate_limit_per_minute q < 2 ^ 32"
  by (auto simp: qr_login_from_env_def parse_u32_def split: if_splits dest: optional_range)

lemma media_range: "media_from_env vs lim = Inr m \<Longrightarrow> 0 \<le> md_max_upload_bytes m \<and> md_max_upload_bytes m \<le> lim
    \<and> [] \<notin> set (md_allowed_content_types m)"
  by (auto simp: media_from_env_def parse_u64_def Let_def split: if_splits dest: optional_range)

lemma account_range: "account_from_env vs h = Inr a \<Longrightarrow> ac_max_concurrent_hashes a = h
    \<and> 0 \<le> ac_rate_limit_per_minute a \<and> ac_rate_limit_per_minute a < 2 ^ 32"
  by (auto simp: account_from_env_def parse_u32_def dest: optional_range)

lemma oauth_url: "oauth_from_env vs a = Inr o' \<Longrightarrow> oc_public_api_url o' = [] \<or> last (oc_public_api_url o') \<noteq> CHR ''/''"
proof -
  assume "oauth_from_env vs a = Inr o'"
  then obtain url where "oc_public_api_url o' = trim_end_slashes url" by (auto simp: oauth_from_env_def)
  then show ?thesis using trim_end_slashes_last by metis
qed

text \<open>
  The server only starts with a sane configuration: a signing secret of at least 32 bytes, at least one
  concurrent hash, a QR lifetime of 30 to 900 seconds, uploads no larger than a request body, limits that
  keep their value in the limiter's 32-bit words, base addresses without a trailing slash, and no empty
  content type.
\<close>

theorem accepted_configuration_is_sane:
  assumes "from_env ps vs = Inr c"
  shows "32 \<le> length (jwt_secret (state_config c)) \<and> 1 \<le> ac_max_concurrent_hashes (cfg_account c)
     \<and> 30 \<le> qr_ttl_secs (state_config c) \<and> qr_ttl_secs (state_config c) \<le> 900
     \<and> int (max_upload_bytes (state_config c)) \<le> cfg_max_request_body_bytes c
     \<and> uint (rate_limit_per_minute (state_config c)) = ac_rate_limit_per_minute (cfg_account c)
     \<and> uint (qr_poll_rate_limit_per_minute (state_config c)) = qc_poll_rate_limit_per_minute (cfg_qr_login c)
     \<and> (frontend_url (state_config c) = [] \<or> last (frontend_url (state_config c)) \<noteq> CHR ''/'')
     \<and> (public_api_url (state_config c) = [] \<or> last (public_api_url (state_config c)) \<noteq> CHR ''/'')
     \<and> [] \<notin> set (allowed_content_types (state_config c))"
proof -
  from assms have 1: "32 \<le> length (cfg_jwt_secret c)"
    and 2: "\<exists>hashes. optional_var parse_u64 vs ''MAX_CONCURRENT_HASHES'' (int DEFAULT_MAX_CONCURRENT_HASHES) = Inr hashes
       \<and> hashes \<noteq> 0 \<and> account_from_env vs hashes = Inr (cfg_account c)"
    and 3: "media_from_env vs (cfg_max_request_body_bytes c) = Inr (cfg_media c)"
    and 4: "oauth_from_env vs (cfg_bind_addr c) = Inr (cfg_oauth c)" and 5: "qr_login_from_env vs = Inr (cfg_qr_login c)"
    and 6: "\<exists>raw. cfg_frontend_url c = trim_end_slashes raw"
    by (auto simp: from_env_def Let_def split: if_splits)
  from 2 obtain hashes where h: "optional_var (parse_int 0 (2 ^ 64 - 1)) vs ''MAX_CONCURRENT_HASHES'' 8 = Inr hashes"
    "hashes \<noteq> 0" and a: "account_from_env vs hashes = Inr (cfg_account c)"
    by (auto simp: parse_u64_def DEFAULT_MAX_CONCURRENT_HASHES_def)
  have "0 \<le> hashes" using optional_range [OF h(1)] by simp
  then have "1 \<le> ac_max_concurrent_hashes (cfg_account c)" using account_range [OF a] h(2) by simp
  moreover have "uint (word_of_int (ac_rate_limit_per_minute (cfg_account c)) :: 32 word) = ac_rate_limit_per_minute (cfg_account c)"
    and "uint (word_of_int (qc_poll_rate_limit_per_minute (cfg_qr_login c)) :: 32 word) = qc_poll_rate_limit_per_minute (cfg_qr_login c)"
    using account_range [OF a] qr_login_range [OF 5] by (auto simp: uint_word_of_int)
  moreover have "cfg_frontend_url c = [] \<or> last (cfg_frontend_url c) \<noteq> CHR ''/''" using 6 trim_end_slashes_last by metis
  ultimately show ?thesis
    using 1 media_range [OF 3] oauth_url [OF 4] qr_login_range [OF 5] by (simp add: state_config_def)
qed

definition sample_parsers :: parsers where
  "sample_parsers = \<lparr> ps_socket_addr = (\<lambda>s. Inr \<lparr> sa_text = s, sa_port = 80 \<rparr>), ps_url = (\<lambda>s. Inr (s, None)) \<rparr>"

definition sample_vars :: vars where
  "sample_vars = [''JWT_SECRET'' \<mapsto> ''0123456789abcdef0123456789abcdef'', ''DATABASE_URL'' \<mapsto> ''postgres://db'',
     ''FRONTEND_URL'' \<mapsto> ''https://app/'', ''SMTP_HOST'' \<mapsto> ''  '']"

lemma sample_configuration:
  obtains c where "from_env sample_parsers sample_vars = Inr c" and "cfg_frontend_url c = ''https://app''"
    and "cfg_cors_allowed_origins c = [''https://app'']"
proof -
  have "map_sum id (\<lambda>c. (cfg_frontend_url c, cfg_cors_allowed_origins c)) (from_env sample_parsers sample_vars)
      = Inr (''https://app'', [''https://app''])"
    by code_simp
  then show ?thesis using that by (cases "from_env sample_parsers sample_vars") auto
qed

theorem accepted_configuration_is_sane_witness:
  "\<exists>c. from_env sample_parsers sample_vars = Inr c \<and> 32 \<le> length (jwt_secret (state_config c))
     \<and> last (frontend_url (state_config c)) \<noteq> CHR ''/''"
proof -
  obtain c where c: "from_env sample_parsers sample_vars = Inr c" and "cfg_frontend_url c = ''https://app''"
    by (rule sample_configuration)
  then have "frontend_url (state_config c) = ''https://app''" by (simp add: state_config_def)
  with c accepted_configuration_is_sane [OF c] show ?thesis by auto
qed

section \<open>Blank variables\<close>

lemma trim_blank [simp]: "non_empty (non_empty vs) name = non_empty vs name"
  by (simp add: non_empty_def split: option.splits)

lemma required_blank [simp]: "required (non_empty vs) name = required vs name"
  by (simp add: required_def)

lemma optional_blank [simp]: "optional_var p (non_empty vs) name dflt = optional_var p vs name dflt"
  by (simp add: optional_var_def)

lemma features_blank [simp]:
  "storage_from_env (non_empty vs) = storage_from_env vs"
  "media_from_env (non_empty vs) lim = media_from_env vs lim"
  "oauth_from_env (non_empty vs) a = oauth_from_env vs a"
  "webauthn_from_env ps (non_empty vs) f = webauthn_from_env ps vs f"
  "qr_login_from_env (non_empty vs) = qr_login_from_env vs"
  "metrics_from_env ps (non_empty vs) = metrics_from_env ps vs"
  "smtp_from_env (non_empty vs) = smtp_from_env vs"
  "bootstrap_from_env (non_empty vs) = bootstrap_from_env vs"
  "account_from_env (non_empty vs) h = account_from_env vs h"
  "parse_cors_allowed_origins (non_empty vs) f = parse_cors_allowed_origins vs f"
  unfolding storage_from_env_def media_from_env_def oauth_from_env_def provider_from_env_def
    webauthn_from_env_def qr_login_from_env_def metrics_from_env_def smtp_from_env_def
    bootstrap_from_env_def account_from_env_def parse_cors_allowed_origins_def
    trim_blank required_blank optional_blank
  by (rule refl)+

text \<open>
  A blank variable is an unset one, for every variable: dropping all blank values from the environment
  changes neither the configuration nor the error.
\<close>

theorem blank_variable_is_unset:
  "from_env ps (\<lambda>name. case vs name of None \<Rightarrow> None | Some v \<Rightarrow> if trim v = [] then None else Some v) = from_env ps vs"
proof -
  have "(\<lambda>name. case vs name of None \<Rightarrow> None | Some v \<Rightarrow> if trim v = [] then None else Some v) = non_empty vs"
    by (auto simp: non_empty_def fun_eq_iff split: option.splits)
  then show ?thesis
    unfolding from_env_def by (simp only: required_blank optional_blank features_blank cong: if_cong)
qed

section \<open>Cross-origin requests\<close>

text \<open>
  The origins a browser may call the API from are the configured ones and no others: the policy is open
  only when one of the configured entries is a star, otherwise its list holds exactly the configured
  origins that are valid header values, and no star, which the layer would refuse to take. Without a
  configured list it is the frontend alone.
\<close>

theorem cross_origin_policy_is_configured:
  assumes "from_env ps vs = Inr c"
  shows "(cors_layer (cfg_cors_allowed_origins c) = Permissive \<and> ''*'' \<in> set (cfg_cors_allowed_origins c))
     \<or> (\<exists>os. cors_layer (cfg_cors_allowed_origins c) = AllowOrigins os \<and> ''*'' \<notin> set os
          \<and> set os = {x \<in> set (cfg_cors_allowed_origins c). header_from_str x \<noteq> None}
          \<and> (non_empty vs ''CORS_ALLOWED_ORIGINS'' \<noteq> None \<or> set os \<subseteq> {frontend_url (state_config c)}))"
proof -
  have origins: "cfg_cors_allowed_origins c = parse_cors_allowed_origins vs (cfg_frontend_url c)"
    using assms by (auto simp: from_env_def Let_def split: if_splits)
  show ?thesis
  proof (cases "''*'' \<in> set (cfg_cors_allowed_origins c)")
    case True
    then show ?thesis by (simp add: cors_layer_def list_ex_iff)
  next
    case False
    define os where "os = List.map_filter header_from_str (cfg_cors_allowed_origins c)"
    have "cors_layer (cfg_cors_allowed_origins c) = AllowOrigins os"
      using False by (auto simp: cors_layer_def list_ex_iff os_def)
    moreover have os: "set os = {x \<in> set (cfg_cors_allowed_origins c). header_from_str x \<noteq> None}"
      by (auto simp: os_def map_filter_header)
    moreover have "set os \<subseteq> {frontend_url (state_config c)}" if "non_empty vs ''CORS_ALLOWED_ORIGINS'' = None"
      using that by (auto simp: os origins parse_cors_allowed_origins_def state_config_def)
    ultimately show ?thesis using False by auto
  qed
qed

theorem cross_origin_policy_is_configured_witness:
  "\<exists>c os. from_env sample_parsers sample_vars = Inr c \<and> cors_layer (cfg_cors_allowed_origins c) = AllowOrigins os
     \<and> set os \<subseteq> {''https://app''}"
proof -
  obtain c where c: "from_env sample_parsers sample_vars = Inr c" and "cfg_frontend_url c = ''https://app''"
    and o: "cfg_cors_allowed_origins c = [''https://app'']"
    by (rule sample_configuration)
  then have "frontend_url (state_config c) = ''https://app''" by (simp add: state_config_def)
  moreover have "non_empty sample_vars ''CORS_ALLOWED_ORIGINS'' = None" by (simp add: non_empty_def sample_vars_def)
  ultimately show ?thesis using cross_origin_policy_is_configured [OF c] c o by auto
qed

end
