(* ===== verification/Secrets.thy ===== *)
theory Secrets
  imports Rust_Std
begin

text \<open>
  \<open>src/infra/secrets.rs\<close>: filling generated secrets into the lines of a \<open>.env\<close> file, and keeping the scrape
  token of \<open>monitoring/prometheus.yml\<close> in step. Files are a map from paths to contents; whether a write
  succeeds and the generated values are parameters.
\<close>

type_synonym files = "str \<Rightarrow> str option"

datatype prometheus_sync = PrometheusNotFound | NoCredentialsLine | Updated

record generated_secrets =
  gs_changed :: "str list"
  gs_admin_email_missing :: bool
  gs_prometheus_sync :: "prometheus_sync option"

definition join_lines :: "str list \<Rightarrow> str" where
  "join_lines ls = concat (map (\<lambda>l. l @ [CHR 0x0A]) ls)"

text \<open>\<open>lines.join("\n") + "\n"\<close>: no lines still give one line feed.\<close>

definition file_of_lines :: "str list \<Rightarrow> str" where
  "file_of_lines ls = (if ls = [] then [CHR 0x0A] else join_lines ls)"

fun set_env_var :: "str list \<Rightarrow> str \<Rightarrow> str \<Rightarrow> bool \<Rightarrow> bool \<times> str list" where
  "set_env_var [] name val force = (True, [name @ ''='' @ val])"
| "set_env_var (line # lines) name val force =
     (case strip_prefix (trim_start line) (name @ ''='') of
        Some existing \<Rightarrow>
          if existing \<noteq> [] \<and> \<not> force then (False, line # lines)
          else (True, (name @ ''='' @ val) # lines)
      | None \<Rightarrow>
          if starts_with (trim_start line) (''# '' @ name @ ''='') then (True, (name @ ''='' @ val) # lines)
          else (case set_env_var lines name val force of (c, rest) \<Rightarrow> (c, line # rest)))"

definition has_non_empty_value :: "str list \<Rightarrow> str \<Rightarrow> bool" where
  "has_non_empty_value lines name =
     list_ex (\<lambda>line. case strip_prefix (trim_start line) (name @ ''='') of None \<Rightarrow> False | Some v \<Rightarrow> v \<noteq> []) lines"

text \<open>\<open>line.find(needle)\<close>, the text before the first occurrence.\<close>

fun before :: "str \<Rightarrow> str \<Rightarrow> str option" where
  "before needle [] = (if needle = [] then Some [] else None)"
| "before needle (c # cs) =
     (if starts_with (c # cs) needle then Some [] else map_option ((#) c) (before needle cs))"

definition sync_line :: "str \<Rightarrow> str \<Rightarrow> str" where
  "sync_line token line =
     (case before ''credentials:'' line of
        Some indent \<Rightarrow> indent @ ''credentials: '' @ [CHR 0x22] @ token @ [CHR 0x22]
      | None \<Rightarrow> line)"

definition sync_prometheus_token ::
  "(str \<Rightarrow> bool) \<Rightarrow> str \<Rightarrow> str \<Rightarrow> files \<Rightarrow> (str + prometheus_sync) \<times> files" where
  "sync_prometheus_token writable path token fs =
     (case fs path of
        None \<Rightarrow> (Inr PrometheusNotFound, fs)
      | Some contents \<Rightarrow>
          if \<not> list_ex (\<lambda>line. before ''credentials:'' line \<noteq> None) (str_lines contents)
          then (Inr NoCredentialsLine, fs)
          else if writable path
          then (Inr Updated, fs(path \<mapsto> file_of_lines (map (sync_line token) (str_lines contents))))
          else (Inl ''write failed'', fs))"

definition generate_admin_password ::
  "str list \<Rightarrow> str \<Rightarrow> bool \<Rightarrow> bool \<times> str list" where
  "generate_admin_password lines token force =
     (if has_non_empty_value lines ''ADMIN_EMAIL'' then set_env_var lines ''ADMIN_PASSWORD'' token force
      else (False, lines))"

definition generate ::
  "(str \<Rightarrow> bool) \<Rightarrow> str \<times> str \<times> str \<Rightarrow> str \<Rightarrow> str \<Rightarrow> bool \<Rightarrow> files \<Rightarrow> (str + generated_secrets) \<times> files" where
  "generate writable tokens env_path prometheus_path force fs =
     (case fs env_path of
        None \<Rightarrow> (Inl (''no '' @ env_path @ '' found; run `cp .env.example .env` first''), fs)
      | Some contents \<Rightarrow>
          (case tokens of (jwt, metrics, admin) \<Rightarrow>
           let (jwt_set, lines1) = set_env_var (str_lines contents) ''JWT_SECRET'' jwt force;
               (metrics_set, lines2) = set_env_var lines1 ''METRICS_TOKEN'' metrics force
           in case (if metrics_set then map_prod (map_sum id Some) id (sync_prometheus_token writable prometheus_path metrics fs)
                    else (Inr None, fs)) of
                (Inl x, fs1) \<Rightarrow> (Inl x, fs1)
              | (Inr sync, fs1) \<Rightarrow>
                  let missing = (\<not> has_non_empty_value lines2 ''ADMIN_EMAIL'');
                      (admin_set, lines3) = generate_admin_password lines2 admin force;
                      changed = (if jwt_set then [''JWT_SECRET''] else []) @ (if metrics_set then [''METRICS_TOKEN''] else [])
                        @ (if admin_set then [''ADMIN_PASSWORD''] else []);
                      report = \<lparr> gs_changed = changed, gs_admin_email_missing = missing, gs_prometheus_sync = sync \<rparr>
                  in if changed = [] then (Inr report, fs1)
                     else if writable env_path then (Inr report, fs1(env_path \<mapsto> file_of_lines lines3))
                     else (Inl ''write failed'', fs1)))"

end
