(* ===== verification/SecretsProperties.thy ===== *)
theory SecretsProperties
  imports Secrets
begin

text \<open>
  Generating secrets: running it again changes nothing, and the one layout of the file in which a value
  that is already set is not left alone.
\<close>

section \<open>Lines and files\<close>

lemma split_on_terminated:
  "CHR 0x0A \<notin> set l \<Longrightarrow> split_on (CHR 0x0A) (l @ CHR 0x0A # s) = l # split_on (CHR 0x0A) s"
  by (induction l) auto

definition plain_line :: "str \<Rightarrow> bool" where
  "plain_line l \<longleftrightarrow> CHR 0x0A \<notin> set l \<and> CHR 0x0D \<notin> set l"

lemma split_join: "list_all plain_line ls \<Longrightarrow> split_on (CHR 0x0A) (join_lines ls) = ls @ [[]]"
  by (induction ls) (auto simp: join_lines_def plain_line_def split_on_terminated)

lemma strip_cr_plain: "plain_line l \<Longrightarrow> strip_cr l = l"
  by (auto simp: plain_line_def strip_cr_def dest: last_in_set)

lemma lines_round_trip:
  assumes "list_all plain_line ls" and "ls \<noteq> []"
  shows "str_lines (file_of_lines ls) = ls"
proof -
  have "map strip_cr ls = ls" using assms(1) by (induction ls) (auto simp: strip_cr_plain)
  then show ?thesis using assms by (simp add: str_lines_def file_of_lines_def split_join Let_def)
qed

lemma split_on_parts: "seg \<in> set (split_on c s) \<Longrightarrow> c \<notin> set seg \<and> set seg \<subseteq> set s"
  by (induction c s arbitrary: seg rule: split_on.induct) (fastforce split: if_splits list.splits)+

lemma str_lines_plain:
  assumes "CHR 0x0D \<notin> set s"
  shows "list_all plain_line (str_lines s)"
proof -
  have seg: "plain_line l" if "l \<in> set (split_on (CHR 0x0A) s)" for l
    using split_on_parts [OF that] assms by (auto simp: plain_line_def)
  then have "plain_line (strip_cr l)" if "l \<in> set (split_on (CHR 0x0A) s)" for l
    using that by (simp add: strip_cr_plain)
  with seg show ?thesis
    by (auto simp: str_lines_def Let_def list_all_iff dest: in_set_butlastD)
qed

section \<open>One variable\<close>

text \<open>The line that decides about a name, and the value it gives.\<close>

definition assigns :: "str \<Rightarrow> str \<Rightarrow> str option" where
  "assigns name line = strip_prefix (trim_start line) (name @ ''='')"

definition commented :: "str \<Rightarrow> str \<Rightarrow> bool" where
  "commented name line \<longleftrightarrow> starts_with (trim_start line) (''# '' @ name @ ''='')"

fun env_settled :: "str \<Rightarrow> str list \<Rightarrow> bool" where
  "env_settled name [] = False"
| "env_settled name (line # lines) =
     (case assigns name line of
        Some v \<Rightarrow> v \<noteq> []
      | None \<Rightarrow> \<not> commented name line \<and> env_settled name lines)"

definition variable_name :: "str \<Rightarrow> bool" where
  "variable_name name \<longleftrightarrow> name \<noteq> [] \<and> CHR ''='' \<notin> set name \<and> hd name \<noteq> CHR ''#'' \<and> \<not> is_whitespace (hd name)"

lemma trim_start_name: "variable_name name \<Longrightarrow> trim_start (name @ s) = name @ s"
  by (cases name) (auto simp: variable_name_def trim_start_def)

lemma assigns_own [simp]: "variable_name name \<Longrightarrow> assigns name (name @ CHR ''='' # v) = Some v"
  by (simp add: assigns_def trim_start_name strip_prefix_Some_iff)

lemma prefix_split:
  assumes "CHR ''='' \<notin> set m" and "CHR ''='' \<notin> set n" and "m @ ''='' @ x = n @ ''='' @ y"
  shows "m = n"
proof -
  have "takeWhile (\<lambda>c. c \<noteq> CHR ''='') (k @ ''='' @ z) = k" if "CHR ''='' \<notin> set k" for k z
    using that by (induction k) auto
  with assms show ?thesis by metis
qed

lemma assigns_other:
  assumes "variable_name m" and "variable_name n" and "m \<noteq> n"
  shows "assigns n (m @ ''='' @ v) = None" and "\<not> commented n (m @ ''='' @ v)"
proof -
  show "assigns n (m @ ''='' @ v) = None"
  proof (cases "assigns n (m @ ''='' @ v)")
    case (Some y)
    then have "m @ ''='' @ v = n @ ''='' @ y"
      using assms(1) by (simp add: assigns_def trim_start_name strip_prefix_Some_iff)
    with assms show ?thesis using prefix_split by (metis variable_name_def)
  qed
  show "\<not> commented n (m @ ''='' @ v)"
    using assms(1) trim_start_name [OF assms(1), of "''='' @ v"]
    by (cases m) (auto simp: commented_def variable_name_def dest!: starts_withD)
qed

text \<open>A line speaks about one name at most.\<close>

lemma one_name_per_line:
  assumes "variable_name m" and "variable_name n" and "m \<noteq> n" and "assigns m line \<noteq> None \<or> commented m line"
  shows "assigns n line = None" and "\<not> commented n line"
proof -
  from assms(4) consider (set_line) x where "trim_start line = m @ ''='' @ x"
    | (comment) x where "trim_start line = ''# '' @ m @ ''='' @ x"
    by (auto simp: assigns_def commented_def strip_prefix_Some_iff dest!: starts_withD)
  then have "assigns n line = None \<and> \<not> commented n line"
  proof cases
    case set_line
    then show ?thesis
      using assigns_other [OF assms(1-3), of x] trim_start_name [OF assms(1), of "''='' @ x"]
      by (simp add: assigns_def commented_def)
  next
    case comment
    have "assigns n line = None"
      using comment assms(2) by (cases n) (auto simp: assigns_def strip_prefix_def starts_with_def variable_name_def)
    moreover have "\<not> commented n line"
    proof
      assume "commented n line"
      then obtain y where "''# '' @ n @ ''='' @ y = ''# '' @ m @ ''='' @ x"
        using comment by (auto simp: commented_def dest!: starts_withD)
      then have "n = m" using prefix_split [of n m y x] assms(1,2) by (simp add: variable_name_def)
      with assms(3) show False by simp
    qed
    ultimately show ?thesis ..
  qed
  then show "assigns n line = None" and "\<not> commented n line" by simp_all
qed

lemma set_env_var_step:
  "set_env_var (line # lines) name v force =
     (case assigns name line of
        Some existing \<Rightarrow> if existing \<noteq> [] \<and> \<not> force then (False, line # lines) else (True, (name @ ''='' @ v) # lines)
      | None \<Rightarrow> if commented name line then (True, (name @ ''='' @ v) # lines)
                else (case set_env_var lines name v force of (c, rest) \<Rightarrow> (c, line # rest)))"
  by (simp add: assigns_def commented_def)

declare set_env_var.simps(2) [simp del]

lemma settled_left_alone: "env_settled name lines \<Longrightarrow> set_env_var lines name v False = (False, lines)"
  by (induction lines) (auto simp: set_env_var_step split: option.splits)

lemma set_env_var_settles:
  assumes "variable_name name" and "v \<noteq> []" and "set_env_var lines name v force = (c, lines')"
  shows "env_settled name lines'" and "c \<or> lines' = lines" and "lines' \<noteq> []"
  using assms(3)
proof (induction lines arbitrary: c lines')
  case Nil
  case 1 with assms show ?case by auto
  case 2 with Nil show ?case by auto
  case 3 with Nil show ?case by auto
next
  case (Cons line lines)
  case 1 with Cons(1) assms(1,2) show ?case
    by (auto simp: set_env_var_step split: option.splits if_splits prod.splits)
  case 2 with Cons(2) show ?case
    by (fastforce simp: set_env_var_step split: option.splits if_splits prod.splits)
  case 3 then show ?case
    by (auto simp: set_env_var_step split: option.splits if_splits prod.splits)
qed

text \<open>Setting one variable does not disturb another.\<close>

lemma settled_frame:
  assumes "variable_name m" and "variable_name n" and "m \<noteq> n"
  shows "env_settled n (snd (set_env_var lines m v force)) = env_settled n lines"
proof (induction lines)
  case Nil
  show ?case using assigns_other [OF assms] by simp
next
  case (Cons line lines)
  show ?case
  proof (cases "assigns m line \<noteq> None \<or> commented m line")
    case True
    then show ?thesis
      using one_name_per_line [OF assms True] assigns_other [OF assms, of v]
      by (auto simp: set_env_var_step split: option.splits)
  next
    case False
    then show ?thesis using Cons by (auto simp: set_env_var_step split: prod.splits option.splits)
  qed
qed

lemma value_frame:
  assumes "variable_name m" and "variable_name n" and "m \<noteq> n"
  shows "has_non_empty_value (snd (set_env_var lines m v force)) n = has_non_empty_value lines n"
proof (induction lines)
  case Nil
  show ?case using assigns_other [OF assms, of v] by (simp add: has_non_empty_value_def assigns_def)
next
  case (Cons line lines)
  have own: "has_non_empty_value (l # ls) n \<longleftrightarrow> (\<exists>x. assigns n l = Some x \<and> x \<noteq> []) \<or> has_non_empty_value ls n" for l ls
    by (auto simp: has_non_empty_value_def assigns_def split: option.splits)
  show ?case
  proof (cases "assigns m line \<noteq> None \<or> commented m line")
    case True
    then show ?thesis
      using one_name_per_line [OF assms True] assigns_other [OF assms, of v]
      by (auto simp: set_env_var_step own split: option.splits)
  next
    case False
    then show ?thesis using Cons by (auto simp: set_env_var_step own split: prod.splits)
  qed
qed

lemma set_env_var_plain:
  assumes "plain_line name" and "plain_line v" and "list_all plain_line lines"
  shows "list_all plain_line (snd (set_env_var lines name v force))"
proof -
  have "plain_line (name @ CHR ''='' # v)" using assms(1,2) by (simp add: plain_line_def)
  then show ?thesis
    using assms(3) by (induction lines) (auto simp: set_env_var_step split: option.splits prod.splits)
qed

section \<open>Generating again\<close>

lemma secret_names:
  "variable_name ''JWT_SECRET''" "variable_name ''METRICS_TOKEN''" "variable_name ''ADMIN_PASSWORD''" "variable_name ''ADMIN_EMAIL''"
  "plain_line ''JWT_SECRET''" "plain_line ''METRICS_TOKEN''" "plain_line ''ADMIN_PASSWORD''"
  by (simp_all add: variable_name_def plain_line_def is_whitespace_def ascii_code_def)

text \<open>Lines with nothing left to generate.\<close>

definition complete :: "str list \<Rightarrow> bool" where
  "complete lines \<longleftrightarrow> env_settled ''JWT_SECRET'' lines \<and> env_settled ''METRICS_TOKEN'' lines
     \<and> (has_non_empty_value lines ''ADMIN_EMAIL'' \<longrightarrow> env_settled ''ADMIN_PASSWORD'' lines)"

lemma generate_complete:
  assumes "fs env_path = Some contents" and "complete (str_lines contents)"
  shows "\<exists>r. generate writable tokens env_path prometheus_path False fs = (Inr r, fs) \<and> gs_changed r = []"
  using assms
  by (cases tokens) (auto simp: generate_def complete_def generate_admin_password_def settled_left_alone Let_def)

text \<open>The three steps leave complete lines.\<close>

lemma generated_lines_complete:
  assumes "jwt \<noteq> []" and "metrics \<noteq> []" and "admin \<noteq> []"
    and "set_env_var lines ''JWT_SECRET'' jwt force = (c1, lines1)"
    and "set_env_var lines1 ''METRICS_TOKEN'' metrics force = (c2, lines2)"
    and "generate_admin_password lines2 admin force = (c3, lines3)"
  shows "complete lines3" and "\<not> c1 \<and> \<not> c2 \<and> \<not> c3 \<Longrightarrow> lines3 = lines" and "lines3 \<noteq> []"
    and "list_all plain_line (jwt # metrics # admin # lines) \<Longrightarrow> list_all plain_line lines3"
proof -
  note s1 = set_env_var_settles [OF secret_names(1) assms(1) assms(4)]
  note s2 = set_env_var_settles [OF secret_names(2) assms(2) assms(5)]
  have j2: "env_settled ''JWT_SECRET'' lines2"
    using settled_frame [OF secret_names(2,1), of lines1 metrics force] s1(1) assms(5) by simp
  show "complete lines3" and "\<not> c1 \<and> \<not> c2 \<and> \<not> c3 \<Longrightarrow> lines3 = lines" and "lines3 \<noteq> []"
    and "list_all plain_line (jwt # metrics # admin # lines) \<Longrightarrow> list_all plain_line lines3"
  proof -
    show "complete lines3"
    proof (cases "has_non_empty_value lines2 ''ADMIN_EMAIL''")
      case True
      then have "set_env_var lines2 ''ADMIN_PASSWORD'' admin force = (c3, lines3)"
        using assms(6) by (simp add: generate_admin_password_def)
      then show ?thesis
        using settled_frame [OF secret_names(3,1), of lines2 admin force]
          settled_frame [OF secret_names(3,2), of lines2 admin force] j2 s2(1)
          set_env_var_settles(1) [OF secret_names(3) assms(3)]
        by (simp add: complete_def)
    next
      case False
      then show ?thesis using assms(6) j2 s2(1) by (simp add: generate_admin_password_def complete_def)
    qed
    show "\<not> c1 \<and> \<not> c2 \<and> \<not> c3 \<Longrightarrow> lines3 = lines"
      using s1(2) s2(2) assms(6) set_env_var_settles(2) [OF secret_names(3) assms(3), of lines2 force]
      by (auto simp: generate_admin_password_def split: if_splits)
    show "lines3 \<noteq> []"
      using s2(3) assms(6) set_env_var_settles(3) [OF secret_names(3) assms(3), of lines2 force]
      by (auto simp: generate_admin_password_def split: if_splits)
    assume "list_all plain_line (jwt # metrics # admin # lines)"
    then show "list_all plain_line lines3"
      using set_env_var_plain [OF secret_names(5), of jwt lines force] set_env_var_plain [OF secret_names(6), of metrics lines1 force]
        set_env_var_plain [OF secret_names(7), of admin lines2 force] assms(4-6)
      by (auto simp: generate_admin_password_def split: if_splits)
  qed
qed

lemma sync_elsewhere:
  "sync_prometheus_token writable path token fs = (v, fs') \<Longrightarrow> p \<noteq> path \<Longrightarrow> fs' p = fs p"
  by (auto simp: sync_prometheus_token_def split: option.splits if_splits)

lemma generate_InrE:
  assumes "generate writable (jwt, metrics, admin) env_path prometheus_path force fs = (Inr r, fs1)" and "env_path \<noteq> prometheus_path"
  obtains contents c1 lines1 c2 lines2 c3 lines3 where "fs env_path = Some contents"
    and "set_env_var (str_lines contents) ''JWT_SECRET'' jwt force = (c1, lines1)"
    and "set_env_var lines1 ''METRICS_TOKEN'' metrics force = (c2, lines2)"
    and "generate_admin_password lines2 admin force = (c3, lines3)"
    and "fs1 env_path = Some (if c1 \<or> c2 \<or> c3 then file_of_lines lines3 else contents)"
proof -
  from assms(1) obtain contents where c: "fs env_path = Some contents"
    by (auto simp: generate_def split: option.splits)
  obtain c1 lines1 where 1: "set_env_var (str_lines contents) ''JWT_SECRET'' jwt force = (c1, lines1)" by fastforce
  obtain c2 lines2 where 2: "set_env_var lines1 ''METRICS_TOKEN'' metrics force = (c2, lines2)" by fastforce
  obtain c3 lines3 where 3: "generate_admin_password lines2 admin force = (c3, lines3)" by fastforce
  obtain v fs' where sync: "sync_prometheus_token writable prometheus_path metrics fs = (v, fs')" by fastforce
  have "fs' env_path = Some contents" using sync_elsewhere [OF sync assms(2)] c by simp
  then have "fs1 env_path = Some (if c1 \<or> c2 \<or> c3 then file_of_lines lines3 else contents)"
    using assms(1) c 1 2 3 sync
    by (cases v; cases c1; cases c2; cases c3) (auto simp: generate_def Let_def split: if_splits)
  with c 1 2 3 show thesis by (rule that)
qed

lemma generate_leaves_complete:
  assumes "generate writable (jwt, metrics, admin) env_path prometheus_path force fs = (Inr r, fs1)"
    and "env_path \<noteq> prometheus_path" and "fs env_path = Some contents" and "CHR 0x0D \<notin> set contents"
    and "[] \<notin> {jwt, metrics, admin}" and "list_all (\<lambda>t. CHR 0x0A \<notin> set t \<and> CHR 0x0D \<notin> set t) [jwt, metrics, admin]"
  shows "\<exists>contents'. fs1 env_path = Some contents' \<and> complete (str_lines contents')"
proof -
  from assms(1,2) obtain c1 lines1 c2 lines2 c3 lines3 where
    1: "set_env_var (str_lines contents) ''JWT_SECRET'' jwt force = (c1, lines1)"
    and 2: "set_env_var lines1 ''METRICS_TOKEN'' metrics force = (c2, lines2)"
    and 3: "generate_admin_password lines2 admin force = (c3, lines3)"
    and fs1: "fs1 env_path = Some (if c1 \<or> c2 \<or> c3 then file_of_lines lines3 else contents)"
    by (rule generate_InrE) (use assms(3) in simp)
  have tokens: "jwt \<noteq> []" "metrics \<noteq> []" "admin \<noteq> []" "list_all plain_line [jwt, metrics, admin]"
    using assms(5,6) by (auto simp: plain_line_def)
  note lines3 = generated_lines_complete [OF tokens(1-3) 1 2 3]
  have "complete (str_lines (if c1 \<or> c2 \<or> c3 then file_of_lines lines3 else contents))"
  proof (cases "c1 \<or> c2 \<or> c3")
    case True
    have "list_all plain_line lines3"
      using lines3(4) tokens(4) str_lines_plain [OF assms(4)] by simp
    from lines_round_trip [OF this lines3(3)] True lines3(1) show ?thesis by simp
  next
    case False
    with lines3(1,2) show ?thesis by simp
  qed
  with fs1 show ?thesis by blast
qed

text \<open>
  Generating secrets is safe to repeat: after a run, with or without overwriting, another run without
  overwriting changes no file and reports nothing changed, whatever values it would have generated.
\<close>

theorem generating_again_changes_nothing:
  assumes "generate writable (jwt, metrics, admin) env_path prometheus_path force fs = (Inr r, fs1)"
    and "env_path \<noteq> prometheus_path" and "fs env_path = Some contents" and "CHR 0x0D \<notin> set contents"
    and "[] \<notin> {jwt, metrics, admin}" and "list_all (\<lambda>t. CHR 0x0A \<notin> set t \<and> CHR 0x0D \<notin> set t) [jwt, metrics, admin]"
  shows "\<exists>r'. generate writable' tokens env_path prometheus_path False fs1 = (Inr r', fs1) \<and> gs_changed r' = []"
  using generate_leaves_complete [OF assms] generate_complete [of fs1] by blast

definition example_files :: files where
  "example_files = [''.env'' \<mapsto> ''ADMIN_EMAIL=a@x'' @ [CHR 0x0A] @ ''# JWT_SECRET='' @ [CHR 0x0A]]"

theorem generating_again_changes_nothing_witness:
  "\<exists>r fs1. generate (\<lambda>_. True) (''jjj'', ''mmm'', ''aaa'') ''.env'' ''p.yml'' False example_files = (Inr r, fs1)
     \<and> (\<exists>r'. generate (\<lambda>_. True) (''xxx'', ''yyy'', ''zzz'') ''.env'' ''p.yml'' False fs1 = (Inr r', fs1) \<and> gs_changed r' = [])"
proof -
  have "\<not> isl (fst (generate (\<lambda>_. True) (''jjj'', ''mmm'', ''aaa'') ''.env'' ''p.yml'' False example_files))"
    by code_simp
  then obtain r fs1 where run: "generate (\<lambda>_. True) (''jjj'', ''mmm'', ''aaa'') ''.env'' ''p.yml'' False example_files = (Inr r, fs1)"
    by (metis prod.collapse sum.collapse(2))
  have "example_files ''.env'' = Some (''ADMIN_EMAIL=a@x'' @ [CHR 0x0A] @ ''# JWT_SECRET='' @ [CHR 0x0A])"
    by (simp add: example_files_def)
  from run generating_again_changes_nothing [OF run _ this] show ?thesis by simp
qed

section \<open>A value that is not left alone\<close>

text \<open>
  A set value is meant to be left alone, but a commented line for the same name above it is filled in
  first: the new value is put in front of the one already set.
\<close>

lemma commented_line_shadows_set_value:
  assumes "variable_name name"
  shows "has_non_empty_value [''# '' @ name @ ''=old'', name @ ''=set''] name
     \<and> set_env_var [''# '' @ name @ ''=old'', name @ ''=set''] name v False = (True, [name @ ''='' @ v, name @ ''=set''])"
proof -
  have t: "trim_start (''# '' @ s) = ''# '' @ s" for s by (simp add: trim_start_def is_whitespace_def ascii_code_def)
  have "assigns name (''# '' @ name @ ''=old'') = None"
    using assms by (cases name) (auto simp: assigns_def t [simplified] strip_prefix_def starts_with_def variable_name_def)
  moreover have "commented name (''# '' @ name @ ''=old'')"
    using starts_with_append [of "''# '' @ name @ ''=''" "''old''"] by (simp add: commented_def t [simplified])
  ultimately show ?thesis
    using assigns_own [OF assms, of "''set''"] by (simp add: set_env_var_step has_non_empty_value_def assigns_def)
qed

end
