(* ===== verification/Routes.thy ===== *)
theory Routes
  imports Server
begin

text \<open>
  The route table and the published description of the API. The routers of \<open>src/modules/*/controllers\<close>,
  \<open>src/modules/mod.rs\<close> and \<open>src/app.rs\<close> become lists of routes (method, path, limiter, handler) put
  together by \<open>nest\<close> and \<open>merge\<close> the way the code does; the \<open>utoipa::path\<close> attribute of each handler becomes a
  \<open>path_item\<close>, and \<open>src/infra/openapi.rs\<close> the document that lists them. The texts of the descriptions and
  the schemas are left out.
\<close>

section \<open>Handlers by name\<close>

datatype endpoint =
    HealthLiveH | HealthReadyH | AuthRegisterH | AuthLoginH | AuthMeH | AuthForgotH
  | AuthResetH | AuthChangePasswordH | AuthInviteH | AuthVerifyEmailH | AuthResendH | AuthRequestChangeH
  | AuthConfirmChangeH | AuthTwoFactorSetupH | AuthTwoFactorEnableH | AuthTwoFactorDisableH | AuthTwoFactorVerifyH | UsersListH
  | UsersCreateH | UsersMeH | UsersUpdateMeH | UsersGetOneH | UsersUpdateH | UsersRemoveH
  | AvatarUploadH | AvatarRemoveH | AvatarServeH | MediaUploadH | MediaListH | MediaMetadataH
  | MediaContentH | MediaRemoveH | KeysCreateH | KeysListH | KeysRevokeH | AuditListH
  | OAuthProvidersH | OAuthLoginH | OAuthCallbackH | OAuthExchangeH | OAuthLinkH | OAuthIdentitiesH
  | OAuthUnlinkH | PasskeyBeginH | PasskeyFinishH | PasskeyLoginBeginH | PasskeyLoginFinishH | PasskeyListH
  | PasskeyRemoveH | QrCreateH | QrPollH | QrScanH | QrApproveH | QrRejectH

fun endpoint_of :: "op \<Rightarrow> endpoint" where
  "endpoint_of (UsersCreate rq a) = UsersCreateH"
| "endpoint_of (UsersRemove rq a) = UsersRemoveH"
| "endpoint_of (UsersMe rq) = UsersMeH"
| "endpoint_of (UsersGetOne rq a) = UsersGetOneH"
| "endpoint_of (UsersList rq a) = UsersListH"
| "endpoint_of (UsersUpdateMe rq a) = UsersUpdateMeH"
| "endpoint_of (UsersUpdate rq a b) = UsersUpdateH"
| "endpoint_of (AuthRegister rq a) = AuthRegisterH"
| "endpoint_of (AuthLogin rq a) = AuthLoginH"
| "endpoint_of (AuthForgot rq a) = AuthForgotH"
| "endpoint_of (AuthReset rq a) = AuthResetH"
| "endpoint_of (AuthVerifyEmail rq a) = AuthVerifyEmailH"
| "endpoint_of (AuthResend rq) = AuthResendH"
| "endpoint_of (AuthConfirmChange rq a) = AuthConfirmChangeH"
| "endpoint_of (AuthTwoFactorVerify rq a) = AuthTwoFactorVerifyH"
| "endpoint_of (AuthMe rq) = AuthMeH"
| "endpoint_of (AuthChangePassword rq a) = AuthChangePasswordH"
| "endpoint_of (AuthInvite rq a) = AuthInviteH"
| "endpoint_of (AuthRequestChange rq a) = AuthRequestChangeH"
| "endpoint_of (AuthTwoFactorSetup rq) = AuthTwoFactorSetupH"
| "endpoint_of (AuthTwoFactorEnable rq a) = AuthTwoFactorEnableH"
| "endpoint_of (AuthTwoFactorDisable rq a) = AuthTwoFactorDisableH"
| "endpoint_of (KeysCreate rq a) = KeysCreateH"
| "endpoint_of (KeysList rq) = KeysListH"
| "endpoint_of (KeysRevoke rq a) = KeysRevokeH"
| "endpoint_of (QrCreate rq) = QrCreateH"
| "endpoint_of (QrPoll rq a) = QrPollH"
| "endpoint_of (QrScan rq a) = QrScanH"
| "endpoint_of (QrApprove rq a b) = QrApproveH"
| "endpoint_of (QrReject rq a) = QrRejectH"
| "endpoint_of (AuditList rq a) = AuditListH"
| "endpoint_of (MediaUpload rq a b) = MediaUploadH"
| "endpoint_of (MediaList rq a) = MediaListH"
| "endpoint_of (MediaMetadata rq a) = MediaMetadataH"
| "endpoint_of (MediaContent rq a) = MediaContentH"
| "endpoint_of (MediaRemove rq a) = MediaRemoveH"
| "endpoint_of (AvatarUpload rq a) = AvatarUploadH"
| "endpoint_of (AvatarRemove rq) = AvatarRemoveH"
| "endpoint_of (AvatarServe rq a) = AvatarServeH"
| "endpoint_of (OAuthLogin rq a b) = OAuthLoginH"
| "endpoint_of (OAuthCallback rq a b) = OAuthCallbackH"
| "endpoint_of (OAuthExchange rq a) = OAuthExchangeH"
| "endpoint_of (OAuthProviders rq) = OAuthProvidersH"
| "endpoint_of (OAuthIdentities rq) = OAuthIdentitiesH"
| "endpoint_of (OAuthLink rq a) = OAuthLinkH"
| "endpoint_of (OAuthUnlink rq a) = OAuthUnlinkH"
| "endpoint_of (PasskeyBegin rq) = PasskeyBeginH"
| "endpoint_of (PasskeyFinish rq a) = PasskeyFinishH"
| "endpoint_of (PasskeyLoginBegin rq) = PasskeyLoginBeginH"
| "endpoint_of (PasskeyLoginFinish rq a) = PasskeyLoginFinishH"
| "endpoint_of (PasskeyList rq) = PasskeyListH"
| "endpoint_of (PasskeyRemove rq a) = PasskeyRemoveH"
| "endpoint_of (HealthLive rq) = HealthLiveH"
| "endpoint_of (HealthReady rq) = HealthReadyH"

section \<open>Routers\<close>

datatype limiter_name = NoLimiter | StrictLimiter | QrPollLimiter

record routed =
  rt_method :: http_method
  rt_path :: str
  rt_limiter :: limiter_name
  rt_handler :: endpoint

definition route :: "str \<Rightarrow> (http_method \<times> endpoint) list \<Rightarrow> routed list" where
  "route path methods =
     map (\<lambda>(m, h). \<lparr> rt_method = m, rt_path = path, rt_limiter = NoLimiter, rt_handler = h \<rparr>) methods"

text \<open>\<open>route_layer\<close> puts the limiter in front of the routes added so far. A nested \<open>/\<close> is the prefix itself.\<close>

definition route_layer :: "limiter_name \<Rightarrow> routed list \<Rightarrow> routed list" where
  "route_layer l rs = map (\<lambda>r. r\<lparr>rt_limiter := l\<rparr>) rs"

definition nest :: "str \<Rightarrow> routed list \<Rightarrow> routed list" where
  "nest pre rs = map (\<lambda>r. r\<lparr>rt_path := pre @ (if rt_path r = ''/'' then [] else rt_path r)\<rparr>) rs"

definition health_router :: "routed list" where
  "health_router = route ''/health/live'' [(GET, HealthLiveH)] @ route ''/health/ready'' [(GET, HealthReadyH)]"

definition auth_router :: "routed list" where
  "auth_router =
     route_layer StrictLimiter
       (route ''/register'' [(POST, AuthRegisterH)]
        @ route ''/login'' [(POST, AuthLoginH)]
        @ route ''/password/forgot'' [(POST, AuthForgotH)]
        @ route ''/password/reset'' [(POST, AuthResetH)]
        @ route ''/email/verify'' [(POST, AuthVerifyEmailH)]
        @ route ''/email/verification/resend'' [(POST, AuthResendH)]
        @ route ''/email/change/confirm'' [(POST, AuthConfirmChangeH)]
        @ route ''/2fa/verify'' [(POST, AuthTwoFactorVerifyH)])
     @ route ''/me'' [(GET, AuthMeH)]
     @ route ''/password/change'' [(POST, AuthChangePasswordH)]
     @ route ''/invitations'' [(POST, AuthInviteH)]
     @ route ''/email/change'' [(POST, AuthRequestChangeH)]
     @ route ''/2fa/setup'' [(POST, AuthTwoFactorSetupH)]
     @ route ''/2fa/enable'' [(POST, AuthTwoFactorEnableH)]
     @ route ''/2fa/disable'' [(POST, AuthTwoFactorDisableH)]"

definition oauth_router :: "routed list" where
  "oauth_router =
     route_layer StrictLimiter
       (route ''/{provider}/login'' [(GET, OAuthLoginH)]
        @ route ''/{provider}/callback'' [(GET, OAuthCallbackH)]
        @ route ''/exchange'' [(POST, OAuthExchangeH)])
     @ route ''/providers'' [(GET, OAuthProvidersH)]
     @ route ''/identities'' [(GET, OAuthIdentitiesH)]
     @ route ''/{provider}/link'' [(POST, OAuthLinkH)]
     @ route ''/{provider}'' [(DELETE, OAuthUnlinkH)]"

definition passkeys_router :: "routed list" where
  "passkeys_router =
     route_layer StrictLimiter
       (route ''/login/begin'' [(POST, PasskeyLoginBeginH)]
        @ route ''/login/finish'' [(POST, PasskeyLoginFinishH)])
     @ route ''/'' [(GET, PasskeyListH)]
     @ route ''/register/begin'' [(POST, PasskeyBeginH)]
     @ route ''/register/finish'' [(POST, PasskeyFinishH)]
     @ route ''/{id}'' [(DELETE, PasskeyRemoveH)]"

definition qr_login_router :: "routed list" where
  "qr_login_router =
     route_layer StrictLimiter (route ''/sessions'' [(POST, QrCreateH)])
     @ route_layer QrPollLimiter (route ''/sessions/{id}'' [(GET, QrPollH)])
     @ route ''/sessions/{id}/scan'' [(POST, QrScanH)]
     @ route ''/sessions/{id}/approve'' [(POST, QrApproveH)]
     @ route ''/sessions/{id}/reject'' [(POST, QrRejectH)]"

definition users_router :: "routed list" where
  "users_router =
     route ''/'' [(GET, UsersListH), (POST, UsersCreateH)]
     @ route ''/me'' [(GET, UsersMeH), (PATCH, UsersUpdateMeH)]
     @ route ''/{id}'' [(GET, UsersGetOneH), (PATCH, UsersUpdateH), (DELETE, UsersRemoveH)]"

definition avatars_own_router :: "routed list" where
  "avatars_own_router = route ''/'' [(PUT, AvatarUploadH), (DELETE, AvatarRemoveH)]"

definition avatars_public_router :: "routed list" where
  "avatars_public_router = route ''/{file}'' [(GET, AvatarServeH)]"

definition media_router :: "routed list" where
  "media_router =
     route ''/'' [(GET, MediaListH), (POST, MediaUploadH)]
     @ route ''/{id}'' [(GET, MediaMetadataH), (DELETE, MediaRemoveH)]
     @ route ''/{id}/content'' [(GET, MediaContentH)]"

definition api_keys_router :: "routed list" where
  "api_keys_router =
     route ''/'' [(GET, KeysListH), (POST, KeysCreateH)]
     @ route ''/{id}'' [(DELETE, KeysRevokeH)]"

definition audit_log_router :: "routed list" where
  "audit_log_router = route ''/'' [(GET, AuditListH)]"

definition modules_router :: "routed list" where
  "modules_router =
     nest ''/auth'' auth_router
     @ nest ''/auth/oauth'' oauth_router
     @ nest ''/auth/passkeys'' passkeys_router
     @ nest ''/auth/qr'' qr_login_router
     @ nest ''/users'' users_router
     @ nest ''/users/me/avatar'' avatars_own_router
     @ nest ''/avatars'' avatars_public_router
     @ nest ''/media'' media_router
     @ nest ''/api-keys'' api_keys_router
     @ nest ''/audit-log'' audit_log_router"

definition build_router :: "routed list" where
  "build_router = health_router @ nest ''/api/v1'' modules_router"

lemmas router_defs = build_router_def modules_router_def health_router_def auth_router_def oauth_router_def
  passkeys_router_def qr_login_router_def users_router_def avatars_own_router_def avatars_public_router_def
  media_router_def api_keys_router_def audit_log_router_def route_def route_layer_def nest_def

section \<open>The published description\<close>

record path_item =
  pi_method :: http_method
  pi_path :: str
  pi_statuses :: "nat list"
  pi_secured :: bool

definition keys_create_doc :: path_item where
  "keys_create_doc = \<lparr> pi_method = POST, pi_path = ''/api/v1/api-keys'',
     pi_statuses = [201], pi_secured = True \<rparr>"

definition keys_list_doc :: path_item where
  "keys_list_doc = \<lparr> pi_method = GET, pi_path = ''/api/v1/api-keys'',
     pi_statuses = [200], pi_secured = True \<rparr>"

definition keys_revoke_doc :: path_item where
  "keys_revoke_doc = \<lparr> pi_method = DELETE, pi_path = ''/api/v1/api-keys/{id}'',
     pi_statuses = [204, 404], pi_secured = True \<rparr>"

definition audit_list_doc :: path_item where
  "audit_list_doc = \<lparr> pi_method = GET, pi_path = ''/api/v1/audit-log'',
     pi_statuses = [200], pi_secured = True \<rparr>"

definition auth_change_password_doc :: path_item where
  "auth_change_password_doc = \<lparr> pi_method = POST, pi_path = ''/api/v1/auth/password/change'',
     pi_statuses = [200, 400], pi_secured = True \<rparr>"

definition auth_confirm_change_doc :: path_item where
  "auth_confirm_change_doc = \<lparr> pi_method = POST, pi_path = ''/api/v1/auth/email/change/confirm'',
     pi_statuses = [200, 400], pi_secured = False \<rparr>"

definition auth_me_doc :: path_item where
  "auth_me_doc = \<lparr> pi_method = GET, pi_path = ''/api/v1/auth/me'',
     pi_statuses = [200], pi_secured = True \<rparr>"

definition auth_forgot_doc :: path_item where
  "auth_forgot_doc = \<lparr> pi_method = POST, pi_path = ''/api/v1/auth/password/forgot'',
     pi_statuses = [202], pi_secured = False \<rparr>"

definition auth_invite_doc :: path_item where
  "auth_invite_doc = \<lparr> pi_method = POST, pi_path = ''/api/v1/auth/invitations'',
     pi_statuses = [201], pi_secured = True \<rparr>"

definition auth_login_doc :: path_item where
  "auth_login_doc = \<lparr> pi_method = POST, pi_path = ''/api/v1/auth/login'',
     pi_statuses = [200, 401, 403], pi_secured = False \<rparr>"

definition auth_register_doc :: path_item where
  "auth_register_doc = \<lparr> pi_method = POST, pi_path = ''/api/v1/auth/register'',
     pi_statuses = [201, 409, 400], pi_secured = False \<rparr>"

definition auth_request_change_doc :: path_item where
  "auth_request_change_doc = \<lparr> pi_method = POST, pi_path = ''/api/v1/auth/email/change'',
     pi_statuses = [202], pi_secured = True \<rparr>"

definition auth_resend_doc :: path_item where
  "auth_resend_doc = \<lparr> pi_method = POST, pi_path = ''/api/v1/auth/email/verification/resend'',
     pi_statuses = [202], pi_secured = True \<rparr>"

definition auth_reset_doc :: path_item where
  "auth_reset_doc = \<lparr> pi_method = POST, pi_path = ''/api/v1/auth/password/reset'',
     pi_statuses = [200, 400], pi_secured = False \<rparr>"

definition auth_two_factor_disable_doc :: path_item where
  "auth_two_factor_disable_doc = \<lparr> pi_method = POST, pi_path = ''/api/v1/auth/2fa/disable'',
     pi_statuses = [200, 400], pi_secured = True \<rparr>"

definition auth_two_factor_enable_doc :: path_item where
  "auth_two_factor_enable_doc = \<lparr> pi_method = POST, pi_path = ''/api/v1/auth/2fa/enable'',
     pi_statuses = [200, 400], pi_secured = True \<rparr>"

definition auth_two_factor_setup_doc :: path_item where
  "auth_two_factor_setup_doc = \<lparr> pi_method = POST, pi_path = ''/api/v1/auth/2fa/setup'',
     pi_statuses = [200], pi_secured = True \<rparr>"

definition auth_two_factor_verify_doc :: path_item where
  "auth_two_factor_verify_doc = \<lparr> pi_method = POST, pi_path = ''/api/v1/auth/2fa/verify'',
     pi_statuses = [200, 401, 400], pi_secured = False \<rparr>"

definition auth_verify_email_doc :: path_item where
  "auth_verify_email_doc = \<lparr> pi_method = POST, pi_path = ''/api/v1/auth/email/verify'',
     pi_statuses = [200, 400], pi_secured = False \<rparr>"

definition avatar_remove_doc :: path_item where
  "avatar_remove_doc = \<lparr> pi_method = DELETE, pi_path = ''/api/v1/users/me/avatar'',
     pi_statuses = [200], pi_secured = True \<rparr>"

definition avatar_serve_doc :: path_item where
  "avatar_serve_doc = \<lparr> pi_method = GET, pi_path = ''/api/v1/avatars/{file}'',
     pi_statuses = [200, 404], pi_secured = False \<rparr>"

definition avatar_upload_doc :: path_item where
  "avatar_upload_doc = \<lparr> pi_method = PUT, pi_path = ''/api/v1/users/me/avatar'',
     pi_statuses = [200, 413, 422], pi_secured = True \<rparr>"

definition health_live_doc :: path_item where
  "health_live_doc = \<lparr> pi_method = GET, pi_path = ''/health/live'',
     pi_statuses = [200], pi_secured = False \<rparr>"

definition health_ready_doc :: path_item where
  "health_ready_doc = \<lparr> pi_method = GET, pi_path = ''/health/ready'',
     pi_statuses = [200, 503], pi_secured = False \<rparr>"

definition media_remove_doc :: path_item where
  "media_remove_doc = \<lparr> pi_method = DELETE, pi_path = ''/api/v1/media/{id}'',
     pi_statuses = [204, 404], pi_secured = True \<rparr>"

definition media_content_doc :: path_item where
  "media_content_doc = \<lparr> pi_method = GET, pi_path = ''/api/v1/media/{id}/content'',
     pi_statuses = [200, 404], pi_secured = True \<rparr>"

definition media_metadata_doc :: path_item where
  "media_metadata_doc = \<lparr> pi_method = GET, pi_path = ''/api/v1/media/{id}'',
     pi_statuses = [200, 404], pi_secured = True \<rparr>"

definition media_list_doc :: path_item where
  "media_list_doc = \<lparr> pi_method = GET, pi_path = ''/api/v1/media'',
     pi_statuses = [200], pi_secured = True \<rparr>"

definition media_upload_doc :: path_item where
  "media_upload_doc = \<lparr> pi_method = POST, pi_path = ''/api/v1/media'',
     pi_statuses = [201, 413, 415], pi_secured = True \<rparr>"

definition o_auth_exchange_doc :: path_item where
  "o_auth_exchange_doc = \<lparr> pi_method = POST, pi_path = ''/api/v1/auth/oauth/exchange'',
     pi_statuses = [200, 400], pi_secured = False \<rparr>"

definition o_auth_callback_doc :: path_item where
  "o_auth_callback_doc = \<lparr> pi_method = GET, pi_path = ''/api/v1/auth/oauth/{provider}/callback'',
     pi_statuses = [307], pi_secured = False \<rparr>"

definition o_auth_identities_doc :: path_item where
  "o_auth_identities_doc = \<lparr> pi_method = GET, pi_path = ''/api/v1/auth/oauth/identities'',
     pi_statuses = [200], pi_secured = True \<rparr>"

definition o_auth_providers_doc :: path_item where
  "o_auth_providers_doc = \<lparr> pi_method = GET, pi_path = ''/api/v1/auth/oauth/providers'',
     pi_statuses = [200], pi_secured = False \<rparr>"

definition o_auth_link_doc :: path_item where
  "o_auth_link_doc = \<lparr> pi_method = POST, pi_path = ''/api/v1/auth/oauth/{provider}/link'',
     pi_statuses = [200], pi_secured = True \<rparr>"

definition o_auth_login_doc :: path_item where
  "o_auth_login_doc = \<lparr> pi_method = GET, pi_path = ''/api/v1/auth/oauth/{provider}/login'',
     pi_statuses = [307], pi_secured = False \<rparr>"

definition o_auth_unlink_doc :: path_item where
  "o_auth_unlink_doc = \<lparr> pi_method = DELETE, pi_path = ''/api/v1/auth/oauth/{provider}'',
     pi_statuses = [204, 400], pi_secured = True \<rparr>"

definition passkey_remove_doc :: path_item where
  "passkey_remove_doc = \<lparr> pi_method = DELETE, pi_path = ''/api/v1/auth/passkeys/{id}'',
     pi_statuses = [204, 400, 404], pi_secured = True \<rparr>"

definition passkey_list_doc :: path_item where
  "passkey_list_doc = \<lparr> pi_method = GET, pi_path = ''/api/v1/auth/passkeys'',
     pi_statuses = [200], pi_secured = True \<rparr>"

definition passkey_begin_doc :: path_item where
  "passkey_begin_doc = \<lparr> pi_method = POST, pi_path = ''/api/v1/auth/passkeys/register/begin'',
     pi_statuses = [200], pi_secured = True \<rparr>"

definition passkey_finish_doc :: path_item where
  "passkey_finish_doc = \<lparr> pi_method = POST, pi_path = ''/api/v1/auth/passkeys/register/finish'',
     pi_statuses = [201, 400], pi_secured = True \<rparr>"

definition passkey_login_begin_doc :: path_item where
  "passkey_login_begin_doc = \<lparr> pi_method = POST, pi_path = ''/api/v1/auth/passkeys/login/begin'',
     pi_statuses = [200], pi_secured = False \<rparr>"

definition passkey_login_finish_doc :: path_item where
  "passkey_login_finish_doc = \<lparr> pi_method = POST, pi_path = ''/api/v1/auth/passkeys/login/finish'',
     pi_statuses = [200, 400], pi_secured = False \<rparr>"

definition qr_approve_doc :: path_item where
  "qr_approve_doc = \<lparr> pi_method = POST, pi_path = ''/api/v1/auth/qr/sessions/{id}/approve'',
     pi_statuses = [200, 400], pi_secured = True \<rparr>"

definition qr_create_doc :: path_item where
  "qr_create_doc = \<lparr> pi_method = POST, pi_path = ''/api/v1/auth/qr/sessions'',
     pi_statuses = [201], pi_secured = False \<rparr>"

definition qr_poll_doc :: path_item where
  "qr_poll_doc = \<lparr> pi_method = GET, pi_path = ''/api/v1/auth/qr/sessions/{id}'',
     pi_statuses = [200], pi_secured = False \<rparr>"

definition qr_reject_doc :: path_item where
  "qr_reject_doc = \<lparr> pi_method = POST, pi_path = ''/api/v1/auth/qr/sessions/{id}/reject'',
     pi_statuses = [200], pi_secured = True \<rparr>"

definition qr_scan_doc :: path_item where
  "qr_scan_doc = \<lparr> pi_method = POST, pi_path = ''/api/v1/auth/qr/sessions/{id}/scan'',
     pi_statuses = [200, 400], pi_secured = True \<rparr>"

definition users_create_doc :: path_item where
  "users_create_doc = \<lparr> pi_method = POST, pi_path = ''/api/v1/users'',
     pi_statuses = [201, 409], pi_secured = True \<rparr>"

definition users_remove_doc :: path_item where
  "users_remove_doc = \<lparr> pi_method = DELETE, pi_path = ''/api/v1/users/{id}'',
     pi_statuses = [204, 400, 404], pi_secured = True \<rparr>"

definition users_me_doc :: path_item where
  "users_me_doc = \<lparr> pi_method = GET, pi_path = ''/api/v1/users/me'',
     pi_statuses = [200], pi_secured = True \<rparr>"

definition users_get_one_doc :: path_item where
  "users_get_one_doc = \<lparr> pi_method = GET, pi_path = ''/api/v1/users/{id}'',
     pi_statuses = [200, 403, 404], pi_secured = True \<rparr>"

definition users_list_doc :: path_item where
  "users_list_doc = \<lparr> pi_method = GET, pi_path = ''/api/v1/users'',
     pi_statuses = [200], pi_secured = True \<rparr>"

definition users_update_me_doc :: path_item where
  "users_update_me_doc = \<lparr> pi_method = PATCH, pi_path = ''/api/v1/users/me'',
     pi_statuses = [200], pi_secured = True \<rparr>"

definition users_update_doc :: path_item where
  "users_update_doc = \<lparr> pi_method = PATCH, pi_path = ''/api/v1/users/{id}'',
     pi_statuses = [200, 400, 404], pi_secured = True \<rparr>"

definition document :: "(endpoint \<times> path_item) list" where
  "document =
     [(HealthLiveH, health_live_doc), (HealthReadyH, health_ready_doc), (AuthRegisterH, auth_register_doc),
      (AuthLoginH, auth_login_doc), (AuthMeH, auth_me_doc), (AuthForgotH, auth_forgot_doc),
      (AuthResetH, auth_reset_doc), (AuthChangePasswordH, auth_change_password_doc), (AuthInviteH, auth_invite_doc),
      (AuthVerifyEmailH, auth_verify_email_doc), (AuthResendH, auth_resend_doc), (AuthRequestChangeH, auth_request_change_doc),
      (AuthConfirmChangeH, auth_confirm_change_doc), (AuthTwoFactorSetupH, auth_two_factor_setup_doc), (AuthTwoFactorEnableH, auth_two_factor_enable_doc),
      (AuthTwoFactorDisableH, auth_two_factor_disable_doc), (AuthTwoFactorVerifyH, auth_two_factor_verify_doc), (UsersListH, users_list_doc),
      (UsersCreateH, users_create_doc), (UsersMeH, users_me_doc), (UsersUpdateMeH, users_update_me_doc),
      (UsersGetOneH, users_get_one_doc), (UsersUpdateH, users_update_doc), (UsersRemoveH, users_remove_doc),
      (AvatarUploadH, avatar_upload_doc), (AvatarRemoveH, avatar_remove_doc), (AvatarServeH, avatar_serve_doc),
      (MediaUploadH, media_upload_doc), (MediaListH, media_list_doc), (MediaMetadataH, media_metadata_doc),
      (MediaContentH, media_content_doc), (MediaRemoveH, media_remove_doc), (KeysCreateH, keys_create_doc),
      (KeysListH, keys_list_doc), (KeysRevokeH, keys_revoke_doc), (AuditListH, audit_list_doc),
      (OAuthProvidersH, o_auth_providers_doc), (OAuthLoginH, o_auth_login_doc), (OAuthCallbackH, o_auth_callback_doc),
      (OAuthExchangeH, o_auth_exchange_doc), (OAuthLinkH, o_auth_link_doc), (OAuthIdentitiesH, o_auth_identities_doc),
      (OAuthUnlinkH, o_auth_unlink_doc), (PasskeyBeginH, passkey_begin_doc), (PasskeyFinishH, passkey_finish_doc),
      (PasskeyLoginBeginH, passkey_login_begin_doc), (PasskeyLoginFinishH, passkey_login_finish_doc), (PasskeyListH, passkey_list_doc),
      (PasskeyRemoveH, passkey_remove_doc), (QrCreateH, qr_create_doc), (QrPollH, qr_poll_doc),
      (QrScanH, qr_scan_doc), (QrApproveH, qr_approve_doc), (QrRejectH, qr_reject_doc)]"

lemmas doc_defs = health_live_doc_def health_ready_doc_def auth_register_doc_def auth_login_doc_def auth_me_doc_def auth_forgot_doc_def auth_reset_doc_def auth_change_password_doc_def auth_invite_doc_def auth_verify_email_doc_def auth_resend_doc_def auth_request_change_doc_def auth_confirm_change_doc_def auth_two_factor_setup_doc_def auth_two_factor_enable_doc_def auth_two_factor_disable_doc_def auth_two_factor_verify_doc_def users_list_doc_def users_create_doc_def users_me_doc_def users_update_me_doc_def users_get_one_doc_def users_update_doc_def users_remove_doc_def avatar_upload_doc_def avatar_remove_doc_def avatar_serve_doc_def media_upload_doc_def media_list_doc_def media_metadata_doc_def media_content_doc_def media_remove_doc_def keys_create_doc_def keys_list_doc_def keys_revoke_doc_def audit_list_doc_def o_auth_providers_doc_def o_auth_login_doc_def o_auth_callback_doc_def o_auth_exchange_doc_def o_auth_link_doc_def o_auth_identities_doc_def o_auth_unlink_doc_def passkey_begin_doc_def passkey_finish_doc_def passkey_login_begin_doc_def passkey_login_finish_doc_def passkey_list_doc_def passkey_remove_doc_def qr_create_doc_def qr_poll_doc_def qr_scan_doc_def qr_approve_doc_def qr_reject_doc_def

end
