(* ===== verification/Startup.thy ===== *)
theory Startup
  imports Config Server Permits
begin

text \<open>
  \<open>AppState::new\<close> and \<open>AppState::with_mail\<close> of \<open>src/state.rs\<close>: the services built from the configuration, in
  the order of the code, with the constructors that can refuse to start (\<open>MailService::new\<close> and
  \<open>Transport::smtp\<close>, \<open>ObjectStorage::from_config\<close>, \<open>ProviderClient::new\<close>, \<open>PasskeysService::new\<close>). What the
  libraries answer is a parameter: the reason of a refusal, or none.
\<close>

record startup_lib =
  su_mailbox_error :: "str \<Rightarrow> str option"
  su_relay_error :: "str \<Rightarrow> str option"
  su_create_dir_error :: "str \<Rightarrow> str option"
  su_head_bucket_error :: "s3_storage_config \<Rightarrow> str option"
  su_http_client_error :: "str option"
  su_url_error :: "str \<Rightarrow> str option"
  su_rp_error :: "str \<Rightarrow> str \<Rightarrow> str option"
  su_webauthn_error :: "str \<Rightarrow> str option"

definition refuse :: "str option \<Rightarrow> (str \<Rightarrow> 'e) \<Rightarrow> 'e + unit" where
  "refuse reason f = (case reason of None \<Rightarrow> Inr () | Some x \<Rightarrow> Inl (f x))"

section \<open>Mail\<close>

record smtp_settings =
  ss_host :: str
  ss_port :: int
  ss_tls :: smtp_tls
  ss_credentials :: "(str \<times> str) option"
  ss_from :: str

datatype transport = Smtp smtp_settings | LogOnly

definition transport_smtp :: "startup_lib \<Rightarrow> smtp_config \<Rightarrow> mail_error + transport" where
  "transport_smtp lib c =
     and_then (refuse (su_mailbox_error lib (smtp_from c)) (\<lambda>x. MailConfig (''MAIL_FROM: '' @ x))) (\<lambda>_.
     and_then (case smtp_tls_mode c of
         TlsNone \<Rightarrow> Inr ()
       | StartTls \<Rightarrow> refuse (su_relay_error lib (smtp_host c)) (\<lambda>x. MailConfig (''SMTP_HOST: '' @ x))
       | Tls \<Rightarrow> refuse (su_relay_error lib (smtp_host c)) (\<lambda>x. MailConfig (''SMTP_HOST: '' @ x))) (\<lambda>_.
       Inr (Smtp \<lparr> ss_host = smtp_host c, ss_port = smtp_port c, ss_tls = smtp_tls_mode c,
              ss_credentials = (case (smtp_username c, smtp_password c) of
                 (Some user, Some pass) \<Rightarrow> Some (user, pass) | _ \<Rightarrow> None),
              ss_from = smtp_from c \<rparr>)))"

record mail_service =
  ms_transport :: transport
  ms_frontend_url :: str
  ms_durable :: bool

definition mail_service_new :: "startup_lib \<Rightarrow> smtp_config \<Rightarrow> str \<Rightarrow> mail_error + mail_service" where
  "mail_service_new lib smtp frontend =
     and_then (if smtp_enabled smtp then transport_smtp lib smtp else Inr LogOnly) (\<lambda>t.
       Inr \<lparr> ms_transport = t, ms_frontend_url = trim_end_slashes frontend, ms_durable = False \<rparr>)"

definition with_durable_outbox :: "mail_service \<Rightarrow> mail_service" where
  "with_durable_outbox m = m\<lparr>ms_durable := True\<rparr>"

definition mail_error_display :: "mail_error \<Rightarrow> str" where
  "mail_error_display x =
     (case x of
        MailConfig s \<Rightarrow> ''invalid mail configuration: '' @ s
      | Render \<Rightarrow> ''could not render email template''
      | Build s \<Rightarrow> ''could not build email message: '' @ s
      | Delivery permanent s \<Rightarrow> ''smtp delivery failed (permanent: '' @ (if permanent then ''true'' else ''false'') @ ''): '' @ s)"

section \<open>Storage and providers\<close>

datatype backend = DiskBackend str | S3Backend str bool "str option"

definition connect_s3 :: "startup_lib \<Rightarrow> s3_storage_config \<Rightarrow> str + backend" where
  "connect_s3 lib c =
     and_then (refuse (su_head_bucket_error lib c) (\<lambda>x. ''cannot reach S3 bucket `'' @ s3_bucket c
        @ ''` (check S3_BUCKET, AWS credentials, region and AWS_ENDPOINT_URL): '' @ x)) (\<lambda>_.
       Inr (S3Backend (s3_bucket c) (s3_force_path_style c) (s3_endpoint_url c)))"

definition object_storage_from_config :: "startup_lib \<Rightarrow> storage_config \<Rightarrow> str + backend" where
  "object_storage_from_config lib c =
     (case sc_s3 c of
        Some s3 \<Rightarrow> connect_s3 lib s3
      | None \<Rightarrow> and_then (refuse (su_create_dir_error lib (sc_upload_dir c)) (\<lambda>x. x)) (\<lambda>_. Inr (DiskBackend (sc_upload_dir c))))"

record provider_client =
  pc_public_api_url :: str
  pc_google :: "oauth_provider_config option"
  pc_github :: "oauth_provider_config option"

definition provider_client_new :: "startup_lib \<Rightarrow> oauth_config \<Rightarrow> str + provider_client" where
  "provider_client_new lib c =
     and_then (refuse (su_http_client_error lib) (\<lambda>x. x)) (\<lambda>_.
       Inr \<lparr> pc_public_api_url = oc_public_api_url c, pc_google = oc_google c, pc_github = oc_github c \<rparr>)"

section \<open>Services and their settings\<close>

text \<open>
  What a service is built from, other than its repositories, which all stand on the one pool. \<open>jwt_settings\<close>
  is \<open>JwtSettings\<close>.
\<close>

record jwt_settings =
  js_secret :: str
  js_ttl_secs :: int

record users_service =
  us_check_password_breaches :: bool

definition users_service_new :: "bool \<Rightarrow> users_service" where
  "users_service_new check = \<lparr> us_check_password_breaches = check \<rparr>"

record email_verification_service =
  ev_users :: users_service
  ev_mail :: mail_service
  ev_verification_ttl :: duration
  ev_change_ttl :: duration

definition email_verification_service_new ::
  "users_service \<Rightarrow> mail_service \<Rightarrow> account_config \<Rightarrow> email_verification_service" where
  "email_verification_service_new us m c =
     \<lparr> ev_users = us, ev_mail = m, ev_verification_ttl = hours (ac_email_verification_ttl_hours c),
       ev_change_ttl = minutes (ac_email_change_ttl_minutes c) \<rparr>"

record password_reset_service =
  pw_users :: users_service
  pw_mail :: mail_service
  pw_reset_ttl :: duration
  pw_invitation_ttl :: duration

definition password_reset_service_new :: "users_service \<Rightarrow> mail_service \<Rightarrow> account_config \<Rightarrow> password_reset_service" where
  "password_reset_service_new us m c =
     \<lparr> pw_users = us, pw_mail = m, pw_reset_ttl = minutes (ac_password_reset_ttl_minutes c),
       pw_invitation_ttl = hours (ac_email_verification_ttl_hours c) \<rparr>"

record totp_service =
  tp_users :: users_service
  tp_jwt :: jwt_settings
  tp_issuer :: str

definition totp_service_new :: "users_service \<Rightarrow> jwt_settings \<Rightarrow> str \<Rightarrow> totp_service" where
  "totp_service_new us jwt issuer = \<lparr> tp_users = us, tp_jwt = jwt, tp_issuer = issuer \<rparr>"

record session_service =
  sv_users :: users_service
  sv_email_verification :: email_verification_service
  sv_jwt :: jwt_settings
  sv_account :: account_config

definition session_service_new ::
  "users_service \<Rightarrow> email_verification_service \<Rightarrow> jwt_settings \<Rightarrow> account_config \<Rightarrow> session_service" where
  "session_service_new us verification jwt account =
     \<lparr> sv_users = us, sv_email_verification = verification, sv_jwt = jwt, sv_account = account \<rparr>"

record auth_service =
  av_session :: session_service
  av_password_reset :: password_reset_service
  av_email_verification :: email_verification_service
  av_totp :: totp_service

definition jwt_of :: "app_config \<Rightarrow> jwt_settings" where
  "jwt_of c = \<lparr> js_secret = cfg_jwt_secret c, js_ttl_secs = cfg_jwt_ttl_secs c \<rparr>"

definition auth_service_new :: "users_service \<Rightarrow> mail_service \<Rightarrow> app_config \<Rightarrow> auth_service" where
  "auth_service_new us m c =
     (let email_verification = email_verification_service_new us m (cfg_account c);
          totp = totp_service_new us (jwt_of c) (wc_rp_name (cfg_webauthn c))
      in \<lparr> av_session = session_service_new us email_verification (jwt_of c) (cfg_account c),
           av_password_reset = password_reset_service_new us m (cfg_account c),
           av_email_verification = email_verification, av_totp = totp \<rparr>)"

record avatar_service =
  ap_users :: users_service
  ap_storage :: backend
  ap_processing :: semaphore

definition avatar_service_new :: "users_service \<Rightarrow> backend \<Rightarrow> avatar_service" where
  "avatar_service_new us storage =
     \<lparr> ap_users = us, ap_storage = storage, ap_processing = semaphore_new MAX_CONCURRENT_PROCESSING \<rparr>"

record media_service =
  mv_storage :: backend
  mv_config :: media_config

definition media_service_new :: "backend \<Rightarrow> media_config \<Rightarrow> media_service" where
  "media_service_new storage c = \<lparr> mv_storage = storage, mv_config = c \<rparr>"

record oauth_service =
  oa_users :: users_service
  oa_client :: provider_client
  oa_jwt :: jwt_settings
  oa_require_verified_email :: bool

definition oauth_service_new :: "users_service \<Rightarrow> provider_client \<Rightarrow> jwt_settings \<Rightarrow> bool \<Rightarrow> oauth_service" where
  "oauth_service_new us client jwt require_verified =
     \<lparr> oa_users = us, oa_client = client, oa_jwt = jwt, oa_require_verified_email = require_verified \<rparr>"

record passkeys_service =
  py_webauthn :: webauthn_config
  py_users :: users_service
  py_jwt :: jwt_settings
  py_require_verified_email :: bool

definition passkeys_service_new ::
  "startup_lib \<Rightarrow> webauthn_config \<Rightarrow> users_service \<Rightarrow> jwt_settings \<Rightarrow> bool \<Rightarrow> str + passkeys_service" where
  "passkeys_service_new lib c us jwt require_verified =
     and_then (refuse (su_url_error lib (wc_origin c)) (\<lambda>x. ''WEBAUTHN_ORIGIN `'' @ wc_origin c @ ''` is not a URL: '' @ x)) (\<lambda>_.
     and_then (refuse (su_rp_error lib (wc_rp_id c) (wc_origin c))
        (\<lambda>x. ''invalid WebAuthn config (rp id `'' @ wc_rp_id c @ ''`, origin `'' @ wc_origin c @ ''`): '' @ x)) (\<lambda>_.
     and_then (refuse (su_webauthn_error lib (wc_rp_name c)) (\<lambda>x. ''could not build WebAuthn: '' @ x)) (\<lambda>_.
       Inr \<lparr> py_webauthn = c, py_users = us, py_jwt = jwt, py_require_verified_email = require_verified \<rparr>)))"

record qr_login_service =
  ql_users :: users_service
  ql_jwt :: jwt_settings
  ql_frontend_url :: str
  ql_ttl :: duration
  ql_require_verified_email :: bool

definition qr_login_service_new ::
  "qr_login_config \<Rightarrow> str \<Rightarrow> users_service \<Rightarrow> jwt_settings \<Rightarrow> bool \<Rightarrow> qr_login_service" where
  "qr_login_service_new c frontend us jwt require_verified =
     \<lparr> ql_users = us, ql_jwt = jwt, ql_frontend_url = trim_end_slashes frontend, ql_ttl = seconds (qc_ttl_secs c),
       ql_require_verified_email = require_verified \<rparr>"

section \<open>The application state\<close>

record app_state =
  as_auth :: auth_service
  as_users :: users_service
  as_mail :: mail_service
  as_avatars :: avatar_service
  as_media :: media_service
  as_object_storage :: backend
  as_oauth :: oauth_service
  as_passkeys :: passkeys_service
  as_qr_login :: qr_login_service
  as_jwt :: jwt_settings
  as_rate_limiter :: rate_limiter
  as_trust_proxy :: bool
  as_config :: app_config

definition with_mail ::
  "startup_lib \<Rightarrow> app_config \<Rightarrow> mail_service \<Rightarrow> semaphore option \<Rightarrow> (str + app_state) \<times> semaphore option" where
  "with_mail lib c m pool =
     (let account = cfg_account c;
          us = users_service_new (ac_check_password_breaches account);
          require_verified = ac_require_verified_email account
      in (and_then (object_storage_from_config lib (cfg_storage c)) (\<lambda>storage.
          and_then (provider_client_new lib (cfg_oauth c)) (\<lambda>client.
          and_then (passkeys_service_new lib (cfg_webauthn c) us (jwt_of c) require_verified) (\<lambda>passkeys.
            Inr \<lparr> as_auth = auth_service_new us m c, as_users = us, as_mail = m,
                  as_avatars = avatar_service_new us storage,
                  as_media = media_service_new storage (cfg_media c), as_object_storage = storage,
                  as_oauth = oauth_service_new us client (jwt_of c) require_verified,
                  as_passkeys = passkeys,
                  as_qr_login = qr_login_service_new (cfg_qr_login c) (cfg_frontend_url c) us (jwt_of c) require_verified,
                  as_jwt = jwt_of c,
                  as_rate_limiter = \<lparr> max_requests = word_of_int (ac_rate_limit_per_minute account), window = seconds 60 \<rparr>,
                  as_trust_proxy = ac_trust_proxy_headers account, as_config = c \<rparr>))),
          set_max_concurrent_hashes (nat (ac_max_concurrent_hashes account)) pool))"

definition app_state_new :: "startup_lib \<Rightarrow> app_config \<Rightarrow> semaphore option \<Rightarrow> (str + app_state) \<times> semaphore option" where
  "app_state_new lib c pool =
     (case mail_service_new lib (cfg_smtp c) (cfg_frontend_url c) of
        Inl x \<Rightarrow> (Inl (mail_error_display x), pool)
      | Inr m \<Rightarrow> with_mail lib c (with_durable_outbox m) pool)"

section \<open>The one environment\<close>

text \<open>
  The actions read every setting from \<open>conf\<close>. That is faithful: each service of the running program was handed
  exactly what an action of that service finds there under \<open>state_config\<close>.
\<close>

lemmas wiring_defs = app_state_new_def with_mail_def auth_service_new_def email_verification_service_new_def
  password_reset_service_new_def passkeys_service_new_def qr_login_service_new_def provider_client_new_def users_service_new_def
  totp_service_new_def session_service_new_def media_service_new_def oauth_service_new_def jwt_of_def
  state_config_def

theorem services_get_their_settings:
  assumes "app_state_new lib c pool = (Inr st, cell)" and "conf e = state_config c"
  shows "\<forall>j \<in> {as_jwt st, sv_jwt (av_session (as_auth st)), tp_jwt (av_totp (as_auth st)), oa_jwt (as_oauth st),
             py_jwt (as_passkeys st), ql_jwt (as_qr_login st)}.
           js_secret j = jwt_secret (conf e) \<and> js_ttl_secs j = jwt_ttl_secs (conf e)"
    and "\<forall>b \<in> {ac_require_verified_email (sv_account (av_session (as_auth st))), oa_require_verified_email (as_oauth st),
             py_require_verified_email (as_passkeys st), ql_require_verified_email (as_qr_login st)}.
           b = require_verified_email (conf e)"
    and "pw_reset_ttl (av_password_reset (as_auth st)) = reset_ttl e"
    and "pw_invitation_ttl (av_password_reset (as_auth st)) = invitation_ttl e"
    and "ev_verification_ttl (av_email_verification (as_auth st)) = verification_ttl e"
    and "ev_change_ttl (av_email_verification (as_auth st)) = change_ttl e"
    and "tp_issuer (av_totp (as_auth st)) = webauthn_rp_name (conf e)"
    and "us_check_password_breaches (as_users st) = check_password_breaches (conf e)"
    and "as_trust_proxy st = trust_proxy_headers (conf e)"
    and "as_rate_limiter st = strict_limiter (conf e)"
    and "ql_ttl (as_qr_login st) = seconds (qr_ttl_secs (conf e))"
    and "pc_google (oa_client (as_oauth st)) = oauth_google (conf e)"
    and "nat (md_max_upload_bytes (mv_config (as_media st))) = max_upload_bytes (conf e)"
  using assms
  by (auto simp: wiring_defs reset_ttl_def invitation_ttl_def verification_ttl_def change_ttl_def strict_limiter_def Let_def
      split: sum.splits)

end
