(* ===== verification/Seed.thy ===== *)
theory Seed
  imports UsersRepo
begin

text \<open>
  \<open>src/infra/seed.rs\<close> with the two scripts it embeds, \<open>seeds/seed.sql\<close> and \<open>seeds/reset.sql\<close>: loading the
  development accounts and wiping the tables. A script runs inside \<open>BEGIN \<dots> COMMIT\<close>, so it is one
  statement here. The columns a script does not name take the defaults of the migrations.
\<close>

section \<open>The scripts\<close>

definition SEED_PASSWORD_HASH :: str where
  "SEED_PASSWORD_HASH =
     ''$argon2id$v=19$m=19456,t=2,p=1$DpnToHrrH7OkFeMnsigOGw$MN2d8/UO/DC/U4jDUeJN7k7pwMHWn/sKzTOrrTBtQcU''"

text \<open>A row of the script: the day of January 2026 it was created, and whether the address is verified.\<close>

definition january :: "int \<Rightarrow> time" where
  "january n = seconds 1767225600 + days (n - 1)"

definition seed_row :: "nat \<Rightarrow> str \<Rightarrow> str \<Rightarrow> role \<Rightarrow> bool \<Rightarrow> bool \<Rightarrow> user" where
  "seed_row n email name r active verified =
     \<lparr> usr_id = 0x40008000000000000000 + n, usr_email = email, usr_password_hash = SEED_PASSWORD_HASH,
       usr_display_name = Some name, usr_role = r, usr_is_active = active,
       usr_email_verified_at = (if verified then Some (january (int n)) else None),
       usr_created_at = january (int n), usr_updated_at = None, usr_deleted_at = None, usr_avatar_key = None,
       usr_password_set = True, usr_token_version = 1, usr_failed_login_attempts = 0, usr_locked_until = None,
       usr_totp_secret = None, usr_totp_enabled = False \<rparr>"

definition SEED_USERS :: "user list" where
  "SEED_USERS =
     [seed_row 1 ''admin@example.com'' ''Admin'' Admin True True,
      seed_row 2 ''alice@example.com'' ''Alice Johnson'' User True True,
      seed_row 3 ''bob@example.com'' ''Bob Smith'' User True True,
      seed_row 4 ''carol@example.com'' ''Carol White'' User True False,
      seed_row 5 ''dave@example.com'' ''Dave Brown'' User False True]"

text \<open>\<open>ON CONFLICT DO NOTHING\<close>: a row whose id is taken, or whose address a live account has, is skipped.\<close>

definition conflicts :: "user \<Rightarrow> user list \<Rightarrow> bool" where
  "conflicts u rows = exists_where (\<lambda>v. usr_id v = usr_id u \<or> (usr_email v = usr_email u \<and> user_live v \<and> user_live u)) rows"

definition insert_or_skip :: "user \<Rightarrow> user list \<Rightarrow> user list" where
  "insert_or_skip u rows = (if conflicts u rows then rows else rows @ [u])"

definition SEED_SQL :: "db \<Rightarrow> db" where
  "SEED_SQL d = d\<lparr>users := fold insert_or_skip SEED_USERS (users d)\<rparr>"

text \<open>
  \<open>DELETE FROM users\<close> takes along every row that references a deleted user (\<open>ON DELETE CASCADE\<close> on every
  foreign key of the migrations). The audit log, the jobs and the outgoing mail reference nobody.
\<close>

definition delete_all_users :: "db \<Rightarrow> db" where
  "delete_all_users d =
     (let gone = (\<lambda>i. exists_where (\<lambda>u. usr_id u = i) (users d));
          gone_opt = (\<lambda>i. case i of None \<Rightarrow> False | Some j \<Rightarrow> gone j)
      in d\<lparr>users := [],
           auth_tokens := delete_where (\<lambda>t. gone (tok_user_id t)) (auth_tokens d),
           totp_recovery_codes := delete_where (\<lambda>r. gone (rec_user_id r)) (totp_recovery_codes d),
           api_keys := delete_where (\<lambda>k. gone (key_user_id k)) (api_keys d),
           qr_sessions := delete_where (\<lambda>s. gone_opt (qr_user_id s)) (qr_sessions d),
           oauth_identities := delete_where (\<lambda>i. gone (oid_user_id i)) (oauth_identities d),
           passkeys := delete_where (\<lambda>k. gone (pk_user_id k)) (passkeys d),
           media := delete_where (\<lambda>m. gone (med_owner_id m)) (media d),
           oauth_states := delete_where (\<lambda>s. gone_opt (st_user_id s)) (oauth_states d),
           login_grants := delete_where (\<lambda>g. gone (gr_user_id g)) (login_grants d),
           webauthn_challenges := delete_where (\<lambda>c. gone_opt (ch_user_id c)) (webauthn_challenges d)\<rparr>)"

definition RESET_SQL :: "db \<Rightarrow> db" where
  "RESET_SQL d = delete_all_users (d\<lparr>auth_tokens := []\<rparr>)"

section \<open>Running them\<close>

definition user_count :: "int action" where
  "user_count = db_query (\<lambda>d. int (length (users d)))"

definition seed_run :: "int action" where
  "seed_run = seq (db_exec (\<lambda>d. ((), SEED_SQL d))) user_count"

definition seed_reset :: "unit action" where
  "seed_reset = db_exec (\<lambda>d. ((), RESET_SQL d))"

definition seed_fresh :: "int action" where
  "seed_fresh = seq seed_reset seed_run"

section \<open>Facts\<close>

lemma conflicts_self: "u \<in> set rows \<Longrightarrow> conflicts u rows"
  by (auto simp: conflicts_def)

lemma conflicts_append: "conflicts u rows \<Longrightarrow> conflicts u (rows @ added)"
  by (auto simp: conflicts_def)

lemma insert_or_skip_prefix: "\<exists>added. insert_or_skip u rows = rows @ added \<and> set added \<subseteq> {u}"
  by (auto simp: insert_or_skip_def)

lemma insert_or_skip_conflicts: "conflicts u (insert_or_skip u rows)"
  by (auto simp: insert_or_skip_def intro: conflicts_self)

text \<open>Existing rows stay where and as they are; what is added comes from the script.\<close>

lemma fold_insert_prefix: "\<exists>added. fold insert_or_skip us rows = rows @ added \<and> set added \<subseteq> set us"
proof (induction us arbitrary: rows)
  case (Cons u us)
  obtain m1 where 1: "insert_or_skip u rows = rows @ m1" "set m1 \<subseteq> {u}"
    using insert_or_skip_prefix by blast
  obtain m2 where "fold insert_or_skip us (rows @ m1) = (rows @ m1) @ m2" "set m2 \<subseteq> set us"
    using Cons.IH by blast
  with 1 show ?case by (intro exI [of _ "m1 @ m2"]) auto
qed simp

lemma fold_insert_conflicts: "u \<in> set us \<Longrightarrow> conflicts u (fold insert_or_skip us rows)"
proof (induction us arbitrary: rows)
  case (Cons v us)
  show ?case
  proof (cases "u = v")
    case True
    obtain added where "fold insert_or_skip us (insert_or_skip u rows) = insert_or_skip u rows @ added"
      using fold_insert_prefix by blast
    with True insert_or_skip_conflicts show ?thesis by (simp add: conflicts_append)
  next
    case False
    with Cons show ?thesis by simp
  qed
qed simp

lemma fold_insert_none: "\<forall>u \<in> set us. conflicts u rows \<Longrightarrow> fold insert_or_skip us rows = rows"
  by (induction us arbitrary: rows) (auto simp: insert_or_skip_def)

lemma SEED_SQL_idem: "SEED_SQL (SEED_SQL d) = SEED_SQL d"
  using fold_insert_none [of SEED_USERS "fold insert_or_skip SEED_USERS (users d)"] fold_insert_conflicts
  by (simp add: SEED_SQL_def)

lemma seed_emails_distinct:
  "distinct (map usr_id SEED_USERS)" "distinct (map usr_email SEED_USERS)" "\<forall>u \<in> set SEED_USERS. user_live u"
  by (simp_all add: SEED_USERS_def seed_row_def user_live_def)

lemma seed_empty: "fold insert_or_skip SEED_USERS [] = SEED_USERS"
  by (simp add: SEED_USERS_def insert_or_skip_def conflicts_def seed_row_def user_live_def)

lemma seed_run_result:
  assumes "seed_run e w = (Inr n, w')"
  shows "db w' = SEED_SQL (db w)" and "n = int (length (users (SEED_SQL (db w))))"
  using assms
  by (auto simp: seed_run_def seq_run db_exec_def db_query_def db_stmt_def user_count_def Let_def
      split: if_splits prod.splits)

end
