(* ===== verification/CommandLine.thy ===== *)
theory CommandLine
  imports Startup Seed Secrets
begin

text \<open>
  \<open>src/main.rs\<close> and \<open>src/cli\<close>: the commands of the binary. A command is a program over the process: its
  files, its environment variables, the database it connects to and what it prints. What the terminal
  answers, whether a connection or a socket is obtained, and how a \<open>.env\<close> file changes the variables
  (the dotenvy crate) are parameters, as are the requests and tasks a served process runs.
\<close>

section \<open>The process\<close>

record process =
  pr_files :: files
  pr_vars :: vars
  pr_world :: world
  pr_permits :: "semaphore option"
  pr_out :: "str list"

record cli_env =
  cl_env :: env
  cl_parsers :: parsers
  cl_startup :: startup_lib
  cl_tokens :: "nat \<Rightarrow> str \<times> str \<times> str"
  cl_writable :: "str \<Rightarrow> bool"
  cl_dotenv :: "files \<Rightarrow> vars \<Rightarrow> vars"
  cl_dotenv_override :: "str \<Rightarrow> vars \<Rightarrow> vars"
  cl_is_terminal :: bool
  cl_flush_ok :: bool
  cl_read_line :: "str option"
  cl_connect_error :: "str \<Rightarrow> int \<Rightarrow> str option"
  cl_bind_error :: "socket_addr \<Rightarrow> str option"
  cl_early :: "task list"
  cl_events :: "event list"
  cl_draining :: "task list"

type_synonym 'a command = "(cli_env, process, str, 'a) prog"

definition println :: "str \<Rightarrow> unit command" where
  "println line = (\<lambda>r p. (Inr (), p\<lparr>pr_out := pr_out p @ [line]\<rparr>))"

definition joined :: "str \<Rightarrow> str list \<Rightarrow> str" where
  "joined sep pieces = (case pieces of [] \<Rightarrow> [] | x # xs \<Rightarrow> x @ concat (map (\<lambda>y. sep @ y) xs))"

definition USAGE :: str where
  "USAGE = joined [CHR 0x0A]
     [''usage: api-starter-axum [seed [--fresh [--yes]] | setup [--seed] | gen --secrets [--force]]'',
      [],
      ''  (no command)          run the API server'',
      ''  seed                  add the development seed data (seeds/seed.sql), then exit'',
      ''  seed --fresh          DELETE ALL DATA first (seeds/reset.sql), then seed; asks to confirm'',
      ''  seed --fresh --yes    same, without asking'',
      ''  setup                 create .env if missing, generate secrets, run migrations'',
      ''  setup --seed          same, then also load development seed data'',
      ''  gen --secrets         fill in JWT_SECRET, METRICS_TOKEN, ADMIN_PASSWORD in .env if unset'',
      ''  gen --secrets --force also overwrite ones that are already set'']"

definition with_usage :: "str \<Rightarrow> str" where
  "with_usage msg = msg @ [CHR 0x0A, CHR 0x0A] @ USAGE"

definition unknown_option :: "str \<Rightarrow> str" where
  "unknown_option flag = with_usage (''unknown option `'' @ flag @ ''`'')"

text \<open>What the commands use of the other components.\<close>

definition config_error_display :: "config_error \<Rightarrow> str" where
  "config_error_display x =
     (case x of
        Missing name \<Rightarrow> ''missing required environment variable `'' @ name @ ''`''
      | Invalid name reason \<Rightarrow> ''invalid value for `'' @ name @ ''`: '' @ reason)"

definition config_from_env :: "app_config command" where
  "config_from_env = (\<lambda>r p.
     (case from_env (cl_parsers r) (pr_vars p) of
        Inl x \<Rightarrow> Inl (config_error_display x) | Inr c \<Rightarrow> Inr c, p))"

text \<open>\<open>database::connect\<close>: the pool and the migrations; the tables of the model are those after them.\<close>

definition database_connect :: "str \<Rightarrow> int \<Rightarrow> unit command" where
  "database_connect url connections = (\<lambda>r p. (refuse (cl_connect_error r url connections) (\<lambda>x. x), p))"

definition on_database :: "'a action \<Rightarrow> 'a command" where
  "on_database m = (\<lambda>r p.
     case m (cl_env r) (pr_world p) of (v, w) \<Rightarrow> (map_sum (sqlx_display (cl_env r)) id v, p\<lparr>pr_world := w\<rparr>))"

definition generate_command :: "bool \<Rightarrow> generated_secrets command" where
  "generate_command force = (\<lambda>r p.
     case generate (cl_writable r) (cl_tokens r (tick (pr_world p))) ''.env'' ''monitoring/prometheus.yml'' force (pr_files p) of
       (v, fs) \<Rightarrow> (v, p\<lparr>pr_files := fs\<rparr>))"

section \<open>gen --secrets\<close>

definition report :: "generated_secrets \<Rightarrow> unit command" where
  "report g =
     seq (whenever (gs_admin_email_missing g)
            (println ''ADMIN_EMAIL is not set, so ADMIN_PASSWORD was left alone (they must be set together).''))
    (seq (case gs_prometheus_sync g of
            Some Updated \<Rightarrow> println ''Updated the bearer token in monitoring/prometheus.yml to match.''
          | Some NoCredentialsLine \<Rightarrow> println ''Note: monitoring/prometheus.yml has no `credentials:` line to update; add one under `authorization:` if /metrics scraping needs it.''
          | _ \<Rightarrow> ret ())
         (if gs_changed g = []
          then println ''Nothing to do: every secret already has a value (pass --force to regenerate).''
          else println (''Generated new value(s) for: '' @ joined '', '' (gs_changed g))))"

fun gen_flags :: "str list \<Rightarrow> bool \<times> bool \<Rightarrow> str + bool \<times> bool" where
  "gen_flags [] acc = Inr acc"
| "gen_flags (flag # flags) (secrets_flag, force) =
     (if flag = ''--secrets'' then gen_flags flags (True, force)
      else if flag = ''--force'' then gen_flags flags (secrets_flag, True)
      else Inl (unknown_option flag))"

definition gen_run :: "str list \<Rightarrow> unit command" where
  "gen_run flags =
     then_do (of_result (gen_flags flags (False, False))) (\<lambda>(secrets_flag, force).
       if \<not> secrets_flag then raise (with_usage ''usage: api-starter-axum gen --secrets [--force]'')
       else then_do (generate_command force) report)"

section \<open>seed\<close>

fun seed_flags :: "str list \<Rightarrow> bool \<times> bool \<Rightarrow> str + bool \<times> bool" where
  "seed_flags [] acc = Inr acc"
| "seed_flags (flag # flags) (fresh, yes) =
     (if flag = ''--fresh'' then seed_flags flags (True, yes)
      else if flag = ''--yes'' \<or> flag = ''-y'' then seed_flags flags (fresh, True)
      else Inl (unknown_option flag))"

definition confirm_wipe :: "str \<Rightarrow> unit command" where
  "confirm_wipe url = (\<lambda>r.
     if \<not> cl_is_terminal r
     then raise (''`seed --fresh` deletes all data in '' @ url @ ''; pass --yes to confirm'') r
     else seq (println (''This deletes ALL users and tokens in '' @ url @ ''. Type `yes` to continue: ''))
         (if \<not> cl_flush_ok r then raise ''stdout''
          else then_do (ok_or (cl_read_line r) ''stdin'') (\<lambda>answer.
            ensure (trim answer = ''yes'') ''aborted, nothing was changed'')) r)"

definition load_seed :: "bool \<Rightarrow> str \<Rightarrow> unit command" where
  "load_seed fresh url =
     seq (database_connect url 1)
    (then_do (on_database (if fresh then seed_fresh else seed_run)) (\<lambda>n.
     seq (println (if fresh then ''Database wiped and re-seeded ('' @ int_to_string n @ '' users).''
                   else ''Seed data loaded ('' @ int_to_string n @ '' users in the database).''))
         (println ''Log in as admin@example.com, alice@example.com, bob@example.com ... with password: Password123!'')))"

definition seed_command :: "str list \<Rightarrow> unit command" where
  "seed_command flags =
     then_do (of_result (seed_flags flags (False, False))) (\<lambda>(fresh, yes).
     seq (ensure (\<not> (yes \<and> \<not> fresh)) (with_usage ''--yes only applies to --fresh''))
    (then_do config_from_env (\<lambda>c.
     seq (whenever (fresh \<and> \<not> yes) (confirm_wipe (cfg_database_url c)))
         (load_seed fresh (cfg_database_url c)))))"

section \<open>setup\<close>

definition setup_flags :: "str list \<Rightarrow> str + bool" where
  "setup_flags flags =
     (case flags of
        [] \<Rightarrow> Inr False
      | [flag] \<Rightarrow> if flag = ''--seed'' then Inr True else Inl (unknown_option flag)
      | _ \<Rightarrow> Inl (unknown_option (joined '' '' flags)))"

definition copy_file :: "str \<Rightarrow> str \<Rightarrow> (str \<Rightarrow> str) \<Rightarrow> unit command" where
  "copy_file src dst f = (\<lambda>r p.
     case pr_files p src of
       None \<Rightarrow> (Inl (f ''not found''), p)
     | Some contents \<Rightarrow>
         if cl_writable r dst then (Inr (), p\<lparr>pr_files := (pr_files p)(dst \<mapsto> contents)\<rparr>)
         else (Inl (f ''not writable''), p))"

definition dotenv_override :: "str \<Rightarrow> unit command" where
  "dotenv_override path = (\<lambda>r p.
     (Inr (), case pr_files p path of
                None \<Rightarrow> p
              | Some contents \<Rightarrow> p\<lparr>pr_vars := cl_dotenv_override r contents (pr_vars p)\<rparr>))"

definition missing :: "str \<Rightarrow> bool command" where
  "missing path = (\<lambda>r p. (Inr (pr_files p path = None), p))"

definition setup_env :: "unit command" where
  "setup_env =
     then_do (missing ''.env'') (\<lambda>just_created.
     seq (whenever just_created
            (seq (copy_file ''.env.example'' ''.env'' (\<lambda>x. ''could not create .env from .env.example: '' @ x))
                 (println ''Created .env from .env.example.'')))
    (seq (dotenv_override ''.env'')
    (then_do (generate_command just_created) (\<lambda>g.
     seq (report g)
         (dotenv_override ''.env'')))))"

definition setup_database :: "bool \<Rightarrow> unit command" where
  "setup_database with_seed =
     then_do config_from_env (\<lambda>c.
     seq (database_connect (cfg_database_url c) 1)
    (seq (println ''Database ready (migrations applied).'')
    (seq (whenever with_seed
            (then_do (on_database seed_run) (\<lambda>n.
               println (''Seed data loaded ('' @ int_to_string n @ '' users in the database).''))))
    (seq (whenever (cfg_bootstrap_admin c = None)
            (println ''No ADMIN_EMAIL/ADMIN_PASSWORD set: no administrator will be created on first `cargo run`. Set both in .env if you want one.''))
         (println ''Ready. Run `cargo run` to start the server.'')))))"

definition setup_command :: "str list \<Rightarrow> unit command" where
  "setup_command flags =
     then_do (of_result (setup_flags flags)) (\<lambda>with_seed. seq setup_env (setup_database with_seed))"

section \<open>Serving\<close>

text \<open>
  The environment of the services under the accepted configuration. What runs beside the start (the job
  worker and the resending of mail start before the first administrator is created), while serving, and
  in the bounded wait of the shutdown are lists of steps.
\<close>

definition env_under :: "app_config \<Rightarrow> env \<Rightarrow> env" where
  "env_under c e = e\<lparr>conf := state_config c\<rparr>"

definition serve_events :: "app_config \<Rightarrow> event list \<Rightarrow> unit command" where
  "serve_events c evs = (\<lambda>r p.
     (Inr (), p\<lparr>pr_world := world (run_server (env_under c (cl_env r)) evs
        \<lparr> world = pr_world p, strict_hits = [], qr_poll_hits = [] \<rparr>)\<rparr>))"

definition build_state :: "app_config \<Rightarrow> app_state command" where
  "build_state c = (\<lambda>r p. case app_state_new (cl_startup r) c (pr_permits p) of (v, cell) \<Rightarrow> (v, p\<lparr>pr_permits := cell\<rparr>))"

definition bootstrap_step :: "app_config \<Rightarrow> unit command" where
  "bootstrap_step c = (\<lambda>r p.
     case cfg_bootstrap_admin c of
       None \<Rightarrow> (Inr (), p)
     | Some a \<Rightarrow>
         (case ensure_bootstrap_admin (ba_email a) (ba_password a) (env_under c (cl_env r)) (pr_world p) of
            (v, w) \<Rightarrow> (map_sum (sqlx_display (cl_env r)) id v, p\<lparr>pr_world := w\<rparr>)))"

definition bind_listener :: "socket_addr \<Rightarrow> unit command" where
  "bind_listener addr = (\<lambda>r p. (refuse (cl_bind_error r addr) (\<lambda>x. x), p))"

definition serve_command :: "unit command" where
  "serve_command = (\<lambda>r.
     then_do config_from_env (\<lambda>c.
     seq (database_connect (cfg_database_url c) (cfg_database_max_connections c))
    (then_do (build_state c) (\<lambda>st.
     seq (serve_events c (map Background (cl_early r)))
    (seq (bootstrap_step c)
    (seq (bind_listener (cfg_bind_addr c))
    (seq (serve_events c (cl_events r))
         (serve_events c (map Background (cl_draining r))))))))) r)"

section \<open>The binary\<close>

definition cli_run :: "str list \<Rightarrow> unit command" where
  "cli_run args =
     (case args of
        [] \<Rightarrow> serve_command
      | command # flags \<Rightarrow>
          if command = ''seed'' \<or> command = ''--seed'' then seed_command flags
          else if command = ''setup'' then setup_command flags
          else if command = ''gen'' then gen_run flags
          else raise (with_usage (''unknown command `'' @ command @ ''`'')))"

definition load_dotenv :: "unit command" where
  "load_dotenv = (\<lambda>r p. (Inr (), p\<lparr>pr_vars := cl_dotenv r (pr_files p) (pr_vars p)\<rparr>))"

definition main :: "str list \<Rightarrow> unit command" where
  "main args = seq load_dotenv (cli_run args)"

end
