(* ===== verification/CommandProperties.thy ===== *)
theory CommandProperties
  imports CommandLine SecretsProperties Samples
begin

text \<open>
  The commands of the binary: what they never do to the database, what wrong arguments do, that setting
  up again changes nothing, and the database a fresh seed leaves.
\<close>

section \<open>Flags\<close>

lemma seed_flags_Inr:
  "seed_flags flags (f, y) = Inr (fresh, yes) \<Longrightarrow>
     (fresh \<longleftrightarrow> f \<or> ''--fresh'' \<in> set flags) \<and> (yes \<longleftrightarrow> y \<or> ''--yes'' \<in> set flags \<or> ''-y'' \<in> set flags)"
  by (induction flags "(f, y)" arbitrary: f y rule: seed_flags.induct) (auto split: if_splits)

lemma seed_flags_known:
  "(\<exists>v. seed_flags flags acc = Inr v) \<longleftrightarrow> set flags \<subseteq> {''--fresh'', ''--yes'', ''-y''}"
  by (induction flags acc rule: seed_flags.induct) auto

lemma seed_flags_Inl: "seed_flags flags acc = Inl x \<Longrightarrow> \<exists>m. x = with_usage m"
  by (induction flags acc rule: seed_flags.induct) (auto simp: unknown_option_def split: if_splits)

lemma gen_flags_known: "(\<exists>v. gen_flags flags acc = Inr v) \<longleftrightarrow> set flags \<subseteq> {''--secrets'', ''--force''}"
  by (induction flags acc rule: gen_flags.induct) auto

lemma gen_flags_Inl: "gen_flags flags acc = Inl x \<Longrightarrow> \<exists>m. x = with_usage m"
  by (induction flags acc rule: gen_flags.induct) (auto simp: unknown_option_def split: if_splits)

lemma gen_flags_Inr:
  "gen_flags flags (s, f) = Inr (secrets_flag, force) \<Longrightarrow>
     (secrets_flag \<longleftrightarrow> s \<or> ''--secrets'' \<in> set flags) \<and> (force \<longleftrightarrow> f \<or> ''--force'' \<in> set flags)"
  by (induction flags "(s, f)" arbitrary: s f rule: gen_flags.induct) (auto split: if_splits)

section \<open>Commands and the database\<close>

text \<open>The tables are as they were, or the seed rows were added.\<close>

definition unharmed :: "db \<Rightarrow> process \<Rightarrow> bool" where
  "unharmed d p \<longleftrightarrow> db (pr_world p) = d \<or> db (pr_world p) = SEED_SQL d"

lemma keeps_println [keeps_rules]: "keeps (unharmed d) (println s)"
  by (simp add: keeps_def println_def unharmed_def)

lemma keeps_config [keeps_rules]: "keeps (unharmed d) config_from_env"
  by (simp add: keeps_def config_from_env_def)

lemma keeps_connect [keeps_rules]: "keeps (unharmed d) (database_connect url n)"
  by (simp add: keeps_def database_connect_def)

lemma keeps_generate_command [keeps_rules]: "keeps (unharmed d) (generate_command force)"
  by (simp add: keeps_def generate_command_def unharmed_def split: prod.split)

lemma keeps_confirm_wipe [keeps_rules]: "keeps (unharmed d) (confirm_wipe url)"
  by (auto simp: keeps_def confirm_wipe_def unharmed_def run_simps println_def ok_or_def split: option.splits)

lemma keeps_files [keeps_rules]:
  "keeps (unharmed d) (copy_file a b f)" "keeps (unharmed d) (dotenv_override path)" "keeps (unharmed d) (missing path)"
  by (simp_all add: keeps_def copy_file_def dotenv_override_def missing_def unharmed_def split: option.split)

lemma keeps_on_seed_run [keeps_rules]: "keeps (unharmed d) (on_database seed_run)"
  by (auto simp: keeps_def on_database_def unharmed_def seed_run_def user_count_def db_exec_def db_query_def
      db_stmt_def seq_run Let_def SEED_SQL_idem split: prod.splits)

lemma keeps_case_sync [keeps_rules]:
  "keeps I a \<Longrightarrow> keeps I b \<Longrightarrow> keeps I c \<Longrightarrow>
     keeps I (case x of PrometheusNotFound \<Rightarrow> a | NoCredentialsLine \<Rightarrow> b | Updated \<Rightarrow> c)"
  by (cases x) auto

lemma keeps_report [keeps_rules]: "keeps (unharmed d) (report g)"
  unfolding report_def by (intro keeps_rules)

lemma setup_unharmed: "keeps (unharmed d) (setup_command flags)"
  unfolding setup_command_def setup_env_def setup_database_def by (intro keeps_rules)

lemma gen_unharmed: "keeps (unharmed d) (gen_run flags)"
  unfolding gen_run_def by (intro keeps_rules)

text \<open>The answer that lets a wipe go ahead.\<close>

definition wipe_confirmed :: "cli_env \<Rightarrow> str list \<Rightarrow> bool" where
  "wipe_confirmed r flags \<longleftrightarrow> ''--fresh'' \<in> set flags
     \<and> (''--yes'' \<in> set flags \<or> ''-y'' \<in> set flags
        \<or> (cl_is_terminal r \<and> (\<exists>answer. cl_read_line r = Some answer \<and> trim answer = ''yes'')))"

lemma confirm_wipe_Inr:
  assumes "confirm_wipe url r p = (Inr u, p')"
  shows "cl_is_terminal r \<and> (\<exists>answer. cl_read_line r = Some answer \<and> trim answer = ''yes'')"
  using assms
  by (auto simp: confirm_wipe_def run_simps println_def ok_or_def split: if_splits option.splits)

lemma seed_unharmed:
  assumes "\<not> wipe_confirmed r flags" and "unharmed d p"
  shows "unharmed d (snd (seed_command flags r p))"
proof (cases "seed_flags flags (False, False)")
  case (Inl x)
  then show ?thesis using assms(2) by (simp add: seed_command_def run_simps)
next
  case (Inr v)
  obtain fresh yes where v: "v = (fresh, yes)" by fastforce
  note f = seed_flags_Inr [OF Inr [unfolded v]]
  show ?thesis
  proof (cases fresh)
    case False
    have "keeps (unharmed d) (load_seed fresh url)" for url
      unfolding load_seed_def using False by (simp only: if_False) (intro keeps_rules)
    then have "keeps (unharmed d) (seq (ensure (\<not> (yes \<and> \<not> fresh)) (with_usage ''--yes only applies to --fresh''))
       (then_do config_from_env (\<lambda>c. seq (whenever (fresh \<and> \<not> yes) (confirm_wipe (cfg_database_url c)))
         (load_seed fresh (cfg_database_url c)))))"
      by (intro keeps_rules)
    with assms(2) Inr v show ?thesis by (simp add: seed_command_def then_do_run keeps_def)
  next
    case True
    with f assms(1) have "\<not> yes" and no: "\<not> (cl_is_terminal r \<and> (\<exists>answer. cl_read_line r = Some answer \<and> trim answer = ''yes''))"
      by (auto simp: wipe_confirmed_def)
    have "\<exists>x q. confirm_wipe url r p = (Inl x, q) \<and> unharmed d q" for url
    proof -
      obtain w q where run: "confirm_wipe url r p = (w, q)" by fastforce
      with no confirm_wipe_Inr [of url r p] have "isl w" by (cases w) auto
      with run keepsD [OF keeps_confirm_wipe assms(2) run] show ?thesis by (cases w) auto
    qed
    then obtain x q where cw: "\<And>url. confirm_wipe url r p = (Inl (x url), q url) \<and> unharmed d (q url)" by metis
    obtain w where cfg: "config_from_env r p = (w, p)" by (simp add: config_from_env_def)
    show ?thesis
      using Inr v True \<open>\<not> yes\<close> cw cfg assms(2)
      by (cases w) (simp_all add: seed_command_def run_simps)
  qed
qed

text \<open>
  No command deletes or changes rows of the database unasked. Whatever the arguments of seed, setup
  and gen, and whatever fails on the way, the tables end as they were or with the seed accounts added,
  unless it is seed --fresh and the wipe was confirmed with --yes or by answering yes at a terminal.
\<close>

theorem wipe_needs_confirmation:
  assumes "\<not> (command \<in> {''seed'', ''--seed''} \<and> wipe_confirmed r flags)"
  shows "db (pr_world (snd (cli_run (command # flags) r p))) \<in> {db (pr_world p), SEED_SQL (db (pr_world p))}"
proof -
  let ?d = "db (pr_world p)"
  have start: "unharmed ?d p" by (simp add: unharmed_def)
  then have "unharmed ?d (snd (setup_command flags r p))" and "unharmed ?d (snd (gen_run flags r p))"
    using setup_unharmed gen_unharmed unfolding keeps_def by blast+
  with seed_unharmed [OF _ start] assms start have "unharmed ?d (snd (cli_run (command # flags) r p))"
    by (auto simp: cli_run_def)
  then show ?thesis by (auto simp: unharmed_def)
qed

text \<open>
  Arguments a command does not know are refused before anything happens: the process, its files and
  the database are untouched and the error ends with the usage text.
\<close>

definition arguments_ok :: "str \<Rightarrow> str list \<Rightarrow> bool" where
  "arguments_ok command flags \<longleftrightarrow>
     (command \<in> {''seed'', ''--seed''} \<and> set flags \<subseteq> {''--fresh'', ''--yes'', ''-y''}
        \<and> (''--yes'' \<in> set flags \<or> ''-y'' \<in> set flags \<longrightarrow> ''--fresh'' \<in> set flags))
     \<or> (command = ''setup'' \<and> flags \<in> {[], [''--seed'']})
     \<or> (command = ''gen'' \<and> set flags \<subseteq> {''--secrets'', ''--force''} \<and> ''--secrets'' \<in> set flags)"

lemma seed_refuses:
  assumes "\<not> (set flags \<subseteq> {''--fresh'', ''--yes'', ''-y''} \<and> (''--yes'' \<in> set flags \<or> ''-y'' \<in> set flags \<longrightarrow> ''--fresh'' \<in> set flags))"
  shows "\<exists>m. seed_command flags r p = (Inl (with_usage m), p)"
proof (cases "seed_flags flags (False, False)")
  case (Inl x)
  with seed_flags_Inl [OF Inl] show ?thesis by (auto simp: seed_command_def run_simps)
next
  case (Inr v)
  obtain fresh yes where v: "v = (fresh, yes)" by fastforce
  have "set flags \<subseteq> {''--fresh'', ''--yes'', ''-y''}" using Inr seed_flags_known by blast
  with seed_flags_Inr [OF Inr [unfolded v]] assms have "yes" and "\<not> fresh" by auto
  with Inr v show ?thesis by (auto simp: seed_command_def run_simps)
qed

lemma gen_refuses:
  assumes "\<not> (set flags \<subseteq> {''--secrets'', ''--force''} \<and> ''--secrets'' \<in> set flags)"
  shows "\<exists>m. gen_run flags r p = (Inl (with_usage m), p)"
proof (cases "gen_flags flags (False, False)")
  case (Inl x)
  with gen_flags_Inl [OF Inl] show ?thesis by (auto simp: gen_run_def run_simps)
next
  case (Inr v)
  obtain secrets_flag force where v: "v = (secrets_flag, force)" by fastforce
  have "set flags \<subseteq> {''--secrets'', ''--force''}" using Inr gen_flags_known by blast
  with gen_flags_Inr [OF Inr [unfolded v]] assms have "\<not> secrets_flag" by auto
  with Inr v show ?thesis by (auto simp: gen_run_def run_simps)
qed

lemma setup_refuses:
  assumes "flags \<notin> {[], [''--seed'']}"
  shows "\<exists>m. setup_command flags r p = (Inl (with_usage m), p)"
proof -
  have "\<exists>m. setup_flags flags = Inl (with_usage m)"
  proof (cases flags)
    case (Cons flag rest)
    with assms show ?thesis by (cases rest) (auto simp: setup_flags_def unknown_option_def)
  qed (use assms in simp)
  then obtain m where "setup_flags flags = Inl (with_usage m)" ..
  then show ?thesis unfolding setup_command_def by (auto simp: then_do_def)
qed

theorem bad_arguments_change_nothing:
  assumes "\<not> arguments_ok command flags"
  shows "\<exists>m. cli_run (command # flags) r p = (Inl (with_usage m), p)"
proof -
  consider (seed) "command = ''seed'' \<or> command = ''--seed''" | (prepare) "command = ''setup''" | (gen) "command = ''gen''"
    | (other) "command \<notin> {''seed'', ''--seed'', ''setup'', ''gen''}" by blast
  then show ?thesis
  proof cases
    case seed
    then have run: "cli_run (command # flags) = seed_command flags" by (auto simp: cli_run_def)
    show ?thesis unfolding run by (rule seed_refuses) (use assms seed in \<open>auto simp: arguments_ok_def\<close>)
  next
    case prepare
    then have run: "cli_run (command # flags) = setup_command flags" by (simp add: cli_run_def)
    show ?thesis unfolding run by (rule setup_refuses) (use assms prepare in \<open>simp add: arguments_ok_def\<close>)
  next
    case gen
    then have run: "cli_run (command # flags) = gen_run flags" by (simp add: cli_run_def)
    show ?thesis unfolding run by (rule gen_refuses) (use assms gen in \<open>simp add: arguments_ok_def\<close>)
  next
    case other
    then have run: "cli_run (command # flags) = raise (with_usage (''unknown command `'' @ command @ ''`''))"
      by (simp add: cli_run_def)
    show ?thesis unfolding run raise_run by blast
  qed
qed

section \<open>Setting up again\<close>

lemma println_run [simp]: "println s r p = (Inr (), p\<lparr>pr_out := pr_out p @ [s]\<rparr>)"
  by (simp add: println_def)

lemma report_run: "\<exists>out. report g r p = (Inr (), p\<lparr>pr_out := out\<rparr>)"
proof -
  have same: "p = p\<lparr>pr_out := pr_out p\<rparr>" by simp
  show ?thesis
    unfolding report_def whenever_def
    by (cases "gs_prometheus_sync g"; cases "the (gs_prometheus_sync g)"; cases "gs_admin_email_missing g"; cases "gs_changed g = []")
       (auto simp: seq_run same [symmetric] intro: exI)
qed

definition plain_tokens :: "str \<times> str \<times> str \<Rightarrow> bool" where
  "plain_tokens t = (case t of (a, b, c) \<Rightarrow>
     list_all (\<lambda>x. x \<noteq> [] \<and> CHR 0x0A \<notin> set x \<and> CHR 0x0D \<notin> set x) [a, b, c])"

text \<open>What a successful run of \<open>setup\<close> went through.\<close>

lemma generate_command_run:
  "generate_command force r p = (v, q) \<longleftrightarrow>
     (\<exists>fs. generate (cl_writable r) (cl_tokens r (tick (pr_world p))) ''.env'' ''monitoring/prometheus.yml'' force (pr_files p) = (v, fs)
        \<and> q = p\<lparr>pr_files := fs\<rparr>)"
  by (auto simp: generate_command_def split: prod.splits)

lemma setup_env_result:
  assumes "setup_env r p = (Inr u, p1)" and "\<And>n. plain_tokens (cl_tokens r n)"
    and "\<And>x. pr_files p ''.env'' = Some x \<or> pr_files p ''.env.example'' = Some x \<Longrightarrow> CHR 0x0D \<notin> set x"
  shows "\<exists>contents vs. pr_files p1 ''.env'' = Some contents \<and> complete (str_lines contents)
     \<and> pr_vars p1 = cl_dotenv_override r contents vs"
proof -
  let ?new = "pr_files p ''.env'' = None"
  from assms(1) obtain p0 p2 g where p0: "whenever ?new (seq (copy_file ''.env.example'' ''.env'' (\<lambda>x. ''could not create .env from .env.example: '' @ x))
        (println ''Created .env from .env.example.'')) r p = (Inr (), p0)"
    and gen: "generate_command ?new r (snd (dotenv_override ''.env'' r p0)) = (Inr g, p2)"
    and last: "seq (report g) (dotenv_override ''.env'') r p2 = (Inr u, p1)"
    unfolding setup_env_def missing_def by (fastforce simp: dotenv_override_def seq_run then_do_run split: prod.splits sum.splits)
  obtain contents where c: "pr_files p0 ''.env'' = Some contents" "CHR 0x0D \<notin> set contents"
    using p0 assms(3) by (auto simp: whenever_def copy_file_def seq_run split: if_splits option.splits)
  then have files: "pr_files (snd (dotenv_override ''.env'' r p0)) ''.env'' = Some contents"
    by (simp add: dotenv_override_def)
  obtain n jwt metrics admin where t: "cl_tokens r n = (jwt, metrics, admin)"
    and run: "generate (cl_writable r) (jwt, metrics, admin) ''.env'' ''monitoring/prometheus.yml'' ?new
       (pr_files (snd (dotenv_override ''.env'' r p0))) = (Inr g, pr_files p2)"
    using gen by (cases "cl_tokens r (tick (pr_world (snd (dotenv_override ''.env'' r p0))))") (auto simp: generate_command_run)
  obtain contents1 where c1: "pr_files p2 ''.env'' = Some contents1" "complete (str_lines contents1)"
    using generate_leaves_complete [OF run _ files c(2)] assms(2) [of n] t by (auto simp: plain_tokens_def)
  obtain out where "report g r p2 = (Inr (), p2\<lparr>pr_out := out\<rparr>)" using report_run by blast
  with last c1 show ?thesis by (auto simp: seq_run dotenv_override_def)
qed

lemma setup_env_again:
  assumes "pr_files p ''.env'' = Some contents" and "complete (str_lines contents)"
    and "cl_dotenv_override r contents (pr_vars p) = pr_vars p"
  shows "\<exists>out. setup_env r p = (Inr (), p\<lparr>pr_out := out\<rparr>)"
proof -
  have dot: "dotenv_override ''.env'' r p = (Inr (), p)" using assms(1,3) by (simp add: dotenv_override_def)
  obtain g where gen: "generate_command False r p = (Inr g, p)"
    using generate_complete [of "pr_files p" "''.env''", OF assms(1,2),
        of "cl_writable r" "cl_tokens r (tick (pr_world p))" "''monitoring/prometheus.yml''"]
    by (auto simp: generate_command_def)
  obtain out where rep: "report g r p = (Inr (), p\<lparr>pr_out := out\<rparr>)" using report_run by blast
  have "dotenv_override ''.env'' r (p\<lparr>pr_out := out\<rparr>) = (Inr (), p\<lparr>pr_out := out\<rparr>)"
    using assms(1,3) by (simp add: dotenv_override_def)
  with dot gen rep assms(1) have "setup_env r p = (Inr (), p\<lparr>pr_out := out\<rparr>)"
    by (simp add: setup_env_def missing_def then_do_run seq_run whenever_def)
  then show ?thesis ..
qed

lemma on_seed_run:
  assumes "\<And>n. db_ok (cl_env r) n"
  shows "\<exists>n w. on_database seed_run r p = (Inr n, p\<lparr>pr_world := w\<rparr>) \<and> db w = SEED_SQL (db (pr_world p))"
proof -
  let ?w = "(pr_world p)\<lparr>db := SEED_SQL (db (pr_world p)), tick := Suc (Suc (tick (pr_world p)))\<rparr>"
  have "\<exists>n. on_database seed_run r p = (Inr n, p\<lparr>pr_world := ?w\<rparr>)"
    using assms by (simp add: on_database_def seed_run_def user_count_def db_exec_def db_query_def db_stmt_def seq_run Let_def)
  then show ?thesis by (metis world.simps(1) world.ext_inject world.surjective world.update_convs(1,2))
qed

lemma setup_database_run:
  assumes "\<And>n. db_ok (cl_env r) n" and "from_env (cl_parsers r) (pr_vars p) = Inr c"
    and "cl_connect_error r (cfg_database_url c) 1 = None"
  shows "\<exists>q. setup_database with_seed r p = (Inr (), q) \<and> pr_files q = pr_files p \<and> pr_vars q = pr_vars p
     \<and> db (pr_world q) = (if with_seed then SEED_SQL (db (pr_world p)) else db (pr_world p))"
proof -
  define p1 where "p1 = p\<lparr>pr_out := pr_out p @ [''Database ready (migrations applied).'']\<rparr>"
  have p1: "pr_files p1 = pr_files p" "pr_vars p1 = pr_vars p" "pr_world p1 = pr_world p" by (simp_all add: p1_def)
  obtain n w where "on_database seed_run r p1 = (Inr n, p1\<lparr>pr_world := w\<rparr>)" and "db w = SEED_SQL (db (pr_world p))"
    using on_seed_run [of r p1, OF assms(1)] p1 by auto
  with assms(2,3) p1 show ?thesis
    by (cases with_seed; cases "cfg_bootstrap_admin c")
       (simp_all add: setup_database_def config_from_env_def database_connect_def refuse_def then_do_run seq_run whenever_def
          flip: p1_def)
qed

lemma setup_database_InrE:
  assumes "setup_database with_seed r p = (Inr u, q)"
  obtains c where "from_env (cl_parsers r) (pr_vars p) = Inr c" and "cl_connect_error r (cfg_database_url c) 1 = None"
proof -
  obtain c where c: "from_env (cl_parsers r) (pr_vars p) = Inr c" and "database_connect (cfg_database_url c) 1 r p = (Inr (), p)"
    using assms unfolding setup_database_def
    by (auto simp: config_from_env_def database_connect_def refuse_def split: sum.splits option.splits)
  then have "cl_connect_error r (cfg_database_url c) 1 = None"
    by (auto simp: database_connect_def refuse_def split: option.splits)
  with c show thesis by (rule that)
qed

text \<open>
  Setting up is idempotent. After a successful run, another run with the same options succeeds, writes no
  file, reads the same variables and leaves the tables as they are, whatever secrets it would have drawn.
  Asked of the surroundings: the files have no carriage returns, generated secrets are non-empty single
  lines, loading a .env file twice is loading it once, and the database answers.
\<close>

theorem setting_up_again_changes_nothing:
  assumes "setup_command flags r p = (Inr u, p1)"
    and "\<And>x. pr_files p ''.env'' = Some x \<or> pr_files p ''.env.example'' = Some x \<Longrightarrow> CHR 0x0D \<notin> set x"
    and "\<And>n. plain_tokens (cl_tokens r n)"
    and "\<And>x vs. cl_dotenv_override r x (cl_dotenv_override r x vs) = cl_dotenv_override r x vs"
    and "\<And>n. db_ok (cl_env r) n"
  shows "\<exists>p2. setup_command flags r p1 = (Inr (), p2) \<and> pr_files p2 = pr_files p1 \<and> pr_vars p2 = pr_vars p1
     \<and> db (pr_world p2) = db (pr_world p1)"
proof -
  from assms(1) obtain with_seed q where flags: "setup_flags flags = Inr with_seed" and env: "setup_env r p = (Inr (), q)"
    and rest: "setup_database with_seed r q = (Inr u, p1)"
    by (auto simp: setup_command_def)
  obtain contents vs where c: "pr_files q ''.env'' = Some contents" "complete (str_lines contents)"
      "pr_vars q = cl_dotenv_override r contents vs"
    using setup_env_result [OF env assms(3,2)] by blast
  obtain cfg where cfg: "from_env (cl_parsers r) (pr_vars q) = Inr cfg" "cl_connect_error r (cfg_database_url cfg) 1 = None"
    using rest by (rule setup_database_InrE)
  have p1: "pr_files p1 = pr_files q" "pr_vars p1 = pr_vars q"
      "db (pr_world p1) = (if with_seed then SEED_SQL (db (pr_world q)) else db (pr_world q))"
    using setup_database_run [OF assms(5) cfg, of with_seed] rest by auto
  obtain out where again: "setup_env r p1 = (Inr (), p1\<lparr>pr_out := out\<rparr>)"
    using setup_env_again [of p1 contents r] c p1 assms(4) by auto
  obtain p2 where "setup_database with_seed r (p1\<lparr>pr_out := out\<rparr>) = (Inr (), p2)" "pr_files p2 = pr_files p1" "pr_vars p2 = pr_vars p1"
      "db (pr_world p2) = (if with_seed then SEED_SQL (db (pr_world p1)) else db (pr_world p1))"
    using setup_database_run [of r "p1\<lparr>pr_out := out\<rparr>" cfg with_seed, OF assms(5)] cfg p1 by auto
  with again flags p1 show ?thesis
    by (simp add: setup_command_def then_do_run seq_run SEED_SQL_idem)
qed

section \<open>A fresh database\<close>

lemma RESET_SQL_result:
  "users (RESET_SQL d) = []" "auth_tokens (RESET_SQL d) = []"
  "audit_log (RESET_SQL d) = audit_log d" "jobs (RESET_SQL d) = jobs d" "outbound_mail (RESET_SQL d) = outbound_mail d"
  "totp_recovery_codes (RESET_SQL d) = [x \<leftarrow> totp_recovery_codes d. \<not> has_user d (rec_user_id x)]"
  "api_keys (RESET_SQL d) = [x \<leftarrow> api_keys d. \<not> has_user d (key_user_id x)]"
  "oauth_identities (RESET_SQL d) = [x \<leftarrow> oauth_identities d. \<not> has_user d (oid_user_id x)]"
  "login_grants (RESET_SQL d) = [x \<leftarrow> login_grants d. \<not> has_user d (gr_user_id x)]"
  "passkeys (RESET_SQL d) = [x \<leftarrow> passkeys d. \<not> has_user d (pk_user_id x)]"
  "media (RESET_SQL d) = [x \<leftarrow> media d. \<not> has_user d (med_owner_id x)]"
  by (simp_all add: RESET_SQL_def delete_all_users_def Let_def delete_where_def has_user_def image_iff Bex_def)
     (metis (mono_tags, lifting))+

lemma seed_fresh_result:
  assumes "seed_fresh e w = (Inr n, w')"
  shows "db w' = SEED_SQL (RESET_SQL (db w))" and "n = 5"
proof -
  obtain w1 where "seed_reset e w = (Inr (), w1)" and run: "seed_run e w1 = (Inr n, w')"
    using assms by (auto simp: seed_fresh_def)
  then have w1: "db w1 = RESET_SQL (db w)"
    by (auto simp: seed_reset_def db_exec_def db_stmt_def Let_def split: if_splits)
  show "db w' = SEED_SQL (RESET_SQL (db w))" using seed_run_result(1) [OF run] w1 by simp
  show "n = 5" using seed_run_result(2) [OF run] w1
    by (simp add: SEED_SQL_def RESET_SQL_result seed_empty) (simp add: SEED_USERS_def)
qed

text \<open>
  C38: after a confirmed wipe the database is a valid start: its accounts are exactly the five of the seed
  script, nothing of the deleted accounts is left (links, recovery codes, API keys, linked providers,
  grants), and every invariant the server keeps holds, an active administrator included.
\<close>

theorem fresh_seed_is_a_valid_start:
  assumes "seed_fresh e w = (Inr n, w')" and "refs_ok (db w)"
  shows "n = 5 \<and> users (db w') = SEED_USERS \<and> auth_tokens (db w') = [] \<and> totp_recovery_codes (db w') = []
     \<and> api_keys (db w') = [] \<and> oauth_identities (db w') = [] \<and> login_grants (db w') = []
     \<and> accounts_ok (db w') \<and> admin_remains (db w') \<and> links_ok (db w') \<and> totp_ok (db w') \<and> keys_ok (db w') \<and> refs_ok (db w')"
proof -
  note db' = seed_fresh_result [OF assms(1)]
  have rows: "users (db w') = SEED_USERS" "auth_tokens (db w') = []" "totp_recovery_codes (db w') = []"
     "api_keys (db w') = []" "oauth_identities (db w') = []" "login_grants (db w') = []"
    using assms(2) by (simp_all add: db' SEED_SQL_def RESET_SQL_result seed_empty refs_ok_def list_all_iff filter_empty_conv)
  have "accounts_ok (db w')"
    using rows(1) by (simp add: accounts_ok_def emails_unique_def SEED_USERS_def seed_row_def)
  moreover have "admin_remains (db w')"
    using rows(1) by (simp add: admin_remains_def SEED_USERS_def seed_row_def active_admin_def user_live_def)
  moreover have "links_ok (db w')" using rows(2) by (simp add: links_ok_def hashes_unique_def)
  moreover have "totp_ok (db w')" using rows(1) by (simp add: totp_ok_def SEED_USERS_def seed_row_def)
  moreover have "keys_ok (db w')" using rows(4) by (simp add: keys_ok_def active_keys_def MAX_ACTIVE_KEYS_PER_USER_def)
  moreover have "refs_ok (db w')" using rows by (simp add: refs_ok_def)
  ultimately show ?thesis using rows db'(2) by blast
qed

text \<open>
  The wipe is described as deleting all data, but the audit log, the queued jobs, the outgoing mail and the
  stored files of the deleted accounts stay.
\<close>

theorem wipe_keeps_log_jobs_mail_and_files:
  assumes "seed_fresh e w = (Inr n, w')"
  shows "audit_log (db w') = audit_log (db w) \<and> jobs (db w') = jobs (db w)
     \<and> outbound_mail (db w') = outbound_mail (db w) \<and> objects w' = objects w"
proof -
  have "objects w' = objects w"
    using assms by (auto simp: seed_fresh_def seed_reset_def seed_run_def user_count_def db_exec_def db_query_def db_stmt_def
        Let_def split: if_splits)
  with seed_fresh_result(1) [OF assms] show ?thesis by (simp add: SEED_SQL_def RESET_SQL_result)
qed

section \<open>A concrete process\<close>

definition toy_dotenv :: "str \<Rightarrow> vars \<Rightarrow> vars" where
  "toy_dotenv contents vs = vs ++ map_of (List.map_filter (split_once (CHR ''='')) (str_lines contents))"

lemma toy_dotenv_again: "toy_dotenv x (toy_dotenv x vs) = toy_dotenv x vs"
  by (auto simp: toy_dotenv_def map_add_def fun_eq_iff split: option.splits)

definition sample_files :: files where
  "sample_files = [''.env.example'' \<mapsto> join_lines [''DATABASE_URL=postgres://db'', ''JWT_SECRET=change-me'']]"

definition sample_startup :: startup_lib where
  "sample_startup = \<lparr> su_mailbox_error = (\<lambda>_. None), su_relay_error = (\<lambda>_. None), su_create_dir_error = (\<lambda>_. None),
     su_head_bucket_error = (\<lambda>_. None), su_http_client_error = None, su_url_error = (\<lambda>_. None),
     su_rp_error = (\<lambda>_ _. None), su_webauthn_error = (\<lambda>_. None) \<rparr>"

definition sample_cli :: cli_env where
  "sample_cli = \<lparr> cl_env = sample_env,
     cl_parsers = \<lparr> ps_socket_addr = (\<lambda>s. Inr \<lparr> sa_text = s, sa_port = 80 \<rparr>), ps_url = (\<lambda>s. Inr (s, None)) \<rparr>,
     cl_startup = sample_startup, cl_tokens = (\<lambda>n. (''0123456789abcdef0123456789abcdef'', ''mmm'', ''aaa'')),
     cl_writable = (\<lambda>_. True), cl_dotenv = (\<lambda>_ vs. vs), cl_dotenv_override = toy_dotenv, cl_is_terminal = False,
     cl_flush_ok = True, cl_read_line = None, cl_connect_error = (\<lambda>_ _. None), cl_bind_error = (\<lambda>_. None),
     cl_early = [], cl_events = [], cl_draining = [] \<rparr>"

definition sample_process :: process where
  "sample_process = \<lparr> pr_files = sample_files, pr_vars = Map.empty, pr_world = world_of sample_db,
     pr_permits = None, pr_out = [] \<rparr>"

theorem wipe_needs_confirmation_witness:
  "db (pr_world (snd (cli_run [''seed'', ''--fresh''] sample_cli sample_process)))
     \<in> {db (pr_world sample_process), SEED_SQL (db (pr_world sample_process))}"
  by (rule wipe_needs_confirmation) (simp add: wipe_confirmed_def sample_cli_def)

theorem bad_arguments_change_nothing_witness:
  "\<exists>m. cli_run [''seed'', ''--yes''] sample_cli sample_process = (Inl (with_usage m), sample_process)"
  by (rule bad_arguments_change_nothing) (simp add: arguments_ok_def)

theorem fresh_seed_is_a_valid_start_witness:
  "\<exists>n w'. seed_fresh sample_env (world_of sample_db) = (Inr n, w') \<and> n = 5 \<and> admin_remains (db w')"
proof -
  have "\<not> isl (fst (seed_fresh sample_env (world_of sample_db)))"
    by (simp add: seed_fresh_def seed_reset_def seed_run_def user_count_def db_exec_def db_query_def db_stmt_def Let_def
        run_simps sample_defs)
  then obtain n w' where run: "seed_fresh sample_env (world_of sample_db) = (Inr n, w')"
    by (metis prod.collapse sum.collapse(2))
  have "refs_ok (db (world_of sample_db))" by (simp add: refs_ok_def sample_defs)
  from run fresh_seed_is_a_valid_start [OF run this] show ?thesis by blast
qed

theorem setting_up_again_changes_nothing_witness:
  "\<exists>p1. setup_command [''--seed''] sample_cli sample_process = (Inr (), p1)
     \<and> (\<exists>p2. setup_command [''--seed''] sample_cli p1 = (Inr (), p2) \<and> pr_files p2 = pr_files p1)"
proof -
  define q where "q = snd (setup_env sample_cli sample_process)"
  have "\<not> isl (fst (setup_env sample_cli sample_process))" by code_simp
  then have env: "setup_env sample_cli sample_process = (Inr (), q)"
    by (cases "fst (setup_env sample_cli sample_process)") (simp_all add: q_def prod_eq_iff)
  have "\<not> isl (from_env (cl_parsers sample_cli) (pr_vars q))" unfolding q_def by code_simp
  then obtain c where "from_env (cl_parsers sample_cli) (pr_vars q) = Inr c" by (metis sum.collapse(2))
  from setup_database_run [OF _ this, of True] obtain p1 where "setup_database True sample_cli q = (Inr (), p1)"
    by (auto simp: sample_cli_def sample_env_def)
  with env have run: "setup_command [''--seed''] sample_cli sample_process = (Inr (), p1)"
    by (simp add: setup_command_def setup_flags_def then_do_run seq_run)
  have "\<exists>p2. setup_command [''--seed''] sample_cli p1 = (Inr (), p2) \<and> pr_files p2 = pr_files p1 \<and> pr_vars p2 = pr_vars p1
     \<and> db (pr_world p2) = db (pr_world p1)"
  proof (rule setting_up_again_changes_nothing [OF run])
    fix x assume "pr_files sample_process ''.env'' = Some x \<or> pr_files sample_process ''.env.example'' = Some x"
    then have "x = join_lines [''DATABASE_URL=postgres://db'', ''JWT_SECRET=change-me'']"
      by (auto simp: sample_process_def sample_files_def)
    then show "CHR 0x0D \<notin> set x" by (simp add: join_lines_def)
  next
    fix n show "plain_tokens (cl_tokens sample_cli n)" by (simp add: sample_cli_def plain_tokens_def)
  next
    fix x vs
    show "cl_dotenv_override sample_cli x (cl_dotenv_override sample_cli x vs) = cl_dotenv_override sample_cli x vs"
      by (simp add: sample_cli_def toy_dotenv_again)
  next
    fix n show "db_ok (cl_env sample_cli) n" by (simp add: sample_cli_def sample_env_def)
  qed
  with run show ?thesis by blast
qed

end
