(* ===== verification/RevocationProperties.thy ===== *)
theory RevocationProperties
  imports Samples AuthFacts
begin

text \<open>
  Revocation is final: what a password change, a deletion or the revocation of a key took away, no later
  run of the server gives back. Each is an invariant of the statements, interpreted for every account,
  version and key.
\<close>

section \<open>Sessions\<close>

text \<open>Every row of the account is past the version, or deleted.\<close>

definition session_dead :: "uuid \<Rightarrow> int \<Rightarrow> db \<Rightarrow> bool" where
  "session_dead i v d \<longleftrightarrow> i \<in> usr_id ` set (users d)
     \<and> (\<forall>u \<in> set (users d). usr_id u = i \<longrightarrow> v < usr_token_version u \<or> \<not> user_live u)"

lemma session_dead_update:
  assumes "session_dead i v d" and "\<And>u. usr_id (f u) = usr_id u"
    and "\<And>u. usr_token_version u \<le> usr_token_version (f u)" and "\<And>u. user_live (f u) \<Longrightarrow> user_live u"
  shows "session_dead i v (d\<lparr>users := update_where p f (users d)\<rparr>)"
proof -
  have "map usr_id (update_where p f (users d)) = map usr_id (users d)"
    using assms(2) by (simp add: map_update_where_same)
  then have "usr_id ` set (update_where p f (users d)) = usr_id ` set (users d)" by (metis set_map)
  moreover have "v < usr_token_version x \<or> \<not> user_live x" if x: "x \<in> set (update_where p f (users d))" "usr_id x = i" for x
  proof -
    obtain u where u: "u \<in> set (users d)" "x = (if p u then f u else u)" using in_update_whereE [OF x(1)] .
    with x(2) assms(2) have "usr_id u = i" by (simp split: if_splits)
    with assms(1) u(1) have "v < usr_token_version u \<or> \<not> user_live u" by (auto simp: session_dead_def)
    with u(2) assms(3) [of u] assms(4) [of u] show ?thesis by (auto split: if_splits)
  qed
  ultimately show ?thesis using assms(1) by (simp add: session_dead_def)
qed

lemma patch_user_version [simp]: "usr_token_version (patch_user now p u) = usr_token_version u"
  by (simp add: patch_user_def)

lemma mark_deleted_version [simp]: "usr_token_version (mark_deleted now u) = usr_token_version u"
  by (simp add: mark_deleted_def)

lemma session_account_laws: "account_laws (session_dead i v)"
proof
  fix d :: db and j :: uuid and p now
  assume dead: "session_dead i v d"
  show "session_dead i v (snd (apply_patch j now p d))"
    unfolding apply_patch_def Let_def snd_conv using dead by (rule session_dead_update) (auto simp: user_live_def)
  show "session_dead i v (snd (delete_row j now d))"
    unfolding delete_row_def snd_conv using dead by (rule session_dead_update) auto
  show "session_dead i v (snd (update_user_row j (\<lambda>u. u\<lparr>usr_totp_enabled := True\<rparr>) d))"
    unfolding update_user_row_def snd_conv using dead by (rule session_dead_update) (auto simp: user_live_def)
next
  fix d :: db and f and q :: "user \<Rightarrow> bool"
  assume "session_dead i v d" and "\<forall>u. benign u (f u)"
  then show "session_dead i v (d\<lparr>users := update_where q f (users d)\<rparr>)"
    by (intro session_dead_update) (auto simp: benign_def user_live_def)
next
  fix d d' :: db and j now n u
  assume dead: "session_dead i v d" and "users_insert j now n d = Inr (u, d')"
  then have d': "d' = d\<lparr>users := users d @ [u]\<rparr>" and "usr_id u = j" and "j \<notin> usr_id ` set (users d)"
    by (auto simp: users_insert_def Let_def split: if_splits)
  with dead have "usr_id u \<noteq> i" by (auto simp: session_dead_def)
  with dead show "session_dead i v d'" by (auto simp: session_dead_def d')
next
  fix d d' :: db and j email now x
  assume dead: "session_dead i v d" and "update_email j email now d = Inr (x, d')"
  then have d': "d' = d\<lparr>users := update_where (\<lambda>u. usr_id u = j \<and> user_live u)
      (\<lambda>u. u\<lparr>usr_email := email, usr_email_verified_at := Some now, usr_updated_at := Some now\<rparr>) (users d)\<rparr>"
    by (auto simp: update_email_def split: if_splits)
  show "session_dead i v d'" unfolding d' using dead by (rule session_dead_update) (simp_all add: user_live_def)
qed

interpretation sessions: db_invariant "session_dead i v" for i v
  by (intro db_invariant.intro session_account_laws link_laws_frame key_laws_frame qr_laws_frame
        oauth_laws_frame passkey_laws_frame job_laws_frame log_laws_frame)
     (simp_all add: session_dead_def)

lemma dead_session_refused:
  assumes "session_dead i v (db w)"
  shows "isl (fst (session_verify i v e w))"
proof (cases "session_verify i v e w")
  case (Pair r w')
  show ?thesis
  proof (cases r)
    case (Inr u)
    with Pair have "session_verify i v e w = (Inr u, w')" by simp
    then obtain row where "select_by_id i (db w) = Some row" "usr_token_version row = v"
      by (rule session_verify_InrE)
    with assms show ?thesis by (auto simp: session_dead_def dest!: select_by_id_SomeD)
  qed (simp add: Pair)
qed

section \<open>API keys\<close>

definition key_dead :: "str \<Rightarrow> db \<Rightarrow> bool" where
  "key_dead h d \<longleftrightarrow> h \<in> key_key_hash ` set (api_keys d)
     \<and> (\<forall>k \<in> set (api_keys d). key_key_hash k = h \<longrightarrow> key_revoked_at k \<noteq> None)"

lemma key_dead_update:
  assumes "key_dead h d" and "\<And>k. key_key_hash (f k) = key_key_hash k"
    and "\<And>k. key_revoked_at k \<noteq> None \<Longrightarrow> key_revoked_at (f k) \<noteq> None"
  shows "key_dead h (d\<lparr>api_keys := update_where p f (api_keys d)\<rparr>)"
proof -
  have "map key_key_hash (update_where p f (api_keys d)) = map key_key_hash (api_keys d)"
    using assms(2) by (simp add: map_update_where_same)
  then have "key_key_hash ` set (update_where p f (api_keys d)) = key_key_hash ` set (api_keys d)" by (metis set_map)
  moreover have "key_revoked_at x \<noteq> None" if x: "x \<in> set (update_where p f (api_keys d))" "key_key_hash x = h" for x
  proof -
    obtain k where k: "k \<in> set (api_keys d)" "x = (if p k then f k else k)" using in_update_whereE [OF x(1)] .
    with x(2) assms(2) have "key_key_hash k = h" by (simp split: if_splits)
    with assms(1) k(1) have "key_revoked_at k \<noteq> None" by (simp add: key_dead_def)
    with k(2) assms(3) [of k] show ?thesis by (simp split: if_splits)
  qed
  ultimately show ?thesis using assms(1) by (simp add: key_dead_def)
qed

lemma key_dead_laws: "key_laws (key_dead h)"
proof
  fix d d' :: db and row x
  assume dead: "key_dead h d" and "key_insert row d = Inr (x, d')"
  then have d': "d' = d\<lparr>api_keys := api_keys d @ [row]\<rparr>" and "key_key_hash row \<notin> key_key_hash ` set (api_keys d)"
    by (auto simp: key_insert_def split: if_splits)
  with dead have "key_key_hash row \<noteq> h" by (auto simp: key_dead_def)
  with dead show "key_dead h d'" by (auto simp: key_dead_def d')
next
  fix d :: db and u i now
  assume dead: "key_dead h d"
  then show "key_dead h (snd (revoke_key u i now d))"
    unfolding revoke_key_def Let_def snd_conv by (rule key_dead_update) simp_all
  show "key_dead h (snd (touch_key i now d))"
    unfolding touch_key_def snd_conv using dead by (rule key_dead_update) simp_all
qed

interpretation dead_keys: db_invariant "key_dead h" for h
  by (intro db_invariant.intro account_laws_frame link_laws_frame key_dead_laws qr_laws_frame
        oauth_laws_frame passkey_laws_frame job_laws_frame log_laws_frame)
     (simp_all add: key_dead_def)

lemma dead_key_refused:
  assumes "key_dead (secret_hash e presented) (db w)"
  shows "isl (fst (keys_authenticate presented e w))"
proof (cases "keys_authenticate presented e w")
  case (Pair r w')
  show ?thesis
  proof (cases r)
    case (Inr u)
    with Pair have "keys_authenticate presented e w = (Inr u, w')" by simp
    then obtain k where "List.find (\<lambda>k. key_key_hash k = secret_hash e presented) (api_keys (db w)) = Some k"
      and "is_usable k (clock e (tick w))"
      by (rule keys_authenticate_InrE)
    with assms show ?thesis by (auto simp: key_dead_def is_usable_def dest!: find_SomeD)
  qed (simp add: Pair)
qed

section \<open>For ever\<close>

text \<open>
  C18: revocation is final. A session token whose version the account has passed (by a password change or
  reset) or whose account was deleted, and an API key that was revoked, are refused at every later moment,
  whatever requests and background tasks the server has run in between and whatever failed in them.
\<close>

theorem revoked_credentials_stay_refused:
  assumes "presented_credential (rq_headers rq) = Inr p"
    and "if starts_with p API_KEY_PREFIX then key_dead (secret_hash e' p) (db (world s))
         else \<forall>now c. jwt_decode e' now p (jwt_secret (conf e')) = Some c \<longrightarrow> session_dead (sub c) (tv c) (db (world s))"
  shows "isl (fst (auth_user_from_request rq e' (world (run_server e evs s))))"
proof (cases "starts_with p API_KEY_PREFIX")
  case True
  then have "key_dead (secret_hash e' p) (db (world (run_server e evs s)))"
    using assms(2) dead_keys.always by simp
  then obtain x w where "keys_authenticate p e' (world (run_server e evs s)) = (Inl x, w)"
    using dead_key_refused by (metis isl_def prod.collapse)
  with True assms(1) show ?thesis by (simp add: auth_user_from_request_def then_do_run)
next
  case False
  let ?w = "world (run_server e evs s)"
  have dead: "session_dead (sub c) (tv c) (db ?w)" if "jwt_decode e' now p (jwt_secret (conf e')) = Some c" for now c
    using that assms(2) False sessions.always by auto
  have "isl (fst (session_verify (sub c) (tv c) e' (?w\<lparr>tick := n\<rparr>)))"
    if "jwt_decode e' now p (jwt_secret (conf e')) = Some c" for now c n
    using dead [OF that] by (intro dead_session_refused) simp
  with False assms(1) show ?thesis
    by (auto simp: auth_user_from_request_def then_do_run jwt_verify_def ok_or_def split: option.splits)
qed

text \<open>Bob has changed his password once, so the token of his first version is dead.\<close>

definition moved_on_db :: db where
  "moved_on_db = sample_db\<lparr>users := [ada, bob\<lparr>usr_token_version := 2\<rparr>]\<rparr>"

theorem revoked_credentials_stay_refused_witness:
  "isl (fst (auth_user_from_request (bearer GET bob_token) sample_env
     (world (run_server sample_env [Background PollJobs, Request (AuthForgot anonymous (Inl ''bad''))] (server_of moved_on_db)))))"
proof (rule revoked_credentials_stay_refused)
  show cred: "presented_credential (rq_headers (bearer GET bob_token)) = Inr bob_token"
    by (simp add: presented_credential_def header_get_def header_to_str_def X_API_KEY_def bearer_def bob_token_def
        strip_prefix_def starts_with_def ascii_code_def)
  have "session_dead (sub c) (tv c) (db (world (server_of moved_on_db)))" if "sample_decode now bob_token ''secret'' = Some c" for now c
    using that by (auto simp: sample_decode_def bob_token_def session_dead_def server_of_def world_of_def moved_on_db_def sample_db_def
        ada_def bob_def sample_user_def empty_db_def split: if_splits)
  then show "if starts_with bob_token API_KEY_PREFIX
     then key_dead (secret_hash sample_env bob_token) (db (world (server_of moved_on_db)))
     else \<forall>now c. jwt_decode sample_env now bob_token (jwt_secret (conf sample_env)) = Some c
            \<longrightarrow> session_dead (sub c) (tv c) (db (world (server_of moved_on_db)))"
    by (simp add: bob_token_def API_KEY_PREFIX_def starts_with_def sample_env_def sample_conf_def)
qed

end
