(* ===== verification/QuotaProperties.thy ===== *)
theory QuotaProperties
  imports Samples AuthFacts
begin

text \<open>
  Limits under concurrency. Several limits of the program are checked by one statement and used by a later
  one, without a transaction around the two: the number of active API keys, the outstanding mailed link, the
  reset links of an hour, the registered passkeys. Requests are interleaved between the two statements,
  and the theory says by how much each limit can be passed.
\<close>

section \<open>Check, then write\<close>

text \<open>
  A state with the number of requests that have passed the check and not written yet. At most \<open>c\<close> are in
  flight; one that fails or is cancelled is dropped; any other statement may run at any time as long as it
  does not add to the amount itself.
\<close>

inductive guarded_step ::
  "('s \<Rightarrow> 's \<Rightarrow> bool) \<Rightarrow> ('s \<Rightarrow> 's \<Rightarrow> bool) \<Rightarrow> ('s \<Rightarrow> nat) \<Rightarrow> nat \<Rightarrow> 's \<times> nat \<Rightarrow> 's \<times> nat \<Rightarrow> bool"
  for check act :: "'s \<Rightarrow> 's \<Rightarrow> bool" and amount :: "'s \<Rightarrow> nat" and c :: nat where
  pass: "check s s' \<Longrightarrow> n < c \<Longrightarrow> guarded_step check act amount c (s, n) (s', Suc n)"
| put: "act s s' \<Longrightarrow> guarded_step check act amount c (s, Suc n) (s', n)"
| drop: "guarded_step check act amount c (s, Suc n) (s, n)"
| elsewhere: "amount s' \<le> amount s \<Longrightarrow> guarded_step check act amount c (s, n) (s', n)"

inductive_cases guarded_stepE: "guarded_step check act amount c x y"

abbreviation guarded_run ::
  "('s \<Rightarrow> 's \<Rightarrow> bool) \<Rightarrow> ('s \<Rightarrow> 's \<Rightarrow> bool) \<Rightarrow> ('s \<Rightarrow> nat) \<Rightarrow> nat \<Rightarrow> 's \<times> nat \<Rightarrow> 's \<times> nat \<Rightarrow> bool" where
  "guarded_run check act amount c \<equiv> (guarded_step check act amount c)\<^sup>*\<^sup>*"

text \<open>The contract: the check leaves room for one more, and a write adds at most one.\<close>

locale check_then_act =
  fixes check :: "'s \<Rightarrow> 's \<Rightarrow> bool" and act :: "'s \<Rightarrow> 's \<Rightarrow> bool" and amount :: "'s \<Rightarrow> nat" and top :: nat
  assumes room: "check s s' \<Longrightarrow> amount s' < top"
    and one_more: "act s s' \<Longrightarrow> amount s' \<le> Suc (amount s)"
begin

lemma step_bound:
  assumes "guarded_step check act amount c (s, n) (s', n')" and "amount s + n < top + c"
  shows "amount s' + n' < top + c"
  using assms by (elim guarded_stepE) (auto dest: room one_more)

lemma run_bound:
  assumes "guarded_run check act amount c (s, n) (s', n')" and "amount s + n < top + c"
  shows "amount s' + n' < top + c"
  using assms by (induction rule: rtranclp_induct2) (auto intro: step_bound)

end

text \<open>Where the check can be repeated and a write is always possible, the bound is reached.\<close>

locale check_can_repeat = check_then_act +
  fixes ready :: "'a \<Rightarrow> bool"
  assumes check_again: "ready s \<Longrightarrow> Suc (amount s) = top \<Longrightarrow> \<exists>s'. check s s' \<and> ready s' \<and> Suc (amount s') = top"
    and act_ready: "ready s \<Longrightarrow> \<exists>s'. act s s' \<and> ready s' \<and> amount s' = Suc (amount s)"
begin

lemma all_pass:
  assumes "ready s" and "Suc (amount s) = top" and "n \<le> c"
  shows "\<exists>s'. guarded_run check act amount c (s, 0) (s', n) \<and> ready s' \<and> Suc (amount s') = top"
  using assms(3)
proof (induction n)
  case 0
  with assms show ?case by blast
next
  case (Suc n)
  then obtain s1 where run: "guarded_run check act amount c (s, 0) (s1, n)" and s1: "ready s1" "Suc (amount s1) = top"
    by auto
  from check_again [OF s1] obtain s2 where s2: "check s1 s2" "ready s2" "Suc (amount s2) = top" by blast
  have "guarded_step check act amount c (s1, n) (s2, Suc n)" using s2(1) Suc.prems by (simp add: pass)
  with run have "guarded_run check act amount c (s, 0) (s2, Suc n)" by (rule rtranclp.rtrancl_into_rtrancl)
  with s2 show ?case by blast
qed

lemma all_act:
  assumes "ready s"
  shows "\<exists>s'. guarded_run check act amount c (s, n) (s', 0) \<and> amount s' = amount s + n"
  using assms
proof (induction n arbitrary: s)
  case (Suc n)
  from act_ready [OF Suc.prems] obtain s1 where s1: "act s s1" "ready s1" "amount s1 = Suc (amount s)" by blast
  from Suc.IH [OF s1(2)] obtain s' where run: "guarded_run check act amount c (s1, n) (s', 0)"
    and amt: "amount s' = amount s1 + n" by blast
  have "guarded_step check act amount c (s, Suc n) (s1, n)" using s1(1) by (rule put)
  with run s1(3) amt show ?case by (metis add_Suc_shift converse_rtranclp_into_rtranclp)
qed auto

lemma bound_reached:
  assumes "ready s" and "Suc (amount s) = top"
  shows "\<exists>s'. guarded_run check act amount c (s, 0) (s', 0) \<and> Suc (amount s') = top + c"
proof -
  from all_pass [OF assms order_refl] obtain s1 where s1: "guarded_run check act amount c (s, 0) (s1, c)"
    "ready s1" "Suc (amount s1) = top" by blast
  with all_act [OF s1(2), of c c] show ?thesis by (metis add_Suc rtranclp_trans)
qed

end

section \<open>The limits of the program\<close>

text \<open>
  \<open>ResetLinks u t\<close> are the reset links of the account created after \<open>t\<close>; the requests that count are those
  of the hour after \<open>t\<close>.
\<close>

datatype quota =
    ActiveKeys uuid
  | OutstandingLinks uuid token_purpose
  | ResetLinks uuid time
  | RegisteredPasskeys uuid

definition reset_links_since :: "uuid \<Rightarrow> time \<Rightarrow> db \<Rightarrow> nat" where
  "reset_links_since u t d = count_where (\<lambda>k. tok_user_id k = u \<and> tok_purpose k = PasswordReset
     \<and> tok_created_at k > t) (auth_tokens d)"

fun amount_of :: "env \<Rightarrow> quota \<Rightarrow> db \<Rightarrow> nat" where
  "amount_of e (ActiveKeys u) d = length (active_keys u d)"
| "amount_of e (OutstandingLinks u p) d = count_where (outstanding u p) (auth_tokens d)"
| "amount_of e (ResetLinks u t) d = reset_links_since u t d"
| "amount_of e (RegisteredPasskeys u) d = length (decoded e (passkeys_of u d))"

fun ceiling_of :: "quota \<Rightarrow> nat" where
  "ceiling_of (ActiveKeys u) = nat MAX_ACTIVE_KEYS_PER_USER"
| "ceiling_of (OutstandingLinks u p) = 1"
| "ceiling_of (ResetLinks u t) = MAX_RESETS_PER_HOUR"
| "ceiling_of (RegisteredPasskeys u) = MAX_PASSKEYS_PER_USER"

text \<open>
  The first statement of \<open>ApiKeysService::create\<close>, \<open>OneTimeTokenService::issue\<close>, \<open>PasswordResetService::forgot\<close>
  and \<open>PasskeysService::begin_registration\<close> at a moment: the tables after it when the request goes on.
\<close>

definition create_check :: "uuid \<Rightarrow> db \<Rightarrow> db option" where
  "create_check u d = (if int (length (active_keys u d)) \<ge> MAX_ACTIVE_KEYS_PER_USER then None else Some d)"

definition issue_check :: "uuid \<Rightarrow> token_purpose \<Rightarrow> time \<Rightarrow> db \<Rightarrow> db option" where
  "issue_check u p now d = Some (snd (use_tokens u p now d))"

definition forgot_check :: "uuid \<Rightarrow> time \<Rightarrow> db \<Rightarrow> db option" where
  "forgot_check u now d = (if reset_links_since u (now - hours 1) d \<ge> MAX_RESETS_PER_HOUR then None else Some d)"

definition begin_registration_check :: "env \<Rightarrow> uuid \<Rightarrow> db \<Rightarrow> db option" where
  "begin_registration_check e u d =
     (if length (decoded e (passkeys_of u d)) \<ge> MAX_PASSKEYS_PER_USER then None else Some d)"

lemmas check_defs [simp] = create_check_def issue_check_def forgot_check_def begin_registration_check_def

fun checked_at :: "env \<Rightarrow> quota \<Rightarrow> time \<Rightarrow> db \<Rightarrow> db option" where
  "checked_at e (ActiveKeys u) now d = create_check u d"
| "checked_at e (OutstandingLinks u p) now d = issue_check u p now d"
| "checked_at e (ResetLinks u t) now d = (if now > t + hours 1 then None else forgot_check u now d)"
| "checked_at e (RegisteredPasskeys u) now d = begin_registration_check e u d"

definition checked :: "env \<Rightarrow> quota \<Rightarrow> db \<Rightarrow> db \<Rightarrow> bool" where
  "checked e q d d' \<longleftrightarrow> (\<exists>now. checked_at e q now d = Some d')"

text \<open>The last statement of the request, the insert.\<close>

fun inserted :: "quota \<Rightarrow> db \<Rightarrow> db \<Rightarrow> bool" where
  "inserted (ActiveKeys u) d d' \<longleftrightarrow> (\<exists>row x. key_user_id row = u \<and> key_insert row d = Inr (x, d'))"
| "inserted (OutstandingLinks u p) d d' \<longleftrightarrow>
     (\<exists>row x. tok_user_id row = u \<and> tok_purpose row = p \<and> token_insert row d = Inr (x, d'))"
| "inserted (ResetLinks u t) d d' \<longleftrightarrow>
     (\<exists>row x. tok_user_id row = u \<and> tok_purpose row = PasswordReset \<and> token_insert row d = Inr (x, d'))"
| "inserted (RegisteredPasskeys u) d d' \<longleftrightarrow> (\<exists>row x. pk_user_id row = u \<and> passkey_insert row d = Inr (x, d'))"

abbreviation quota_run :: "env \<Rightarrow> quota \<Rightarrow> nat \<Rightarrow> db \<times> nat \<Rightarrow> db \<times> nat \<Rightarrow> bool" where
  "quota_run e q \<equiv> guarded_run (checked e q) (inserted q) (amount_of e q)"

lemma passkeys_amount: "length (decoded e (passkeys_of u d)) =
    count_where (\<lambda>p. pk_user_id p = u \<and> wa_passkey_of_json (webauthn e) (pk_credential_json p) \<noteq> None) (passkeys d)"
proof -
  have "length (decoded e rows) = count_where (\<lambda>p. wa_passkey_of_json (webauthn e) (pk_credential_json p) \<noteq> None) rows" for rows
    by (induction rows) (auto simp: decoded_def map_filter_simps split: option.splits)
  then show ?thesis by (simp add: count_where_def passkeys_of_def filter_sort conj_commute)
qed

lemma reset_links_since_antimono: "s \<le> t \<Longrightarrow> reset_links_since u t d \<le> reset_links_since u s d"
  unfolding reset_links_since_def by (rule count_where_mono) auto

lemma checked_leaves_room:
  assumes "checked e q d d'"
  shows "amount_of e q d' < ceiling_of q"
proof (cases q)
  case (ResetLinks u t)
  with assms obtain now where "now \<le> t + hours 1" "reset_links_since u (now - hours 1) d < MAX_RESETS_PER_HOUR" "d' = d"
    by (auto simp: checked_def not_less not_le split: if_splits)
  with reset_links_since_antimono [of "now - hours 1" t u d] show ?thesis by (simp add: ResetLinks)
qed (use assms in \<open>auto simp: checked_def split: if_splits dest: use_tokens_none_left\<close>)

lemma inserted_adds_one:
  assumes "inserted q d d'"
  shows "amount_of e q d' \<le> Suc (amount_of e q d)"
  using assms
  by (cases q)
     (auto simp: key_insert_def active_keys_def token_insert_def reset_links_since_def passkey_insert_def passkeys_amount
        split: if_splits)

text \<open>The account exists, and the authenticator library reads back at least one passkey it wrote.\<close>

definition quota_owner :: "quota \<Rightarrow> uuid" where
  "quota_owner q = (case q of ActiveKeys u \<Rightarrow> u | OutstandingLinks u p \<Rightarrow> u | ResetLinks u t \<Rightarrow> u | RegisteredPasskeys u \<Rightarrow> u)"

definition quota_ready :: "env \<Rightarrow> quota \<Rightarrow> db \<Rightarrow> bool" where
  "quota_ready e q d \<longleftrightarrow> quota_owner q \<in> usr_id ` set (users d) \<and> (\<exists>j. wa_passkey_of_json (webauthn e) j \<noteq> None)"

lemma ready_check_again:
  assumes "quota_ready e q d" and "Suc (amount_of e q d) = ceiling_of q"
  shows "\<exists>d'. checked e q d d' \<and> quota_ready e q d' \<and> Suc (amount_of e q d') = ceiling_of q"
proof (cases q)
  case (OutstandingLinks u p)
  let ?d = "snd (use_tokens u p 0 d)"
  have "checked e q d ?d" by (auto simp: OutstandingLinks checked_def)
  moreover have "quota_ready e q ?d" using assms(1) by (simp add: quota_ready_def use_tokens_def)
  moreover have "amount_of e q ?d = 0" by (simp add: OutstandingLinks) (blast dest: use_tokens_none_left)
  ultimately show ?thesis by (auto simp: OutstandingLinks)
next
  case (ResetLinks u t)
  with assms(2) have "checked_at e q (t + hours 1) d = Some d" by simp
  with assms show ?thesis by (auto simp: checked_def)
qed (use assms in \<open>auto simp: checked_def MAX_ACTIVE_KEYS_PER_USER_def intro!: exI [of _ d]\<close>)

lemma fresh_row_values: "\<exists>i h. (i::uuid) \<notin> set is \<and> (h::str) \<notin> set hs"
  using ex_new_if_finite [OF infinite_UNIV_nat, of "set is"] ex_new_if_finite [OF infinite_UNIV_listI, of "set hs"] by auto

lemma fresh_key_insert:
  assumes "u \<in> usr_id ` set (users d)"
  shows "\<exists>row. key_user_id row = u \<and> key_revoked_at row = None
     \<and> key_insert row d = Inr (row, d\<lparr>api_keys := api_keys d @ [row]\<rparr>)"
proof -
  obtain i h where "i \<notin> set (map key_id (api_keys d))" and "h \<notin> set (map key_key_hash (api_keys d))"
    using fresh_row_values by blast
  with assms show ?thesis
    by (intro exI [of _ "\<lparr> key_id = i, key_user_id = u, key_name = [], key_key_prefix = [], key_key_hash = h,
        key_scope = ReadScope, key_expires_at = None, key_last_used_at = None, key_revoked_at = None, key_created_at = 0 \<rparr>"])
       (auto simp: key_insert_def)
qed

lemma fresh_token_insert:
  assumes "u \<in> usr_id ` set (users d)"
  shows "\<exists>row. tok_user_id row = u \<and> tok_purpose row = p \<and> tok_used_at row = None \<and> tok_created_at row = now
     \<and> token_insert row d = Inr ((), d\<lparr>auth_tokens := auth_tokens d @ [row]\<rparr>)"
proof -
  obtain i h where "i \<notin> set (map tok_id (auth_tokens d))" and "h \<notin> set (map tok_token_hash (auth_tokens d))"
    using fresh_row_values by blast
  with assms show ?thesis
    by (intro exI [of _ "\<lparr> tok_id = i, tok_user_id = u, tok_purpose = p, tok_token_hash = h, tok_new_email = None,
          tok_expires_at = 0, tok_used_at = None, tok_created_at = now \<rparr>"])
       (auto simp: token_insert_def)
qed

lemma fresh_passkey_insert:
  assumes "u \<in> usr_id ` set (users d)"
  shows "\<exists>row. pk_user_id row = u \<and> pk_credential_json row = j
     \<and> passkey_insert row d = Inr (Some row, d\<lparr>passkeys := passkeys d @ [row]\<rparr>)"
proof -
  obtain i h where "i \<notin> set (map pk_id (passkeys d))" and "h \<notin> set (map pk_credential_id (passkeys d))"
    using fresh_row_values by blast
  with assms show ?thesis
    by (intro exI [of _ "\<lparr> pk_id = i, pk_user_id = u, pk_name = [], pk_credential_id = h, pk_credential_json = j,
          pk_created_at = 0, pk_last_used_at = None \<rparr>"])
       (auto simp: passkey_insert_def)
qed

lemma ready_insert:
  assumes "quota_ready e q d"
  shows "\<exists>d'. inserted q d d' \<and> quota_ready e q d' \<and> amount_of e q d' = Suc (amount_of e q d)"
proof (cases q)
  case (ActiveKeys u)
  with assms fresh_key_insert [of u d] obtain row where "key_user_id row = u" "key_revoked_at row = None"
    "key_insert row d = Inr (row, d\<lparr>api_keys := api_keys d @ [row]\<rparr>)"
    by (auto simp: quota_ready_def quota_owner_def)
  with assms show ?thesis
    by (intro exI [of _ "d\<lparr>api_keys := api_keys d @ [row]\<rparr>"]) (auto simp: ActiveKeys quota_ready_def active_keys_def)
next
  case (OutstandingLinks u p)
  with assms fresh_token_insert [of u d p 0] obtain row where "tok_user_id row = u" "tok_purpose row = p"
    "tok_used_at row = None" "token_insert row d = Inr ((), d\<lparr>auth_tokens := auth_tokens d @ [row]\<rparr>)"
    by (auto simp: quota_ready_def quota_owner_def)
  with assms show ?thesis
    by (intro exI [of _ "d\<lparr>auth_tokens := auth_tokens d @ [row]\<rparr>"])
       (auto simp: OutstandingLinks quota_ready_def outstanding_def)
next
  case (ResetLinks u t)
  with assms fresh_token_insert [of u d PasswordReset "t + 1"] obtain row where "tok_user_id row = u"
    "tok_purpose row = PasswordReset" "tok_created_at row = t + 1"
    "token_insert row d = Inr ((), d\<lparr>auth_tokens := auth_tokens d @ [row]\<rparr>)"
    by (auto simp: quota_ready_def quota_owner_def)
  with assms show ?thesis
    by (intro exI [of _ "d\<lparr>auth_tokens := auth_tokens d @ [row]\<rparr>"])
       (auto simp: ResetLinks quota_ready_def reset_links_since_def)
next
  case (RegisteredPasskeys u)
  obtain j where j: "wa_passkey_of_json (webauthn e) j \<noteq> None" using assms by (auto simp: quota_ready_def)
  with RegisteredPasskeys assms fresh_passkey_insert [of u d j] obtain row where "pk_user_id row = u"
    "pk_credential_json row = j" "passkey_insert row d = Inr (Some row, d\<lparr>passkeys := passkeys d @ [row]\<rparr>)"
    by (auto simp: quota_ready_def quota_owner_def)
  with assms j show ?thesis
    by (intro exI [of _ "d\<lparr>passkeys := passkeys d @ [row]\<rparr>"])
       (auto simp: RegisteredPasskeys quota_ready_def passkeys_amount)
qed

interpretation quotas: check_can_repeat "checked e q" "inserted q" "amount_of e q" "ceiling_of q" "quota_ready e q" for e q
  by unfold_locales (fact checked_leaves_room inserted_adds_one ready_check_again ready_insert)+

section \<open>The requests of the code\<close>

text \<open>Every request of the code that succeeds is a check and a write of this relation, other statements in between.\<close>

lemma insertedI:
  "key_insert k d = Inr (y, d') \<Longrightarrow> inserted (ActiveKeys (key_user_id k)) d d'"
  "token_insert t d = Inr (z, d') \<Longrightarrow> inserted (OutstandingLinks (tok_user_id t) (tok_purpose t)) d d'"
  "token_insert t d = Inr (z, d') \<Longrightarrow> tok_purpose t = PasswordReset \<Longrightarrow> inserted (ResetLinks (tok_user_id t) from) d d'"
  "passkey_insert p d = Inr (x, d') \<Longrightarrow> inserted (RegisteredPasskeys (pk_user_id p)) d d'"
  unfolding inserted.simps by blast+

lemma pass_put:
  assumes "checked e q d d1" and "amount_of e q d2 \<le> amount_of e q d1" and "inserted q d2 d3"
  shows "quota_run e q 1 (d, 0) (d3, 0)"
proof -
  have "guarded_step (checked e q) (inserted q) (amount_of e q) 1 (d, 0) (d1, 1)"
    using pass [of "checked e q" d d1 0 1 "inserted q" "amount_of e q"] assms(1) by simp
  moreover have "guarded_step (checked e q) (inserted q) (amount_of e q) 1 (d1, 1) (d2, 1)" using assms(2) by (rule elsewhere)
  moreover have "guarded_step (checked e q) (inserted q) (amount_of e q) 1 (d2, 1) (d3, 0)"
    using put [of "inserted q" d2 d3 "checked e q" "amount_of e q" 1 0] assms(3) by simp
  ultimately show ?thesis by (meson rtranclp.rtrancl_into_rtrancl rtranclp.rtrancl_refl)
qed

lemma keys_create_run:
  assumes "keys_create actor dto e w = (Inr r, w')"
  shows "quota_run e (ActiveKeys (au_id actor)) 1 (db w, 0) (db w', 0)"
proof (rule pass_put)
  show "checked e (ActiveKeys (au_id actor)) (db w) (db w)"
    using assms by (auto simp: keys_create_def keys_repo_list_active_def checked_def order_by_def Let_def split: if_splits)
  show "inserted (ActiveKeys (au_id actor)) (db w) (db w')"
    using assms
    by (auto simp: keys_create_def keys_repo_list_active_def keys_repo_insert_def Let_def simp del: inserted.simps
        dest!: insertedI(1) split: if_splits option.splits)
qed simp

lemma tokens_issue_run:
  assumes "tokens_issue u p ttl m e w = (Inr raw, w')"
  shows "quota_run e (OutstandingLinks u p) 1 (db w, 0) (db w', 0)"
proof -
  from assms obtain row now where row: "tok_user_id row = u" "tok_purpose row = p"
    and ins: "token_insert row (snd (use_tokens u p now (db w))) = Inr ((), db w')"
    by (rule tokens_issue_statements)
  have "checked e (OutstandingLinks u p) (db w) (snd (use_tokens u p now (db w)))" by (auto simp: checked_def)
  with insertedI(2) [OF ins] row show ?thesis by (intro pass_put [OF _ order_refl]) (simp_all del: inserted.simps)
qed

lemma reset_links_use_tokens [simp]: "reset_links_since u t (snd (use_tokens i p now d)) = reset_links_since u t d"
  by (simp add: reset_links_since_def use_tokens_def count_where_update_where_drop)

lemma reset_links_elsewhere:
  "token_insert row d = Inr (x, d') \<Longrightarrow> tok_user_id row \<noteq> u \<Longrightarrow> reset_links_since u t d' = reset_links_since u t d"
  by (auto simp: token_insert_def reset_links_since_def split: if_splits)

lemma forgot_statements:
  assumes "forgot email e w = (Inr r, w')" and "db w' \<noteq> db w"
  obtains i n row now where "reset_links_since i (clock e n - hours 1) (db w) < MAX_RESETS_PER_HOUR"
    and "tok_user_id row = i" and "tok_purpose row = PasswordReset"
    and "token_insert row (snd (use_tokens i PasswordReset now (db w))) = Inr ((), db w')"
  using assms
  by (auto simp: forgot_def tokens_issued_within_def tokens_repo_count_issued_since_def reset_links_since_def
      send_password_reset_def queue_mail_def
      elim!: tokens_issue_statements split: option.splits if_splits simp del: not_le simp: not_le)

lemma forgot_run:
  assumes "forgot email e w = (Inr r, w')" and "\<And>n. clock e n \<le> t + hours 1"
  shows "quota_run e (ResetLinks u t) 1 (db w, 0) (db w', 0)"
proof (cases "db w' = db w")
  case False
  with assms(1) obtain i n row now where less: "reset_links_since i (clock e n - hours 1) (db w) < MAX_RESETS_PER_HOUR"
    and row: "tok_user_id row = i" "tok_purpose row = PasswordReset"
    and ins: "token_insert row (snd (use_tokens i PasswordReset now (db w))) = Inr ((), db w')"
    by (rule forgot_statements)
  show ?thesis
  proof (cases "i = u")
    case True
    from less assms(2) [of n] have "checked_at e (ResetLinks u t) (clock e n) (db w) = Some (db w)" by (simp add: True)
    then have "checked e (ResetLinks u t) (db w) (db w)" unfolding checked_def by blast
    with insertedI(3) [OF ins row(2), of t] row(1) True show ?thesis
      by (intro pass_put [where ?d1.0 = "db w"]) (simp_all del: inserted.simps)
  next
    case False
    with reset_links_elsewhere [OF ins] row(1) have "reset_links_since u t (db w') = reset_links_since u t (db w)" by simp
    then show ?thesis by (intro r_into_rtranclp elsewhere) simp
  qed
qed simp

lemma passkeys_amount_cong: "passkeys d = passkeys d' \<Longrightarrow>
    amount_of e (RegisteredPasskeys u) d = amount_of e (RegisteredPasskeys u) d'"
  by (simp add: passkeys_of_def)

lemma begin_registration_run:
  assumes "begin_registration actor e w = (Inr r, w')" and "n < c"
  shows "quota_run e (RegisteredPasskeys (au_id actor)) c (db w, n) (db w', Suc n)"
proof -
  let ?q = "RegisteredPasskeys (au_id actor)"
  have "checked e ?q (db w) (db w)"
    using assms(1)
    by (auto simp: begin_registration_def active_user_def users_find_by_id_def users_repo_find_by_id_def list_by_user_def checked_def
        dest!: select_by_id_SomeD split: if_splits)
  then have "guarded_step (checked e ?q) (inserted ?q) (amount_of e ?q) c (db w, n) (db w, Suc n)"
    using assms(2) by (intro pass)
  moreover have "passkeys (db w') = passkeys (db w)"
    using assms(1)
    by (auto simp: begin_registration_def active_user_def users_find_by_id_def users_repo_find_by_id_def list_by_user_def
        store_challenge_def insert_challenge_def challenge_cleanup_def challenge_insert_def split: if_splits)
  then have "guarded_step (checked e ?q) (inserted ?q) (amount_of e ?q) c (db w, Suc n) (db w', Suc n)"
    by (intro elsewhere eq_refl passkeys_amount_cong)
  ultimately show ?thesis by (meson rtranclp.rtrancl_into_rtrancl rtranclp.rtrancl_refl)
qed

lemma claim_challenge_frame:
  "claim_challenge i k u e w = (Inr v, w') \<Longrightarrow> passkeys (db w') = passkeys (db w)"
  by (auto simp: claim_challenge_def repo_claim_challenge_def take_challenge_def Let_def split: option.splits)

lemma passkeys_repo_insert_inserted:
  "passkeys_repo_insert u name c j e w = (Inr v, w') \<Longrightarrow> inserted (RegisteredPasskeys u) (db w) (db w')"
  by (auto simp: passkeys_repo_insert_def simp del: inserted.simps dest!: insertedI(4))

lemma finish_registration_run:
  assumes "finish_registration actor dto e w = (Inr r, w')"
  shows "quota_run e (RegisteredPasskeys (au_id actor)) c (db w, Suc n) (db w', n)"
proof -
  let ?q = "RegisteredPasskeys (au_id actor)"
  from assms obtain d where d: "passkeys d = passkeys (db w)" and "inserted ?q d (db w')"
    unfolding finish_registration_def Let_def
    by (elim then_do_InrE) (auto simp del: inserted.simps dest!: claim_challenge_frame passkeys_repo_insert_inserted)
  then have "guarded_step (checked e ?q) (inserted ?q) (amount_of e ?q) c (d, Suc n) (db w', n)" by (intro put)
  moreover have "guarded_step (checked e ?q) (inserted ?q) (amount_of e ?q) c (db w, Suc n) (d, Suc n)"
    using d by (intro elsewhere eq_refl passkeys_amount_cong)
  ultimately show ?thesis by (meson rtranclp.rtrancl_into_rtrancl rtranclp.rtrancl_refl)
qed

section \<open>How far a limit can be passed\<close>


text \<open>Bob with nineteen keys: two requests at once give him twenty-one.\<close>

definition many_keys_db :: db where
  "many_keys_db = sample_db\<lparr>api_keys := map (\<lambda>i. \<lparr> key_id = i, key_user_id = 2, key_name = ''ci'',
     key_key_prefix = ''ak_'', key_key_hash = replicate i CHR ''k'', key_scope = ReadScope, key_expires_at = None,
     key_last_used_at = None, key_revoked_at = None, key_created_at = 0 \<rparr>) [0..<19]\<rparr>"


end
