(* ===== verification/Templates.thy ===== *)
theory Templates
  imports MailDelivery "HOL-Library.Sublist"
begin

text \<open>
  The text part of every mail: the templates \<open>src/modules/mail/templates/*.txt\<close>, line by line, and the fields
  that the message structs of \<open>src/modules/mail/messages\<close> hand to them. Filling in is what the template
  engine is documented to do with a \<open>.txt\<close> template: values go in as they are, and the line end that closes the
  file is dropped. The HTML parts stay with the engine, which escapes them.
\<close>

section \<open>Templates\<close>

datatype field = Link | ExpiresIn | NewEmail

datatype piece = Lit str | Var field

definition verify_email_txt :: "piece list list" where
  "verify_email_txt = [
     [Lit ''Confirm your email''],
     [],
     [Lit ''Thanks for signing up. Confirm that this is your email address to activate your account.''],
     [],
     [Var Link],
     [],
     [Lit ''This link expires in '', Var ExpiresIn, Lit ''.''],
     [],
     [Lit ''If you didn't create an account, you can safely ignore this email.''],
     [],
     [Lit ''--''],
     [Lit ''Starter''],
     [Lit ''You received this email because someone created a Starter account with this email address.''],
     [Lit ''Need help? Contact support@starter.example.com.'']]"

definition password_reset_txt :: "piece list list" where
  "password_reset_txt = [
     [Lit ''Reset your password''],
     [],
     [Lit ''We received a request to reset the password for your account. Choose a new one using the link below.''],
     [],
     [Var Link],
     [],
     [Lit ''This link expires in '', Var ExpiresIn, Lit ''.''],
     [],
     [Lit ''If you didn't ask to reset your password, ignore this email. Your password won't change.''],
     [],
     [Lit ''--''],
     [Lit ''Starter''],
     [Lit ''You received this email because a password reset was requested for the Starter account using this address.''],
     [Lit ''Need help? Contact support@starter.example.com.'']]"

definition invitation_txt :: "piece list list" where
  "invitation_txt = [
     [Lit ''You've been invited''],
     [],
     [Lit ''You've been invited to join Starter. Accept the invitation to create your account and get started.''],
     [],
     [Var Link],
     [],
     [Lit ''This invitation expires in '', Var ExpiresIn, Lit ''.''],
     [],
     [Lit ''Not expecting this? You can ignore this email and no account will be created.''],
     [],
     [Lit ''--''],
     [Lit ''Starter''],
     [Lit ''You received this email because someone invited this address to Starter.''],
     [Lit ''Need help? Contact support@starter.example.com.'']]"

definition password_changed_txt :: "piece list list" where
  "password_changed_txt = [
     [Lit ''Your password was changed''],
     [],
     [Lit ''The password for your account was just changed. You'll use the new password the next time you sign in.''],
     [],
     [Lit ''SECURITY NOTICE''],
     [Lit ''If you didn't make this change, reset your password immediately and contact support.''],
     [],
     [Lit ''If this was you, there's nothing else to do.''],
     [],
     [Lit ''--''],
     [Lit ''Starter''],
     [Lit ''You received this email because this is the email address on your Starter account.''],
     [Lit ''Need help? Contact support@starter.example.com.'']]"

definition email_change_confirm_txt :: "piece list list" where
  "email_change_confirm_txt = [
     [Lit ''Confirm your new email''],
     [],
     [Lit ''You asked to change your account email to '', Var NewEmail, Lit ''. Confirm the change to start using this address to sign in.''],
     [],
     [Var Link],
     [],
     [Lit ''This link expires in '', Var ExpiresIn, Lit ''.''],
     [],
     [Lit ''If you didn't request this change, ignore this email. Your account email stays the same.''],
     [],
     [Lit ''--''],
     [Lit ''Starter''],
     [Lit ''You received this email because someone asked to use this address for a Starter account.''],
     [Lit ''Need help? Contact support@starter.example.com.'']]"

definition email_change_notice_txt :: "piece list list" where
  "email_change_notice_txt = [
     [Lit ''Your account email is changing''],
     [],
     [Lit ''A request was made to change the email on your account to '', Var NewEmail, Lit ''. The change takes effect once the new address is confirmed.''],
     [],
     [Lit ''SECURITY NOTICE''],
     [Lit ''If this wasn't you, reset your password right away and contact support. Nothing changes until the new address is confirmed.''],
     [],
     [Lit ''If you made this request, no action is needed here.''],
     [],
     [Lit ''--''],
     [Lit ''Starter''],
     [Lit ''You received this email because this is the current email address on your Starter account.''],
     [Lit ''Need help? Contact support@starter.example.com.'']]"

fun text_template :: "mail_message \<Rightarrow> piece list list" where
  "text_template (VerifyEmailMail link expires_in) = verify_email_txt"
| "text_template (PasswordResetMail link expires_in) = password_reset_txt"
| "text_template (InvitationMail link expires_in) = invitation_txt"
| "text_template PasswordChangedMail = password_changed_txt"
| "text_template (EmailChangeConfirmMail link expires_in) = email_change_confirm_txt"
| "text_template (EmailChangeNoticeMail new_email) = email_change_notice_txt"

lemmas txt_defs = verify_email_txt_def password_reset_txt_def invitation_txt_def password_changed_txt_def
  email_change_confirm_txt_def email_change_notice_txt_def

section \<open>Filling in\<close>

text \<open>The \<open>Text\<close> struct of a message; the confirmation shows the address it is sent to.\<close>

fun link_fields :: "str \<Rightarrow> str \<Rightarrow> field \<Rightarrow> str option" where
  "link_fields link expires_in Link = Some link"
| "link_fields link expires_in ExpiresIn = Some expires_in"
| "link_fields link expires_in NewEmail = None"

fun email_change_confirm_fields :: "str \<Rightarrow> str \<Rightarrow> str \<Rightarrow> field \<Rightarrow> str option" where
  "email_change_confirm_fields recipient link expires_in Link = Some link"
| "email_change_confirm_fields recipient link expires_in ExpiresIn = Some expires_in"
| "email_change_confirm_fields recipient link expires_in NewEmail = Some recipient"

fun email_change_notice_fields :: "str \<Rightarrow> field \<Rightarrow> str option" where
  "email_change_notice_fields new_email NewEmail = Some new_email"
| "email_change_notice_fields new_email _ = None"

fun text_fields :: "str \<Rightarrow> mail_message \<Rightarrow> field \<Rightarrow> str option" where
  "text_fields recipient (VerifyEmailMail link expires_in) = link_fields link expires_in"
| "text_fields recipient (PasswordResetMail link expires_in) = link_fields link expires_in"
| "text_fields recipient (InvitationMail link expires_in) = link_fields link expires_in"
| "text_fields recipient PasswordChangedMail = (\<lambda>_. None)"
| "text_fields recipient (EmailChangeConfirmMail link expires_in) = email_change_confirm_fields recipient link expires_in"
| "text_fields recipient (EmailChangeNoticeMail new_email) = email_change_notice_fields new_email"

fun fill_piece :: "(field \<Rightarrow> str option) \<Rightarrow> piece \<Rightarrow> str" where
  "fill_piece v (Lit s) = s"
| "fill_piece v (Var f) = (case v f of Some s \<Rightarrow> s | None \<Rightarrow> [])"

definition fill_line :: "(field \<Rightarrow> str option) \<Rightarrow> piece list \<Rightarrow> str" where
  "fill_line v ps = concat (map (fill_piece v) ps)"

fun lf_joined :: "str list \<Rightarrow> str" where
  "lf_joined [] = []"
| "lf_joined [l] = l"
| "lf_joined (l # k # ls) = l @ [CHR 0x0A] @ lf_joined (k # ls)"

definition text_part :: "str \<Rightarrow> mail_message \<Rightarrow> str" where
  "text_part recipient m = lf_joined (map (fill_line (text_fields recipient m)) (text_template m))"

text \<open>The documented behaviour of the engine on these templates.\<close>

definition renders_text_templates :: "env \<Rightarrow> bool" where
  "renders_text_templates e \<longleftrightarrow> (\<forall>recipient m. ml_render_text (mailer e) recipient m = Some (text_part recipient m))"

section \<open>What a reader finds in the text\<close>

text \<open>No template names a field that its message does not have.\<close>

fun defined :: "(field \<Rightarrow> str option) \<Rightarrow> piece \<Rightarrow> bool" where
  "defined v (Lit s) = True"
| "defined v (Var f) = (v f \<noteq> None)"

lemma templates_defined: "\<forall>line \<in> set (text_template m). list_all (defined (text_fields recipient m)) line"
  by (cases m) (simp_all add: txt_defs)

fun message_link :: "mail_message \<Rightarrow> str option" where
  "message_link (VerifyEmailMail link expires_in) = Some link"
| "message_link (PasswordResetMail link expires_in) = Some link"
| "message_link (InvitationMail link expires_in) = Some link"
| "message_link (EmailChangeConfirmMail link expires_in) = Some link"
| "message_link _ = None"

lemma split_on_line: "c \<notin> set l \<Longrightarrow> split_on c (l @ c # s) = l # split_on c s"
  by (induction l) auto

lemma split_on_lf_joined:
  "ls \<noteq> [] \<Longrightarrow> \<forall>l \<in> set ls. CHR 0x0A \<notin> set l \<Longrightarrow> split_on (CHR 0x0A) (lf_joined ls) = ls"
  by (induction ls rule: lf_joined.induct) (simp_all add: split_on_line split_on_no_sep)

text \<open>The link stands on a line of its own, as the code built it.\<close>

lemma lf_joined_sublist: "l \<in> set ls \<Longrightarrow> sublist l (lf_joined ls)"
proof (induction ls rule: lf_joined.induct)
  case (3 k m ls)
  then show ?case
  proof (cases "l = k")
    case False
    with 3 have "sublist l (lf_joined (m # ls))" by simp
    then show ?thesis by (simp add: sublist_append sublist_Cons_right)
  qed (simp add: sublist_append)
qed simp_all

lemma link_line: "message_link m = Some link \<Longrightarrow> link \<in> set (map (fill_line (text_fields recipient m)) (text_template m))"
  by (cases m) (simp_all add: txt_defs fill_line_def)

lemma link_in_text_part: "message_link m = Some link \<Longrightarrow> sublist link (text_part recipient m)"
  unfolding text_part_def by (intro lf_joined_sublist link_line)

end
