(* ===== verification/RecoveryProperties.thy ===== *)
theory RecoveryProperties
  imports Templates AccountProperties CredentialProperties
begin

text \<open>A forgotten password, from the request to the next sign-in, through the mail that the user reads.\<close>

section \<open>The mail\<close>

lemma forgot_mail:
  assumes "forgot email e w = (Inr r, w1)" and "mails w1 \<noteq> mails w"
  obtains u raw t n where "select_by_email (normalize_email email) (db w) = Some u" and "usr_is_active u"
    and "mails w1 = mails w @ [(usr_email u, PasswordResetMail (mail_link e ''/reset-password'' raw) (describe (reset_ttl e)))]"
    and "t \<in> set (auth_tokens (db w1))" and "\<forall>t' \<in> set (auth_tokens (db w1)). tok_token_hash t' = secret_hash e raw \<longrightarrow> t' = t"
    and "tok_user_id t = usr_id u" and "tok_purpose t = PasswordReset" and "tok_token_hash t = secret_hash e raw"
    and "tok_used_at t = None" and "tok_expires_at t = clock e (tick w + n) + reset_ttl e"
    and "users (db w1) = users (db w)"
proof -
  let ?w = "w\<lparr>tick := Suc (Suc (Suc (tick w)))\<rparr>"
  from assms obtain u raw wi where u: "select_by_email (normalize_email email) (db w) = Some u" "usr_is_active u"
    and issue: "tokens_issue (usr_id u) PasswordReset (reset_ttl e) None e ?w = (Inr raw, wi)"
    and w1: "w1 = wi\<lparr>mails := mails wi @ [(usr_email u, PasswordResetMail (mail_link e ''/reset-password'' raw) (describe (reset_ttl e)))]\<rparr>"
    by (auto simp: forgot_def tokens_issued_within_def tokens_repo_count_issued_since_def mail_run
        split: option.splits if_splits simp del: not_le del: tokens_issue_InrE)
  from issue obtain t d where t: "db wi = (db ?w)\<lparr>auth_tokens := auth_tokens d @ [t]\<rparr>"
    "d = snd (use_tokens (usr_id u) PasswordReset (clock e (tick ?w)) (db ?w))" "tok_user_id t = usr_id u" "tok_purpose t = PasswordReset" "tok_token_hash t = secret_hash e raw" "tok_used_at t = None"
    "tok_new_email t = None" "tok_expires_at t = clock e (Suc (Suc (Suc (tick ?w)))) + reset_ttl e" "mails wi = mails ?w"
    by (rule tokens_issue_InrE)
  from issue obtain row now where ins: "token_insert row (snd (use_tokens (usr_id u) PasswordReset now (db ?w))) = Inr ((), db wi)"
    by (rule tokens_issue_statements)
  let ?old = "auth_tokens (snd (use_tokens (usr_id u) PasswordReset now (db w)))"
  obtain d' where d': "db wi = d'" by blast
  from ins have "auth_tokens d' = ?old @ [row]" and fresh: "tok_token_hash row \<notin> tok_token_hash ` set ?old"
    unfolding d' by (auto simp: token_insert_def split: if_splits)
  with t(1) d' have tokens: "auth_tokens (db w1) = ?old @ [t]" and "row = t" by (simp_all add: w1)
  with fresh t(5) have only: "\<forall>t' \<in> set (auth_tokens (db w1)). tok_token_hash t' = secret_hash e raw \<longrightarrow> t' = t"
    by (auto simp: image_iff)
  have "t \<in> set (auth_tokens (db w1))" by (simp add: tokens)
  moreover have "users (db w1) = users (db w)" by (simp add: w1 t(1))
  moreover have "mails w1 = mails w @ [(usr_email u, PasswordResetMail (mail_link e ''/reset-password'' raw) (describe (reset_ttl e)))]"
    by (simp add: w1 t(9))
  moreover have "tok_expires_at t = clock e (tick w + 6) + reset_ttl e" by (simp add: t(8) numeral_eq_Suc)
  ultimately show ?thesis using that [of u raw t 6] u t(3-6) only by blast
qed

section \<open>The reset\<close>

text \<open>Nothing fails: the database answers, blocking work runs, and hashing and signing give a result.\<close>

definition nothing_fails :: "env \<Rightarrow> bool" where
  "nothing_fails e \<longleftrightarrow> healthy e \<and> (\<forall>n p. argon2_hash e n p \<noteq> None)
     \<and> (\<forall>c. jwt_encode e c (jwt_secret (conf e)) \<noteq> None)"

definition password_acceptable :: "env \<Rightarrow> user \<Rightarrow> str \<Rightarrow> bool" where
  "password_acceptable e u p \<longleftrightarrow> \<not> check_password_breaches (conf e)
     \<and> reject_if_too_weak e p (usr_email u # (case usr_display_name u of None \<Rightarrow> [] | Some n \<Rightarrow> [n])) = Inr ()"

lemma redeem_run:
  assumes "nothing_fails e" and "t \<in> set (auth_tokens (db w))" and "token_valid p (secret_hash e raw) (clock e (tick w)) t"
    and "\<forall>t' \<in> set (auth_tokens (db w)). tok_token_hash t' = secret_hash e raw \<longrightarrow> t' = t"
  shows "\<exists>w'. tokens_redeem p raw e w = (Inr (t\<lparr>tok_used_at := Some (clock e (tick w))\<rparr>), w') \<and> users (db w') = users (db w)"
proof -
  have "List.find (token_valid p (secret_hash e raw) (clock e (tick w))) (auth_tokens (db w)) = Some t"
    using assms(2,3)
  proof (rule find_only)
    fix y assume "y \<in> set (auth_tokens (db w))" and "token_valid p (secret_hash e raw) (clock e (tick w)) y"
    with assms(4) show "y = t" unfolding token_valid_def by blast
  qed
  with assms(1) show ?thesis
    by (simp add: tokens_redeem_def tokens_repo_claim_def claim_token_def nothing_fails_def healthy_def run_simps)
qed

lemma set_password_run:
  assumes "nothing_fails e" and "select_by_id i (db w) = Some u" and "password_acceptable e u p"
    and "\<forall>v \<in> set (users (db w)). int4_ok (usr_token_version v + 1)"
  shows "\<exists>w' h now n. users_set_password i p e w = (Inr (), w') \<and> argon2_hash e n p = Some h
     \<and> db w' = (db w)\<lparr>users := update_where (\<lambda>u. usr_id u = i \<and> user_live u) (set_hash_row h now) (users (db w))\<rparr>
     \<and> mails w' = mails w"
proof -
  obtain h where "argon2_hash e (Suc (Suc (tick w))) p = Some h" using assms(1) unfolding nothing_fails_def by blast
  with assms show ?thesis
    by (intro exI [of _ h] exI)
       (auto simp: users_set_password_def users_require_def users_repo_find_by_id_def reject_password_if_policy_violation_def
         password_acceptable_def hash_blocking_def run_limited_def password_hash_of_def users_repo_set_password_hash_def
         update_password_hash_def nothing_fails_def healthy_def db_stmt_def Let_def run_simps)
qed

lemma reset_run:
  assumes "nothing_fails e" and "t \<in> set (auth_tokens (db w))"
    and "token_valid PasswordReset (secret_hash e raw) (clock e (tick w)) t"
    and "\<forall>t' \<in> set (auth_tokens (db w)). tok_token_hash t' = secret_hash e raw \<longrightarrow> t' = t"
    and "select_by_id (tok_user_id t) (db w) = Some u" and "usr_is_active u" and "password_acceptable e u p"
    and "\<forall>v \<in> set (users (db w)). int4_ok (usr_token_version v + 1)"
  shows "\<exists>w' h n1 n2 n. reset_password \<lparr> rp_token = raw, rp_new_password = p \<rparr> e w = (Inr (), w')
     \<and> argon2_hash e n p = Some h
     \<and> users (db w') = update_where (\<lambda>x. usr_id x = usr_id u \<and> user_live x) (verify_row n2)
          (update_where (\<lambda>x. usr_id x = usr_id u \<and> user_live x) (set_hash_row h n1) (users (db w)))"
proof -
  from redeem_run [OF assms(1-4)] obtain w1 where w1: "tokens_redeem PasswordReset raw e w
      = (Inr (t\<lparr>tok_used_at := Some (clock e (tick w))\<rparr>), w1)" "users (db w1) = users (db w)" by (elim exE conjE) (rule that)
  let ?w2 = "w1\<lparr>tick := Suc (tick w1)\<rparr>"
  have id: "usr_id u = tok_user_id t" using select_by_id_SomeD [OF assms(5)] by simp
  have u: "select_by_id (usr_id u) (db ?w2) = Some u" using assms(5) w1(2) id by (simp add: select_by_id_def)
  from set_password_run [OF assms(1) u assms(7)] assms(8) w1(2) obtain w3 h n1 n
    where w3: "users_set_password (usr_id u) p e ?w2 = (Inr (), w3)" "argon2_hash e n p = Some h"
      "users (db w3) = update_where (\<lambda>x. usr_id x = usr_id u \<and> user_live x) (set_hash_row h n1) (users (db w))"
    by auto
  show ?thesis
    using assms(1,6) w1(1) u w3
    by (intro exI [of _ h] exI [of _ n1] exI [of _ n] exI)
       (auto simp: reset_password_def users_find_by_id_def users_repo_find_by_id_def id [symmetric] users_mark_email_verified_def
         users_repo_mark_email_verified_def tokens_invalidate_def tokens_repo_invalidate_unused_def use_tokens_def
         nothing_fails_def healthy_def mail_run run_simps)
qed

section \<open>The sign-in\<close>

lemma login_run:
  assumes "nothing_fails e" and "select_by_email (normalize_email m) (db w) = Some u" and "usr_locked_until u = None"
    and "argon2_verify e p (usr_password_hash u)" and "usr_is_active u" and "is_email_verified u" and "\<not> usr_totp_enabled u"
  shows "\<exists>t w'. login \<lparr> cr_email = m, cr_password = p \<rparr> e w = (Inr (Authenticated t), w')"
proof -
  have "\<exists>t. jwt_encode e c (jwt_secret (conf e)) = Some t" for c using assms(1) by (auto simp: nothing_fails_def)
  then obtain enc where enc: "\<And>c. jwt_encode e c (jwt_secret (conf e)) = Some (enc c)" by metis
  show ?thesis
    using assms
    by (auto simp: login_def users_find_by_email_def users_repo_find_by_email_def is_locked_def verify_blocking_def run_limited_def
        password_verify_def users_reset_failed_logins_def users_repo_reset_failed_logins_def bearer_for_def issue_for_def
        jwt_issue_def enc ok_or_def nothing_fails_def healthy_def Let_def run_simps)
qed

lemma sign_in_after_reset:
  assumes "nothing_fails e" and "select_by_email (normalize_email m) d = Some u" and "usr_locked_until u = None"
    and "usr_is_active u" and "\<not> usr_totp_enabled u" and "argon2_verify e p h"
    and "users (db w) = update_where (\<lambda>x. usr_id x = usr_id u \<and> user_live x) (verify_row n2)
          (update_where (\<lambda>x. usr_id x = usr_id u \<and> user_live x) (set_hash_row h n1) (users d))"
  shows "\<exists>t w'. login \<lparr> cr_email = m, cr_password = p \<rparr> e w = (Inr (Authenticated t), w')"
proof -
  let ?P = "\<lambda>x. usr_id x = usr_id u \<and> user_live x"
  let ?d = "d\<lparr>users := update_where ?P (set_hash_row h n1) (users d)\<rparr>"
  have live: "user_live u" using select_by_email_SomeD [OF assms(2)] by simp
  have "select_by_email (normalize_email m) ?d = Some (set_hash_row h n1 u)"
    using live assms(2) by (subst select_by_email_update) (simp_all add: set_hash_row_def user_live_def)
  then have "select_by_email (normalize_email m) (?d\<lparr>users := update_where ?P (verify_row n2) (users ?d)\<rparr>)
      = Some (verify_row n2 (set_hash_row h n1 u))"
    using live by (subst select_by_email_update) (simp_all add: set_hash_row_def verify_row_def user_live_def)
  then have "select_by_email (normalize_email m) (db w) = Some (verify_row n2 (set_hash_row h n1 u))"
    using assms(7) by (simp add: select_by_email_def)
  then show ?thesis
    by (rule login_run [OF assms(1)])
       (use assms in \<open>simp_all add: verify_row_def set_hash_row_def is_email_verified_def split: option.split\<close>)
qed

section \<open>From the mail to the sign-in\<close>

text \<open>
  C20: a forgotten password can be replaced. When a request for a reset link sends a mail, the text of that
  mail goes to the account's address and contains the link the code built; the token in this link, used
  before it expires, sets the new password, and the new password then signs the user in (without two-factor
  and lockout, while nothing fails, with a password the policy accepts; the template engine fills in the
  text templates, and argon2 accepts what it hashed).
\<close>

theorem forgotten_password_round_trip:
  assumes "forgot email e w = (Inr r, w1)" and "mails w1 \<noteq> mails w"
    and "select_by_email (normalize_email email) (db w) = Some u" and "distinct (map usr_id (users (db w)))"
    and "\<forall>v \<in> set (users (db w)). int4_ok (usr_token_version v + 1)"
    and "\<not> usr_totp_enabled u" and "usr_locked_until u = None" and "password_acceptable e u p"
    and "nothing_fails e" and "\<And>n h. argon2_hash e n p = Some h \<Longrightarrow> argon2_verify e p h"
    and "renders_text_templates e" and "\<And>a m. ml_render_html (mailer e) a m \<noteq> None"
    and "db w2 = db w1" and "\<And>m n. m \<le> n \<Longrightarrow> clock e m \<le> clock e n"
    and "clock e (tick w2) < clock e (tick w) + reset_ttl e"
  shows "\<exists>raw mail w3 t w4. render e (last (mails w1)) = Inr mail \<and> om_to mail = usr_email u
     \<and> sublist (mail_link e ''/reset-password'' raw) (om_text mail)
     \<and> reset_password \<lparr> rp_token = raw, rp_new_password = p \<rparr> e w2 = (Inr (), w3)
     \<and> login \<lparr> cr_email = email, cr_password = p \<rparr> e w3 = (Inr (Authenticated t), w4)"
proof -
  from assms(1,2) obtain u' raw k n where u': "select_by_email (normalize_email email) (db w) = Some u'" "usr_is_active u'"
    and sent: "mails w1 = mails w @ [(usr_email u', PasswordResetMail (mail_link e ''/reset-password'' raw) (describe (reset_ttl e)))]"
    and k: "k \<in> set (auth_tokens (db w1))" "\<forall>t' \<in> set (auth_tokens (db w1)). tok_token_hash t' = secret_hash e raw \<longrightarrow> t' = k"
      "tok_user_id k = usr_id u'" "tok_purpose k = PasswordReset" "tok_token_hash k = secret_hash e raw"
      "tok_used_at k = None" "tok_expires_at k = clock e (tick w + n) + reset_ttl e"
    and same: "users (db w1) = users (db w)"
    by (rule forgot_mail)
  have [simp]: "u' = u" using u'(1) assms(3) by simp
  have u: "u \<in> set (users (db w))" "user_live u" using select_by_email_SomeD [OF assms(3)] by simp_all
  obtain html where "ml_render_html (mailer e) (usr_email u) (PasswordResetMail (mail_link e ''/reset-password'' raw) (describe (reset_ttl e)))
      = Some html" using assms(12) by blast
  with sent assms(11) have mail: "\<exists>mail. render e (last (mails w1)) = Inr mail \<and> om_to mail = usr_email u
      \<and> sublist (mail_link e ''/reset-password'' raw) (om_text mail)"
    by (simp add: render_def assemble_def renders_text_templates_def link_in_text_part)
  have "clock e (tick w) \<le> clock e (tick w + n)" by (rule assms(14)) simp
  with k(4-7) assms(15) have valid: "token_valid PasswordReset (secret_hash e raw) (clock e (tick w2)) k"
    by (simp add: token_valid_def)
  have by_id: "select_by_id (tok_user_id k) (db w2) = Some u"
    unfolding select_by_id_def assms(13) same
    by (rule find_distinct_key [OF assms(4) u(1)]) (use u(2) k(3) in simp_all)
  have in2: "k \<in> set (auth_tokens (db w2))" using k(1) assms(13) by simp
  have only2: "\<forall>t' \<in> set (auth_tokens (db w2)). tok_token_hash t' = secret_hash e raw \<longrightarrow> t' = k"
    unfolding assms(13) by (rule k(2))
  have ver2: "\<forall>v \<in> set (users (db w2)). int4_ok (usr_token_version v + 1)"
    unfolding assms(13) same by (rule assms(5))
  have act: "usr_is_active u" using u'(2) by simp
  from reset_run [OF assms(9) in2 valid only2 by_id act assms(8) ver2]
  obtain w3 h n1 n2 m where w3: "reset_password \<lparr> rp_token = raw, rp_new_password = p \<rparr> e w2 = (Inr (), w3)"
    and h: "argon2_hash e m p = Some h"
    and users: "users (db w3) = update_where (\<lambda>x. usr_id x = usr_id u \<and> user_live x) (verify_row n2)
          (update_where (\<lambda>x. usr_id x = usr_id u \<and> user_live x) (set_hash_row h n1) (users (db w2)))"
    by (elim exE conjE) (rule that)
  have users': "users (db w3) = update_where (\<lambda>x. usr_id x = usr_id u \<and> user_live x) (verify_row n2)
          (update_where (\<lambda>x. usr_id x = usr_id u \<and> user_live x) (set_hash_row h n1) (users (db w)))"
    using users unfolding assms(13) same .
  have "\<exists>t w4. login \<lparr> cr_email = email, cr_password = p \<rparr> e w3 = (Inr (Authenticated t), w4)"
    using assms(9,3,7) act assms(6) assms(10) [OF h] users' by (rule sign_in_after_reset)
  with mail w3 show ?thesis by blast
qed

definition reading_env :: env where
  "reading_env = sample_env\<lparr>jwt_encode := (\<lambda>c s. Some ''token''),
     mailer := sample_mailer\<lparr>ml_render_text := (\<lambda>a m. Some (text_part a m))\<rparr>\<rparr>"

lemma reading_forgot:
  "\<exists>w1. forgot ''bob@x'' reading_env (world_of sample_db) = (Inr (), w1) \<and> mails w1 \<noteq> []"
proof -
  have "normalize_email ''bob@x'' = ''bob@x''" by code_simp
  then show ?thesis
    by (simp add: reading_env_def forgot_def users_find_by_email_def users_repo_find_by_email_def select_by_email_def
        tokens_issued_within_def tokens_repo_count_issued_since_def tokens_issue_def tokens_repo_invalidate_unused_def
        tokens_repo_insert_def token_insert_def use_tokens_def generate_token_def MAX_RESETS_PER_HOUR_def db_stmt_def
        user_live_def mail_run Let_def run_simps sample_defs)
qed

theorem forgotten_password_round_trip_witness:
  "\<exists>raw w1 w3 t w4. forgot ''bob@x'' reading_env (world_of sample_db) = (Inr (), w1)
     \<and> reset_password \<lparr> rp_token = raw, rp_new_password = ''battery staple'' \<rparr> reading_env (w1\<lparr>tick := 60\<rparr>) = (Inr (), w3)
     \<and> login \<lparr> cr_email = ''bob@x'', cr_password = ''battery staple'' \<rparr> reading_env w3 = (Inr (Authenticated t), w4)"
proof -
  obtain w1 where run: "forgot ''bob@x'' reading_env (world_of sample_db) = (Inr (), w1)" and sent: "mails w1 \<noteq> []"
    using reading_forgot by blast
  have norm: "normalize_email ''bob@x'' = ''bob@x''" by code_simp
  have "\<exists>raw mail w3 t w4. render reading_env (last (mails w1)) = Inr mail \<and> om_to mail = usr_email bob
     \<and> sublist (mail_link reading_env ''/reset-password'' raw) (om_text mail)
     \<and> reset_password \<lparr> rp_token = raw, rp_new_password = ''battery staple'' \<rparr> reading_env (w1\<lparr>tick := 60\<rparr>) = (Inr (), w3)
     \<and> login \<lparr> cr_email = ''bob@x'', cr_password = ''battery staple'' \<rparr> reading_env w3 = (Inr (Authenticated t), w4)"
  proof (rule forgotten_password_round_trip [OF run])
    show "mails w1 \<noteq> mails (world_of sample_db)" using sent by (simp add: world_of_def)
    show "select_by_email (normalize_email ''bob@x'') (db (world_of sample_db)) = Some bob"
      unfolding norm by (simp add: select_by_email_def user_live_def sample_defs)
    show "nothing_fails reading_env" by (simp add: nothing_fails_def healthy_def reading_env_def sample_env_def)
    show "renders_text_templates reading_env" by (simp add: renders_text_templates_def reading_env_def)
  qed (auto simp: reading_env_def sample_defs password_acceptable_def reject_if_too_weak_def MINIMUM_STRENGTH_SCORE_def
      reset_ttl_def minutes_def int4_ok_def split: if_splits)
  with run show ?thesis by blast
qed

section \<open>Invitations\<close>

lemma map_write_error_InrE: "map_write_error m e w = (Inr v, w') \<Longrightarrow> m e w = (Inr v, w')"
  by (auto simp: map_write_error_def split: prod.splits sum.splits app_error.splits sqlx_error.splits)

lemma created_user:
  assumes "create_with_password email p n r v e w = (Inr u, w')"
  shows "u \<in> set (users (db w')) \<and> usr_email u = normalize_email email \<and> user_live u \<and> usr_is_active u"
  using assms
  by (auto simp: create_with_password_def users_repo_create_def users_insert_def user_live_def Let_def
      dest!: map_write_error_InrE split: if_splits)

text \<open>
  An invitation creates the account when it is sent, not when it is accepted, although its mail says that no
  account is created when the reader ignores it.
\<close>

theorem invited_account_exists_at_once:
  assumes "invite dto e w = (Inr r, w')"
  shows "(\<exists>u \<in> set (users (db w')). usr_email u = normalize_email (iu_email dto) \<and> user_live u \<and> usr_is_active u)
     \<and> [Lit ''Not expecting this? You can ignore this email and no account will be created.''] \<in> set invitation_txt"
proof -
  from assms obtain u p w1 w2 where made: "create_with_password (iu_email dto) p (iu_display_name dto)
      (case iu_role dto of None \<Rightarrow> User | Some r \<Rightarrow> r) False e w1 = (Inr u, w2)" and kept: "users (db w') = users (db w2)"
    by (auto simp: invite_def mail_run use_tokens_def)
  from created_user [OF made] kept show ?thesis by (auto simp: invitation_txt_def)
qed

end
