(* ===== verification/Worker.thy ===== *)
theory Worker
  imports Jobs Permits "HOL-Library.Multiset"
begin

text \<open>
  The life of the job worker (\<open>src/infra/jobs/worker.rs\<close>): its loop, the tasks it spawns under the permits,
  and the shutdown that waits for them, as a step relation. The loop, the tasks, the caller of the shutdown
  and the rest of the program interleave between any two steps; a claim and the run of one job are each one
  step.
\<close>

section \<open>Task tracker and worker\<close>

text \<open>
  \<open>TaskTracker\<close>: closing does not stop later tasks from being tracked, and waiting ends as soon as the tracker
  is closed and no task is left.
\<close>

record 'a task_tracker =
  tt_closed :: bool
  tt_tasks :: "'a list"

definition tracker_new :: "'a task_tracker" where
  "tracker_new = \<lparr> tt_closed = False, tt_tasks = [] \<rparr>"

definition track :: "'a \<Rightarrow> 'a task_tracker \<Rightarrow> 'a task_tracker" where
  "track x t = t\<lparr>tt_tasks := tt_tasks t @ [x]\<rparr>"

definition untrack :: "nat \<Rightarrow> 'a task_tracker \<Rightarrow> 'a task_tracker" where
  "untrack k t = t\<lparr>tt_tasks := take k (tt_tasks t) @ drop (Suc k) (tt_tasks t)\<rparr>"

definition tracker_close :: "'a task_tracker \<Rightarrow> 'a task_tracker" where
  "tracker_close t = t\<lparr>tt_closed := True\<rparr>"

definition wait_over :: "'a task_tracker \<Rightarrow> bool" where
  "wait_over t \<longleftrightarrow> tt_closed t \<and> tt_tasks t = []"

datatype position = Starting | Selecting | Woken | Claiming | Dispatching "job list" | Stopped

datatype shutdown_result = Drained | TimedOut

text \<open>
  The worker beside the world it works in. \<open>wk_claimed\<close> and \<open>wk_processed\<close> record what was claimed and what
  ran to its end; no step reads them.
\<close>

record worker =
  wk_world :: world
  wk_at :: position
  wk_cancelled :: bool
  wk_tasks :: "job task_tracker"
  wk_free :: nat
  wk_claimed :: "job list"
  wk_processed :: "job list"
  wk_exit :: "shutdown_result option"

definition worker_spawn :: "world \<Rightarrow> worker" where
  "worker_spawn w = \<lparr> wk_world = w, wk_at = Starting, wk_cancelled = False, wk_tasks = tracker_new,
     wk_free = MAX_CONCURRENT_JOBS, wk_claimed = [], wk_processed = [], wk_exit = None \<rparr>"

definition request_shutdown :: "worker \<Rightarrow> worker" where
  "request_shutdown s = s\<lparr>wk_cancelled := True, wk_tasks := tracker_close (wk_tasks s)\<rparr>"

definition spawn_job :: "job \<Rightarrow> worker \<Rightarrow> worker" where
  "spawn_job j s = s\<lparr>wk_tasks := track j (wk_tasks s), wk_free := wk_free s - 1\<rparr>"

definition finish_job :: "nat \<Rightarrow> world \<Rightarrow> worker \<Rightarrow> worker" where
  "finish_job k w s = s\<lparr>wk_world := w, wk_processed := wk_processed s @ [tt_tasks (wk_tasks s) ! k],
     wk_tasks := untrack k (wk_tasks s), wk_free := wk_free s + 1\<rparr>"

section \<open>Steps\<close>

text \<open>
  \<open>select!\<close> takes any branch that is ready, so the loop can wake although it is cancelled; it then looks
  at the token once more. When the shutdown has ended the process exits and nothing moves any more.
\<close>

inductive worker_step :: "env \<Rightarrow> worker \<Rightarrow> worker \<Rightarrow> bool" for e where
  begin_work: "wk_exit s = None \<Longrightarrow> wk_at s = Starting \<Longrightarrow> worker_start e (wk_world s) = (r, w)
      \<Longrightarrow> worker_step e s (s\<lparr>wk_world := w, wk_at := Selecting\<rparr>)"
| wake: "wk_exit s = None \<Longrightarrow> wk_at s = Selecting \<Longrightarrow> worker_step e s (s\<lparr>wk_at := Woken\<rparr>)"
| select_cancelled: "wk_exit s = None \<Longrightarrow> wk_at s = Selecting \<Longrightarrow> wk_cancelled s
      \<Longrightarrow> worker_step e s (s\<lparr>wk_at := Stopped\<rparr>)"
| look_again: "wk_exit s = None \<Longrightarrow> wk_at s = Woken
      \<Longrightarrow> worker_step e s (s\<lparr>wk_at := (if wk_cancelled s then Stopped else Claiming)\<rparr>)"
| claim: "wk_exit s = None \<Longrightarrow> wk_at s = Claiming \<Longrightarrow> claim_batch CLAIM_BATCH e (wk_world s) = (Inr js, w)
      \<Longrightarrow> worker_step e s (s\<lparr>wk_world := w, wk_at := Dispatching js, wk_claimed := wk_claimed s @ js\<rparr>)"
| claim_fails: "wk_exit s = None \<Longrightarrow> wk_at s = Claiming \<Longrightarrow> claim_batch CLAIM_BATCH e (wk_world s) = (Inl x, w)
      \<Longrightarrow> worker_step e s (s\<lparr>wk_world := w, wk_at := Selecting\<rparr>)"
| spawn: "wk_exit s = None \<Longrightarrow> wk_at s = Dispatching (j # js) \<Longrightarrow> 0 < wk_free s
      \<Longrightarrow> worker_step e s ((spawn_job j s)\<lparr>wk_at := Dispatching js\<rparr>)"
| round_over: "wk_exit s = None \<Longrightarrow> wk_at s = Dispatching [] \<Longrightarrow> worker_step e s (s\<lparr>wk_at := Selecting\<rparr>)"
| run_job: "wk_exit s = None \<Longrightarrow> k < length (tt_tasks (wk_tasks s))
      \<Longrightarrow> process (tt_tasks (wk_tasks s) ! k) e (wk_world s) = (r, w) \<Longrightarrow> worker_step e s (finish_job k w s)"
| elsewhere: "wk_exit s = None \<Longrightarrow> jobs (db w) = jobs (db (wk_world s)) \<Longrightarrow> worker_step e s (s\<lparr>wk_world := w\<rparr>)"
| shut_down: "wk_exit s = None \<Longrightarrow> worker_step e s (request_shutdown s)"
| drained: "wk_exit s = None \<Longrightarrow> wk_cancelled s \<Longrightarrow> wait_over (wk_tasks s)
      \<Longrightarrow> worker_step e s (s\<lparr>wk_exit := Some Drained\<rparr>)"
| timed_out: "wk_exit s = None \<Longrightarrow> wk_cancelled s \<Longrightarrow> worker_step e s (s\<lparr>wk_exit := Some TimedOut\<rparr>)"

inductive_cases worker_stepE: "worker_step e s t"

abbreviation worker_run :: "env \<Rightarrow> worker \<Rightarrow> worker \<Rightarrow> bool" where
  "worker_run e \<equiv> (worker_step e)\<^sup>*\<^sup>*"

section \<open>Every claimed job is accounted for\<close>

fun undispatched :: "position \<Rightarrow> job list" where
  "undispatched (Dispatching js) = js"
| "undispatched _ = []"

definition worker_inv :: "worker \<Rightarrow> bool" where
  "worker_inv s \<longleftrightarrow> wk_free s + length (tt_tasks (wk_tasks s)) = MAX_CONCURRENT_JOBS
     \<and> mset (wk_claimed s) = mset (wk_processed s) + mset (tt_tasks (wk_tasks s)) + mset (undispatched (wk_at s))
     \<and> (wk_exit s = Some Drained \<longrightarrow> wait_over (wk_tasks s))"

lemma untrack_mset:
  assumes "k < length (tt_tasks t)"
  shows "mset (tt_tasks t) = add_mset (tt_tasks t ! k) (mset (tt_tasks (untrack k t)))"
    and "length (tt_tasks t) = Suc (length (tt_tasks (untrack k t)))"
  using assms by (simp_all add: untrack_def flip: id_take_nth_drop mset_append)
     (metis id_take_nth_drop mset.simps(2) mset_append union_mset_add_mset_right)

lemma worker_inv_spawn: "worker_inv (worker_spawn w)"
  by (simp add: worker_inv_def worker_spawn_def tracker_new_def)

lemma worker_step_inv:
  assumes "worker_step e s t" and "worker_inv s"
  shows "worker_inv t"
  using assms
proof (cases rule: worker_step.cases)
  case (run_job k r w)
  note un = untrack_mset [OF run_job(3)]
  from run_job assms(2) un show ?thesis
    by (simp add: worker_inv_def finish_job_def)
qed (auto simp: worker_inv_def spawn_job_def track_def request_shutdown_def tracker_close_def wait_over_def ac_simps)

lemma worker_run_inv: "worker_run e (worker_spawn w) s \<Longrightarrow> worker_inv s"
  by (induction rule: rtranclp_induct) (auto intro: worker_inv_spawn worker_step_inv)

section \<open>After the shutdown was asked for\<close>

text \<open>Nothing is claimed once the token is cancelled, unless the loop was already past its second look.\<close>

lemma cancelled_step:
  assumes "worker_step e s t" and "wk_cancelled s" and "wk_at s \<noteq> Claiming"
  shows "wk_cancelled t" and "wk_at t \<noteq> Claiming" and "wk_claimed t = wk_claimed s"
    and "undispatched (wk_at s) = [] \<Longrightarrow> undispatched (wk_at t) = []"
  using assms by (auto elim!: worker_stepE simp: spawn_job_def finish_job_def request_shutdown_def)

lemma cancelled_run:
  assumes "worker_run e s t" and "wk_cancelled s" and "wk_at s \<noteq> Claiming"
  shows "wk_cancelled t \<and> wk_at t \<noteq> Claiming \<and> wk_claimed t = wk_claimed s
     \<and> (undispatched (wk_at s) = [] \<longrightarrow> undispatched (wk_at t) = [])"
  using assms
proof (induction rule: rtranclp_induct)
  case (step t u)
  then show ?case using cancelled_step [OF step.hyps(2)] by simp
qed simp

end
