(* ===== verification/WorkerProperties.thy ===== *)
theory WorkerProperties
  imports Worker BackgroundProperties
begin

text \<open>What the shutdown of the job worker promises and what it does not.\<close>

text \<open>
  C39: when the shutdown of the job worker returns because it waited long enough, every job that was claimed
  has run to its end, except those that the loop had claimed and not yet spawned. If the shutdown found the
  loop between two rounds there are none of these. Otherwise they stay marked as running in the table,
  although the shutdown is meant not to cut off jobs in flight: the witness is an orderly shutdown after
  which the cleanup never runs again.
\<close>

theorem shutdown_accounts_for_claimed_jobs:
  assumes "worker_run e (worker_spawn w) s" and "wk_cancelled s" and "worker_run e s t" and "wk_exit t = Some Drained"
  shows "mset (wk_claimed t) = mset (wk_processed t) + mset (undispatched (wk_at t))
     \<and> (wk_at s \<noteq> Claiming \<and> undispatched (wk_at s) = [] \<longrightarrow> undispatched (wk_at t) = [])"
proof -
  have "worker_inv t" using rtranclp_trans [OF assms(1,3)] by (rule worker_run_inv)
  with assms(4) have "mset (wk_claimed t) = mset (wk_processed t) + mset (undispatched (wk_at t))"
    by (simp add: worker_inv_def wait_over_def)
  with cancelled_run [OF assms(3,2)] show ?thesis by simp
qed

text \<open>The worker starts, schedules the cleanup and is about to claim it when the shutdown comes.\<close>

definition about_to_claim :: worker where
  "about_to_claim = request_shutdown ((worker_spawn (snd (worker_start sample_env (world_of sample_db))))\<lparr>wk_at := Claiming\<rparr>)"

definition stranded_claim :: "job list \<times> world" where
  "stranded_claim = (case claim_batch CLAIM_BATCH sample_env (wk_world about_to_claim) of (r, w) \<Rightarrow> (case r of Inr js \<Rightarrow> js | Inl _ \<Rightarrow> [], w))"

definition stranded :: worker where
  "stranded = about_to_claim\<lparr>wk_world := snd stranded_claim, wk_at := Dispatching (fst stranded_claim),
     wk_claimed := fst stranded_claim, wk_exit := Some Drained\<rparr>"

lemma reaches_about_to_claim: "worker_run sample_env (worker_spawn (world_of sample_db)) about_to_claim"
proof -
  let ?s = "worker_spawn (world_of sample_db)"
  let ?w = "snd (worker_start sample_env (world_of sample_db))"
  have "worker_step sample_env ?s (?s\<lparr>wk_world := ?w, wk_at := Selecting\<rparr>)"
    by (rule begin_work [where r = "fst (worker_start sample_env (world_of sample_db))"]) (simp_all add: worker_spawn_def)
  moreover have "worker_step sample_env (?s\<lparr>wk_world := ?w, wk_at := Selecting\<rparr>) (?s\<lparr>wk_world := ?w, wk_at := Woken\<rparr>)"
    using wake [of "?s\<lparr>wk_world := ?w, wk_at := Selecting\<rparr>" sample_env] by (simp add: worker_spawn_def)
  moreover have "worker_step sample_env (?s\<lparr>wk_world := ?w, wk_at := Woken\<rparr>) (?s\<lparr>wk_world := ?w, wk_at := Claiming\<rparr>)"
    using look_again [of "?s\<lparr>wk_world := ?w, wk_at := Woken\<rparr>" sample_env] by (simp add: worker_spawn_def)
  moreover have "worker_step sample_env (?s\<lparr>wk_world := ?w, wk_at := Claiming\<rparr>) about_to_claim"
    using shut_down [of "?s\<lparr>wk_world := ?w, wk_at := Claiming\<rparr>" sample_env]
    by (simp add: about_to_claim_def worker_spawn_def)
  ultimately show ?thesis by (meson rtranclp.rtrancl_into_rtrancl rtranclp.rtrancl_refl)
qed

lemma claim_strands: "claim_batch CLAIM_BATCH sample_env (wk_world about_to_claim) = (Inr (fst stranded_claim), snd stranded_claim)"
  "length (fst stranded_claim) = 1" "cleanup_stuck (db (snd stranded_claim))"
  by (simp_all add: stranded_claim_def about_to_claim_def request_shutdown_def worker_spawn_def worker_start_def
      ensure_scheduled_def insert_unless_scheduled_def job_insert_def new_job_def claim_batch_def claim_jobs_def due_def
      CLAIM_BATCH_def db_stmt_def cleanup_stuck_def CLEANUP_KIND_def Let_def run_simps sample_defs)

lemma reaches_stranded: "worker_run sample_env about_to_claim stranded"
proof -
  let ?t = "about_to_claim\<lparr>wk_world := snd stranded_claim, wk_at := Dispatching (fst stranded_claim), wk_claimed := fst stranded_claim\<rparr>"
  have "worker_step sample_env about_to_claim ?t"
    using claim [of about_to_claim sample_env, OF _ _ claim_strands(1)]
    by (simp add: about_to_claim_def request_shutdown_def worker_spawn_def)
  moreover have "worker_step sample_env ?t stranded"
    using drained [of ?t sample_env]
    by (simp add: stranded_def about_to_claim_def request_shutdown_def worker_spawn_def wait_over_def tracker_close_def tracker_new_def)
  ultimately show ?thesis by (meson rtranclp.rtrancl_into_rtrancl rtranclp.rtrancl_refl)
qed

theorem shutdown_accounts_for_claimed_jobs_witness:
  "worker_run sample_env (worker_spawn (world_of sample_db)) stranded \<and> wk_exit stranded = Some Drained
     \<and> wk_processed stranded = [] \<and> size (mset (wk_claimed stranded)) = 1 \<and> cleanup_stuck (db (wk_world stranded))
     \<and> mset (undispatched (wk_at stranded)) = mset (wk_claimed stranded)"
proof -
  have "mset (wk_claimed stranded) = mset (wk_processed stranded) + mset (undispatched (wk_at stranded))"
    using shutdown_accounts_for_claimed_jobs [OF reaches_about_to_claim _ reaches_stranded]
    by (simp add: stranded_def about_to_claim_def request_shutdown_def)
  moreover have "wk_processed stranded = []"
    by (simp add: stranded_def about_to_claim_def request_shutdown_def worker_spawn_def)
  ultimately show ?thesis
    using rtranclp_trans [OF reaches_about_to_claim reaches_stranded] claim_strands(2,3) by (simp add: stranded_def)
qed

end
