(* ===== verification/MailTasks.thy ===== *)
theory MailTasks
  imports Worker MailDelivery
begin

text \<open>
  The delivery tasks of the mail service over the life of the process (\<open>src/modules/mail/service/mod.rs\<close> and
  the end of \<open>src/cli/serve.rs\<close>): requests spawn tasks while the server answers, the server stops when its
  last request is answered, and only then the shutdown closes the tracker and waits.
\<close>

record mail_process =
  ms_world :: world
  ms_serving :: bool
  ms_tasks :: "outgoing_mail task_tracker"
  ms_dispatched :: "outgoing_mail list"
  ms_finished :: "outgoing_mail list"
  ms_exit :: "shutdown_result option"

definition mail_process_new :: "world \<Rightarrow> mail_process" where
  "mail_process_new w = \<lparr> ms_world = w, ms_serving = True, ms_tasks = tracker_new, ms_dispatched = [],
     ms_finished = [], ms_exit = None \<rparr>"

definition spawn_delivery :: "outgoing_mail \<Rightarrow> mail_process \<Rightarrow> mail_process" where
  "spawn_delivery m s = s\<lparr>ms_tasks := track m (ms_tasks s), ms_dispatched := ms_dispatched s @ [m]\<rparr>"

definition finish_delivery :: "nat \<Rightarrow> world \<Rightarrow> mail_process \<Rightarrow> mail_process" where
  "finish_delivery k w s = s\<lparr>ms_world := w, ms_finished := ms_finished s @ [tt_tasks (ms_tasks s) ! k],
     ms_tasks := untrack k (ms_tasks s)\<rparr>"

definition mail_shutdown :: "mail_process \<Rightarrow> mail_process" where
  "mail_shutdown s = s\<lparr>ms_tasks := tracker_close (ms_tasks s)\<rparr>"

text \<open>A mail that cannot be rendered is logged and spawns nothing.\<close>

inductive mail_step :: "env \<Rightarrow> mail_process \<Rightarrow> mail_process \<Rightarrow> bool" for e where
  send: "ms_exit s = None \<Longrightarrow> ms_serving s \<Longrightarrow> render e q = Inr m \<Longrightarrow> mail_step e s (spawn_delivery m s)"
| send_fails: "ms_exit s = None \<Longrightarrow> ms_serving s \<Longrightarrow> render e q = Inl x \<Longrightarrow> mail_step e s s"
| deliver_one: "ms_exit s = None \<Longrightarrow> k < length (tt_tasks (ms_tasks s))
      \<Longrightarrow> delivery_task (tt_tasks (ms_tasks s) ! k) e (ms_world s) = (r, w) \<Longrightarrow> mail_step e s (finish_delivery k w s)"
| last_request: "ms_exit s = None \<Longrightarrow> mail_step e s (s\<lparr>ms_serving := False\<rparr>)"
| close: "ms_exit s = None \<Longrightarrow> \<not> ms_serving s \<Longrightarrow> mail_step e s (mail_shutdown s)"
| mail_drained: "ms_exit s = None \<Longrightarrow> wait_over (ms_tasks s) \<Longrightarrow> mail_step e s (s\<lparr>ms_exit := Some Drained\<rparr>)"
| mail_timed_out: "ms_exit s = None \<Longrightarrow> tt_closed (ms_tasks s) \<Longrightarrow> mail_step e s (s\<lparr>ms_exit := Some TimedOut\<rparr>)"

definition mail_tasks_inv :: "mail_process \<Rightarrow> bool" where
  "mail_tasks_inv s \<longleftrightarrow> mset (ms_dispatched s) = mset (ms_finished s) + mset (tt_tasks (ms_tasks s))
     \<and> (tt_closed (ms_tasks s) \<longrightarrow> \<not> ms_serving s) \<and> (ms_exit s = Some Drained \<longrightarrow> wait_over (ms_tasks s))"

lemma mail_step_inv:
  assumes "mail_step e s t" and "mail_tasks_inv s"
  shows "mail_tasks_inv t"
  using assms
proof (cases rule: mail_step.cases)
  case (deliver_one k r w)
  with assms(2) untrack_mset(1) [OF deliver_one(3)] show ?thesis
    by (simp add: mail_tasks_inv_def finish_delivery_def untrack_def)
qed (auto simp: mail_tasks_inv_def spawn_delivery_def track_def mail_shutdown_def tracker_close_def wait_over_def)

text \<open>Because nothing is sent any more when the tracker closes, a shutdown that did not time out left no mail behind.\<close>

lemma mail_shutdown_finishes_all:
  assumes "(mail_step e)\<^sup>*\<^sup>* (mail_process_new w) s" and "ms_exit s = Some Drained"
  shows "mset (ms_finished s) = mset (ms_dispatched s) \<and> \<not> ms_serving s"
proof -
  have "mail_tasks_inv (mail_process_new w)" by (simp add: mail_tasks_inv_def mail_process_new_def tracker_new_def)
  with assms(1) have "mail_tasks_inv s" by (induction rule: rtranclp_induct) (auto intro: mail_step_inv)
  with assms(2) show ?thesis by (simp add: mail_tasks_inv_def wait_over_def)
qed

end
