(* ===== verification/Redaction.thy ===== *)
theory Redaction
  imports Config
begin

text \<open>
  What \<open>{:?}\<close> prints of the configuration: the derived \<open>Debug\<close> of most structs and the hand-written one of
  those that hold a secret (\<open>src/config\<close>, \<open>common/security/jwt.rs\<close>). A value to print is a tree; its text is
  the compact form of \<open>std::fmt\<close>.
\<close>

section \<open>Debug output\<close>

datatype shown =
    ShownText str
  | ShownInt int
  | ShownWord str
  | ShownOption "shown option"
  | ShownList "shown list"
  | ShownStruct str "(str \<times> shown) list"

definition escape_char :: "char \<Rightarrow> str" where
  "escape_char c =
     (if c = CHR 0x22 then [CHR 0x5C, CHR 0x22] else if c = CHR 0x5C then [CHR 0x5C, CHR 0x5C]
      else if c = CHR 0x0A then [CHR 0x5C, CHR ''n''] else if c = CHR 0x0D then [CHR 0x5C, CHR ''r'']
      else if c = CHR 0x09 then [CHR 0x5C, CHR ''t''] else if c = CHR 0x00 then [CHR 0x5C, CHR ''0'']
      else if ascii_code c < 16 then [CHR 0x5C, CHR ''u'', CHR ''{'', hex_digit False (ascii_code c), CHR ''}'']
      else if ascii_code c < 32 \<or> ascii_code c = 127
        then [CHR 0x5C, CHR ''u'', CHR ''{''] @ hex_byte False (word_of_nat (ascii_code c)) @ [CHR ''}'']
      else [c])"

fun commas :: "str list \<Rightarrow> str" where
  "commas [] = []"
| "commas [x] = x"
| "commas (x # y # xs) = x @ '', '' @ commas (y # xs)"

fun shown_text :: "shown \<Rightarrow> str" where
  "shown_text (ShownText s) = [CHR 0x22] @ concat (map escape_char s) @ [CHR 0x22]"
| "shown_text (ShownInt i) = int_to_string i"
| "shown_text (ShownWord s) = s"
| "shown_text (ShownOption None) = ''None''"
| "shown_text (ShownOption (Some x)) = ''Some('' @ shown_text x @ '')''"
| "shown_text (ShownList xs) = ''['' @ commas (map shown_text xs) @ '']''"
| "shown_text (ShownStruct name fs) =
     name @ '' { '' @ commas (map (\<lambda>(f, x). f @ '': '' @ shown_text x) fs) @ '' }''"

abbreviation shown_bool :: "bool \<Rightarrow> shown" where
  "shown_bool b \<equiv> ShownWord (if b then ''true'' else ''false'')"

abbreviation shown_option :: "('a \<Rightarrow> shown) \<Rightarrow> 'a option \<Rightarrow> shown" where
  "shown_option f x \<equiv> ShownOption (map_option f x)"

definition redacted :: shown where "redacted = ShownText ''<redacted>''"

section \<open>The structs that hold a secret\<close>

definition debug_smtp :: "smtp_config \<Rightarrow> shown" where
  "debug_smtp c = ShownStruct ''SmtpConfig''
     [(''enabled'', shown_bool (smtp_enabled c)), (''host'', ShownText (smtp_host c)),
      (''port'', ShownInt (smtp_port c)),
      (''tls'', ShownWord (case smtp_tls_mode c of TlsNone \<Rightarrow> ''None'' | StartTls \<Rightarrow> ''StartTls'' | Tls \<Rightarrow> ''Tls'')),
      (''username'', shown_option ShownText (smtp_username c)),
      (''password'', shown_option (\<lambda>_. redacted) (smtp_password c)), (''from'', ShownText (smtp_from c))]"

definition debug_bootstrap_admin :: "bootstrap_admin \<Rightarrow> shown" where
  "debug_bootstrap_admin a = ShownStruct ''BootstrapAdmin''
     [(''email'', ShownText (ba_email a)), (''password'', redacted)]"

definition debug_jwt :: "str \<Rightarrow> int \<Rightarrow> shown" where
  "debug_jwt secret ttl_secs = ShownStruct ''JwtSettings'' [(''secret'', redacted), (''ttl_secs'', ShownInt ttl_secs)]"

definition debug_oauth_provider :: "oauth_provider_config \<Rightarrow> shown" where
  "debug_oauth_provider c = ShownStruct ''OAuthProviderConfig''
     [(''client_id'', ShownText (client_id c)), (''client_secret'', redacted),
      (''authorize_url'', ShownText (authorize_endpoint c))]"

definition debug_metrics :: "metrics_config \<Rightarrow> shown" where
  "debug_metrics c = ShownStruct ''MetricsConfig''
     [(''bind_addr'', ShownWord (sa_text (mc_bind_addr c))), (''token'', shown_option (\<lambda>_. redacted) (mc_token c))]"

section \<open>The derived ones\<close>

definition debug_account :: "account_config \<Rightarrow> shown" where
  "debug_account c = ShownStruct ''AccountConfig''
     [(''password_reset_ttl_minutes'', ShownInt (ac_password_reset_ttl_minutes c)),
      (''email_verification_ttl_hours'', ShownInt (ac_email_verification_ttl_hours c)),
      (''email_change_ttl_minutes'', ShownInt (ac_email_change_ttl_minutes c)),
      (''require_verified_email'', shown_bool (ac_require_verified_email c)),
      (''rate_limit_per_minute'', ShownInt (ac_rate_limit_per_minute c)),
      (''max_concurrent_hashes'', ShownInt (ac_max_concurrent_hashes c)),
      (''trust_proxy_headers'', shown_bool (ac_trust_proxy_headers c)),
      (''check_password_breaches'', shown_bool (ac_check_password_breaches c)),
      (''max_failed_login_attempts'', ShownInt (ac_max_failed_login_attempts c)),
      (''account_lockout_minutes'', ShownInt (ac_account_lockout_minutes c))]"

definition debug_s3 :: "s3_storage_config \<Rightarrow> shown" where
  "debug_s3 c = ShownStruct ''S3StorageConfig''
     [(''bucket'', ShownText (s3_bucket c)), (''force_path_style'', shown_bool (s3_force_path_style c)),
      (''endpoint_url'', shown_option ShownText (s3_endpoint_url c))]"

definition debug_storage :: "storage_config \<Rightarrow> shown" where
  "debug_storage c = ShownStruct ''StorageConfig''
     [(''upload_dir'', ShownText (sc_upload_dir c)), (''s3'', shown_option debug_s3 (sc_s3 c))]"

definition debug_media :: "media_config \<Rightarrow> shown" where
  "debug_media c = ShownStruct ''MediaConfig''
     [(''max_upload_bytes'', ShownInt (md_max_upload_bytes c)),
      (''allowed_content_types'', ShownList (map ShownText (md_allowed_content_types c)))]"

definition debug_oauth :: "oauth_config \<Rightarrow> shown" where
  "debug_oauth c = ShownStruct ''OAuthConfig''
     [(''public_api_url'', ShownText (oc_public_api_url c)),
      (''google'', shown_option debug_oauth_provider (oc_google c)),
      (''github'', shown_option debug_oauth_provider (oc_github c))]"

definition debug_webauthn :: "webauthn_config \<Rightarrow> shown" where
  "debug_webauthn c = ShownStruct ''WebauthnConfig''
     [(''rp_id'', ShownText (wc_rp_id c)), (''rp_name'', ShownText (wc_rp_name c)), (''origin'', ShownText (wc_origin c))]"

definition debug_qr_login :: "qr_login_config \<Rightarrow> shown" where
  "debug_qr_login c = ShownStruct ''QrLoginConfig''
     [(''ttl_secs'', ShownInt (qc_ttl_secs c)),
      (''poll_rate_limit_per_minute'', ShownInt (qc_poll_rate_limit_per_minute c))]"

definition debug_config :: "app_config \<Rightarrow> shown" where
  "debug_config c = ShownStruct ''Config''
     [(''database_url'', ShownText (cfg_database_url c)),
      (''database_max_connections'', ShownInt (cfg_database_max_connections c)),
      (''bind_addr'', ShownWord (sa_text (cfg_bind_addr c))),
      (''cors_allowed_origins'', ShownList (map ShownText (cfg_cors_allowed_origins c))),
      (''max_request_body_bytes'', ShownInt (cfg_max_request_body_bytes c)),
      (''jwt'', debug_jwt (cfg_jwt_secret c) (cfg_jwt_ttl_secs c)), (''smtp'', debug_smtp (cfg_smtp c)),
      (''frontend'', ShownStruct ''FrontendConfig'' [(''url'', ShownText (cfg_frontend_url c))]),
      (''account'', debug_account (cfg_account c)),
      (''bootstrap_admin'', shown_option debug_bootstrap_admin (cfg_bootstrap_admin c)),
      (''storage'', debug_storage (cfg_storage c)), (''media'', debug_media (cfg_media c)),
      (''oauth'', debug_oauth (cfg_oauth c)), (''webauthn'', debug_webauthn (cfg_webauthn c)),
      (''qr_login'', debug_qr_login (cfg_qr_login c)), (''metrics'', debug_metrics (cfg_metrics c))]"

section \<open>Secrets are not printed\<close>

text \<open>Other secrets in the same places; what is not configured stays so.\<close>

record secrets =
  se_jwt :: str
  se_smtp_password :: str
  se_admin_password :: str
  se_google :: str
  se_github :: str
  se_metrics_token :: str

definition with_secrets :: "secrets \<Rightarrow> app_config \<Rightarrow> app_config" where
  "with_secrets s c = c\<lparr>
     cfg_jwt_secret := se_jwt s,
     cfg_smtp := (cfg_smtp c)\<lparr>smtp_password := map_option (\<lambda>_. se_smtp_password s) (smtp_password (cfg_smtp c))\<rparr>,
     cfg_bootstrap_admin := map_option (\<lambda>a. a\<lparr>ba_password := se_admin_password s\<rparr>) (cfg_bootstrap_admin c),
     cfg_oauth := (cfg_oauth c)\<lparr>
       oc_google := map_option (\<lambda>p. p\<lparr>client_secret := se_google s\<rparr>) (oc_google (cfg_oauth c)),
       oc_github := map_option (\<lambda>p. p\<lparr>client_secret := se_github s\<rparr>) (oc_github (cfg_oauth c))\<rparr>,
     cfg_metrics := (cfg_metrics c)\<lparr>mc_token := map_option (\<lambda>_. se_metrics_token s) (mc_token (cfg_metrics c))\<rparr>\<rparr>"


text \<open>
  Printing the configuration for debugging shows none of the signing key, the passwords of the mail
  server and of the first administrator, the client secrets and the scrape token: with other secrets in
  their places the text is the same. The database URL is printed as it is, though, with the password it
  usually holds.
\<close>

theorem debug_output_hides_secrets:
  "shown_text (debug_config (with_secrets s c)) = shown_text (debug_config c)
     \<and> (debug_config (c\<lparr>cfg_database_url := u\<rparr>) = debug_config c \<longleftrightarrow> u = cfg_database_url c)"
proof -
  have "debug_config (with_secrets s c) = debug_config c"
    by (simp add: debug_config_def with_secrets_def debug_jwt_def debug_smtp_def debug_bootstrap_admin_def [abs_def] debug_oauth_def
        debug_oauth_provider_def [abs_def] debug_metrics_def option.map_comp o_def)
  then show ?thesis by (auto simp: debug_config_def)
qed

end
