(* ===== verification/Spec2Isabelle.thy ===== *)
theory Spec2Isabelle
  imports AccessProperties AccountProperties CredentialProperties SessionProperties PasskeyProperties
    OAuthProperties ContentProperties BackgroundProperties ConfigProperties SecretsProperties RouteProperties
    CommandProperties RevocationProperties QuotaProperties RecoveryProperties WorkerProperties MailTasks
    Redaction
begin

text \<open>
  A verification library for the API server under \<open>src/src\<close> (accounts, sign-in, API keys, QR sign-in,
  OAuth, passkeys, media and avatars over a Postgres database), its background work and its command line.

  \<^bold>\<open>How the model reads.\<close> A method of the code is an \<open>action\<close> (Schema): a function of the environment
  and the world that returns an \<open>app_error\<close> or a value (\<open>Inl\<close>, \<open>Inr\<close>) and the world after it, so that
  every \<open>?\<close> and every early return is a branch. The world holds the tables (\<open>db\<close>, a record of row
  lists), the stored objects, the mails handed to delivery and those delivered, and a counter \<open>tick\<close>. The
  environment holds the configuration and everything that is not this repository: the clock and the random
  sources, read at the counter; whether the database, the disk or a blocking task answers at that moment,
  so any statement of any run may fail; and the third-party functions (argon2, JWT, TOTP, zxcvbn, SHA,
  base64, WebAuthn, image codecs, HTTP, templates, SMTP). A property that needs something of them states it
  as a hypothesis. A SQL statement is one function on \<open>db\<close> with the constraints of the migrations (unique
  keys, foreign keys) and is atomic; a transaction restores the tables on error. Texts are lists of
  characters, integers are words where the code's width matters (limits, pagination, pixels) and \<open>int\<close> or
  \<open>nat\<close> elsewhere. A command of the binary is the same kind of program over a \<open>process\<close> (files, variables,
  database, output).

  \<^bold>\<open>Theories.\<close>
  \<^item> Prelude: the program combinators (\<open>then_do\<close>, \<open>seq\<close>, \<open>ok_or\<close>, \<open>attempt\<close>, \<open>for_each\<close>), their
    evaluation rules (\<open>run_simps\<close>), elimination rules for successful runs, the preservation calculus
    \<open>keeps\<close> (\<open>keeps_rules\<close>), the calculus of returned values \<open>returns\<close> (\<open>returns_rules\<close>), row-list
    operations, and the locale \<open>single_use\<close> of things that are claimed once. Rust_Std: string functions of
    the standard library. Errors: \<open>common/error.rs\<close> and every \<open>error.rs\<close>. Schema: rows, configuration,
    environment, world, statements and transactions.
  \<^item> Security: \<open>common/security\<close>. Permits: the permits in front of hashing, image work and jobs, as a step
    relation. Pagination: \<open>common/dto\<close>. RateLimit: \<open>common/middleware/rate_limit.rs\<close> and \<open>common/net.rs\<close>.
    Extractors: the request extractors.
  \<^item> UsersRepo, UsersService: \<open>modules/users\<close>. AuditLog, ApiKeys, QrLogin, OAuth, Passkeys, Media,
    Avatars: the modules of those names. AuthTokens, AuthServices: \<open>modules/auth\<close>. Mail:
    \<open>modules/mail/service/senders.rs\<close>. MailDelivery: rendering, transport, retries and the outbox of
    \<open>modules/mail\<close>. Templates: its text templates. Storage: \<open>infra/storage.rs\<close>. Jobs: \<open>infra/jobs\<close>. Worker,
    MailTasks: the job worker and the delivery tasks from the start to the shutdown, as step relations.
  \<^item> Http: one handler per route, with its validators. Server: the endpoints as a datatype \<open>op\<close>, the limiter
    in front of them, and runs of requests and background tasks (\<open>run_server\<close>). Routes: the route table of
    \<open>app.rs\<close>, \<open>modules/mod.rs\<close> and the routers, and the published description (\<open>infra/openapi.rs\<close> with the
    \<open>utoipa::path\<close> attributes). Middleware: \<open>common/middleware\<close>, \<open>infra/metrics.rs\<close>, \<open>infra/telemetry.rs\<close>.
  \<^item> Config: \<open>config\<close>. Redaction: what its debug output shows. Secrets: \<open>infra/secrets.rs\<close>. Seed: \<open>infra/seed.rs\<close> with its scripts. Startup: \<open>state.rs\<close>
    and the constructors that can refuse to start. CommandLine: \<open>cli\<close> and \<open>main.rs\<close>.
  \<^item> Invariants: the contract between statements and everything above them, a locale per group of tables
    and their union \<open>db_invariant\<close>, in which every handler and every background task is shown to preserve an
    invariant. ServerInvariants and TableInvariants interpret it for each invariant. AdminGuard: the
    statements of concurrent administrator changes, interleaved. AuthFacts: what successful runs tell.
    Samples: the concrete environment and tables of the witnesses.
  \<^item> The theories named \<open>\<dots>Properties\<close>, Permits and this theory: the properties.

  \<^bold>\<open>What is shown.\<close> Over every sequence of requests and background tasks, with any failures: the last
  administrator stays, accounts, tokens and keys stay unique and bounded, two-factor accounts have a
  secret, QR sessions are well formed (this theory); what was revoked stays refused (Revocation). By how much
  concurrent requests can pass the limits on keys, links, resets and passkeys (Quota). Who may do what
  (Access). Sign-in, lockout and indistinguishable failures (Account). Password change, reset and two-factor
  (Credential). A forgotten password, from the request over the mail to the next sign-in (Recovery). Single
  use of links, QR approvals and ceremonies, API keys end to end, and the QR life cycle as a refinement of a state
  machine (Session, Passkey). OAuth resolution and redirects (OAuth). Uploads, storage, limits, paging,
  search and error responses (Content). Mail is not lost and delivery ends, jobs are claimed once and die
  after their attempts, the cleanup sweeps (Background). Which claimed jobs and which mails a shutdown leaves
  behind (Worker, MailTasks). Accepted configurations are sane and give the
  cross-origin policy they name (Config), and their secrets are not printed (Redaction). The routes are those published, ask for credentials where that is
  published and answer with the published statuses (Route). Hashing stays within its permits whatever is
  cancelled (Permits). Commands do not touch data unasked, setting up twice is setting up once, and a fresh
  seed is a state from which all invariants hold (Command, Secrets). Some theorems state behaviours that
  contradict what the code means to do; they say so.

  \<^bold>\<open>Bounds and termination.\<close> All functions are total; most loops of the code are over lists. The retry loop
  of mail delivery (\<open>deliver_loop\<close>) has a termination proof by the attempts that are left. There is no fuel.
  \<open>race_step\<close>, \<open>limited_step\<close>, \<open>guarded_step\<close>, \<open>worker_step\<close> and \<open>mail_step\<close> are relations because their
  steps interleave; their reachable states are unbounded.

  \<^bold>\<open>Not modelled.\<close> Concurrency between requests other than the administrator guard, the permits, the checked
  limits and the job worker (elsewhere requests are answered one after the other; each statement is atomic
  anyway). What the third-party layers do (timeouts, compression, tracing, body limits, request ids, path
  matching): Middleware and Routes have their settings. The metrics counters, the connection pool, log
  output, the HTML parts of the mails, the schemas and texts of the OpenAPI document. Signals: a shutdown
  comes at any moment. The in-memory mail transport, which only tests use.
\<close>

section \<open>What no run of the server can break\<close>

text \<open>
  C1: whatever requests the server answers and whatever background tasks it runs in between (cleanup,
  mail, crashes of the worker), in whatever order and with whatever failures of the database and of
  third-party code, it never loses its last active administrator.
\<close>

theorem active_admin_always_remains:
  assumes "distinct (map usr_id (users (db (world s))))" and "\<exists>u \<in> set (users (db (world s))). active_admin u"
  shows "\<exists>u \<in> set (users (db (world (run_server e evs s)))). active_admin u"
  using admins.always [of s e evs] assms by (simp add: admin_remains_def)

theorem active_admin_always_remains_witness:
  "\<exists>u \<in> set (users (db (world (run_server sample_env [Background PollJobs, Request (UsersRemove (bearer DELETE ada_token) 1)] (server_of sample_db))))).
     active_admin u"
  by (rule active_admin_always_remains) (simp_all add: sample_defs active_admin_def user_live_def)

text \<open>
  C2: identifiers stay unique, and no two live accounts ever share an email address.
\<close>

theorem accounts_stay_unique:
  assumes "accounts_ok (db (world s))"
  shows "accounts_ok (db (world (run_server e evs s)))"
  using assms by (rule accounts.always)

theorem accounts_stay_unique_witness:
  "accounts_ok (db (world (run_server sample_env [Background PollJobs, Request (AuthLogin anonymous (Inl ''bad''))] (server_of sample_db))))"
  by (rule accounts_stay_unique) (simp add: accounts_ok_def emails_unique_def sample_defs)







text \<open>
  A QR sign-in that was scanned, approved or collected always names its user, and its count of
  wrong codes stays within the limit, which only a rejected one reaches.
\<close>

theorem qr_sessions_stay_well_formed:
  assumes "qr_ok (db (world s))"
  shows "qr_ok (db (world (run_server e evs s)))"
  using assms by (rule qr.always)

theorem qr_sessions_stay_well_formed_witness:
  "qr_ok (db (world (run_server sample_env [Background PollJobs, Request (QrCreate anonymous)] (server_of sample_db))))"
  by (rule qr_sessions_stay_well_formed) (simp add: qr_ok_def qr_unique_def sample_defs)

section \<open>Administrators changing administrators at the same time\<close>

text \<open>
  C8: any number of administrators may demote and deactivate each other concurrently, their
  statements interleaved in any way: an active administrator remains.
\<close>

theorem concurrent_updates_keep_an_admin:
  assumes "distinct (map usr_id (users d))" and "\<exists>u \<in> set (users d). active_admin u"
    and "race_run False \<lparr> rdb = d, procs = [] \<rparr> s"
  shows "\<exists>u \<in> set (users (rdb s)). active_admin u"
  using race_run_inv [OF assms(3) race_inv_start] assms(1,2)
  by (simp add: admin_remains_def race_inv_def)

theorem concurrent_updates_keep_an_admin_witness:
  "\<exists>s. race_run False \<lparr> rdb = sample_db, procs = [] \<rparr> s \<and> procs s = [Done True]
     \<and> (\<exists>u \<in> set (users (rdb s)). active_admin u)"
proof -
  let ?c = "Patch 2 (patch_of promote)"
  have g: "update_guard promote = False" by (simp add: race_defs)
  have 1: "race_step False \<lparr> rdb = sample_db, procs = [] \<rparr> \<lparr> rdb = sample_db, procs = [Ready ?c False] \<rparr>"
    using arrive_update [of "\<lparr> rdb = sample_db, procs = [] \<rparr>" ada_caller 2 promote False] g
    by (simp add: race_defs sample_defs)
  have 2: "race_step False \<lparr> rdb = sample_db, procs = [Ready ?c False] \<rparr>
      \<lparr> rdb = apply_change ?c 0 sample_db, procs = [Done True] \<rparr>"
    using write_unguarded [of 0 "\<lparr> rdb = sample_db, procs = [Ready ?c False] \<rparr>" ?c False 0] by simp
  have run: "race_run False \<lparr> rdb = sample_db, procs = [] \<rparr>
      \<lparr> rdb = apply_change ?c 0 sample_db, procs = [Done True] \<rparr>"
    using 1 2 by (meson race_refl race_trans)
  have "\<exists>u \<in> set (users (rdb \<lparr> rdb = apply_change ?c 0 sample_db, procs = [Done True] \<rparr>)). active_admin u"
    using concurrent_updates_keep_an_admin [OF _ _ run] by (simp add: sample_defs active_admin_def user_live_def)
  with run show ?thesis by fastforce
qed

text \<open>
  C9: a deletion is not as safe. It decides whether to guard the last administrator from a row it read
  before the transaction, so a promotion committed in between is deleted without the guard: from a
  database with an active administrator, an interleaving of permitted requests leads to none.
\<close>

theorem concurrent_delete_can_lose_last_admin:
  "\<exists>d s. distinct (map usr_id (users d)) \<and> (\<exists>u \<in> set (users d). active_admin u)
     \<and> race_run True \<lparr> rdb = d, procs = [] \<rparr> s \<and> \<not> (\<exists>u \<in> set (users (rdb s)). active_admin u)"
  using deletion_race
  by (intro exI [of _ "after 0"] exI [of _ "\<lparr> rdb = after 3, procs = [Done True, Done True, Done True] \<rparr>"])
     (simp add: after_simps sample_defs active_admin_def user_live_def)

end
